(* ===== verification/Prelude.thy ===== *)
theory Prelude
  imports Main "HOL-Library.Word" "HOL-Library.Monad_Syntax"
begin

text \<open>
  Shared vocabulary of the development: the machine types of the C++ sources, checked
  reads and writes of byte buffers (an index out of range is undefined behaviour in C++
  and is the value \<open>None\<close> here), and a small calculus that shows that a chain of checked
  writes stays inside its buffer.
\<close>

unbundle bit_operations_syntax

type_synonym u8 = "8 word"
type_synonym u16 = "16 word"
type_synonym u32 = "32 word"
type_synonym u64 = "64 word"
type_synonym bytes = "8 word list"

named_theorems keeps_intros \<open>rules that show that a writer keeps a buffer's length\<close>
named_theorems buffer_simps \<open>equations for checked buffer accesses\<close>

section \<open>Checked buffer access\<close>

definition rd :: "'a list \<Rightarrow> nat \<Rightarrow> 'a option" where
  "rd xs i = (if i < length xs then Some (xs ! i) else None)"

definition put :: "'a list \<Rightarrow> nat \<Rightarrow> 'a \<Rightarrow> 'a list option" where
  "put xs i v = (if i < length xs then Some (xs[i := v]) else None)"

text \<open>\<open>std::span::subspan(offset, count)\<close> and \<open>std::copy_n\<close> from an offset: defined
  only where the whole range lies inside the buffer.\<close>

definition subspan :: "'a list \<Rightarrow> nat \<Rightarrow> nat \<Rightarrow> 'a list option" where
  "subspan xs off n = (if off + n \<le> length xs then Some (take n (drop off xs)) else None)"

lemma rd_ok [simp]: "i < length xs \<Longrightarrow> rd xs i = Some (xs ! i)"
  by (simp add: rd_def)

lemma put_ok [simp]: "i < length xs \<Longrightarrow> put xs i v = Some (xs[i := v])"
  by (simp add: put_def)

lemma subspan_ok [simp]:
  "off + n \<le> length xs \<Longrightarrow> subspan xs off n = Some (take n (drop off xs))"
  by (simp add: subspan_def)

lemma rd_Some_iff: "rd xs i = Some v \<longleftrightarrow> i < length xs \<and> v = xs ! i"
  by (auto simp: rd_def)

lemma put_Some_iff: "put xs i v = Some ys \<longleftrightarrow> i < length xs \<and> ys = xs[i := v]"
  by (auto simp: put_def)

lemma rd_None_iff [simp]: "rd xs i = None \<longleftrightarrow> length xs \<le> i"
  by (auto simp: rd_def)

lemma put_None_iff [simp]: "put xs i v = None \<longleftrightarrow> length xs \<le> i"
  by (auto simp: put_def)

section \<open>Writers that stay inside their buffer\<close>

text \<open>\<open>keeps n m\<close>: the computation \<open>m\<close> is defined and yields a buffer of length \<open>n\<close>.\<close>

definition keeps :: "nat \<Rightarrow> 'a list option \<Rightarrow> bool" where
  "keeps n m \<longleftrightarrow> (case m of None \<Rightarrow> False | Some xs \<Rightarrow> length xs = n)"

lemma keepsE: "keeps n m \<Longrightarrow> (\<And>xs. m = Some xs \<Longrightarrow> length xs = n \<Longrightarrow> P) \<Longrightarrow> P"
  by (cases m) (auto simp: keeps_def)

lemma keeps_obtain: "keeps n m \<Longrightarrow> \<exists>xs. m = Some xs \<and> length xs = n"
  by (auto elim: keepsE)

lemma keeps_Some [keeps_intros]: "length xs = n \<Longrightarrow> keeps n (Some xs)"
  by (simp add: keeps_def)

lemma keeps_put [keeps_intros]: "length xs = n \<Longrightarrow> i < n \<Longrightarrow> keeps n (put xs i v)"
  by (simp add: keeps_def)

lemma keeps_bind [keeps_intros]:
  "keeps n m \<Longrightarrow> (\<And>xs. length xs = n \<Longrightarrow> keeps n (f xs)) \<Longrightarrow> keeps n (m \<bind> f)"
  by (auto elim!: keepsE)

lemma keeps_if [keeps_intros]:
  "(b \<Longrightarrow> keeps n p) \<Longrightarrow> (\<not> b \<Longrightarrow> keeps n q) \<Longrightarrow> keeps n (if b then p else q)"
  by simp

text \<open>The same for a computation that returns a second result.\<close>

definition keeps_fst :: "nat \<Rightarrow> ('a list \<times> 'b) option \<Rightarrow> bool" where
  "keeps_fst n m \<longleftrightarrow> (case m of None \<Rightarrow> False | Some (xs, _) \<Rightarrow> length xs = n)"

lemma keeps_fst_obtain: "keeps_fst n m \<Longrightarrow> \<exists>xs y. m = Some (xs, y) \<and> length xs = n"
  by (auto simp: keeps_fst_def split: option.splits)

lemma keeps_fst_Some [keeps_intros]: "length xs = n \<Longrightarrow> keeps_fst n (Some (xs, y))"
  by (simp add: keeps_fst_def)

lemma keeps_fst_bind [keeps_intros]:
  "keeps n m \<Longrightarrow> (\<And>xs. length xs = n \<Longrightarrow> keeps_fst n (f xs)) \<Longrightarrow> keeps_fst n (m \<bind> f)"
  by (auto elim!: keepsE)

lemma keeps_fst_map [keeps_intros]: "keeps n m \<Longrightarrow> keeps_fst n (map_option (\<lambda>r. (r, y)) m)"
  by (auto elim!: keepsE simp: keeps_fst_def)

section \<open>Lists\<close>

text \<open>\<open>std::copy_n\<close> of a whole list to an offset of a buffer.\<close>

definition splice :: "'a list \<Rightarrow> nat \<Rightarrow> 'a list \<Rightarrow> 'a list option" where
  "splice xs off ys =
     (if off + length ys \<le> length xs then Some (take off xs @ ys @ drop (off + length ys) xs)
      else None)"

lemma splice_ok [simp]:
  "off + length ys \<le> length xs \<Longrightarrow>
   splice xs off ys = Some (take off xs @ ys @ drop (off + length ys) xs)"
  by (simp add: splice_def)

lemma keeps_splice [keeps_intros]:
  "length xs = n \<Longrightarrow> off + length ys \<le> n \<Longrightarrow> keeps n (splice xs off ys)"
  by (simp add: keeps_def)

lemma nth_splice:
  "off + length ys \<le> length xs \<Longrightarrow> i < length xs \<Longrightarrow>
   (take off xs @ ys @ drop (off + length ys) xs) ! i =
   (if off \<le> i \<and> i < off + length ys then ys ! (i - off) else xs ! i)"
  by (auto simp: nth_append)

lemma nth_list_update_if:
  "i < length xs \<Longrightarrow> (xs[i := v]) ! j = (if i = j then v else xs ! j)"
  by simp

lemma list_eq_update_iff:
  "i < length xs \<Longrightarrow> xs[i := v] = xs \<longleftrightarrow> v = xs ! i"
  by (metis list_update_id nth_list_update_eq)

text \<open>\<open>vector::resize(n, fill)\<close>.\<close>

definition resize :: "'a list \<Rightarrow> nat \<Rightarrow> 'a \<Rightarrow> 'a list" where
  "resize xs n fill = take n xs @ replicate (n - length xs) fill"

lemma length_resize [simp]: "length (resize xs n fill) = n"
  by (simp add: resize_def)

lemma nth_resize: "i < length xs \<Longrightarrow> i < n \<Longrightarrow> resize xs n fill ! i = xs ! i"
  by (simp add: resize_def nth_append)

section \<open>Words\<close>

definition low_byte :: "u32 \<Rightarrow> u8" where
  "low_byte w = ucast (w AND 0xFF)"

lemma bit_low_byte: "bit (low_byte w) n \<longleftrightarrow> n < 8 \<and> bit w n"
proof -
  have m: "(0xFF :: u32) = mask 8"
    by (simp add: mask_eq_exp_minus_1)
  show ?thesis
    unfolding low_byte_def m by (auto simp: bit_simps)
qed

end
