(* ===== verification/Floats.thy ===== *)
theory Floats
  imports Prelude "HOL-Library.Log_Nat"
begin

text \<open>
  IEEE 754 binary floating point as the report packers use it: \<open>float\<close> is
  \<open>binary32\<close> and \<open>double\<close> is \<open>binary64\<close>, every operation rounds to nearest, ties to
  even. A finite value is an integer multiple of the smallest subnormal, so
  \<open>Fin k\<close> stands for \<open>k / 2 ^ fscale\<close>; all arithmetic is exact integer arithmetic
  followed by one rounding. The two zeros are one value: no operation modelled here
  (comparison, clamping, sums, products, quotients by constants, \<open>std::lround\<close>) tells
  them apart.
\<close>

datatype flt = NaN | PosInf | NegInf | Fin int

record ffmt =
  fprec :: nat
  fscale :: nat
  femax :: nat

definition binary32 :: ffmt where
  "binary32 = \<lparr>fprec = 24, fscale = 149, femax = 128\<rparr>"

definition binary64 :: ffmt where
  "binary64 = \<lparr>fprec = 53, fscale = 1074, femax = 1024\<rparr>"

section \<open>Rounding\<close>

text \<open>The integer nearest to \<open>p / q\<close>, ties to the even one.\<close>

definition rne_div :: "int \<Rightarrow> int \<Rightarrow> int" where
  "rne_div p q =
     (let d = p div q; r = p mod q in
      if 2 * r < q then d
      else if q < 2 * r then d + 1
      else if even d then d else d + 1)"

text \<open>Binades: a magnitude of \<open>bitlen\<close> at most \<open>prec\<close> is exact; above that the last
  place weighs \<open>2 ^ (bitlen - prec)\<close>.\<close>

definition ulp_shift :: "nat \<Rightarrow> int \<Rightarrow> nat" where
  "ulp_shift prec n = nat (bitlen n) - prec"

definition round_mag :: "nat \<Rightarrow> int \<Rightarrow> int \<Rightarrow> int" where
  "round_mag prec p q =
     (let u = 2 ^ ulp_shift prec (p div q) in rne_div p (q * u) * u)"

definition overflow_limit :: "ffmt \<Rightarrow> int" where
  "overflow_limit f = 2 ^ (femax f + fscale f)"

definition fround :: "ffmt \<Rightarrow> int \<Rightarrow> int \<Rightarrow> flt" where
  "fround f p q =
     (let m = round_mag (fprec f) \<bar>p\<bar> q in
      if overflow_limit f \<le> m then (if p < 0 then NegInf else PosInf)
      else Fin (if p < 0 then - m else m))"

section \<open>Operations\<close>

definition flit :: "ffmt \<Rightarrow> int \<Rightarrow> int \<Rightarrow> flt" where
  "flit f num den = fround f (num * 2 ^ fscale f) den"

text \<open>The literal \<open>num / den\<close>, also \<open>static_cast<float>(n)\<close> as \<open>flit f n 1\<close>.\<close>

fun fneg :: "flt \<Rightarrow> flt" where
  "fneg NaN = NaN"
| "fneg PosInf = NegInf"
| "fneg NegInf = PosInf"
| "fneg (Fin a) = Fin (- a)"

fun fadd :: "ffmt \<Rightarrow> flt \<Rightarrow> flt \<Rightarrow> flt" where
  "fadd f NaN y = NaN"
| "fadd f x NaN = NaN"
| "fadd f PosInf NegInf = NaN"
| "fadd f NegInf PosInf = NaN"
| "fadd f PosInf y = PosInf"
| "fadd f NegInf y = NegInf"
| "fadd f (Fin a) PosInf = PosInf"
| "fadd f (Fin a) NegInf = NegInf"
| "fadd f (Fin a) (Fin b) = fround f (a + b) 1"

definition fsub :: "ffmt \<Rightarrow> flt \<Rightarrow> flt \<Rightarrow> flt" where
  "fsub f x y = fadd f x (fneg y)"

definition inf_of :: "int \<Rightarrow> flt" where
  "inf_of s = (if s < 0 then NegInf else if s = 0 then NaN else PosInf)"

fun fsign :: "flt \<Rightarrow> int" where
  "fsign NaN = 0"
| "fsign PosInf = 1"
| "fsign NegInf = -1"
| "fsign (Fin a) = sgn a"

fun fmul :: "ffmt \<Rightarrow> flt \<Rightarrow> flt \<Rightarrow> flt" where
  "fmul f NaN y = NaN"
| "fmul f x NaN = NaN"
| "fmul f (Fin a) (Fin b) = fround f (a * b) (2 ^ fscale f)"
| "fmul f x y = inf_of (fsign x * fsign y)"

text \<open>Division; every divisor of the sources is a nonzero constant, and a zero divisor,
  whose sign the model does not keep, is taken as positive.\<close>

fun fdiv :: "ffmt \<Rightarrow> flt \<Rightarrow> flt \<Rightarrow> flt" where
  "fdiv f (Fin a) (Fin b) =
     (if b = 0 then inf_of (sgn a)
      else fround f (a * 2 ^ fscale f * sgn b) \<bar>b\<bar>)"
| "fdiv f NaN y = NaN"
| "fdiv f x NaN = NaN"
| "fdiv f (Fin a) y = Fin 0"
| "fdiv f x (Fin b) = inf_of (fsign x * (if b < 0 then -1 else 1))"
| "fdiv f x y = NaN"

fun fless :: "flt \<Rightarrow> flt \<Rightarrow> bool" where
  "fless NaN y = False"
| "fless x NaN = False"
| "fless (Fin a) (Fin b) = (a < b)"
| "fless NegInf y = (y \<noteq> NegInf)"
| "fless PosInf y = False"
| "fless (Fin a) PosInf = True"
| "fless (Fin a) NegInf = False"

fun fle :: "flt \<Rightarrow> flt \<Rightarrow> bool" where
  "fle NaN y = False"
| "fle x NaN = False"
| "fle x y = (\<not> fless y x)"

definition isnan :: "flt \<Rightarrow> bool" where
  "isnan x \<longleftrightarrow> x = NaN"

text \<open>\<open>std::clamp(v, lo, hi)\<close>: \<open>v < lo ? lo : hi < v ? hi : v\<close>; a NaN comes back as it
  is, since both comparisons are false.\<close>

definition fclamp :: "flt \<Rightarrow> flt \<Rightarrow> flt \<Rightarrow> flt" where
  "fclamp v lo hi = (if fless v lo then lo else if fless hi v then hi else v)"

text \<open>
  \<open>std::lround\<close> rounds half away from zero. The C standard leaves its value for a NaN or
  an infinity unspecified: \<open>u\<close> is that choice, an argument of everything that can
  reach it.
\<close>

definition round_away :: "int \<Rightarrow> int \<Rightarrow> int" where
  "round_away k d = sgn k * ((2 * \<bar>k\<bar> + d) div (2 * d))"

fun lround :: "ffmt \<Rightarrow> (flt \<Rightarrow> int) \<Rightarrow> flt \<Rightarrow> int" where
  "lround f u (Fin k) = round_away k (2 ^ fscale f)"
| "lround f u x = u x"

section \<open>Order and rounding\<close>

lemma fle_Fin [simp]: "fle (Fin a) (Fin b) \<longleftrightarrow> a \<le> b"
  by auto

lemma fle_refl: "x \<noteq> NaN \<Longrightarrow> fle x x"
  by (cases x) auto

lemma fle_trans: "fle x y \<Longrightarrow> fle y z \<Longrightarrow> fle x z"
  by (cases x; cases y; cases z) auto

lemma fle_antisym: "fle x y \<Longrightarrow> fle y x \<Longrightarrow> x = y"
  by (cases x; cases y) auto

lemma fle_total: "x \<noteq> NaN \<Longrightarrow> y \<noteq> NaN \<Longrightarrow> fle x y \<or> fle y x"
  by (cases x; cases y) auto

lemma fless_le: "fless x y \<longleftrightarrow> x \<noteq> NaN \<and> y \<noteq> NaN \<and> \<not> fle y x"
  by (cases x; cases y) auto

lemma rne_div_cases: "rne_div p q = p div q \<or> rne_div p q = p div q + 1"
  by (simp add: rne_div_def Let_def)

lemma rne_div_exact [simp]: "0 < q \<Longrightarrow> rne_div (c * q) q = c"
  by (simp add: rne_div_def)

lemma rne_div_mono:
  assumes "0 < q" and "p \<le> p'"
  shows "rne_div p q \<le> rne_div p' q"
proof (cases "p div q = p' div q")
  case True
  have "p mod q \<le> p' mod q"
    using assms(2) True by (simp add: minus_div_mult_eq_mod [symmetric])
  then show ?thesis
    using True by (auto simp: rne_div_def Let_def)
next
  case False
  moreover have "p div q \<le> p' div q"
    using assms by (simp add: zdiv_mono1)
  ultimately have "p div q + 1 \<le> p' div q"
    by linarith
  then show ?thesis
    using rne_div_cases [of p q] rne_div_cases [of p' q] by linarith
qed

lemma rne_div_le_iff_mult: "0 < q \<Longrightarrow> p \<le> c * q \<Longrightarrow> rne_div p q \<le> c"
  using rne_div_mono [of q p "c * q"] by simp

lemma rne_div_ge_iff_mult: "0 < q \<Longrightarrow> c * q \<le> p \<Longrightarrow> c \<le> rne_div p q"
  using rne_div_mono [of q "c * q" p] by simp

lemma bitlen_mono: "0 \<le> m \<Longrightarrow> m \<le> n \<Longrightarrow> bitlen m \<le> bitlen n"
  by (simp add: bitlen_def floorlog_mono)

lemma ulp_shift_mono: "0 \<le> m \<Longrightarrow> m \<le> n \<Longrightarrow> ulp_shift b m \<le> ulp_shift b n"
  by (simp add: ulp_shift_def bitlen_mono diff_le_mono nat_mono)

lemma ulp_shift_upper:
  assumes "0 \<le> n"
  shows "n < 2 ^ (ulp_shift b n + b)"
proof -
  have "n < 2 ^ nat (bitlen n)"
    using assms bitlen_bounds [of n] by (cases "n = 0") auto
  also have "(2::int) ^ nat (bitlen n) \<le> 2 ^ (ulp_shift b n + b)"
    by (rule power_increasing) (auto simp: ulp_shift_def)
  finally show ?thesis .
qed

lemma ulp_shift_lower:
  assumes "0 < ulp_shift b n" and "0 < b" and "0 \<le> n"
  shows "2 ^ (ulp_shift b n + b - 1) \<le> n"
proof -
  from assms(1,3) have "0 < n"
    by (cases "n = 0") (auto simp: ulp_shift_def)
  then have "2 ^ nat (bitlen n - 1) \<le> n"
    using bitlen_bounds by blast
  moreover have "nat (bitlen n - 1) = ulp_shift b n + b - 1"
    using assms by (simp add: ulp_shift_def)
  ultimately show ?thesis by simp
qed

lemma round_mag_upper:
  assumes "0 \<le> p" and "0 < q"
  shows "round_mag b p q \<le> 2 ^ (ulp_shift b (p div q) + b)"
proof -
  let ?s = "ulp_shift b (p div q)"
  have n: "p div q < 2 ^ (?s + b)"
    using assms by (intro ulp_shift_upper) (simp add: pos_imp_zdiv_nonneg_iff)
  have "p \<le> q * (p div q) + q"
    using pos_mod_bound [OF assms(2), of p] mult_div_mod_eq [of q p] by linarith
  also have "\<dots> = q * (p div q + 1)" by (simp add: algebra_simps)
  also have "\<dots> \<le> q * 2 ^ (?s + b)"
    using n assms(2) by (intro mult_left_mono) auto
  finally have "p \<le> 2 ^ b * (q * 2 ^ ?s)"
    by (simp add: power_add algebra_simps)
  then have "rne_div p (q * 2 ^ ?s) \<le> 2 ^ b"
    using assms(2) by (intro rne_div_le_iff_mult) auto
  then show ?thesis
    by (simp add: round_mag_def Let_def power_add mult.commute)
qed

lemma round_mag_lower:
  assumes "0 \<le> p" and "0 < q" and "0 < b" and s: "0 < ulp_shift b (p div q)"
  shows "2 ^ (ulp_shift b (p div q) + b - 1) \<le> round_mag b p q"
proof -
  let ?s = "ulp_shift b (p div q)"
  have "2 ^ (?s + b - 1) \<le> p div q"
    using assms by (intro ulp_shift_lower) (auto simp: pos_imp_zdiv_nonneg_iff)
  then have "q * 2 ^ (?s + b - 1) \<le> q * (p div q)"
    using assms(2) by simp
  also have "\<dots> \<le> p"
    using assms(2) by (simp add: minus_mod_eq_mult_div [symmetric])
  finally have "2 ^ (b - 1) * (q * 2 ^ ?s) \<le> p"
    using assms(3) by (simp add: power_add [symmetric] algebra_simps)
  then have "2 ^ (b - 1) \<le> rne_div p (q * 2 ^ ?s)"
    using assms(2) by (intro rne_div_ge_iff_mult) auto
  then have "2 ^ (b - 1) * 2 ^ ?s \<le> round_mag b p q"
    by (simp add: round_mag_def Let_def)
  moreover have "?s + b - 1 = (b - 1) + ?s"
    using assms(3) by simp
  ultimately show ?thesis
    by (simp add: power_add)
qed

lemma round_mag_mono:
  assumes "0 \<le> p" and "p \<le> p'" and "0 < q" and "0 < b"
  shows "round_mag b p q \<le> round_mag b p' q"
proof -
  let ?s = "ulp_shift b (p div q)" and ?s' = "ulp_shift b (p' div q)"
  have n: "0 \<le> p div q" "p div q \<le> p' div q"
    using assms by (auto simp: pos_imp_zdiv_nonneg_iff zdiv_mono1)
  show ?thesis
  proof (cases "?s = ?s'")
    case True
    then show ?thesis
      using assms by (auto simp: round_mag_def Let_def intro!: rne_div_mono)
  next
    case False
    then have lt: "?s < ?s'"
      using ulp_shift_mono [OF n, of b] by simp
    have "round_mag b p q \<le> 2 ^ (?s + b)"
      using assms by (intro round_mag_upper)
    also have "(2::int) ^ (?s + b) \<le> 2 ^ (?s' + b - 1)"
      using lt by (intro power_increasing) auto
    also have "\<dots> \<le> round_mag b p' q"
      using assms lt by (intro round_mag_lower) auto
    finally show ?thesis .
  qed
qed

lemma round_mag_nonneg: "0 \<le> p \<Longrightarrow> 0 < q \<Longrightarrow> 0 \<le> round_mag b p q"
  by (auto simp: round_mag_def Let_def intro!: mult_nonneg_nonneg rne_div_ge_iff_mult)

text \<open>Rounding is monotone: the fact every range bound of the report packers rests on.\<close>

lemma fround_mono:
  assumes "p \<le> p'" and "0 < q" and "0 < fprec f"
  shows "fle (fround f p q) (fround f p' q)"
proof -
  note mono = round_mag_mono [of _ _ q "fprec f"]
  consider "0 \<le> p" | "p < 0" "0 \<le> p'" | "p' < 0"
    using assms(1) by linarith
  then show ?thesis
  proof cases
    case 1
    then show ?thesis
      using assms mono [of p p'] by (auto simp: fround_def Let_def)
  next
    case 2
    then show ?thesis
      using assms round_mag_nonneg [of "- p" q "fprec f"] round_mag_nonneg [of p' q "fprec f"]
      by (auto simp: fround_def Let_def)
  next
    case 3
    then show ?thesis
      using assms mono [of "- p'" "- p"] by (auto simp: fround_def Let_def)
  qed
qed

lemma round_away_mono: "a \<le> b \<Longrightarrow> 0 < d \<Longrightarrow> round_away a d \<le> round_away b d"
proof -
  assume ab: "a \<le> b" and d: "0 < d"
  have nn: "0 \<le> (2 * \<bar>k\<bar> + d) div (2 * d)" for k
    using d by (simp add: pos_imp_zdiv_nonneg_iff)
  consider "0 < a" | "a \<le> 0" "0 \<le> b" | "b < 0" using ab by linarith
  then show ?thesis
  proof cases
    case 1
    then show ?thesis using ab d by (simp add: round_away_def zdiv_mono1)
  next
    case 2
    then show ?thesis using nn [of a] nn [of b]
      by (cases "a = 0"; cases "b = 0") (auto simp: round_away_def intro: order_trans [of _ 0])
  next
    case 3
    then have "(2 * \<bar>b\<bar> + d) div (2 * d) \<le> (2 * \<bar>a\<bar> + d) div (2 * d)"
      using ab d by (intro zdiv_mono1) auto
    then show ?thesis using 3 ab by (simp add: round_away_def)
  qed
qed

text \<open>A value between two finite ones is finite.\<close>

lemma fle_between:
  assumes "fle (Fin a) x" and "fle x (Fin b)"
  obtains k where "x = Fin k" and "a \<le> k" and "k \<le> b"
  using assms by (cases x) auto

lemma fadd_mono:
  "a \<le> b \<Longrightarrow> 0 < fprec f \<Longrightarrow> fle (fadd f (Fin a) (Fin c)) (fadd f (Fin b) (Fin c))"
  by (simp add: fround_mono)

lemma fmul_mono:
  "a \<le> b \<Longrightarrow> 0 \<le> c \<Longrightarrow> 0 < fprec f \<Longrightarrow>
     fle (fmul f (Fin a) (Fin c)) (fmul f (Fin b) (Fin c))"
  by (simp add: fround_mono mult_right_mono)

lemma fdiv_mono:
  "a \<le> b \<Longrightarrow> 0 < c \<Longrightarrow> 0 < fprec f \<Longrightarrow>
     fle (fdiv f (Fin a) (Fin c)) (fdiv f (Fin b) (Fin c))"
  by (simp add: fround_mono mult_right_mono)

lemma lround_Fin_mono: "a \<le> b \<Longrightarrow> lround f u (Fin a) \<le> lround f u (Fin b)"
  by (simp add: round_away_mono)

lemma lround_mono:
  "fle (Fin a) x \<Longrightarrow> fle x y \<Longrightarrow> fle y (Fin b) \<Longrightarrow> lround f u x \<le> lround f u y"
  by (cases x; cases y) (auto intro: round_away_mono)

lemma fclamp_Fin [simp]:
  "lo \<le> hi \<Longrightarrow> fclamp (Fin k) (Fin lo) (Fin hi) = Fin (max lo (min hi k))"
  by (auto simp: fclamp_def)

lemma fclamp_fin:
  "lo \<le> hi \<Longrightarrow> v \<noteq> NaN \<Longrightarrow> \<exists>k. fclamp v (Fin lo) (Fin hi) = Fin k \<and> lo \<le> k \<and> k \<le> hi"
  by (cases v) (auto simp: fclamp_def)

lemma fclamp_mono:
  "lo \<le> hi \<Longrightarrow> fle v w \<Longrightarrow> fle (fclamp v (Fin lo) (Fin hi)) (fclamp w (Fin lo) (Fin hi))"
  by (cases v; cases w) (auto simp: fclamp_def)

lemma binary32_simps [simp]:
  "fprec binary32 = 24" "fscale binary32 = 149" "femax binary32 = 128"
  by (simp_all add: binary32_def)

lemma binary64_simps [simp]:
  "fprec binary64 = 53" "fscale binary64 = 1074" "femax binary64 = 1024"
  by (simp_all add: binary64_def)

lemma round_away_mult [simp]: "0 < d \<Longrightarrow> round_away (q * d) d = q"
proof -
  assume d: "0 < d"
  have "(2 * \<bar>q * d\<bar> + d) div (2 * d) = (d + \<bar>q\<bar> * (2 * d)) div (2 * d)"
    using d by (simp add: abs_mult algebra_simps)
  also have "\<dots> = \<bar>q\<bar> + d div (2 * d)"
    using d by (subst div_mult_self1) auto
  also have "d div (2 * d) = 0"
    using d by (intro div_pos_pos_trivial) auto
  finally show ?thesis
    using d by (simp add: round_away_def sgn_mult)
       (metis abs_mult_sgn mult.commute)
qed

section \<open>Exact and monotone results\<close>

lemma round_mag_exact:
  assumes "0 \<le> m" and "m < 2 ^ b" and "0 < q"
  shows "round_mag b (m * 2 ^ k * q) q = m * 2 ^ k"
proof -
  have "m * 2 ^ k < 2 ^ (b + k)"
    using assms by (simp add: power_add)
  then have "bitlen (m * 2 ^ k) \<le> int (b + k)"
    using assms(1) by (subst bitlen_le_iff_power) (auto simp flip: of_nat_add)
  then obtain j where j: "k = ulp_shift b (m * 2 ^ k) + j"
    by (metis le_iff_add ulp_shift_def nat_le_iff le_diff_conv add.commute)
  have "rne_div (m * 2 ^ k * q) (q * 2 ^ ulp_shift b (m * 2 ^ k)) = m * 2 ^ j"
    using rne_div_exact [of "q * 2 ^ ulp_shift b (m * 2 ^ k)" "m * 2 ^ j"] assms(3)
    by (subst j) (simp add: power_add mult_ac)
  then show ?thesis
    using assms(3) by (simp add: round_mag_def Let_def) (metis j mult.assoc mult.commute power_add)
qed

lemma fround_exact:
  assumes "0 \<le> m" and "m < 2 ^ fprec f" and "0 < q" and "fprec f + k \<le> femax f + fscale f"
  shows "fround f (m * 2 ^ k * q) q = Fin (m * 2 ^ k)"
proof -
  have "m * 2 ^ k < 2 ^ (fprec f + k)"
    using assms by (simp add: power_add)
  also have "(2 :: int) ^ (fprec f + k) \<le> 2 ^ (femax f + fscale f)"
    using assms(4) by (intro power_increasing) auto
  finally show ?thesis
    using assms by (simp add: fround_def Let_def round_mag_exact overflow_limit_def abs_mult
        not_less mult_less_0_iff)
qed
text \<open>Products and quotients of nonnegative values grow with their operands and stay finite
  below a finite bound.\<close>

lemma fle_pair:
  "fle (Fin 0) x \<Longrightarrow> fle x y \<Longrightarrow> fle y (Fin c) \<Longrightarrow>
     \<exists>k k'. x = Fin k \<and> y = Fin k' \<and> 0 \<le> k \<and> k \<le> k' \<and> k' \<le> c"
  by (cases x; cases y) auto

lemma fmul_mono2:
  assumes "0 \<le> a" "a \<le> a'" "0 \<le> b" "b \<le> b'" and "0 < fprec f"
  shows "fle (fmul f (Fin a) (Fin b)) (fmul f (Fin a') (Fin b'))"
proof -
  have "a * b \<le> a' * b'"
    using assms by (intro mult_mono) auto
  then show ?thesis
    using assms(5) by (simp add: fround_mono)
qed

lemma fmul_pair:
  assumes "0 \<le> a" "a \<le> a'" "a' \<le> A" "0 \<le> b" "b \<le> b'" "b' \<le> B" and f: "0 < fprec f"
    and top: "fmul f (Fin A) (Fin B) = Fin C" and bot: "fmul f (Fin 0) (Fin 0) = Fin 0"
  shows "\<exists>k k'. fmul f (Fin a) (Fin b) = Fin k \<and> fmul f (Fin a') (Fin b') = Fin k'
    \<and> 0 \<le> k \<and> k \<le> k' \<and> k' \<le> C"
proof (rule fle_pair)
  show "fle (Fin 0) (fmul f (Fin a) (Fin b))"
    using fmul_mono2 [of 0 a 0 b f] assms(1,4) f unfolding bot by (simp del: fmul.simps fdiv.simps)
  show "fle (fmul f (Fin a) (Fin b)) (fmul f (Fin a') (Fin b'))"
    by (rule fmul_mono2) (use assms in auto)
  show "fle (fmul f (Fin a') (Fin b')) (Fin C)"
    using fmul_mono2 [of a' A b' B f] assms(1-6) f unfolding top by (simp del: fmul.simps fdiv.simps)
qed

lemma fdiv_pair:
  assumes "0 \<le> a" "a \<le> a'" "a' \<le> A" "0 < c" and f: "0 < fprec f"
    and top: "fdiv f (Fin A) (Fin c) = Fin C" and bot: "fdiv f (Fin 0) (Fin c) = Fin 0"
  shows "\<exists>k k'. fdiv f (Fin a) (Fin c) = Fin k \<and> fdiv f (Fin a') (Fin c) = Fin k'
    \<and> 0 \<le> k \<and> k \<le> k' \<and> k' \<le> C"
proof (rule fle_pair)
  show "fle (Fin 0) (fdiv f (Fin a) (Fin c))"
    using fdiv_mono [of 0 a c f] assms(1,4) f unfolding bot by (simp del: fmul.simps fdiv.simps)
  show "fle (fdiv f (Fin a) (Fin c)) (fdiv f (Fin a') (Fin c))"
    by (rule fdiv_mono) (use assms in auto)
  show "fle (fdiv f (Fin a') (Fin c)) (Fin C)"
    using fdiv_mono [of a' A c f] assms(3,4) f unfolding top by (simp del: fmul.simps fdiv.simps)
qed

end
