(* ===== verification/Types.thy ===== *)
theory Types
  imports Floats
begin

text \<open>
  The data model of \<open>src/src/include/libvirtualhid/types.hpp\<close>: every enumeration as a
  datatype with one constructor per enumerator, every structure as a record with the
  structure's fields, and the two classes with behaviour, \<open>OperationStatus\<close> and
  \<open>ButtonSet\<close>, with their operations of \<open>src/src/core/types.cpp\<close>. A \<open>default_\<close>
  constant is the value a default member initialiser gives.
\<close>

section \<open>Status codes\<close>

datatype error_code =
    Err_ok | Err_invalid_argument | Err_backend_unavailable | Err_device_closed
  | Err_unsupported_profile | Err_license_required | Err_license_invalid
  | Err_activation_limit_reached | Err_network_unavailable | Err_backend_failure

record operation_status =
  code :: error_code
  message :: string

definition success :: operation_status where
  "success = \<lparr>code = Err_ok, message = ''''\<rparr>"

definition failure :: "error_code \<Rightarrow> string \<Rightarrow> operation_status" where
  "failure c msg = (if c = Err_ok then success else \<lparr>code = c, message = msg\<rparr>)"

definition status_ok :: "operation_status \<Rightarrow> bool" where
  "status_ok s \<longleftrightarrow> code s = Err_ok"

lemma status_ok_success [simp]: "status_ok success"
  by (simp add: status_ok_def success_def)

lemma status_ok_failure [simp]: "status_ok (failure c msg) \<longleftrightarrow> c = Err_ok"
  by (simp add: status_ok_def failure_def success_def)

lemma code_failure [simp]: "code (failure c msg) = c"
  by (simp add: failure_def success_def)

section \<open>Device identity\<close>

datatype log_level = Log_debug | Log_info | Log_warning | Log_error

datatype backend_kind = Backend_fake | Backend_platform_default

datatype device_type =
  Dev_gamepad | Dev_keyboard | Dev_mouse | Dev_touchscreen | Dev_trackpad | Dev_pen_tablet

datatype bus_type = Bus_unknown | Bus_usb | Bus_bluetooth

datatype gamepad_profile_kind =
    Kind_generic | Kind_xbox_360 | Kind_xbox_one | Kind_xbox_series | Kind_dualsense
  | Kind_switch_pro | Kind_dualshock4

record gamepad_profile_capabilities =
  cap_rumble :: bool
  cap_trigger_rumble :: bool
  cap_motion :: bool
  cap_touchpad :: bool
  cap_rgb_led :: bool
  cap_battery :: bool
  cap_adaptive_triggers :: bool
  cap_player_leds :: bool

definition default_capabilities :: gamepad_profile_capabilities where
  "default_capabilities =
     \<lparr>cap_rumble = False, cap_trigger_rumble = False, cap_motion = False,
      cap_touchpad = False, cap_rgb_led = False, cap_battery = False,
      cap_adaptive_triggers = False, cap_player_leds = False\<rparr>"

record device_profile =
  device_type :: device_type
  gamepad_kind :: gamepad_profile_kind
  bus_type :: bus_type
  vendor_id :: u16
  product_id :: u16
  version :: u16
  report_id :: u8
  input_report_size :: nat
  output_report_size :: nat
  profile_name :: string
  manufacturer :: string
  capabilities :: gamepad_profile_capabilities
  report_descriptor :: bytes

definition default_profile :: device_profile where
  "default_profile =
     \<lparr>device_type = Dev_gamepad, gamepad_kind = Kind_generic, bus_type = Bus_usb,
      vendor_id = 0, product_id = 0, version = 0, report_id = 1,
      input_report_size = 0, output_report_size = 0, profile_name = '''',
      manufacturer = '''', capabilities = default_capabilities, report_descriptor = []\<rparr>"

datatype client_controller_type =
  Client_unknown | Client_xbox | Client_playstation | Client_nintendo

record gamepad_metadata =
  global_index :: int
  client_relative_index :: int
  client_type :: client_controller_type
  has_motion_sensors :: bool
  has_touchpad :: bool
  has_rgb_led :: bool
  has_battery :: bool
  gamepad_stable_id :: string

definition default_metadata :: gamepad_metadata where
  "default_metadata =
     \<lparr>global_index = -1, client_relative_index = -1, client_type = Client_unknown,
      has_motion_sensors = False, has_touchpad = False, has_rgb_led = False,
      has_battery = False, gamepad_stable_id = ''''\<rparr>"

section \<open>Gamepad input state\<close>

datatype gamepad_button =
    Btn_a | Btn_b | Btn_x | Btn_y | Btn_back | Btn_start | Btn_guide | Btn_left_stick
  | Btn_right_stick | Btn_left_shoulder | Btn_right_shoulder | Btn_dpad_up | Btn_dpad_down
  | Btn_dpad_left | Btn_dpad_right | Btn_misc1 | Btn_touchpad | Btn_paddle1 | Btn_paddle2
  | Btn_paddle3 | Btn_paddle4

fun to_underlying :: "gamepad_button \<Rightarrow> nat" where
  "to_underlying Btn_a = 0" | "to_underlying Btn_b = 1" | "to_underlying Btn_x = 2"
| "to_underlying Btn_y = 3" | "to_underlying Btn_back = 4" | "to_underlying Btn_start = 5"
| "to_underlying Btn_guide = 6" | "to_underlying Btn_left_stick = 7"
| "to_underlying Btn_right_stick = 8" | "to_underlying Btn_left_shoulder = 9"
| "to_underlying Btn_right_shoulder = 10" | "to_underlying Btn_dpad_up = 11"
| "to_underlying Btn_dpad_down = 12" | "to_underlying Btn_dpad_left = 13"
| "to_underlying Btn_dpad_right = 14" | "to_underlying Btn_misc1 = 15"
| "to_underlying Btn_touchpad = 16" | "to_underlying Btn_paddle1 = 17"
| "to_underlying Btn_paddle2 = 18" | "to_underlying Btn_paddle3 = 19"
| "to_underlying Btn_paddle4 = 20"

lemma to_underlying_less: "to_underlying b < 21"
  by (cases b) simp_all

lemma to_underlying_inj [simp]: "to_underlying b = to_underlying c \<longleftrightarrow> b = c"
  by (cases b; cases c) simp_all

text \<open>The enumerators carry the order of their underlying values.\<close>

instantiation gamepad_button :: linorder
begin

definition less_eq_gamepad_button :: "gamepad_button \<Rightarrow> gamepad_button \<Rightarrow> bool" where
  "less_eq_gamepad_button b c \<longleftrightarrow> to_underlying b \<le> to_underlying c"

definition less_gamepad_button :: "gamepad_button \<Rightarrow> gamepad_button \<Rightarrow> bool" where
  "less_gamepad_button b c \<longleftrightarrow> to_underlying b < to_underlying c"

instance
  by standard (auto simp: less_eq_gamepad_button_def less_gamepad_button_def
    dest: antisym)

end

type_synonym button_set = u32

definition button_mask :: "gamepad_button \<Rightarrow> u32" where
  "button_mask b = push_bit (to_underlying b) 1"

definition buttons_set :: "button_set \<Rightarrow> gamepad_button \<Rightarrow> bool \<Rightarrow> button_set" where
  "buttons_set s b pressed =
     (if pressed then s OR button_mask b else s AND NOT (button_mask b))"

definition buttons_reset :: "button_set \<Rightarrow> gamepad_button \<Rightarrow> button_set" where
  "buttons_reset s b = buttons_set s b False"

definition buttons_clear :: "button_set \<Rightarrow> button_set" where
  "buttons_clear s = 0"

definition buttons_test :: "button_set \<Rightarrow> gamepad_button \<Rightarrow> bool" where
  "buttons_test s b \<longleftrightarrow> s AND button_mask b \<noteq> 0"

record stick =
  sx :: flt
  sy :: flt

record vector3 =
  vx :: flt
  vy :: flt
  vz :: flt

datatype gamepad_battery_state =
    Batt_unknown | Batt_discharging | Batt_charging | Batt_full
  | Batt_voltage_or_temperature_error | Batt_temperature_error | Batt_charging_error

record gamepad_battery =
  battery_state :: gamepad_battery_state
  percentage :: u8

record gamepad_touch_contact =
  contact_id :: u8
  active :: bool
  cx :: flt
  cy :: flt

text \<open>The two touch contacts of the source's \<open>std::array<GamepadTouchContact, 2>\<close> are two
  fields.\<close>

record gamepad_state =
  buttons :: button_set
  left_stick :: stick
  right_stick :: stick
  left_trigger :: flt
  right_trigger :: flt
  acceleration :: "vector3 option"
  gyroscope :: "vector3 option"
  battery :: "gamepad_battery option"
  contact0 :: gamepad_touch_contact
  contact1 :: gamepad_touch_contact

definition default_stick :: stick where
  "default_stick = \<lparr>sx = Fin 0, sy = Fin 0\<rparr>"

definition default_vector3 :: vector3 where
  "default_vector3 = \<lparr>vx = Fin 0, vy = Fin 0, vz = Fin 0\<rparr>"

definition default_touch_contact :: gamepad_touch_contact where
  "default_touch_contact = \<lparr>contact_id = 0, active = False, cx = Fin 0, cy = Fin 0\<rparr>"

definition default_gamepad_state :: gamepad_state where
  "default_gamepad_state =
     \<lparr>buttons = 0, left_stick = default_stick, right_stick = default_stick,
      left_trigger = Fin 0, right_trigger = Fin 0, acceleration = None, gyroscope = None,
      battery = None, contact0 = default_touch_contact, contact1 = default_touch_contact\<rparr>"

section \<open>Gamepad output\<close>

datatype gamepad_output_kind =
    Out_rumble | Out_rgb_led | Out_adaptive_triggers | Out_raw_report
  | Out_trigger_rumble | Out_player_leds

record gamepad_output =
  kind :: gamepad_output_kind
  low_frequency_rumble :: u16
  high_frequency_rumble :: u16
  left_trigger_rumble :: u16
  right_trigger_rumble :: u16
  red :: u8
  green :: u8
  blue :: u8
  adaptive_trigger_flags :: u8
  left_trigger_effect_type :: u8
  right_trigger_effect_type :: u8
  left_trigger_effect :: bytes
  right_trigger_effect :: bytes
  raw_report :: bytes
  player_leds :: "bool list"
  flashing_player_leds :: "bool list"

definition default_output :: gamepad_output where
  "default_output =
     \<lparr>kind = Out_raw_report, low_frequency_rumble = 0, high_frequency_rumble = 0,
      left_trigger_rumble = 0, right_trigger_rumble = 0, red = 0, green = 0, blue = 0,
      adaptive_trigger_flags = 0, left_trigger_effect_type = 0,
      right_trigger_effect_type = 0, left_trigger_effect = replicate 10 0,
      right_trigger_effect = replicate 10 0, raw_report = [],
      player_leds = replicate 4 False, flashing_player_leds = replicate 4 False\<rparr>"

section \<open>Button sets as finite maps of bits\<close>

lemma bit_button_mask: "bit (button_mask b) n \<longleftrightarrow> n = to_underlying b"
  using to_underlying_less [of b] by (auto simp: button_mask_def bit_simps)

lemma buttons_test_bit: "buttons_test s b \<longleftrightarrow> bit s (to_underlying b)"
proof
  assume "buttons_test s b"
  then obtain n where "bit (s AND button_mask b) n"
    by (auto simp: buttons_test_def bit_eq_iff)
  then show "bit s (to_underlying b)"
    by (auto simp: bit_and_iff bit_button_mask)
next
  assume "bit s (to_underlying b)"
  then have "bit (s AND button_mask b) (to_underlying b)"
    by (simp add: bit_and_iff bit_button_mask)
  then show "buttons_test s b"
    by (auto simp: buttons_test_def)
qed

lemma bit_buttons_set:
  "bit (buttons_set s b p) n \<longleftrightarrow> (if n = to_underlying b then p else bit s n)"
  using to_underlying_less [of b]
  by (cases "n < 32")
     (auto simp: buttons_set_def bit_simps bit_button_mask dest: bit_imp_le_length)

lemma buttons_test_set [simp]:
  "buttons_test (buttons_set s b p) c \<longleftrightarrow> (if c = b then p else buttons_test s c)"
  by (simp add: buttons_test_bit bit_buttons_set)

lemma buttons_test_reset [simp]:
  "buttons_test (buttons_reset s b) c \<longleftrightarrow> c \<noteq> b \<and> buttons_test s c"
  by (simp add: buttons_reset_def)

lemma buttons_test_clear [simp]: "\<not> buttons_test (buttons_clear s) b"
  by (simp add: buttons_clear_def buttons_test_def)

lemma buttons_test_0 [simp]: "\<not> buttons_test 0 b"
  by (simp add: buttons_test_def)

lemma buttons_set_idem [simp]: "buttons_set (buttons_set s b p) b q = buttons_set s b q"
  by (rule bit_word_eqI) (simp add: bit_buttons_set)

lemma buttons_set_commute:
  "b \<noteq> c \<Longrightarrow> buttons_set (buttons_set s b p) c q = buttons_set (buttons_set s c q) b p"
  by (rule bit_word_eqI) (auto simp: bit_buttons_set)

end
