(* ===== verification/ReportBytes.thy ===== *)
theory ReportBytes
  imports Types
begin

text \<open>
  The byte-level helpers of \<open>src/src/core/report.cpp\<close>: flags, little-endian fields and
  the reflected CRC-32 of the PlayStation reports. A \<open>ByteReport\<close> is a list of bytes; a
  write outside it is undefined behaviour, the value \<open>None\<close>.

  The checksum is studied through the locale \<open>checksum\<close>: a digest folded byte by byte
  whose step is injective in the state and in the input. Every substitution of one byte
  then changes the digest, which is what the output parsers rely on when they refuse a
  corrupted report.
\<close>

section \<open>Flags and fields\<close>

definition has_flag :: "u8 \<Rightarrow> u8 \<Rightarrow> bool" where
  "has_flag value flag \<longleftrightarrow> value AND flag \<noteq> 0"

definition add_flag :: "bytes \<Rightarrow> nat \<Rightarrow> u8 \<Rightarrow> bytes option" where
  "add_flag report off flag = do { v \<leftarrow> rd report off; put report off (v OR flag) }"

definition write_u16 :: "bytes \<Rightarrow> nat \<Rightarrow> u16 \<Rightarrow> bytes option" where
  "write_u16 report off value = do {
     r \<leftarrow> put report off (low_byte (ucast value));
     put r (off + 1) (low_byte (ucast (drop_bit 8 value))) }"

definition write_u32 :: "bytes \<Rightarrow> nat \<Rightarrow> u32 \<Rightarrow> bytes option" where
  "write_u32 report off value = do {
     r \<leftarrow> put report off (low_byte value);
     r \<leftarrow> put r (off + 1) (low_byte (drop_bit 8 value));
     r \<leftarrow> put r (off + 2) (low_byte (drop_bit 16 value));
     put r (off + 3) (low_byte (drop_bit 24 value)) }"

text \<open>\<open>std::int16_t\<close> values are 16-bit words; the cast to \<open>std::uint16_t\<close> keeps the
  bits.\<close>

definition write_i16 :: "bytes \<Rightarrow> nat \<Rightarrow> u16 \<Rightarrow> bytes option" where
  "write_i16 report off value = write_u16 report off value"

definition u16_le :: "u8 \<Rightarrow> u8 \<Rightarrow> u16" where
  "u16_le low high = ucast low OR push_bit 8 (ucast high)"

definition u32_le :: "u8 \<Rightarrow> u8 \<Rightarrow> u8 \<Rightarrow> u8 \<Rightarrow> u32" where
  "u32_le b0 b1 b2 b3 =
     ucast b0 OR push_bit 8 (ucast b1) OR push_bit 16 (ucast b2) OR push_bit 24 (ucast b3)"

definition read_u16 :: "bytes \<Rightarrow> nat \<Rightarrow> u16 option" where
  "read_u16 report off = do {
     low \<leftarrow> rd report off; high \<leftarrow> rd report (off + 1);
     Some (u16_le low high) }"

definition append_u16 :: "bytes \<Rightarrow> u16 \<Rightarrow> bytes" where
  "append_u16 report value = report @ [ucast (value AND 0xFF), ucast (drop_bit 8 value AND 0xFF)]"

definition read_u32 :: "bytes \<Rightarrow> nat \<Rightarrow> u32 option" where
  "read_u32 report off = do {
     b0 \<leftarrow> rd report off; b1 \<leftarrow> rd report (off + 1);
     b2 \<leftarrow> rd report (off + 2); b3 \<leftarrow> rd report (off + 3);
     Some (u32_le b0 b1 b2 b3) }"

lemma keeps_add_flag [keeps_intros]:
  "length r = n \<Longrightarrow> i < n \<Longrightarrow> keeps n (add_flag r i f)"
  by (simp add: add_flag_def keeps_def)

lemma keeps_write_u16 [keeps_intros]:
  "length r = n \<Longrightarrow> i + 1 < n \<Longrightarrow> keeps n (write_u16 r i v)"
  by (simp add: write_u16_def keeps_def)

lemma keeps_write_u32 [keeps_intros]:
  "length r = n \<Longrightarrow> i + 3 < n \<Longrightarrow> keeps n (write_u32 r i v)"
  by (simp add: write_u32_def keeps_def)

lemma keeps_write_i16 [keeps_intros]:
  "length r = n \<Longrightarrow> i + 1 < n \<Longrightarrow> keeps n (write_i16 r i v)"
  by (simp add: write_i16_def keeps_write_u16)

lemma add_flag_ok [buffer_simps]:
  "i < length r \<Longrightarrow> add_flag r i f = Some (r[i := r ! i OR f])"
  by (simp add: add_flag_def)

lemma write_u16_ok [buffer_simps]:
  "i + 1 < length r \<Longrightarrow> write_u16 r i v =
     Some (r[i := low_byte (ucast v), i + 1 := low_byte (ucast (drop_bit 8 v))])"
  by (simp add: write_u16_def)

lemma write_u32_ok [buffer_simps]:
  "i + 3 < length r \<Longrightarrow> write_u32 r i v =
     Some (r[i := low_byte v, i + 1 := low_byte (drop_bit 8 v),
             i + 2 := low_byte (drop_bit 16 v), i + 3 := low_byte (drop_bit 24 v)])"
  by (simp add: write_u32_def)

lemma write_i16_ok [buffer_simps]:
  "i + 1 < length r \<Longrightarrow> write_i16 r i v =
     Some (r[i := low_byte (ucast v), i + 1 := low_byte (ucast (drop_bit 8 v))])"
  by (simp add: write_i16_def write_u16_ok)

lemma read_u16_ok [buffer_simps]:
  "i + 1 < length r \<Longrightarrow> read_u16 r i = Some (u16_le (r ! i) (r ! (i + 1)))"
  by (simp add: read_u16_def)

lemma read_u32_ok [buffer_simps]:
  "i + 3 < length r \<Longrightarrow>
     read_u32 r i = Some (u32_le (r ! i) (r ! (i + 1)) (r ! (i + 2)) (r ! (i + 3)))"
  by (simp add: read_u32_def)

section \<open>Little-endian round trips\<close>

lemma bit_u16_le:
  "bit (u16_le a b) n \<longleftrightarrow> (if n < 8 then bit a n else n < 16 \<and> bit b (n - 8))"
  using bit_imp_le_length [of a n] by (auto simp: u16_le_def bit_simps)

lemma bit_u32_le:
  "bit (u32_le a b c d) n \<longleftrightarrow>
     (if n < 8 then bit a n else if n < 16 then bit b (n - 8)
      else if n < 24 then bit c (n - 16) else n < 32 \<and> bit d (n - 24))"
  using bit_imp_le_length [of a n] bit_imp_le_length [of b "n - 8"] bit_imp_le_length [of c "n - 16"]
  by (auto simp: u32_le_def bit_simps)

lemma u16_le_bytes [simp]:
  "u16_le (low_byte (ucast v)) (low_byte (ucast (drop_bit 8 v))) = v"
proof (rule bit_word_eqI)
  fix n assume "n < LENGTH(16)"
  then show "bit (u16_le (low_byte (ucast v)) (low_byte (ucast (drop_bit 8 v)))) n = bit v n"
    by (auto simp: bit_u16_le bit_low_byte bit_simps)
qed

lemma u32_le_bytes [simp]:
  "u32_le (low_byte v) (low_byte (drop_bit 8 v)) (low_byte (drop_bit 16 v))
     (low_byte (drop_bit 24 v)) = v"
proof (rule bit_word_eqI)
  fix n assume "n < LENGTH(32)"
  then show "bit (u32_le (low_byte v) (low_byte (drop_bit 8 v)) (low_byte (drop_bit 16 v))
     (low_byte (drop_bit 24 v))) n = bit v n"
    by (auto simp: bit_u32_le bit_low_byte bit_simps)
qed

lemma read_write_u32:
  "i + 3 < length r \<Longrightarrow> write_u32 r i v = Some r' \<Longrightarrow> read_u32 r' i = Some v"
  by (auto simp: buffer_simps)

lemma read_write_u16:
  "i + 1 < length r \<Longrightarrow> write_u16 r i v = Some r' \<Longrightarrow> read_u16 r' i = Some v"
  by (auto simp: buffer_simps)

lemma u32_le_inject [simp]:
  "u32_le a b c d = u32_le a' b' c' d' \<longleftrightarrow> a = a' \<and> b = b' \<and> c = c' \<and> d = d'"
proof
  assume eq: "u32_le a b c d = u32_le a' b' c' d'"
  have bits: "bit (u32_le a b c d) n = bit (u32_le a' b' c' d') n" for n
    by (simp add: eq)
  have "bit a n = bit a' n" if "n < 8" for n
    using bits [of n] that by (simp add: bit_u32_le)
  moreover have "bit b n = bit b' n" if "n < 8" for n
    using bits [of "n + 8"] that by (simp add: bit_u32_le)
  moreover have "bit c n = bit c' n" if "n < 8" for n
    using bits [of "n + 16"] that by (simp add: bit_u32_le)
  moreover have "bit d n = bit d' n" if "n < 8" for n
    using bits [of "n + 24"] that by (simp add: bit_u32_le)
  ultimately show "a = a' \<and> b = b' \<and> c = c' \<and> d = d'"
    by (auto intro!: bit_word_eqI)
qed simp

section \<open>CRC-32\<close>

definition crc_bit :: "u32 \<Rightarrow> u32" where
  "crc_bit crc = (let m = 0 - (crc AND 1) in drop_bit 1 crc XOR (0xEDB88320 AND m))"

definition crc_byte :: "u32 \<Rightarrow> u8 \<Rightarrow> u32" where
  "crc_byte crc value = (crc_bit ^^ 8) (crc XOR ucast value)"

definition crc32 :: "bytes \<Rightarrow> u32 \<Rightarrow> u32" where
  "crc32 buffer seed = foldl crc_byte (seed XOR 0xFFFFFFFF) buffer XOR 0xFFFFFFFF"

definition playstation_input_crc_seed :: u8 where "playstation_input_crc_seed = 0xA1"
definition playstation_output_crc_seed :: u8 where "playstation_output_crc_seed = 0xA2"

definition playstation_crc_seed :: "u8 \<Rightarrow> u32" where
  "playstation_crc_seed seed = crc32 [seed] 0"

definition write_playstation_crc :: "bytes \<Rightarrow> u8 \<Rightarrow> bytes option" where
  "write_playstation_crc report seed =
     (if length report < 4 then Some report
      else let crc_offset = length report - 4 in
           write_u32 report crc_offset (crc32 (take crc_offset report) (playstation_crc_seed seed)))"

lemma keeps_write_playstation_crc [keeps_intros]:
  "length r = n \<Longrightarrow> keeps n (write_playstation_crc r s)"
  by (auto simp: write_playstation_crc_def Let_def intro!: keeps_Some keeps_write_u32)

section \<open>Digests that detect a substitution\<close>

locale checksum =
  fixes step :: "'s \<Rightarrow> 'a \<Rightarrow> 's"
    and final :: "'s \<Rightarrow> 's"
  assumes step_state_inj: "step s a = step t a \<Longrightarrow> s = t"
    and step_input_inj: "step s a = step s b \<Longrightarrow> a = b"
    and final_inj: "final s = final t \<Longrightarrow> s = t"
begin

definition digest :: "'s \<Rightarrow> 'a list \<Rightarrow> 's" where
  "digest s xs = final (foldl step s xs)"

lemma fold_state_inj: "foldl step s xs = foldl step t xs \<longleftrightarrow> s = t"
  by (induction xs arbitrary: s t) (auto dest: step_state_inj)

lemma substitution_changes_digest:
  "digest s (xs @ a # ys) = digest s (xs @ b # ys) \<longleftrightarrow> a = b"
proof
  assume "digest s (xs @ a # ys) = digest s (xs @ b # ys)"
  then have "foldl step (step (foldl step s xs) a) ys = foldl step (step (foldl step s xs) b) ys"
    unfolding digest_def by (auto dest: final_inj)
  then show "a = b"
    by (auto simp: fold_state_inj dest: step_input_inj)
qed simp

lemma update_changes_digest:
  assumes "i < length xs" and "v \<noteq> xs ! i"
  shows "digest s (xs[i := v]) \<noteq> digest s xs"
proof -
  have "xs = take i xs @ xs ! i # drop (Suc i) xs"
    using assms(1) by (rule id_take_nth_drop)
  moreover have "xs[i := v] = take i xs @ v # drop (Suc i) xs"
    using assms(1) by (rule upd_conv_take_nth_drop)
  ultimately show ?thesis
    using assms(2) by (metis substitution_changes_digest)
qed

end

lemma bit_crc_poly_31: "bit (0xEDB88320 :: u32) 31"
  by (simp add: bit_iff_odd)

lemma bit_crc_bit:
  "bit (crc_bit c) n \<longleftrightarrow> n < 32 \<and> (bit c (n + 1) \<noteq> (bit c 0 \<and> bit (0xEDB88320 :: u32) n))"
proof -
  have m: "0 - (c AND 1) = (if bit c 0 then (- 1 :: u32) else 0)"
    by (simp add: and_one_eq mod_2_eq_odd flip: bit_0)
  have "crc_bit c = drop_bit 1 c XOR (if bit c 0 then 0xEDB88320 else 0)"
    unfolding crc_bit_def m Let_def by simp
  then show ?thesis
    using bit_imp_le_length [of "0xEDB88320 :: u32" n] bit_imp_le_length [of c "n + 1"]
    by (auto simp: bit_xor_iff bit_drop_bit_eq)
qed

lemma crc_bit_inj: "crc_bit a = crc_bit b \<Longrightarrow> a = b"
proof (rule bit_word_eqI)
  fix n assume eq: "crc_bit a = crc_bit b" and n: "n < LENGTH(32)"
  have bits: "bit (crc_bit a) k = bit (crc_bit b) k" for k
    by (simp add: eq)
  have low: "bit a 0 = bit b 0"
    using bits [of 31] bit_crc_poly_31 bit_imp_le_length [of a 32] bit_imp_le_length [of b 32]
    by (auto simp: bit_crc_bit)
  show "bit a n = bit b n"
  proof (cases n)
    case 0
    then show ?thesis using low by simp
  next
    case (Suc k)
    then show ?thesis
      using bits [of k] low n by (auto simp: bit_crc_bit)
  qed
qed

lemma crc_bit_pow_inj: "(crc_bit ^^ k) a = (crc_bit ^^ k) b \<Longrightarrow> a = b"
  by (induction k) (auto dest: crc_bit_inj)

lemma xor_right_cancel: "(a :: 'a::len word) XOR c = b XOR c \<Longrightarrow> a = b"
  by (metis xor.assoc xor_self_eq xor.right_neutral)

interpretation crc: checksum crc_byte "\<lambda>s. s XOR 0xFFFFFFFF"
proof
  fix s t :: u32 and a :: u8
  show "crc_byte s a = crc_byte t a \<Longrightarrow> s = t"
    by (auto simp: crc_byte_def dest!: crc_bit_pow_inj xor_right_cancel)
next
  fix s :: u32 and a b :: u8
  assume "crc_byte s a = crc_byte s b"
  then have "ucast a XOR s = (ucast b XOR s :: u32)"
    by (auto simp: crc_byte_def xor.commute dest!: crc_bit_pow_inj)
  then have eq: "(ucast a :: u32) = ucast b"
    by (rule xor_right_cancel)
  show "a = b"
  proof (rule bit_word_eqI)
    fix n assume "n < LENGTH(8)"
    then show "bit a n = bit b n"
      using arg_cong [OF eq, of "\<lambda>w. bit w n"] by (simp add: bit_ucast_iff)
  qed
next
  fix s t :: u32
  show "s XOR 0xFFFFFFFF = t XOR 0xFFFFFFFF \<Longrightarrow> s = t"
    by (rule xor_right_cancel)
qed

lemma crc32_digest: "crc32 xs s = crc.digest (s XOR 0xFFFFFFFF) xs"
  by (simp add: crc32_def crc.digest_def)

text \<open>The digest of a buffer with one changed byte differs.\<close>

lemma crc32_update_neq:
  "i < length xs \<Longrightarrow> v \<noteq> xs ! i \<Longrightarrow> crc32 (xs[i := v]) s \<noteq> crc32 xs s"
  by (simp add: crc32_digest crc.update_changes_digest)

section \<open>Checksummed reports\<close>

text \<open>A checksum write changes the last four bytes only.\<close>

lemma write_playstation_crc_frame:
  "write_playstation_crc r seed = Some r' \<Longrightarrow>
     length r' = length r \<and> (\<forall>j. j + 4 < length r \<longrightarrow> r' ! j = r ! j)"
  by (auto simp: write_playstation_crc_def Let_def buffer_simps split: if_splits)

definition playstation_crc_valid :: "bytes \<Rightarrow> u8 \<Rightarrow> bool" where
  "playstation_crc_valid r seed \<longleftrightarrow> 4 \<le> length r \<and>
     read_u32 r (length r - 4) = Some (crc32 (take (length r - 4) r) (playstation_crc_seed seed))"

lemma write_playstation_crc_valid:
  assumes w: "write_playstation_crc r seed = Some r'" and n: "4 \<le> length r"
  shows "playstation_crc_valid r' seed"
proof -
  define k where "k = length r - 4"
  define v where "v = crc32 (take k r) (playstation_crc_seed seed)"
  have k: "k + 3 < length r"
    using n by (simp add: k_def)
  have w': "write_u32 r k v = Some r'"
    using w n by (simp add: write_playstation_crc_def Let_def k_def v_def)
  then have "length r' = length r" and "take k r' = take k r"
    using k by (auto simp: write_u32_ok)
  then show ?thesis
    using read_write_u32 [OF k w'] n by (simp add: playstation_crc_valid_def k_def v_def)
qed

end
