(* ===== verification/Normalize.thy ===== *)
theory Normalize
  imports ReportBytes
begin

text \<open>
  Normalisation of gamepad values: the functions of \<open>src/src/core/report.cpp\<close> that turn
  floating-point sticks, triggers, sensors and batteries into report fields. Each is the
  composition the code writes: clamp, scale in \<open>float\<close>, \<open>std::lround\<close>, cast to the field's
  width. The argument \<open>u\<close> is the value \<open>std::lround\<close> gives for a NaN or an infinity.

  The five scalings are instances of the locale \<open>quantiser\<close>: a clamp into a finite range
  followed by a monotone map to the integers with known end points. Inside it the range,
  monotonicity and saturation of the field are proved once.
\<close>

abbreviation lit :: "int \<Rightarrow> int \<Rightarrow> flt" where
  "lit n d \<equiv> flit binary32 n d"

abbreviation mulF :: "flt \<Rightarrow> flt \<Rightarrow> flt" where
  "mulF \<equiv> fmul binary32"

abbreviation addF :: "flt \<Rightarrow> flt \<Rightarrow> flt" where
  "addF \<equiv> fadd binary32"

abbreviation divF :: "flt \<Rightarrow> flt \<Rightarrow> flt" where
  "divF \<equiv> fdiv binary32"

abbreviation subF :: "flt \<Rightarrow> flt \<Rightarrow> flt" where
  "subF \<equiv> fsub binary32"

abbreviation lroundF :: "(flt \<Rightarrow> int) \<Rightarrow> flt \<Rightarrow> int" where
  "lroundF \<equiv> lround binary32"

section \<open>Scalars\<close>

definition clamp_axis :: "flt \<Rightarrow> flt" where
  "clamp_axis value = (if isnan value then lit 0 1 else fclamp value (lit (-1) 1) (lit 1 1))"

definition clamp_trigger :: "flt \<Rightarrow> flt" where
  "clamp_trigger value = (if isnan value then lit 0 1 else fclamp value (lit 0 1) (lit 1 1))"

definition normalize_axis :: "(flt \<Rightarrow> int) \<Rightarrow> flt \<Rightarrow> u16" where
  "normalize_axis u value =
     (let clamped = clamp_axis value in
      if fle clamped (lit (-1) 1) then word_of_int (-32768)
      else if fle (lit 1 1) clamped then word_of_int 32767
      else if fless clamped (lit 0 1) then word_of_int (lroundF u (mulF clamped (lit 32768 1)))
      else word_of_int (lroundF u (mulF clamped (lit 32767 1))))"

definition normalize_trigger :: "(flt \<Rightarrow> int) \<Rightarrow> flt \<Rightarrow> u8" where
  "normalize_trigger u value = word_of_int (lroundF u (mulF (clamp_trigger value) (lit 255 1)))"

definition scale_i16 :: "(flt \<Rightarrow> int) \<Rightarrow> flt \<Rightarrow> flt \<Rightarrow> u16" where
  "scale_i16 u value multiplier =
     (let scaled = fclamp (mulF value multiplier) (lit (-32768) 1) (lit 32767 1)
      in word_of_int (lroundF u scaled))"

definition normalize_unsigned_axis :: "(flt \<Rightarrow> int) \<Rightarrow> flt \<Rightarrow> u16" where
  "normalize_unsigned_axis u value =
     word_of_int (lroundF u (mulF (addF (clamp_axis value) (lit 1 1)) (lit 65535 2)))"

definition normalize_u8_axis :: "(flt \<Rightarrow> int) \<Rightarrow> flt \<Rightarrow> u8" where
  "normalize_u8_axis u value =
     word_of_int (lroundF u (mulF (addF (clamp_axis value) (lit 1 1)) (lit 255 2)))"

definition scale_output_byte :: "(flt \<Rightarrow> int) \<Rightarrow> u8 \<Rightarrow> u16" where
  "scale_output_byte u value =
     word_of_int (lroundF u (mulF (divF (lit (uint value) 1) (lit 255 1)) (lit 65535 1)))"

definition normalize_u10_trigger :: "(flt \<Rightarrow> int) \<Rightarrow> flt \<Rightarrow> u16" where
  "normalize_u10_trigger u value =
     word_of_int (lroundF u (mulF (clamp_trigger value) (lit 1023 1)))"

definition normalize_switch_stick_axis :: "(flt \<Rightarrow> int) \<Rightarrow> flt \<Rightarrow> u16" where
  "normalize_switch_stick_axis u value =
     word_of_int (lroundF u (mulF (addF (clamp_axis value) (lit 1 1)) (lit 4095 2)))"

section \<open>Whole states\<close>

definition clamp_stick :: "stick \<Rightarrow> stick" where
  "clamp_stick s = \<lparr>sx = clamp_axis (sx s), sy = clamp_axis (sy s)\<rparr>"

definition clamp_contact :: "gamepad_touch_contact \<Rightarrow> gamepad_touch_contact" where
  "clamp_contact c =
     c\<lparr>cx := fclamp (cx c) (lit 0 1) (lit 1 1), cy := fclamp (cy c) (lit 0 1) (lit 1 1)\<rparr>"

definition clamp_battery :: "gamepad_battery \<Rightarrow> gamepad_battery" where
  "clamp_battery b = b\<lparr>percentage := min 100 (percentage b)\<rparr>"

definition normalize_state :: "gamepad_state \<Rightarrow> gamepad_state" where
  "normalize_state state =
     state\<lparr>left_stick := clamp_stick (left_stick state),
           right_stick := clamp_stick (right_stick state),
           left_trigger := clamp_trigger (left_trigger state),
           right_trigger := clamp_trigger (right_trigger state),
           contact0 := clamp_contact (contact0 state),
           contact1 := clamp_contact (contact1 state),
           battery := map_option clamp_battery (battery state)\<rparr>"

section \<open>Directional pad\<close>

definition neutral_hat :: u8 where "neutral_hat = 8"

definition hat_from_buttons :: "button_set \<Rightarrow> u8" where
  "hat_from_buttons bs =
     (let up = buttons_test bs Btn_dpad_up; down = buttons_test bs Btn_dpad_down;
          left = buttons_test bs Btn_dpad_left; right = buttons_test bs Btn_dpad_right;
          (up, down) = (if up \<and> down then (False, False) else (up, down));
          (left, right) = (if left \<and> right then (False, False) else (left, right))
      in if up \<and> right then 1
         else if down \<and> right then 3
         else if down \<and> left then 5
         else if up \<and> left then 7
         else if up then 0
         else if right then 2
         else if down then 4
         else if left then 6
         else neutral_hat)"

definition xbox_gip_hat_from_buttons :: "button_set \<Rightarrow> u8" where
  "xbox_gip_hat_from_buttons bs =
     (let hat = hat_from_buttons bs in if hat = neutral_hat then 0 else hat + 1)"

definition dpad_hat_bits :: "button_set \<Rightarrow> u16" where
  "dpad_hat_bits bs = push_bit 12 (ucast (hat_from_buttons bs))"

section \<open>Battery fields\<close>

definition dualsense_battery_state :: "gamepad_battery_state \<Rightarrow> u8" where
  "dualsense_battery_state s =
     (case s of Batt_discharging \<Rightarrow> 0x00 | Batt_charging \<Rightarrow> 0x01 | Batt_full \<Rightarrow> 0x02
      | Batt_voltage_or_temperature_error \<Rightarrow> 0x0A | Batt_temperature_error \<Rightarrow> 0x0B
      | Batt_charging_error \<Rightarrow> 0x0F | Batt_unknown \<Rightarrow> 0x02)"

definition percentage_tenths :: "(flt \<Rightarrow> int) \<Rightarrow> u8 \<Rightarrow> u8" where
  "percentage_tenths u p = min 10 (word_of_int (lroundF u (divF (lit (uint p) 1) (lit 10 1))))"

definition percentage_u8 :: "(flt \<Rightarrow> int) \<Rightarrow> u8 \<Rightarrow> u8" where
  "percentage_u8 u p =
     word_of_int (lroundF u (mulF (divF (lit (uint p) 1) (lit 100 1)) (lit 255 1)))"

definition dualshock4_battery_status :: "(flt \<Rightarrow> int) \<Rightarrow> gamepad_battery \<Rightarrow> u8" where
  "dualshock4_battery_status u b =
     (if battery_state b = Batt_full then 0x1B
      else if battery_state b = Batt_voltage_or_temperature_error
              \<or> battery_state b = Batt_temperature_error
              \<or> battery_state b = Batt_charging_error then 0x0F
      else let charge = percentage_tenths u (percentage b) in
        if battery_state b = Batt_discharging then charge else 0x10 OR charge)"

definition dualshock4_battery_level :: "(flt \<Rightarrow> int) \<Rightarrow> gamepad_battery \<Rightarrow> u8" where
  "dualshock4_battery_level u b =
     (if battery_state b = Batt_full \<and> 100 \<le> percentage b then 0xFF
      else percentage_u8 u (percentage b))"

definition switch_battery_and_connection :: "(flt \<Rightarrow> int) \<Rightarrow> gamepad_battery option \<Rightarrow> u8" where
  "switch_battery_and_connection u bat =
     (case bat of None \<Rightarrow> 0x81
      | Some b \<Rightarrow>
          let p = min (percentage b) 100;
              level = ucast (word_of_int (lroundF u
                (mulF (divF (lit (uint p) 1) (lit 100 1)) (lit 4 1))) :: u8) * (2 :: u32);
              charging = (battery_state b = Batt_charging)
          in push_bit 4 (ucast level) OR (if charging then 0x10 else 0) OR 0x01)"

definition battery_strength :: "(flt \<Rightarrow> int) \<Rightarrow> gamepad_battery option \<Rightarrow> u8" where
  "battery_strength u bat =
     (case bat of None \<Rightarrow> 0xFF | Some b \<Rightarrow> percentage_u8 u (percentage b))"

section \<open>Quantisers\<close>

locale quantiser =
  fixes clampv :: "flt \<Rightarrow> flt"
    and quant :: "flt \<Rightarrow> int"
    and lo hi qmax :: int
  assumes clamp_fin: "\<exists>k. clampv v = Fin k \<and> lo \<le> k \<and> k \<le> hi"
    and clamp_mono: "fle v w \<Longrightarrow> fle (clampv v) (clampv w)"
    and clamp_id: "lo \<le> k \<Longrightarrow> k \<le> hi \<Longrightarrow> clampv (Fin k) = Fin k"
    and quant_mono: "lo \<le> a \<Longrightarrow> a \<le> b \<Longrightarrow> b \<le> hi \<Longrightarrow> quant (Fin a) \<le> quant (Fin b)"
    and quant_lo: "quant (Fin lo) = 0"
    and quant_hi: "quant (Fin hi) = qmax"
begin

definition field :: "flt \<Rightarrow> int" where
  "field v = quant (clampv v)"

lemma field_bounds: "0 \<le> field v \<and> field v \<le> qmax"
proof -
  obtain k where "clampv v = Fin k" "lo \<le> k" "k \<le> hi"
    using clamp_fin by blast
  then show ?thesis
    using quant_mono [of lo k] quant_mono [of k hi] by (simp add: field_def quant_lo quant_hi)
qed

lemma field_mono:
  assumes "fle v w"
  shows "field v \<le> field w"
proof -
  obtain a b where ab: "clampv v = Fin a" "lo \<le> a" "clampv w = Fin b" "b \<le> hi"
    using clamp_fin [of v] clamp_fin [of w] by blast
  moreover have "a \<le> b"
    using clamp_mono [OF assms] ab by simp
  ultimately show ?thesis
    by (simp add: field_def quant_mono)
qed

lemma lo_le_hi: "lo \<le> hi"
  using clamp_fin by force

lemma field_saturates_high: "fle (Fin hi) v \<Longrightarrow> field v = qmax"
  using field_mono [of "Fin hi" v] field_bounds [of v] clamp_id [of hi] lo_le_hi
  by (simp add: field_def quant_hi)

lemma field_saturates_low: "fle v (Fin lo) \<Longrightarrow> field v = 0"
  using field_mono [of v "Fin lo"] field_bounds [of v] clamp_id [of lo] lo_le_hi
  by (simp add: field_def quant_lo)

end

text \<open>Constants of the scalings as exact integers.\<close>

lemma lit_simps:
  "lit 0 1 = Fin 0" "lit 1 1 = Fin (2 ^ 149)" "lit (-1) 1 = Fin (- (2 ^ 149))"
  "lit 255 1 = Fin (255 * 2 ^ 149)" "lit 1023 1 = Fin (1023 * 2 ^ 149)"
  "lit 255 2 = Fin (255 * 2 ^ 148)" "lit 65535 2 = Fin (65535 * 2 ^ 148)"
  "lit 4095 2 = Fin (4095 * 2 ^ 148)" "lit 100 1 = Fin (100 * 2 ^ 149)"
  "lit 10 1 = Fin (10 * 2 ^ 149)" "lit 65535 1 = Fin (65535 * 2 ^ 149)"
  "lit 4 1 = Fin (4 * 2 ^ 149)" "lit 32767 1 = Fin (32767 * 2 ^ 149)"
  "lit 32768 1 = Fin (32768 * 2 ^ 149)" "lit (-32768) 1 = Fin (- (32768 * 2 ^ 149))"
  by code_simp+

lemma clamp_axis_fin: "\<exists>k. clamp_axis v = Fin k \<and> - (2 ^ 149) \<le> k \<and> k \<le> 2 ^ 149"
  using fclamp_fin [of "- (2 ^ 149)" "2 ^ 149" v]
  by (cases "v = NaN") (auto simp: clamp_axis_def isnan_def lit_simps)

lemma clamp_trigger_fin: "\<exists>k. clamp_trigger v = Fin k \<and> 0 \<le> k \<and> k \<le> 2 ^ 149"
  using fclamp_fin [of 0 "2 ^ 149" v]
  by (cases "v = NaN") (auto simp: clamp_trigger_def isnan_def lit_simps)

lemma clamp_axis_mono: "fle v w \<Longrightarrow> fle (clamp_axis v) (clamp_axis w)"
  using fclamp_mono [of "- (2 ^ 149)" "2 ^ 149" v w]
  by (cases v; cases w) (auto simp: clamp_axis_def isnan_def lit_simps)

lemma clamp_trigger_mono: "fle v w \<Longrightarrow> fle (clamp_trigger v) (clamp_trigger w)"
  using fclamp_mono [of 0 "2 ^ 149" v w]
  by (cases v; cases w) (auto simp: clamp_trigger_def isnan_def lit_simps)

lemma clamp_axis_id: "- (2 ^ 149) \<le> k \<Longrightarrow> k \<le> 2 ^ 149 \<Longrightarrow> clamp_axis (Fin k) = Fin k"
  by (simp add: clamp_axis_def isnan_def lit_simps)

lemma clamp_trigger_id: "0 \<le> k \<Longrightarrow> k \<le> 2 ^ 149 \<Longrightarrow> clamp_trigger (Fin k) = Fin k"
  by (simp add: clamp_trigger_def isnan_def lit_simps)

text \<open>The two scalings before \<open>std::lround\<close>: a trigger is multiplied, an axis is shifted
  by one and multiplied.\<close>

definition trigger_quant :: "(flt \<Rightarrow> int) \<Rightarrow> flt \<Rightarrow> flt \<Rightarrow> int" where
  "trigger_quant u c x = lroundF u (mulF x c)"

definition axis_quant :: "(flt \<Rightarrow> int) \<Rightarrow> flt \<Rightarrow> flt \<Rightarrow> int" where
  "axis_quant u c x = lroundF u (mulF (addF x (lit 1 1)) c)"

lemma scaled_mono:
  assumes "0 \<le> c" and "mulF (Fin l) (Fin c) = Fin m0" and "mulF (Fin h) (Fin c) = Fin m1"
    and "l \<le> a" and "a \<le> b" and "b \<le> h"
  shows "lroundF u (mulF (Fin a) (Fin c)) \<le> lroundF u (mulF (Fin b) (Fin c))"
proof (rule lround_mono)
  show "fle (Fin m0) (mulF (Fin a) (Fin c))"
    unfolding assms(2) [symmetric] using assms by (intro fmul_mono) auto
  show "fle (mulF (Fin a) (Fin c)) (mulF (Fin b) (Fin c))"
    using assms by (intro fmul_mono) auto
  show "fle (mulF (Fin b) (Fin c)) (Fin m1)"
    unfolding assms(3) [symmetric] using assms by (intro fmul_mono) auto
qed

lemma axis_shift:
  assumes "- (2 ^ 149) \<le> a" and "a \<le> b" and "b \<le> 2 ^ 149"
  obtains a' b' where "addF (Fin a) (lit 1 1) = Fin a'" and "addF (Fin b) (lit 1 1) = Fin b'"
    and "0 \<le> a'" and "a' \<le> b'" and "b' \<le> 2 ^ 150"
proof -
  have lo: "addF (Fin (- (2 ^ 149))) (Fin (2 ^ 149)) = Fin 0"
    and hi: "addF (Fin (2 ^ 149)) (Fin (2 ^ 149)) = Fin (2 ^ 150)"
    by code_simp+
  have "fle (Fin 0) (addF (Fin a) (lit 1 1))"
    unfolding lo [symmetric] lit_simps using assms by (intro fadd_mono) auto
  moreover have ab: "fle (addF (Fin a) (lit 1 1)) (addF (Fin b) (lit 1 1))"
    unfolding lit_simps using assms by (intro fadd_mono) auto
  moreover have "fle (addF (Fin b) (lit 1 1)) (Fin (2 ^ 150))"
    unfolding hi [symmetric] lit_simps using assms by (intro fadd_mono) auto
  ultimately obtain a' b' where "addF (Fin a) (lit 1 1) = Fin a'" "addF (Fin b) (lit 1 1) = Fin b'"
    by (cases "addF (Fin a) (lit 1 1)"; cases "addF (Fin b) (lit 1 1)") auto
  moreover from this have "0 \<le> a'" "a' \<le> b'" "b' \<le> 2 ^ 150"
    using \<open>fle (Fin 0) _\<close> ab \<open>fle _ (Fin (2 ^ 150))\<close> by simp_all
  ultimately show thesis
    by (rule that)
qed

lemma axis_quant_mono:
  assumes "0 \<le> c" and "mulF (Fin 0) (Fin c) = Fin m0" and "mulF (Fin (2 ^ 150)) (Fin c) = Fin m1"
    and "- (2 ^ 149) \<le> a" and "a \<le> b" and "b \<le> 2 ^ 149"
  shows "axis_quant u (Fin c) (Fin a) \<le> axis_quant u (Fin c) (Fin b)"
proof -
  obtain a' b' where "addF (Fin a) (lit 1 1) = Fin a'" "addF (Fin b) (lit 1 1) = Fin b'"
    "0 \<le> a'" "a' \<le> b'" "b' \<le> 2 ^ 150"
    by (rule axis_shift [OF assms(4-6)])
  then show ?thesis
    using scaled_mono [OF assms(1-3), of a' b' u] by (simp add: axis_quant_def)
qed

lemma trigger_quantiser:
  assumes "0 \<le> c" and "mulF (Fin 0) (Fin c) = Fin 0" and "mulF (Fin (2 ^ 149)) (Fin c) = Fin (q * 2 ^ 149)"
    and "0 \<le> q"
  shows "quantiser clamp_trigger (trigger_quant u (Fin c)) 0 (2 ^ 149) q"
proof
  show "\<exists>k. clamp_trigger v = Fin k \<and> 0 \<le> k \<and> k \<le> 2 ^ 149" for v
    by (rule clamp_trigger_fin)
  show "fle v w \<Longrightarrow> fle (clamp_trigger v) (clamp_trigger w)" for v w
    by (rule clamp_trigger_mono)
  show "0 \<le> k \<Longrightarrow> k \<le> 2 ^ 149 \<Longrightarrow> clamp_trigger (Fin k) = Fin k" for k
    by (rule clamp_trigger_id)
  show "trigger_quant u (Fin c) (Fin a) \<le> trigger_quant u (Fin c) (Fin b)"
    if "0 \<le> a" "a \<le> b" "b \<le> 2 ^ 149" for a b
    unfolding trigger_quant_def using scaled_mono [OF assms(1-3) that] .
  show "trigger_quant u (Fin c) (Fin 0) = 0"
    unfolding trigger_quant_def assms(2) by (simp add: round_away_def)
  show "trigger_quant u (Fin c) (Fin (2 ^ 149)) = q"
    unfolding trigger_quant_def assms(3) using assms(4) by (simp add: round_away_mult)
qed

lemma axis_quantiser:
  assumes "0 \<le> c" and "mulF (Fin 0) (Fin c) = Fin 0" and "mulF (Fin (2 ^ 150)) (Fin c) = Fin (q * 2 ^ 149)"
    and "0 \<le> q"
  shows "quantiser clamp_axis (axis_quant u (Fin c)) (- (2 ^ 149)) (2 ^ 149) q"
proof
  have lo: "addF (Fin (- (2 ^ 149))) (Fin (2 ^ 149)) = Fin 0"
    and hi: "addF (Fin (2 ^ 149)) (Fin (2 ^ 149)) = Fin (2 ^ 150)"
    by code_simp+
  show "\<exists>k. clamp_axis v = Fin k \<and> - (2 ^ 149) \<le> k \<and> k \<le> 2 ^ 149" for v
    by (rule clamp_axis_fin)
  show "fle v w \<Longrightarrow> fle (clamp_axis v) (clamp_axis w)" for v w
    by (rule clamp_axis_mono)
  show "- (2 ^ 149) \<le> k \<Longrightarrow> k \<le> 2 ^ 149 \<Longrightarrow> clamp_axis (Fin k) = Fin k" for k
    by (rule clamp_axis_id)
  show "axis_quant u (Fin c) (Fin a) \<le> axis_quant u (Fin c) (Fin b)"
    if "- (2 ^ 149) \<le> a" "a \<le> b" "b \<le> 2 ^ 149" for a b
    using axis_quant_mono [OF assms(1-3) that] .
  show "axis_quant u (Fin c) (Fin (- (2 ^ 149))) = 0"
    unfolding axis_quant_def lit_simps lo assms(2) by (simp add: round_away_def)
  show "axis_quant u (Fin c) (Fin (2 ^ 149)) = q"
    unfolding axis_quant_def lit_simps hi assms(3) using assms(4) by (simp add: round_away_mult)
qed

interpretation trigger_u8: quantiser clamp_trigger "trigger_quant u (lit 255 1)" 0 "2 ^ 149" 255
  for u
  unfolding lit_simps by (rule trigger_quantiser) code_simp+

interpretation trigger_u10: quantiser clamp_trigger "trigger_quant u (lit 1023 1)" 0 "2 ^ 149" 1023
  for u
  unfolding lit_simps by (rule trigger_quantiser) code_simp+

interpretation axis_u8: quantiser clamp_axis "axis_quant u (lit 255 2)" "- (2 ^ 149)" "2 ^ 149" 255
  for u
  unfolding lit_simps by (rule axis_quantiser) code_simp+

interpretation axis_u16: quantiser clamp_axis "axis_quant u (lit 65535 2)" "- (2 ^ 149)" "2 ^ 149" 65535
  for u
  unfolding lit_simps by (rule axis_quantiser) code_simp+

interpretation axis_u12: quantiser clamp_axis "axis_quant u (lit 4095 2)" "- (2 ^ 149)" "2 ^ 149" 4095
  for u
  unfolding lit_simps by (rule axis_quantiser) code_simp+

text \<open>The fields of the report are the quantisers' integers: no cast loses a bit.\<close>

lemma uint_word_of_int_bounded:
  "0 \<le> k \<and> k < 2 ^ LENGTH('a) \<Longrightarrow> uint (word_of_int k :: 'a::len word) = k"
  by (simp add: unsigned_of_int take_bit_int_eq_self)

lemma uint_normalize_trigger: "uint (normalize_trigger u v) = trigger_u8.field u v"
  using trigger_u8.field_bounds [of u v]
  unfolding normalize_trigger_def trigger_u8.field_def trigger_quant_def
  by (intro uint_word_of_int_bounded) simp

lemma uint_normalize_u10_trigger: "uint (normalize_u10_trigger u v) = trigger_u10.field u v"
  using trigger_u10.field_bounds [of u v]
  unfolding normalize_u10_trigger_def trigger_u10.field_def trigger_quant_def
  by (intro uint_word_of_int_bounded) simp

lemma uint_normalize_u8_axis: "uint (normalize_u8_axis u v) = axis_u8.field u v"
  using axis_u8.field_bounds [of u v]
  unfolding normalize_u8_axis_def axis_u8.field_def axis_quant_def
  by (intro uint_word_of_int_bounded) simp

lemma uint_normalize_unsigned_axis: "uint (normalize_unsigned_axis u v) = axis_u16.field u v"
  using axis_u16.field_bounds [of u v]
  unfolding normalize_unsigned_axis_def axis_u16.field_def axis_quant_def
  by (intro uint_word_of_int_bounded) simp

lemma uint_normalize_switch_stick_axis:
  "uint (normalize_switch_stick_axis u v) = axis_u12.field u v"
  using axis_u12.field_bounds [of u v]
  unfolding normalize_switch_stick_axis_def axis_u12.field_def axis_quant_def
  by (intro uint_word_of_int_bounded) simp

lemma sint_word_of_int_i16: "-32768 \<le> k \<Longrightarrow> k \<le> 32767 \<Longrightarrow> sint (word_of_int k :: u16) = k"
  by (simp add: signed_of_int signed_take_bit_int_eq_self)

text \<open>The signed axis: its three branches meet at the right values, so the whole function
  is monotone and keeps the sign.\<close>

definition axis_i16 :: "(flt \<Rightarrow> int) \<Rightarrow> int \<Rightarrow> int" where
  "axis_i16 u k =
     (if k \<le> - (2 ^ 149) then -32768
      else if 2 ^ 149 \<le> k then 32767
      else if k < 0 then lroundF u (mulF (Fin k) (lit 32768 1))
      else lroundF u (mulF (Fin k) (lit 32767 1)))"

lemma normalize_axis_eq: "clamp_axis v = Fin k \<Longrightarrow> normalize_axis u v = word_of_int (axis_i16 u k)"
  by (simp add: normalize_axis_def axis_i16_def lit_simps Let_def del: fmul.simps lround.simps)

lemma axis_i16_negative:
  assumes "- (2 ^ 149) \<le> a" and "a \<le> b" and "b \<le> 0"
  shows "-32768 \<le> lroundF u (mulF (Fin a) (lit 32768 1))
    \<and> lroundF u (mulF (Fin a) (lit 32768 1)) \<le> lroundF u (mulF (Fin b) (lit 32768 1))
    \<and> lroundF u (mulF (Fin b) (lit 32768 1)) \<le> 0"
proof -
  have lo: "mulF (Fin (- (2 ^ 149))) (Fin (32768 * 2 ^ 149)) = Fin (-32768 * 2 ^ 149)"
    and hi: "mulF (Fin 0) (Fin (32768 * 2 ^ 149)) = Fin 0"
    by code_simp+
  have "lroundF u (Fin (-32768 * 2 ^ 149)) = -32768" "lroundF u (Fin 0) = 0"
    by code_simp+
  then show ?thesis
    unfolding lit_simps
    using scaled_mono [OF _ lo hi, of "- (2 ^ 149)" a u] scaled_mono [OF _ lo hi, of a b u]
      scaled_mono [OF _ lo hi, of b 0 u] assms
    unfolding lo hi by (simp del: fmul.simps lround.simps)
qed

lemma axis_i16_positive:
  assumes "0 \<le> a" and "a \<le> b" and "b \<le> 2 ^ 149"
  shows "0 \<le> lroundF u (mulF (Fin a) (lit 32767 1))
    \<and> lroundF u (mulF (Fin a) (lit 32767 1)) \<le> lroundF u (mulF (Fin b) (lit 32767 1))
    \<and> lroundF u (mulF (Fin b) (lit 32767 1)) \<le> 32767"
proof -
  have lo: "mulF (Fin 0) (Fin (32767 * 2 ^ 149)) = Fin 0"
    and hi: "mulF (Fin (2 ^ 149)) (Fin (32767 * 2 ^ 149)) = Fin (32767 * 2 ^ 149)"
    by code_simp+
  have "lroundF u (Fin (32767 * 2 ^ 149)) = 32767" "lroundF u (Fin 0) = 0"
    by code_simp+
  then show ?thesis
    unfolding lit_simps
    using scaled_mono [OF _ lo hi, of 0 a u] scaled_mono [OF _ lo hi, of a b u]
      scaled_mono [OF _ lo hi, of b "2 ^ 149" u] assms
    unfolding lo hi by (simp del: fmul.simps lround.simps)
qed

lemma axis_i16_bounds: "-32768 \<le> axis_i16 u k \<and> axis_i16 u k \<le> 32767"
  using axis_i16_negative [of k k u] axis_i16_positive [of k k u]
  unfolding axis_i16_def by (auto simp del: fmul.simps lround.simps)

lemma axis_i16_mono: "a \<le> b \<Longrightarrow> axis_i16 u a \<le> axis_i16 u b"
  using axis_i16_negative [of a b u] axis_i16_positive [of a b u]
    axis_i16_negative [of a 0 u] axis_i16_positive [of 0 b u]
    axis_i16_bounds [of u a] axis_i16_bounds [of u b]
  by (simp add: axis_i16_def del: fmul.simps lround.simps split: if_splits)

lemma sint_normalize_axis: "clamp_axis v = Fin k \<Longrightarrow> sint (normalize_axis u v) = axis_i16 u k"
  using axis_i16_bounds [of u k] by (simp add: normalize_axis_eq sint_word_of_int_i16)

lemma normalize_axis_mono:
  assumes "fle v w"
  shows "sint (normalize_axis u v) \<le> sint (normalize_axis u w)"
proof -
  obtain a b where "clamp_axis v = Fin a" "clamp_axis w = Fin b"
    using clamp_axis_fin by blast
  moreover from this have "a \<le> b"
    using clamp_axis_mono [OF assms] by simp
  ultimately show ?thesis
    by (simp add: sint_normalize_axis axis_i16_mono)
qed

section \<open>Normalisation is idempotent and removes every out-of-range scalar\<close>

lemma clamp_axis_idem [simp]: "clamp_axis (clamp_axis v) = clamp_axis v"
  using clamp_axis_fin [of v] by (auto simp: clamp_axis_id)

lemma clamp_trigger_idem [simp]: "clamp_trigger (clamp_trigger v) = clamp_trigger v"
  using clamp_trigger_fin [of v] by (auto simp: clamp_trigger_id)

lemma fclamp_idem: "lo \<le> hi \<Longrightarrow> fclamp (fclamp v (Fin lo) (Fin hi)) (Fin lo) (Fin hi) = fclamp v (Fin lo) (Fin hi)"
  by (cases v) (auto simp: fclamp_def)

lemma normalize_state_idem: "normalize_state (normalize_state s) = normalize_state s"
  by (cases "battery s")
     (simp_all add: normalize_state_def clamp_stick_def clamp_contact_def clamp_battery_def
       fclamp_idem lit_simps)

lemma buttons_normalize_state [simp]: "buttons (normalize_state s) = buttons s"
  by (simp add: normalize_state_def)

section \<open>The hat as a direction\<close>

text \<open>The compass direction a hat value stands for: clockwise from up in eighths, as
  (right, down); the neutral value is no direction.\<close>

definition hat_direction :: "u8 \<Rightarrow> int \<times> int" where
  "hat_direction h =
     (if h = 0 then (0, -1) else if h = 1 then (1, -1) else if h = 2 then (1, 0)
      else if h = 3 then (1, 1) else if h = 4 then (0, 1) else if h = 5 then (-1, 1)
      else if h = 6 then (-1, 0) else if h = 7 then (-1, -1) else (0, 0))"

definition dpad_vector :: "button_set \<Rightarrow> int \<times> int" where
  "dpad_vector bs =
     (of_bool (buttons_test bs Btn_dpad_right) - of_bool (buttons_test bs Btn_dpad_left),
      of_bool (buttons_test bs Btn_dpad_down) - of_bool (buttons_test bs Btn_dpad_up))"

lemma hat_from_buttons_vector: "hat_direction (hat_from_buttons bs) = dpad_vector bs"
  by (cases "buttons_test bs Btn_dpad_up"; cases "buttons_test bs Btn_dpad_down";
      cases "buttons_test bs Btn_dpad_left"; cases "buttons_test bs Btn_dpad_right")
     (simp_all add: hat_from_buttons_def hat_direction_def dpad_vector_def neutral_hat_def)

lemma hat_from_buttons_le: "hat_from_buttons bs \<le> 8"
  by (simp add: hat_from_buttons_def neutral_hat_def Let_def split: prod.split)

section \<open>Properties\<close>

text \<open>Every scalar of a report is a monotone function of its input: a larger trigger or
  stick value never gives a smaller field, in any of the six encodings, whatever rounding
  the \<open>float\<close> arithmetic makes on the way.\<close>

theorem normalized_fields_monotone:
  assumes "fle v w"
  shows "sint (normalize_axis u v) \<le> sint (normalize_axis u w)
    \<and> normalize_trigger u v \<le> normalize_trigger u w
    \<and> normalize_u10_trigger u v \<le> normalize_u10_trigger u w
    \<and> normalize_u8_axis u v \<le> normalize_u8_axis u w
    \<and> normalize_unsigned_axis u v \<le> normalize_unsigned_axis u w
    \<and> normalize_switch_stick_axis u v \<le> normalize_switch_stick_axis u w"
  using normalize_axis_mono [OF assms, of u] trigger_u8.field_mono [OF assms, of u]
    trigger_u10.field_mono [OF assms, of u] axis_u8.field_mono [OF assms, of u]
    axis_u16.field_mono [OF assms, of u] axis_u12.field_mono [OF assms, of u]
  by (simp add: word_le_def uint_normalize_trigger uint_normalize_u10_trigger
      uint_normalize_u8_axis uint_normalize_unsigned_axis uint_normalize_switch_stick_axis)

theorem normalized_fields_monotone_witness:
  "normalize_trigger (\<lambda>_. 7) (Fin 5) \<le> normalize_trigger (\<lambda>_. 7) PosInf"
  using normalized_fields_monotone [of "Fin 5" PosInf "\<lambda>_. 7"] by simp

text \<open>Values at or beyond the ends of the range give the ends of the field, infinities
  included, and no value leaves the twelve bits of a Switch stick or the ten of an Xbox
  trigger.\<close>

theorem normalized_fields_saturate:
  "(fle (lit 1 1) v \<longrightarrow> normalize_trigger u v = 255 \<and> normalize_u10_trigger u v = 1023
      \<and> normalize_u8_axis u v = 255 \<and> normalize_unsigned_axis u v = 65535
      \<and> normalize_switch_stick_axis u v = 4095)
   \<and> (fle v (lit (-1) 1) \<longrightarrow> normalize_trigger u v = 0 \<and> normalize_u10_trigger u v = 0
      \<and> normalize_u8_axis u v = 0 \<and> normalize_unsigned_axis u v = 0
      \<and> normalize_switch_stick_axis u v = 0)
   \<and> normalize_u10_trigger u v \<le> 1023 \<and> normalize_switch_stick_axis u v \<le> 4095"
proof -
  have w: "w = word_of_int k" if "uint w = k" for w :: "'a::len word" and k
    using that by auto
  have high: "normalize_trigger u v = 255 \<and> normalize_u10_trigger u v = 1023
      \<and> normalize_u8_axis u v = 255 \<and> normalize_unsigned_axis u v = 65535
      \<and> normalize_switch_stick_axis u v = 4095" if "fle (lit 1 1) v"
    using that [unfolded lit_simps] w [OF uint_normalize_trigger [of u v]]
      w [OF uint_normalize_u10_trigger [of u v]] w [OF uint_normalize_u8_axis [of u v]]
      w [OF uint_normalize_unsigned_axis [of u v]] w [OF uint_normalize_switch_stick_axis [of u v]]
    by (simp add: trigger_u8.field_saturates_high trigger_u10.field_saturates_high
        axis_u8.field_saturates_high axis_u16.field_saturates_high axis_u12.field_saturates_high)
  have low: "normalize_trigger u v = 0 \<and> normalize_u10_trigger u v = 0
      \<and> normalize_u8_axis u v = 0 \<and> normalize_unsigned_axis u v = 0
      \<and> normalize_switch_stick_axis u v = 0" if "fle v (lit (-1) 1)"
  proof -
    have a: "fle v (Fin (- (2 ^ 149)))"
      using that by (simp only: lit_simps)
    have t: "fle v (Fin 0)"
      by (rule fle_trans [OF a]) simp
    show ?thesis
      using w [OF uint_normalize_trigger [of u v]]
        w [OF uint_normalize_u10_trigger [of u v]] w [OF uint_normalize_u8_axis [of u v]]
        w [OF uint_normalize_unsigned_axis [of u v]] w [OF uint_normalize_switch_stick_axis [of u v]]
      by (simp add: trigger_u8.field_saturates_low [OF t] trigger_u10.field_saturates_low [OF t]
          axis_u8.field_saturates_low [OF a] axis_u16.field_saturates_low [OF a]
          axis_u12.field_saturates_low [OF a])
  qed
  have "normalize_u10_trigger u v \<le> 1023" "normalize_switch_stick_axis u v \<le> 4095"
    using trigger_u10.field_bounds [of u v] axis_u12.field_bounds [of u v]
    by (simp_all add: word_le_def uint_normalize_u10_trigger uint_normalize_switch_stick_axis)
  then show ?thesis
    using high low by blast
qed

theorem normalized_fields_saturate_witness: "normalize_u8_axis (\<lambda>_. 7) PosInf = 255"
proof -
  have "fle (lit 1 1) PosInf"
    by code_simp
  then show ?thesis
    using normalized_fields_saturate [of PosInf "\<lambda>_. 7"] by blast
qed

text \<open>Normalising a state twice is normalising it once: adapters and packers may both do
  it.\<close>

theorem normalize_state_idempotent: "normalize_state (normalize_state s) = normalize_state s"
  by (rule normalize_state_idem)

text \<open>The hat nibble is the direction the pressed D-pad buttons add up to: opposite
  buttons cancel and every other combination names its eighth of the circle.\<close>

theorem hat_is_dpad_direction:
  "hat_direction (hat_from_buttons bs) = dpad_vector bs \<and> hat_from_buttons bs \<le> 8"
  using hat_from_buttons_vector hat_from_buttons_le by simp

end
