(* ===== verification/Pack.thy ===== *)
theory Pack
  imports Normalize
begin

text \<open>
  Input report packing: the \<open>pack_\<close> functions of \<open>src/src/core/report.cpp\<close>. A report is
  built by checked writes into a zeroed buffer, in the order of the source; the long
  functions of the source are cut into the stages its blank lines separate. What the
  functions read from outside is explicit: the environment (clocks and the value of
  \<open>std::lround\<close> on a NaN or infinity) is an argument, the two static atomic counters are
  a state that is passed through and returned.
\<close>

record env =
  lround_err :: "flt \<Rightarrow> int"
  powf :: "flt \<Rightarrow> flt \<Rightarrow> flt"
  ds4_elapsed_us :: int
  ds_elapsed_ns :: int

record counters =
  sequence_number :: u32
  packet_timer :: u32

section \<open>Static counters and clocks\<close>

definition dualsense_sequence_number :: "counters \<Rightarrow> u8 \<times> counters" where
  "dualsense_sequence_number c =
     (let n = sequence_number c
      in (ucast ((n + 1) mod 255), c\<lparr>sequence_number := n + 1\<rparr>))"

definition next_switch_pro_packet_timer :: "counters \<Rightarrow> u8 \<times> counters" where
  "next_switch_pro_packet_timer c =
     (let n = packet_timer c in (ucast n, c\<lparr>packet_timer := n + 1\<rparr>))"

definition dualshock4_sensor_timestamp :: "env \<Rightarrow> u16" where
  "dualshock4_sensor_timestamp e = ucast (((word_of_int (ds4_elapsed_us e) :: u64) * 3) div 16)"

definition dualsense_sensor_timestamp :: "env \<Rightarrow> u32" where
  "dualsense_sensor_timestamp e = ucast ((word_of_int (ds_elapsed_ns e) :: u64) div 333)"

section \<open>Button maps\<close>

definition face_shoulder_button_map :: "(nat \<times> gamepad_button) list" where
  "face_shoulder_button_map =
     [(0, Btn_a), (1, Btn_b), (2, Btn_x), (3, Btn_y), (4, Btn_left_shoulder),
      (5, Btn_right_shoulder)]"

definition common_menu_button_map :: "(nat \<times> gamepad_button) list" where
  "common_menu_button_map =
     [(6, Btn_back), (7, Btn_start), (8, Btn_left_stick), (9, Btn_right_stick)]"

definition common_extra_button_map :: "(nat \<times> gamepad_button) list" where
  "common_extra_button_map = [(10, Btn_guide), (11, Btn_misc1)]"

definition standard_dpad_button_map :: "(nat \<times> gamepad_button) list" where
  "standard_dpad_button_map =
     [(12, Btn_dpad_up), (13, Btn_dpad_down), (14, Btn_dpad_left), (15, Btn_dpad_right)]"

definition xbox_extra_button_map :: "(nat \<times> gamepad_button) list" where
  "xbox_extra_button_map = [(11, Btn_misc1)]"

definition button_bits :: "(nat \<times> gamepad_button) list \<Rightarrow> button_set \<Rightarrow> u16" where
  "button_bits button_map bs =
     fold (\<lambda>(i, b) bits. if buttons_test bs b then bits OR push_bit i 1 else bits) button_map 0"

definition common_button_bits :: "button_set \<Rightarrow> u16" where
  "common_button_bits bs =
     button_bits face_shoulder_button_map bs OR button_bits common_menu_button_map bs
       OR button_bits common_extra_button_map bs"

definition standard_gamepad_button_bits :: "button_set \<Rightarrow> u16" where
  "standard_gamepad_button_bits bs =
     common_button_bits bs OR button_bits standard_dpad_button_map bs"

definition xbox_gip_button_bits :: "button_set \<Rightarrow> u16" where
  "xbox_gip_button_bits bs =
     button_bits face_shoulder_button_map bs OR button_bits common_menu_button_map bs
       OR button_bits xbox_extra_button_map bs"

section \<open>Field writers\<close>

text \<open>\<open>if (condition) add_flag(report, offset, flag)\<close>.\<close>

definition flag_if :: "bool \<Rightarrow> nat \<Rightarrow> u8 \<Rightarrow> bytes \<Rightarrow> bytes option" where
  "flag_if c off flag report = (if c then add_flag report off flag else Some report)"

definition touch_coordinate :: "(flt \<Rightarrow> int) \<Rightarrow> flt \<Rightarrow> flt \<Rightarrow> u16" where
  "touch_coordinate u v extent =
     word_of_int (lroundF u (mulF (fclamp v (lit 0 1) (lit 1 1)) extent))"

definition write_touch_contact ::
  "bytes \<Rightarrow> nat \<Rightarrow> gamepad_touch_contact \<Rightarrow> u16 \<Rightarrow> u16 \<Rightarrow> bytes option" where
  "write_touch_contact report off contact x y = do {
     r \<leftarrow> put report off ((contact_id contact AND 0x7F) OR (if active contact then 0 else 0x80));
     r \<leftarrow> put r (off + 1) (low_byte (ucast x));
     r \<leftarrow> put r (off + 2) (low_byte ((drop_bit 8 (ucast x) AND 0x0F) OR push_bit 4 (ucast y AND 0x0F)));
     put r (off + 3) (low_byte (drop_bit 4 (ucast y))) }"

definition write_dualsense_touch_contact ::
  "(flt \<Rightarrow> int) \<Rightarrow> bytes \<Rightarrow> nat \<Rightarrow> gamepad_touch_contact \<Rightarrow> bytes option" where
  "write_dualsense_touch_contact u report off contact =
     (let x = touch_coordinate u (cx contact) (lit 1919 1);
          y = touch_coordinate u (cy contact) (lit 1079 1)
      in write_touch_contact report off contact x y)"

definition write_dualshock4_touch_contact ::
  "(flt \<Rightarrow> int) \<Rightarrow> bytes \<Rightarrow> nat \<Rightarrow> gamepad_touch_contact \<Rightarrow> bytes option" where
  "write_dualshock4_touch_contact u report off contact =
     (let x = touch_coordinate u (cx contact) (lit 1919 1);
          y = touch_coordinate u (cy contact) (lit 941 1)
      in write_touch_contact report off contact x y)"

definition write_switch_stick :: "bytes \<Rightarrow> nat \<Rightarrow> u16 \<Rightarrow> u16 \<Rightarrow> bytes option" where
  "write_switch_stick report off x y = do {
     r \<leftarrow> put report off (ucast (x AND 0xFF));
     r \<leftarrow> put r (off + 1) (ucast ((drop_bit 8 x AND 0x0F) OR push_bit 4 (y AND 0x0F)));
     put r (off + 2) (ucast (drop_bit 4 y AND 0xFF)) }"

definition standard_gravity :: flt where "standard_gravity = lit 980665 100000"

definition switch_acceleration_scale :: flt where
  "switch_acceleration_scale = divF (lit 4096 1) (lit 980665 100000)"

definition switch_gyroscope_scale :: flt where
  "switch_gyroscope_scale = lit 142842 10000"

definition dualsense_acceleration_scale :: flt where
  "dualsense_acceleration_scale = mulF (lit 980665 100000) (lit 100 1)"

definition dualsense_gyroscope_scale :: flt where
  "dualsense_gyroscope_scale =
     divF (mulF (lit 1145 1) (lit 3141592653589793 1000000000000000)) (lit 180 1)"

definition dualshock4_acceleration_scale :: flt where
  "dualshock4_acceleration_scale = divF (lit 10000 1) (lit 980665 100000)"

definition write_vector ::
  "(flt \<Rightarrow> int) \<Rightarrow> bytes \<Rightarrow> nat \<Rightarrow> vector3 \<Rightarrow> flt \<Rightarrow> bytes option" where
  "write_vector u report off v multiplier = do {
     r \<leftarrow> write_i16 report off (scale_i16 u (vx v) multiplier);
     r \<leftarrow> write_i16 r (off + 2) (scale_i16 u (vy v) multiplier);
     write_i16 r (off + 4) (scale_i16 u (vz v) multiplier) }"

definition write_switch_imu_sample ::
  "(flt \<Rightarrow> int) \<Rightarrow> bytes \<Rightarrow> nat \<Rightarrow> vector3 \<Rightarrow> vector3 \<Rightarrow> bytes option" where
  "write_switch_imu_sample u report off acc gyro = do {
     r \<leftarrow> write_i16 report off (scale_i16 u (fneg (vz acc)) switch_acceleration_scale);
     r \<leftarrow> write_i16 r (off + 2) (scale_i16 u (fneg (vx acc)) switch_acceleration_scale);
     r \<leftarrow> write_i16 r (off + 4) (scale_i16 u (vy acc) switch_acceleration_scale);
     r \<leftarrow> write_i16 r (off + 6) (scale_i16 u (fneg (vz gyro)) switch_gyroscope_scale);
     r \<leftarrow> write_i16 r (off + 8) (scale_i16 u (fneg (vx gyro)) switch_gyroscope_scale);
     write_i16 r (off + 10) (scale_i16 u (vy gyro) switch_gyroscope_scale) }"

section \<open>DualShock 4\<close>

definition is_bluetooth :: "device_profile \<Rightarrow> bool" where
  "is_bluetooth p \<longleftrightarrow> bus_type p = Bus_bluetooth"

definition write_u8_sticks ::
  "(flt \<Rightarrow> int) \<Rightarrow> gamepad_state \<Rightarrow> nat \<Rightarrow> bytes \<Rightarrow> bytes option" where
  "write_u8_sticks u s off report = do {
     r \<leftarrow> put report (off + 0) (normalize_u8_axis u (sx (left_stick s)));
     r \<leftarrow> put r (off + 1) (normalize_u8_axis u (fneg (sy (left_stick s))));
     r \<leftarrow> put r (off + 2) (normalize_u8_axis u (sx (right_stick s)));
     put r (off + 3) (normalize_u8_axis u (fneg (sy (right_stick s)))) }"

text \<open>The hat and button bytes of both PlayStation reports, at \<open>off\<close>, \<open>off + 1\<close>,
  \<open>off + 2\<close>.\<close>

definition write_playstation_buttons :: "gamepad_state \<Rightarrow> nat \<Rightarrow> bytes \<Rightarrow> bytes option" where
  "write_playstation_buttons s off report = do {
     let pressed = buttons_test (buttons s);
     r \<leftarrow> put report off (hat_from_buttons (buttons s));
     r \<leftarrow> flag_if (pressed Btn_x) off 0x10 r;
     r \<leftarrow> flag_if (pressed Btn_a) off 0x20 r;
     r \<leftarrow> flag_if (pressed Btn_b) off 0x40 r;
     r \<leftarrow> flag_if (pressed Btn_y) off 0x80 r;
     r \<leftarrow> flag_if (pressed Btn_left_shoulder) (off + 1) 0x01 r;
     r \<leftarrow> flag_if (pressed Btn_right_shoulder) (off + 1) 0x02 r;
     r \<leftarrow> flag_if (fless (lit 0 1) (left_trigger s)) (off + 1) 0x04 r;
     r \<leftarrow> flag_if (fless (lit 0 1) (right_trigger s)) (off + 1) 0x08 r;
     r \<leftarrow> flag_if (pressed Btn_back) (off + 1) 0x10 r;
     r \<leftarrow> flag_if (pressed Btn_start) (off + 1) 0x20 r;
     r \<leftarrow> flag_if (pressed Btn_left_stick) (off + 1) 0x40 r;
     r \<leftarrow> flag_if (pressed Btn_right_stick) (off + 1) 0x80 r;
     r \<leftarrow> flag_if (pressed Btn_guide) (off + 2) 0x01 r;
     flag_if (pressed Btn_touchpad) (off + 2) 0x02 r }"

definition pack_dualshock4_input_report ::
  "env \<Rightarrow> device_profile \<Rightarrow> gamepad_state \<Rightarrow> bytes option" where
  "pack_dualshock4_input_report e p state =
     (let bt = is_bluetooth p; po = (if bt then 3 else 1);
          minimum = (if bt then 78 else 64); u = lround_err e in
      if input_report_size p < minimum then Some []
      else do {
        let s = normalize_state state;
        let acc = (case acceleration s of Some v \<Rightarrow> v
                   | None \<Rightarrow> \<lparr>vx = lit 0 1, vy = standard_gravity, vz = lit 0 1\<rparr>);
        let gyro = (case gyroscope s of Some v \<Rightarrow> v | None \<Rightarrow> default_vector3);
        let bat = (case battery s of Some b \<Rightarrow> b
                   | None \<Rightarrow> \<lparr>battery_state = Batt_full, percentage = 100\<rparr>);
        r \<leftarrow> put (replicate (input_report_size p) 0) 0 (if bt then 0x11 else report_id p);
        r \<leftarrow> (if bt then put r 1 0x80 else Some r);
        r \<leftarrow> write_u8_sticks u s po r;
        r \<leftarrow> write_playstation_buttons s (po + 4) r;
        r \<leftarrow> put r (po + 7) (normalize_trigger u (left_trigger s));
        r \<leftarrow> put r (po + 8) (normalize_trigger u (right_trigger s));
        r \<leftarrow> write_u16 r (po + 9) (dualshock4_sensor_timestamp e);
        r \<leftarrow> put r (po + 11) (dualshock4_battery_level u bat);
        r \<leftarrow> write_vector u r (po + 12) gyro (lit 20 1);
        r \<leftarrow> write_vector u r (po + 18) acc dualshock4_acceleration_scale;
        r \<leftarrow> put r (po + 29) (dualshock4_battery_status u bat);
        r \<leftarrow> put r (po + 32) 0x01;
        r \<leftarrow> write_dualshock4_touch_contact u r (po + 33 + 1) (contact0 s);
        r \<leftarrow> write_dualshock4_touch_contact u r (po + 33 + 5) (contact1 s);
        (if bt then write_playstation_crc r playstation_input_crc_seed else Some r) })"

section \<open>DualSense\<close>

definition pack_dualsense_input_report ::
  "env \<Rightarrow> counters \<Rightarrow> device_profile \<Rightarrow> gamepad_state \<Rightarrow> (bytes \<times> counters) option" where
  "pack_dualsense_input_report e c p state =
     (let bt = is_bluetooth p; po = (if bt then 2 else 1);
          minimum = (if bt then 78 else 64); u = lround_err e in
      if input_report_size p < minimum then Some ([], c)
      else do {
        let s = normalize_state state;
        r \<leftarrow> put (replicate (input_report_size p) 0) 0 (if bt then 0x31 else report_id p);
        r \<leftarrow> (if bt then put r 1 0x00 else Some r);
        r \<leftarrow> write_u8_sticks u s po r;
        r \<leftarrow> put r (po + 4) (normalize_trigger u (left_trigger s));
        r \<leftarrow> put r (po + 5) (normalize_trigger u (right_trigger s));
        let (n, c) = dualsense_sequence_number c;
        r \<leftarrow> put r (po + 6) n;
        r \<leftarrow> write_playstation_buttons s (po + 7) r;
        r \<leftarrow> flag_if (buttons_test (buttons s) Btn_misc1) (po + 9) 0x04 r;
        r \<leftarrow> (case gyroscope s of None \<Rightarrow> Some r
              | Some g \<Rightarrow> write_vector u r (po + 15) g dualsense_gyroscope_scale);
        r \<leftarrow> (case acceleration s of None \<Rightarrow> Some r
              | Some a \<Rightarrow> write_vector u r (po + 21) a dualsense_acceleration_scale);
        r \<leftarrow> write_u32 r (po + 27) (dualsense_sensor_timestamp e);
        r \<leftarrow> write_dualsense_touch_contact u r (po + 32) (contact0 s);
        r \<leftarrow> write_dualsense_touch_contact u r (po + 36) (contact1 s);
        let bat = (case battery s of Some b \<Rightarrow> b
                   | None \<Rightarrow> \<lparr>battery_state = Batt_full, percentage = 100\<rparr>);
        r \<leftarrow> put r (po + 52) (percentage_tenths u (percentage bat)
               OR push_bit 4 (dualsense_battery_state (battery_state bat)));
        r \<leftarrow> put r (po + 53) 0x0C;
        r \<leftarrow> (if bt then write_playstation_crc r playstation_input_crc_seed else Some r);
        Some (r, c) })"

section \<open>Xbox, generic and Switch Pro\<close>

definition pack_xbox_gip_input_report ::
  "env \<Rightarrow> device_profile \<Rightarrow> gamepad_state \<Rightarrow> bytes option" where
  "pack_xbox_gip_input_report e p state =
     (let u = lround_err e in
      if input_report_size p < 17 then Some []
      else do {
        let s = normalize_state state;
        r \<leftarrow> write_u16 (replicate (input_report_size p) 0) 0
               (normalize_unsigned_axis u (sx (left_stick s)));
        r \<leftarrow> write_u16 r 2 (normalize_unsigned_axis u (fneg (sy (left_stick s))));
        r \<leftarrow> write_u16 r 4 (normalize_unsigned_axis u (sx (right_stick s)));
        r \<leftarrow> write_u16 r 6 (normalize_unsigned_axis u (fneg (sy (right_stick s))));
        r \<leftarrow> write_u16 r 8 (normalize_u10_trigger u (left_trigger s));
        r \<leftarrow> write_u16 r 10 (normalize_u10_trigger u (right_trigger s));
        r \<leftarrow> write_u16 r 12 (xbox_gip_button_bits (buttons s));
        r \<leftarrow> put r 14 (xbox_gip_hat_from_buttons (buttons s));
        r \<leftarrow> (if buttons_test (buttons s) Btn_guide then put r 15 0x01 else Some r);
        put r 16 (battery_strength u (battery s)) })"

definition pack_standard_gamepad_input_report ::
  "env \<Rightarrow> device_profile \<Rightarrow> gamepad_state \<Rightarrow> bytes" where
  "pack_standard_gamepad_input_report e p state =
     (let u = lround_err e in
      if input_report_size p < 9 then []
      else let s = normalize_state state;
               report = append_u16 [report_id p] (standard_gamepad_button_bits (buttons s))
                 @ [normalize_u8_axis u (sx (left_stick s)),
                    normalize_u8_axis u (fneg (sy (left_stick s))),
                    normalize_u8_axis u (sx (right_stick s)),
                    normalize_u8_axis u (fneg (sy (right_stick s))),
                    normalize_trigger u (left_trigger s),
                    normalize_trigger u (right_trigger s)]
           in resize report (input_report_size p) 0)"

definition write_switch_buttons :: "gamepad_state \<Rightarrow> bytes \<Rightarrow> bytes option" where
  "write_switch_buttons s report = do {
     let pressed = buttons_test (buttons s);
     r \<leftarrow> flag_if (pressed Btn_x) 3 0x02 report;
     r \<leftarrow> flag_if (pressed Btn_y) 3 0x01 r;
     r \<leftarrow> flag_if (pressed Btn_a) 3 0x08 r;
     r \<leftarrow> flag_if (pressed Btn_b) 3 0x04 r;
     r \<leftarrow> flag_if (pressed Btn_right_shoulder) 3 0x40 r;
     r \<leftarrow> flag_if (fless (lit 0 1) (right_trigger s)) 3 0x80 r;
     r \<leftarrow> flag_if (pressed Btn_back) 4 0x01 r;
     r \<leftarrow> flag_if (pressed Btn_start) 4 0x02 r;
     r \<leftarrow> flag_if (pressed Btn_right_stick) 4 0x04 r;
     r \<leftarrow> flag_if (pressed Btn_left_stick) 4 0x08 r;
     r \<leftarrow> flag_if (pressed Btn_guide) 4 0x10 r;
     r \<leftarrow> flag_if (pressed Btn_misc1) 4 0x20 r;
     r \<leftarrow> flag_if (pressed Btn_dpad_down) 5 0x01 r;
     r \<leftarrow> flag_if (pressed Btn_dpad_up) 5 0x02 r;
     r \<leftarrow> flag_if (pressed Btn_dpad_right) 5 0x04 r;
     r \<leftarrow> flag_if (pressed Btn_dpad_left) 5 0x08 r;
     r \<leftarrow> flag_if (pressed Btn_left_shoulder) 5 0x40 r;
     flag_if (fless (lit 0 1) (left_trigger s)) 5 0x80 r }"

definition pack_switch_pro_input_report ::
  "env \<Rightarrow> counters \<Rightarrow> device_profile \<Rightarrow> gamepad_state \<Rightarrow> (bytes \<times> counters) option" where
  "pack_switch_pro_input_report e c p state =
     (let u = lround_err e in
      if input_report_size p < 64 then Some ([], c)
      else do {
        let s = normalize_state state;
        r \<leftarrow> put (replicate (input_report_size p) 0) 0 (report_id p);
        let (t, c) = next_switch_pro_packet_timer c;
        r \<leftarrow> put r 1 t;
        r \<leftarrow> put r 2 (switch_battery_and_connection u (battery s));
        r \<leftarrow> write_switch_buttons s r;
        r \<leftarrow> write_switch_stick r 6 (normalize_switch_stick_axis u (sx (left_stick s)))
               (normalize_switch_stick_axis u (sy (left_stick s)));
        r \<leftarrow> write_switch_stick r 9 (normalize_switch_stick_axis u (sx (right_stick s)))
               (normalize_switch_stick_axis u (sy (right_stick s)));
        let acc = (case acceleration s of Some v \<Rightarrow> v
                   | None \<Rightarrow> \<lparr>vx = Fin 0, vy = standard_gravity, vz = Fin 0\<rparr>);
        let gyro = (case gyroscope s of Some v \<Rightarrow> v | None \<Rightarrow> default_vector3);
        r \<leftarrow> write_switch_imu_sample u r 13 acc gyro;
        r \<leftarrow> write_switch_imu_sample u r 25 acc gyro;
        r \<leftarrow> write_switch_imu_sample u r 37 acc gyro;
        Some (r, c) })"

section \<open>Dispatch on the profile\<close>

definition pack_common_input_report ::
  "env \<Rightarrow> device_profile \<Rightarrow> gamepad_state \<Rightarrow> bytes" where
  "pack_common_input_report e p state =
     (let u = lround_err e in
      if device_type p \<noteq> Dev_gamepad \<or> input_report_size p < 9 then []
      else let s = normalize_state state;
               report = append_u16 [report_id p] (common_button_bits (buttons s) OR dpad_hat_bits (buttons s))
                 @ [normalize_u8_axis u (sx (left_stick s)),
                    normalize_u8_axis u (fneg (sy (left_stick s))),
                    normalize_trigger u (left_trigger s),
                    normalize_u8_axis u (sx (right_stick s)),
                    normalize_u8_axis u (fneg (sy (right_stick s))),
                    normalize_trigger u (right_trigger s)]
           in resize report (input_report_size p) 0)"

definition pack_input_report ::
  "env \<Rightarrow> counters \<Rightarrow> device_profile \<Rightarrow> gamepad_state \<Rightarrow> (bytes \<times> counters) option" where
  "pack_input_report e c p state =
     (if device_type p = Dev_gamepad then
        (case gamepad_kind p of
           Kind_xbox_one \<Rightarrow> map_option (\<lambda>r. (r, c)) (pack_xbox_gip_input_report e p state)
         | Kind_xbox_series \<Rightarrow> map_option (\<lambda>r. (r, c)) (pack_xbox_gip_input_report e p state)
         | Kind_dualshock4 \<Rightarrow> map_option (\<lambda>r. (r, c)) (pack_dualshock4_input_report e p state)
         | Kind_dualsense \<Rightarrow> pack_dualsense_input_report e c p state
         | Kind_switch_pro \<Rightarrow> pack_switch_pro_input_report e c p state
         | Kind_generic \<Rightarrow> Some (pack_standard_gamepad_input_report e p state, c)
         | Kind_xbox_360 \<Rightarrow> Some (pack_common_input_report e p state, c))
      else Some (pack_common_input_report e p state, c))"

section \<open>Every write is inside the buffer\<close>

lemma keeps_flag_if [keeps_intros]:
  "length r = n \<Longrightarrow> i < n \<Longrightarrow> keeps n (flag_if c i f r)"
  by (simp add: flag_if_def keeps_add_flag keeps_Some)

lemma keeps_let [keeps_intros]: "keeps n (f x) \<Longrightarrow> keeps n (Let x f)"
  by simp

lemma keeps_write_touch_contact [keeps_intros]:
  "length r = n \<Longrightarrow> i + 3 < n \<Longrightarrow> keeps n (write_touch_contact r i t x y)"
  unfolding write_touch_contact_def by (intro keeps_intros) auto

lemma keeps_write_dualsense_touch_contact [keeps_intros]:
  "length r = n \<Longrightarrow> i + 3 < n \<Longrightarrow> keeps n (write_dualsense_touch_contact u r i t)"
  unfolding write_dualsense_touch_contact_def Let_def by (intro keeps_write_touch_contact) auto

lemma keeps_write_dualshock4_touch_contact [keeps_intros]:
  "length r = n \<Longrightarrow> i + 3 < n \<Longrightarrow> keeps n (write_dualshock4_touch_contact u r i t)"
  unfolding write_dualshock4_touch_contact_def Let_def by (intro keeps_write_touch_contact) auto

lemma keeps_write_switch_stick [keeps_intros]:
  "length r = n \<Longrightarrow> i + 2 < n \<Longrightarrow> keeps n (write_switch_stick r i x y)"
  unfolding write_switch_stick_def by (intro keeps_intros) auto

lemma keeps_write_vector [keeps_intros]:
  "length r = n \<Longrightarrow> i + 5 < n \<Longrightarrow> keeps n (write_vector u r i v m)"
  unfolding write_vector_def by (intro keeps_intros) auto

lemma keeps_write_switch_imu_sample [keeps_intros]:
  "length r = n \<Longrightarrow> i + 11 < n \<Longrightarrow> keeps n (write_switch_imu_sample u r i a g)"
  unfolding write_switch_imu_sample_def by (intro keeps_intros) auto

lemma keeps_write_u8_sticks [keeps_intros]:
  "length r = n \<Longrightarrow> i + 3 < n \<Longrightarrow> keeps n (write_u8_sticks u s i r)"
  unfolding write_u8_sticks_def by (intro keeps_intros) auto

lemma keeps_write_playstation_buttons [keeps_intros]:
  "length r = n \<Longrightarrow> i + 2 < n \<Longrightarrow> keeps n (write_playstation_buttons s i r)"
  unfolding write_playstation_buttons_def Let_def by (intro keeps_intros) auto

lemma keeps_write_switch_buttons [keeps_intros]:
  "length r = n \<Longrightarrow> 5 < n \<Longrightarrow> keeps n (write_switch_buttons s r)"
  unfolding write_switch_buttons_def Let_def by (intro keeps_intros) auto

lemma pack_dualshock4_keeps:
  "(if is_bluetooth p then 78 else 64) \<le> input_report_size p \<Longrightarrow>
     keeps (input_report_size p) (pack_dualshock4_input_report e p s)"
  unfolding pack_dualshock4_input_report_def Let_def
  by (cases "is_bluetooth p") (simp_all, (intro keeps_intros; simp)+)

lemma pack_xbox_gip_keeps:
  "17 \<le> input_report_size p \<Longrightarrow> keeps (input_report_size p) (pack_xbox_gip_input_report e p s)"
  unfolding pack_xbox_gip_input_report_def Let_def
  by simp (intro keeps_intros; simp)

lemma pack_dualsense_keeps:
  "(if is_bluetooth p then 78 else 64) \<le> input_report_size p \<Longrightarrow>
     keeps_fst (input_report_size p) (pack_dualsense_input_report e c p s)"
  unfolding pack_dualsense_input_report_def Let_def dualsense_sequence_number_def
  by (cases "is_bluetooth p")
     (simp_all, (intro keeps_intros; simp split: option.split add: keeps_intros)+)

lemma pack_switch_pro_keeps:
  "64 \<le> input_report_size p \<Longrightarrow>
     keeps_fst (input_report_size p) (pack_switch_pro_input_report e c p s)"
  unfolding pack_switch_pro_input_report_def Let_def next_switch_pro_packet_timer_def
  by simp (intro keeps_intros; simp)

text \<open>The size below which a profile's packer gives up, and its result otherwise.\<close>

definition minimum_report_size :: "device_profile \<Rightarrow> nat" where
  "minimum_report_size p =
     (case gamepad_kind p of
        Kind_xbox_one \<Rightarrow> 17 | Kind_xbox_series \<Rightarrow> 17
      | Kind_dualshock4 \<Rightarrow> (if is_bluetooth p then 78 else 64)
      | Kind_dualsense \<Rightarrow> (if is_bluetooth p then 78 else 64)
      | Kind_switch_pro \<Rightarrow> 64 | Kind_generic \<Rightarrow> 9 | Kind_xbox_360 \<Rightarrow> 9)"

lemma pack_input_report_small:
  assumes "device_type p \<noteq> Dev_gamepad \<or> input_report_size p < minimum_report_size p"
  shows "pack_input_report e c p s = Some ([], c)"
  using assms
  by (cases "gamepad_kind p")
     (auto simp: pack_input_report_def minimum_report_size_def Let_def
       pack_xbox_gip_input_report_def pack_dualshock4_input_report_def
       pack_dualsense_input_report_def pack_switch_pro_input_report_def
       pack_standard_gamepad_input_report_def pack_common_input_report_def)

lemma pack_input_report_keeps:
  assumes "device_type p = Dev_gamepad" and "minimum_report_size p \<le> input_report_size p"
  shows "keeps_fst (input_report_size p) (pack_input_report e c p s)"
  using assms
  by (cases "gamepad_kind p")
     (simp_all add: pack_input_report_def minimum_report_size_def keeps_intros
       pack_xbox_gip_keeps pack_dualshock4_keeps pack_dualsense_keeps pack_switch_pro_keeps
       pack_standard_gamepad_input_report_def pack_common_input_report_def Let_def)

section \<open>Contents\<close>

lemma flag_if_ok [buffer_simps]:
  "i < length r \<Longrightarrow> flag_if c i f r = Some (r[i := r ! i OR (if c then f else 0)])"
  by (simp add: flag_if_def add_flag_ok)

lemma write_touch_contact_ok [buffer_simps]:
  "i + 3 < length r \<Longrightarrow> write_touch_contact r i t x y =
     Some (r[i := (contact_id t AND 0x7F) OR (if active t then 0 else 0x80),
             i + 1 := low_byte (ucast x),
             i + 2 := low_byte ((drop_bit 8 (ucast x) AND 0x0F) OR push_bit 4 (ucast y AND 0x0F)),
             i + 3 := low_byte (drop_bit 4 (ucast y))])"
  by (simp add: write_touch_contact_def)

definition playstation_face_byte :: "gamepad_state \<Rightarrow> u8" where
  "playstation_face_byte s =
     (let pressed = buttons_test (buttons s) in
      hat_from_buttons (buttons s) OR (if pressed Btn_x then 0x10 else 0)
        OR (if pressed Btn_a then 0x20 else 0) OR (if pressed Btn_b then 0x40 else 0)
        OR (if pressed Btn_y then 0x80 else 0))"

definition playstation_menu_byte :: "gamepad_state \<Rightarrow> u8" where
  "playstation_menu_byte s =
     (let pressed = buttons_test (buttons s) in
      (if pressed Btn_left_shoulder then 0x01 else 0)
        OR (if pressed Btn_right_shoulder then 0x02 else 0)
        OR (if fless (lit 0 1) (left_trigger s) then 0x04 else 0)
        OR (if fless (lit 0 1) (right_trigger s) then 0x08 else 0)
        OR (if pressed Btn_back then 0x10 else 0) OR (if pressed Btn_start then 0x20 else 0)
        OR (if pressed Btn_left_stick then 0x40 else 0)
        OR (if pressed Btn_right_stick then 0x80 else 0))"

definition playstation_guide_byte :: "gamepad_state \<Rightarrow> u8" where
  "playstation_guide_byte s =
     (let pressed = buttons_test (buttons s) in
      (if pressed Btn_guide then 0x01 else 0) OR (if pressed Btn_touchpad then 0x02 else 0))"

lemma write_playstation_buttons_ok [buffer_simps]:
  "i + 2 < length r \<Longrightarrow> write_playstation_buttons s i r =
     Some (r[i := playstation_face_byte s, i + 1 := r ! (i + 1) OR playstation_menu_byte s,
             i + 2 := r ! (i + 2) OR playstation_guide_byte s])"
  unfolding write_playstation_buttons_def playstation_face_byte_def playstation_menu_byte_def
    playstation_guide_byte_def Let_def
  by (simp add: flag_if_ok or.assoc del: lround.simps)

lemma write_u8_sticks_ok [buffer_simps]:
  "i + 3 < length r \<Longrightarrow> write_u8_sticks u s i r =
     Some (r[i := normalize_u8_axis u (sx (left_stick s)),
             i + 1 := normalize_u8_axis u (fneg (sy (left_stick s))),
             i + 2 := normalize_u8_axis u (sx (right_stick s)),
             i + 3 := normalize_u8_axis u (fneg (sy (right_stick s)))])"
  by (simp add: write_u8_sticks_def)

end
