(* ===== verification/PackContent.thy ===== *)
theory PackContent
  imports Pack
begin

text \<open>
  What the packed reports say: the layout of the button bytes as a table and the theorem
  that every button can be read back from its bit, the touch contacts as twelve-bit
  coordinates, the Xbox fields, and the checksum at the end of every Bluetooth report.
\<close>

section \<open>Button bits of the PlayStation reports\<close>

text \<open>Byte (counted from the hat byte) and bit of each button in the DualShock 4 and
  DualSense payloads.\<close>

fun playstation_button_position :: "gamepad_button \<Rightarrow> (nat \<times> nat) option" where
  "playstation_button_position Btn_x = Some (0, 4)"
| "playstation_button_position Btn_a = Some (0, 5)"
| "playstation_button_position Btn_b = Some (0, 6)"
| "playstation_button_position Btn_y = Some (0, 7)"
| "playstation_button_position Btn_left_shoulder = Some (1, 0)"
| "playstation_button_position Btn_right_shoulder = Some (1, 1)"
| "playstation_button_position Btn_back = Some (1, 4)"
| "playstation_button_position Btn_start = Some (1, 5)"
| "playstation_button_position Btn_left_stick = Some (1, 6)"
| "playstation_button_position Btn_right_stick = Some (1, 7)"
| "playstation_button_position Btn_guide = Some (2, 0)"
| "playstation_button_position Btn_touchpad = Some (2, 1)"
| "playstation_button_position _ = None"

definition playstation_button_read :: "bytes \<Rightarrow> nat \<Rightarrow> gamepad_button \<Rightarrow> bool option" where
  "playstation_button_read report hat_offset b =
     map_option (\<lambda>(i, k). bit (report ! (hat_offset + i)) k) (playstation_button_position b)"

lemma bit_mask_cond:
  "bit (if c then m else (0 :: 'a::len word)) k \<longleftrightarrow> c \<and> bit m k"
  by simp

lemma hat_cases: "hat_from_buttons bs \<in> {0, 1, 2, 3, 4, 5, 6, 7, 8}"
  by (simp add: hat_from_buttons_def neutral_hat_def Let_def split: prod.split)

lemma hat_high_bits [simp]:
  "\<not> bit (hat_from_buttons bs) 4" "\<not> bit (hat_from_buttons bs) 5"
  "\<not> bit (hat_from_buttons bs) 6" "\<not> bit (hat_from_buttons bs) 7"
  using hat_cases [of bs] by (auto simp: bit_1_iff)

lemma hat_low_nibble [simp]: "hat_from_buttons bs AND 0x0F = hat_from_buttons bs"
  using hat_cases [of bs] by auto

lemma low_nibble_or:
  "h AND 0x0F = h \<Longrightarrow> m AND 0x0F = 0 \<Longrightarrow> (h OR m :: u8) AND 0x0F = h"
  by (simp add: and.commute [of _ "0x0F"] bit.conj_disj_distrib)

lemma playstation_face_bits [simp]:
  "bit (playstation_face_byte s) 4 \<longleftrightarrow> buttons_test (buttons s) Btn_x"
  "bit (playstation_face_byte s) 5 \<longleftrightarrow> buttons_test (buttons s) Btn_a"
  "bit (playstation_face_byte s) 6 \<longleftrightarrow> buttons_test (buttons s) Btn_b"
  "bit (playstation_face_byte s) 7 \<longleftrightarrow> buttons_test (buttons s) Btn_y"
  by (simp_all add: playstation_face_byte_def Let_def bit_or_iff)

lemma playstation_face_hat [simp]:
  "playstation_face_byte s AND 0x0F = hat_from_buttons (buttons s)"
  by (simp add: playstation_face_byte_def Let_def or.assoc low_nibble_or)

lemma playstation_menu_bits [simp]:
  "bit (playstation_menu_byte s) 0 \<longleftrightarrow> buttons_test (buttons s) Btn_left_shoulder"
  "bit (playstation_menu_byte s) 1 \<longleftrightarrow> buttons_test (buttons s) Btn_right_shoulder"
  "bit (playstation_menu_byte s) 2 \<longleftrightarrow> fless (lit 0 1) (left_trigger s)"
  "bit (playstation_menu_byte s) 3 \<longleftrightarrow> fless (lit 0 1) (right_trigger s)"
  "bit (playstation_menu_byte s) 4 \<longleftrightarrow> buttons_test (buttons s) Btn_back"
  "bit (playstation_menu_byte s) 5 \<longleftrightarrow> buttons_test (buttons s) Btn_start"
  "bit (playstation_menu_byte s) 6 \<longleftrightarrow> buttons_test (buttons s) Btn_left_stick"
  "bit (playstation_menu_byte s) 7 \<longleftrightarrow> buttons_test (buttons s) Btn_right_stick"
  by (simp_all add: playstation_menu_byte_def Let_def bit_or_iff)

lemma playstation_guide_bits [simp]:
  "bit (playstation_guide_byte s) 0 \<longleftrightarrow> buttons_test (buttons s) Btn_guide"
  "bit (playstation_guide_byte s) 1 \<longleftrightarrow> buttons_test (buttons s) Btn_touchpad"
  by (simp_all add: playstation_guide_byte_def Let_def bit_or_iff)

lemmas playstation_bits_Suc [simp] =
  playstation_menu_bits(2) [unfolded One_nat_def] playstation_guide_bits(2) [unfolded One_nat_def]

definition ds4_payload_offset :: "device_profile \<Rightarrow> nat" where
  "ds4_payload_offset p = (if is_bluetooth p then 3 else 1)"

definition ds_payload_offset :: "device_profile \<Rightarrow> nat" where
  "ds_payload_offset p = (if is_bluetooth p then 2 else 1)"

lemmas pack_stage_simps = buffer_simps Let_def write_vector_def
  write_dualshock4_touch_contact_def write_dualsense_touch_contact_def
  dualsense_sequence_number_def ds4_payload_offset_def ds_payload_offset_def

lemma dualshock4_button_bytes:
  assumes "(if is_bluetooth p then 78 else 64) \<le> input_report_size p"
    and "pack_dualshock4_input_report e p s = Some r"
  defines "h \<equiv> ds4_payload_offset p + 4" and "n \<equiv> normalize_state s"
  shows "r ! h = playstation_face_byte n \<and> r ! (h + 1) = playstation_menu_byte n
    \<and> r ! (h + 2) = playstation_guide_byte n"
  using assms(1,2) unfolding h_def n_def pack_dualshock4_input_report_def
  by (cases "is_bluetooth p") (auto simp: pack_stage_simps dest!: write_playstation_crc_frame)

lemma dualsense_button_bytes:
  assumes "(if is_bluetooth p then 78 else 64) \<le> input_report_size p"
    and "pack_dualsense_input_report e c p s = Some (r, c')"
  defines "h \<equiv> ds_payload_offset p + 7" and "n \<equiv> normalize_state s"
  shows "r ! h = playstation_face_byte n \<and> r ! (h + 1) = playstation_menu_byte n
    \<and> r ! (h + 2) = playstation_guide_byte n OR (if buttons_test (buttons n) Btn_misc1 then 0x04 else 0)"
  using assms(1,2) unfolding h_def n_def pack_dualsense_input_report_def
  by (cases "is_bluetooth p"; cases "gyroscope (normalize_state s)"; cases "acceleration (normalize_state s)")
     (auto simp: pack_stage_simps bind_eq_Some_conv dest!: write_playstation_crc_frame)

lemma playstation_button_read_bytes:
  assumes "r ! h = playstation_face_byte n" and "r ! (h + 1) = playstation_menu_byte n"
    and "r ! (h + 2) = playstation_guide_byte n OR m" and "m AND 0x03 = 0"
  shows "playstation_button_read r h b =
    map_option (\<lambda>_. buttons_test (buttons n) b) (playstation_button_position b)"
proof -
  have "\<not> bit m 0" "\<not> bit m 1"
    using arg_cong [OF assms(4), of "\<lambda>w. bit w 0"] arg_cong [OF assms(4), of "\<lambda>w. bit w 1"]
    by (simp_all add: bit_and_iff)
  then show ?thesis
    using assms(1-3) by (cases b) (simp_all add: playstation_button_read_def bit_or_iff)
qed

section \<open>Touch contacts\<close>

text \<open>A reader of the four contact bytes: identifier, contact flag, twelve-bit
  coordinates.\<close>

definition touch_contact_read :: "bytes \<Rightarrow> nat \<Rightarrow> u8 \<times> bool \<times> u16 \<times> u16" where
  "touch_contact_read r off =
     (r ! off AND 0x7F, \<not> bit (r ! off) 7,
      ucast (r ! (off + 1)) OR push_bit 8 (ucast (r ! (off + 2) AND 0x0F)),
      ucast (drop_bit 4 (r ! (off + 2))) OR push_bit 4 (ucast (r ! (off + 3))))"

lemma bit_of_small: "(x :: u16) < 4096 \<Longrightarrow> bit x n \<Longrightarrow> n < 12"
proof -
  assume "x < 4096" and "bit x n"
  then have "take_bit 12 (unat x) = unat x" and "bit (unat x) n"
    by (simp_all add: word_less_nat_alt take_bit_nat_eq_self bit_unsigned_iff)
  then show "n < 12"
    by (metis bit_take_bit_iff)
qed

text \<open>The four bytes a contact occupies.\<close>

definition holds_touch_contact ::
  "bytes \<Rightarrow> nat \<Rightarrow> gamepad_touch_contact \<Rightarrow> u16 \<Rightarrow> u16 \<Rightarrow> bool" where
  "holds_touch_contact r i t x y \<longleftrightarrow>
     r ! i = (contact_id t AND 0x7F) OR (if active t then 0 else 0x80)
     \<and> r ! (i + 1) = low_byte (ucast x)
     \<and> r ! (i + 2) = low_byte ((drop_bit 8 (ucast x) AND 0x0F) OR push_bit 4 (ucast y AND 0x0F))
     \<and> r ! (i + 3) = low_byte (drop_bit 4 (ucast y))"

lemma touch_contact_read_held:
  assumes r: "holds_touch_contact r i t x y" and "x < 4096" and "y < 4096"
  shows "touch_contact_read r i = (contact_id t AND 0x7F, active t, x, y)"
proof -
  have m: "(0x0F :: u32) = mask 4" "(0x0F :: u8) = mask 4"
    by (simp_all add: mask_eq_exp_minus_1)
  have "r ! i AND 0x7F = contact_id t AND 0x7F"
    using r by (simp add: holds_touch_contact_def bit.conj_disj_distrib2 and.assoc)
  moreover have "bit (r ! i) 7 \<longleftrightarrow> \<not> active t"
    using r by (simp add: holds_touch_contact_def bit_or_iff bit_and_iff)
  moreover have "ucast (r ! (i + 1)) OR push_bit 8 (ucast (r ! (i + 2) AND 0x0F)) = x"
  proof (rule bit_word_eqI)
    fix n assume "n < LENGTH(16)"
    then show "bit (ucast (r ! (i + 1)) OR push_bit 8 (ucast (r ! (i + 2) AND 0x0F)) :: u16) n = bit x n"
      using r bit_of_small [OF assms(2), of n] unfolding m holds_touch_contact_def
      by (auto simp: bit_simps bit_low_byte)
  qed
  moreover have "ucast (drop_bit 4 (r ! (i + 2))) OR push_bit 4 (ucast (r ! (i + 3))) = y"
  proof (rule bit_word_eqI)
    fix n assume "n < LENGTH(16)"
    then show "bit (ucast (drop_bit 4 (r ! (i + 2))) OR push_bit 4 (ucast (r ! (i + 3))) :: u16) n = bit y n"
      using r bit_of_small [OF assms(3), of n] unfolding m holds_touch_contact_def
      by (auto simp: bit_simps bit_low_byte)
  qed
  ultimately show ?thesis
    by (simp add: touch_contact_read_def)
qed

lemma touch_extents:
  "lit 1919 1 = Fin (1919 * 2 ^ 149)" "lit 1079 1 = Fin (1079 * 2 ^ 149)"
  "lit 941 1 = Fin (941 * 2 ^ 149)"
  by code_simp+

lemma touch_coordinate_le:
  assumes "v \<noteq> NaN" and "0 \<le> q" and "q < 2 ^ 16"
    and "mulF (Fin 0) (Fin (q * 2 ^ 149)) = Fin 0"
    and "mulF (Fin (2 ^ 149)) (Fin (q * 2 ^ 149)) = Fin (q * 2 ^ 149)"
  shows "uint (touch_coordinate u v (Fin (q * 2 ^ 149))) \<le> q"
proof -
  obtain k where k: "fclamp v (lit 0 1) (lit 1 1) = Fin k" "0 \<le> k" "k \<le> 2 ^ 149"
    using fclamp_fin [of 0 "2 ^ 149" v] assms(1) by (auto simp: lit_simps)
  note mono = scaled_mono [OF _ assms(4,5), of _ _ u]
  have lo: "lroundF u (mulF (Fin 0) (Fin (q * 2 ^ 149))) = 0"
    unfolding assms(4) by (simp add: round_away_def)
  have hi: "lroundF u (mulF (Fin (2 ^ 149)) (Fin (q * 2 ^ 149))) = q"
    unfolding assms(5) by (simp only: lround.simps binary32_simps) (rule round_away_mult, simp)
  have "0 \<le> lroundF u (mulF (Fin k) (Fin (q * 2 ^ 149)))"
    using mono [of 0 k] k assms(2) unfolding lo by simp
  moreover have "lroundF u (mulF (Fin k) (Fin (q * 2 ^ 149))) \<le> q"
    using mono [of k "2 ^ 149"] k assms(2) unfolding hi by simp
  ultimately show ?thesis
    unfolding touch_coordinate_def k(1) using assms(3)
    by (subst uint_word_of_int_bounded) auto
qed

lemma touch_coordinate_small:
  assumes "v \<noteq> NaN"
  shows "touch_coordinate u v (lit 1919 1) < 4096" "touch_coordinate u v (lit 1079 1) < 4096"
    "touch_coordinate u v (lit 941 1) < 4096"
proof -
  have *: "w < 4096" if "uint w \<le> q" "q < 4096" for w :: u16 and q
    using that by (simp add: word_less_def)
  show "touch_coordinate u v (lit 1919 1) < 4096"
    unfolding touch_extents by (rule * [OF touch_coordinate_le [OF assms]]) (simp, simp, code_simp+)
  show "touch_coordinate u v (lit 1079 1) < 4096"
    unfolding touch_extents by (rule * [OF touch_coordinate_le [OF assms]]) (simp, simp, code_simp+)
  show "touch_coordinate u v (lit 941 1) < 4096"
    unfolding touch_extents by (rule * [OF touch_coordinate_le [OF assms]]) (simp, simp, code_simp+)
qed

lemma touch_coordinate_clamped [simp]:
  "touch_coordinate u (fclamp v (lit 0 1) (lit 1 1)) m = touch_coordinate u v m"
  by (simp add: touch_coordinate_def lit_simps fclamp_idem)

lemma normalize_state_contacts [simp]:
  "contact0 (normalize_state s) = clamp_contact (contact0 s)"
  "contact1 (normalize_state s) = clamp_contact (contact1 s)"
  by (simp_all add: normalize_state_def)

lemma clamp_contact_simps [simp]:
  "contact_id (clamp_contact t) = contact_id t" "active (clamp_contact t) = active t"
  "cx (clamp_contact t) = fclamp (cx t) (lit 0 1) (lit 1 1)"
  "cy (clamp_contact t) = fclamp (cy t) (lit 0 1) (lit 1 1)"
  by (simp_all add: clamp_contact_def)

lemma dualsense_contacts_held:
  assumes "(if is_bluetooth p then 78 else 64) \<le> input_report_size p"
    and "pack_dualsense_input_report e c p s = Some (r, c')"
  defines "x \<equiv> \<lambda>t. touch_coordinate (lround_err e) (cx t) (lit 1919 1)"
    and "y \<equiv> \<lambda>t. touch_coordinate (lround_err e) (cy t) (lit 1079 1)"
  shows "holds_touch_contact r (ds_payload_offset p + 32) (contact0 s) (x (contact0 s)) (y (contact0 s))
    \<and> holds_touch_contact r (ds_payload_offset p + 36) (contact1 s) (x (contact1 s)) (y (contact1 s))"
  using assms(1,2) unfolding x_def y_def pack_dualsense_input_report_def
  by (cases "is_bluetooth p"; cases "gyroscope (normalize_state s)"; cases "acceleration (normalize_state s)")
     (auto simp: pack_stage_simps bind_eq_Some_conv holds_touch_contact_def split del: if_split
       dest!: write_playstation_crc_frame)

lemma dualshock4_contacts_held:
  assumes "(if is_bluetooth p then 78 else 64) \<le> input_report_size p"
    and "pack_dualshock4_input_report e p s = Some r"
  defines "x \<equiv> \<lambda>t. touch_coordinate (lround_err e) (cx t) (lit 1919 1)"
    and "y \<equiv> \<lambda>t. touch_coordinate (lround_err e) (cy t) (lit 941 1)"
  shows "holds_touch_contact r (ds4_payload_offset p + 34) (contact0 s) (x (contact0 s)) (y (contact0 s))
    \<and> holds_touch_contact r (ds4_payload_offset p + 38) (contact1 s) (x (contact1 s)) (y (contact1 s))"
  using assms(1,2) unfolding x_def y_def pack_dualshock4_input_report_def
  by (cases "is_bluetooth p")
     (auto simp: pack_stage_simps bind_eq_Some_conv holds_touch_contact_def split del: if_split
       dest!: write_playstation_crc_frame)

section \<open>The checksum of the Bluetooth reports\<close>

lemma dualshock4_bluetooth_crc:
  assumes bt: "is_bluetooth p" and n: "78 \<le> input_report_size p"
    and r: "pack_dualshock4_input_report e p s = Some r"
  shows "playstation_crc_valid r playstation_input_crc_seed"
proof -
  have len: "length r = input_report_size p"
    using keeps_obtain [OF pack_dualshock4_keeps [of p e s]] bt n r by auto
  obtain r0 where "write_playstation_crc r0 playstation_input_crc_seed = Some r"
    using r bt n unfolding pack_dualshock4_input_report_def
    by (auto simp: Let_def bind_eq_Some_conv split del: if_split)
  moreover from this have "length r0 = length r"
    by (auto dest!: write_playstation_crc_frame)
  ultimately show ?thesis
    using len n by (intro write_playstation_crc_valid) auto
qed

lemma dualsense_bluetooth_crc:
  assumes bt: "is_bluetooth p" and n: "78 \<le> input_report_size p"
    and r: "pack_dualsense_input_report e c p s = Some (r, c')"
  shows "playstation_crc_valid r playstation_input_crc_seed"
proof -
  have len: "length r = input_report_size p"
    using keeps_fst_obtain [OF pack_dualsense_keeps [of p e c s]] bt n r by auto
  obtain r0 where "write_playstation_crc r0 playstation_input_crc_seed = Some r"
    using r bt n unfolding pack_dualsense_input_report_def
    by (auto simp: Let_def bind_eq_Some_conv dualsense_sequence_number_def split del: if_split)
  moreover from this have "length r0 = length r"
    by (auto dest!: write_playstation_crc_frame)
  ultimately show ?thesis
    using len n by (intro write_playstation_crc_valid) auto
qed

section \<open>Button words\<close>

lemma bit_button_bits_fold:
  "bit (fold (\<lambda>(i, b) bits. if buttons_test bs b then bits OR push_bit i 1 else bits) m w) n \<longleftrightarrow>
     bit (w :: u16) n \<or> n < 16 \<and> list_ex (\<lambda>(i, b). i = n \<and> buttons_test bs b) m"
proof (induction m arbitrary: w)
  case (Cons x m)
  have one: "bit (push_bit (fst x) 1 :: u16) n \<longleftrightarrow> n = fst x \<and> n < 16"
    unfolding push_bit_of_1 bit_exp_iff by auto
  show ?case
    by (cases x) (use one in \<open>simp add: Cons.IH bit_or_iff, blast\<close>)
qed simp

lemma bit_button_bits:
  "bit (button_bits m bs) n \<longleftrightarrow> n < 16 \<and> list_ex (\<lambda>(i, b). i = n \<and> buttons_test bs b) m"
  by (simp add: button_bits_def bit_button_bits_fold)

lemmas button_maps = face_shoulder_button_map_def common_menu_button_map_def
  common_extra_button_map_def standard_dpad_button_map_def xbox_extra_button_map_def

text \<open>A map that names every position at most once can be read back.\<close>

lemma list_ex_unique_key:
  "distinct (map fst m) \<Longrightarrow> (i, b) \<in> set m \<Longrightarrow>
     list_ex (\<lambda>(i', b). i' = i \<and> P b) m = P b"
  by (induction m) (auto simp: list_ex_iff image_iff split_beta)

lemma bits_of_map_read:
  assumes "\<And>n. bit w n \<longleftrightarrow> n < 16 \<and> list_ex (\<lambda>(i, b). i = n \<and> buttons_test bs b) m"
    and "distinct (map fst m)" and "\<forall>(i, b) \<in> set m. i < 16"
  shows "list_all (\<lambda>(i, b). bit w i = buttons_test bs b) m"
  using assms(2,3) by (auto simp: list_all_iff assms(1) list_ex_unique_key)

lemma standard_gamepad_button_bits_read:
  "list_all (\<lambda>(i, b). bit (standard_gamepad_button_bits bs) i = buttons_test bs b)
     (face_shoulder_button_map @ common_menu_button_map @ common_extra_button_map
      @ standard_dpad_button_map)"
  by (rule bits_of_map_read)
     ((auto simp: standard_gamepad_button_bits_def common_button_bits_def bit_or_iff
       bit_button_bits)[1], simp_all add: button_maps)

lemma common_button_bits_read:
  "list_all (\<lambda>(i, b). bit (common_button_bits bs) i = buttons_test bs b)
     (face_shoulder_button_map @ common_menu_button_map @ common_extra_button_map)"
  by (rule bits_of_map_read)
     ((auto simp: common_button_bits_def bit_or_iff bit_button_bits)[1], simp_all add: button_maps)

lemma xbox_gip_button_bits_read:
  "list_all (\<lambda>(i, b). bit (xbox_gip_button_bits bs) i = buttons_test bs b)
     (face_shoulder_button_map @ common_menu_button_map @ xbox_extra_button_map)"
  by (rule bits_of_map_read)
     ((auto simp: xbox_gip_button_bits_def bit_or_iff bit_button_bits)[1], simp_all add: button_maps)

lemma common_hat_bits_read:
  "drop_bit 12 (common_button_bits bs OR dpad_hat_bits bs) = ucast (hat_from_buttons bs)"
proof (rule bit_word_eqI)
  fix n assume "n < LENGTH(16)"
  have h: "\<not> bit (hat_from_buttons bs) k" if "4 \<le> k" for k
    using that bit_imp_le_length [of "hat_from_buttons bs" k]
    by (cases "k \<in> {4, 5, 6, 7}") auto
  show "bit (drop_bit 12 (common_button_bits bs OR dpad_hat_bits bs)) n
      = bit (ucast (hat_from_buttons bs) :: u16) n"
    using h [of n] \<open>n < LENGTH(16)\<close>
    by (cases "4 \<le> n")
       (auto simp: common_button_bits_def dpad_hat_bits_def bit_simps bit_button_bits button_maps)
qed

section \<open>The Xbox report\<close>

lemma xbox_gip_report_fields:
  assumes "17 \<le> input_report_size p" and "pack_xbox_gip_input_report e p s = Some r"
  defines "u \<equiv> lround_err e" and "n \<equiv> normalize_state s"
  shows "read_u16 r 0 = Some (normalize_unsigned_axis u (sx (left_stick n)))"
    and "read_u16 r 2 = Some (normalize_unsigned_axis u (fneg (sy (left_stick n))))"
    and "read_u16 r 4 = Some (normalize_unsigned_axis u (sx (right_stick n)))"
    and "read_u16 r 6 = Some (normalize_unsigned_axis u (fneg (sy (right_stick n))))"
    and "read_u16 r 8 = Some (normalize_u10_trigger u (left_trigger n))"
    and "read_u16 r 10 = Some (normalize_u10_trigger u (right_trigger n))"
    and "read_u16 r 12 = Some (xbox_gip_button_bits (buttons s))"
    and "rd r 14 = Some (xbox_gip_hat_from_buttons (buttons s))"
    and "rd r 15 = Some (if buttons_test (buttons s) Btn_guide then 1 else 0)"
    and "rd r 16 = Some (battery_strength u (battery n))"
  using assms(1,2) unfolding u_def n_def pack_xbox_gip_input_report_def
  by (auto simp: buffer_simps Let_def split: if_splits)

section \<open>The generic report\<close>

lemma append_u16_bytes:
  "append_u16 r v = r @ [low_byte (ucast v), low_byte (ucast (drop_bit 8 v))]"
proof -
  have m: "(0xFF :: u16) = mask 8" "(0xFF :: u32) = mask 8"
    by (simp_all add: mask_eq_exp_minus_1)
  have "ucast (v AND 0xFF) = low_byte (ucast v)" "ucast (drop_bit 8 v AND 0xFF) = low_byte (ucast (drop_bit 8 v))"
    unfolding low_byte_def m by (rule bit_word_eqI; auto simp: bit_simps)+
  then show ?thesis
    by (simp add: append_u16_def)
qed

lemma report_prefix:
  "3 \<le> n \<Longrightarrow> r = resize (append_u16 [i] w @ rest) n 0 \<Longrightarrow> r ! 0 = i \<and> read_u16 r 1 = Some w"
  by (simp add: append_u16_bytes resize_def nth_append read_u16_ok)

lemma generic_report_prefix:
  assumes "9 \<le> input_report_size p" and "r = pack_standard_gamepad_input_report e p s"
  shows "r ! 0 = report_id p \<and> read_u16 r 1 = Some (standard_gamepad_button_bits (buttons s))"
proof (rule report_prefix)
  show "3 \<le> input_report_size p"
    using assms(1) by simp
  show "r = resize (append_u16 [report_id p] (standard_gamepad_button_bits (buttons s))
      @ drop 3 (take 9 r)) (input_report_size p) 0"
    using assms unfolding pack_standard_gamepad_input_report_def Let_def
    by (simp add: append_u16_bytes resize_def)
qed

lemma common_report_prefix:
  assumes "device_type p = Dev_gamepad" and "9 \<le> input_report_size p"
    and "r = pack_common_input_report e p s"
  shows "r ! 0 = report_id p
    \<and> read_u16 r 1 = Some (common_button_bits (buttons s) OR dpad_hat_bits (buttons s))"
proof (rule report_prefix)
  show "3 \<le> input_report_size p"
    using assms(2) by simp
  show "r = resize (append_u16 [report_id p] (common_button_bits (buttons s) OR dpad_hat_bits (buttons s))
      @ drop 3 (take 9 r)) (input_report_size p) 0"
    using assms unfolding pack_common_input_report_def Let_def
    by (simp add: append_u16_bytes resize_def)
qed

lemma bit_common_word_low:
  "n < 12 \<Longrightarrow> bit (common_button_bits bs OR dpad_hat_bits bs) n = bit (common_button_bits bs) n"
  by (simp add: dpad_hat_bits_def bit_or_iff bit_push_bit_iff)

section \<open>Properties\<close>

text \<open>A profile and a state for the examples.\<close>

definition example_profile :: "gamepad_profile_kind \<Rightarrow> bus_type \<Rightarrow> nat \<Rightarrow> device_profile" where
  "example_profile k b n =
     default_profile\<lparr>device_type := Dev_gamepad, gamepad_kind := k, bus_type := b,
       report_id := 1, input_report_size := n\<rparr>"

definition example_state :: gamepad_state where
  "example_state = default_gamepad_state\<lparr>buttons := buttons_set (buttons default_gamepad_state) Btn_a True\<rparr>"

definition example_env :: env where
  "example_env = \<lparr>lround_err = (\<lambda>_. 0), powf = (\<lambda>x y. x), ds4_elapsed_us = 5, ds_elapsed_ns = 5\<rparr>"

lemma example_packs:
  assumes "minimum_report_size (example_profile k b n) \<le> n"
  obtains r c' where "pack_input_report example_env c (example_profile k b n) example_state = Some (r, c')"
    and "length r = n"
  using keeps_fst_obtain [OF pack_input_report_keeps [of "example_profile k b n" example_env c example_state]]
    assms by (auto simp: example_profile_def)

text \<open>C1: Packing never writes outside its buffer, for any profile, state, clock and counter:
  it returns a report of exactly the profile's size when the profile is a gamepad whose
  size is at least what its layout needs, and the empty report otherwise.\<close>

theorem pack_input_report_total:
  "\<exists>r c'. pack_input_report e c p s = Some (r, c')
    \<and> (if device_type p = Dev_gamepad \<and> minimum_report_size p \<le> input_report_size p
       then length r = input_report_size p else r = [] \<and> c' = c)"
  using keeps_fst_obtain [OF pack_input_report_keeps [of p e c s]] pack_input_report_small [of p e c s]
  by (cases "device_type p = Dev_gamepad \<and> minimum_report_size p \<le> input_report_size p") auto





text \<open>Every Bluetooth report of a DualShock 4 or DualSense ends in the CRC-32 of the bytes
  before it under the input seed, the check its host makes.\<close>

theorem bluetooth_reports_checksummed:
  assumes "gamepad_kind p = Kind_dualshock4 \<or> gamepad_kind p = Kind_dualsense"
    and "device_type p = Dev_gamepad" and "is_bluetooth p"
    and "minimum_report_size p \<le> input_report_size p"
    and "pack_input_report e c p s = Some (r, c')"
  shows "playstation_crc_valid r playstation_input_crc_seed"
  using assms dualsense_bluetooth_crc [of p e c s r c'] dualshock4_bluetooth_crc [of p e s r]
  by (auto simp: pack_input_report_def minimum_report_size_def)

theorem bluetooth_reports_checksummed_witness:
  "\<exists>r c'. pack_input_report example_env \<lparr>sequence_number = 0, packet_timer = 0\<rparr> (example_profile Kind_dualsense Bus_bluetooth 78)
      example_state = Some (r, c') \<and> playstation_crc_valid r playstation_input_crc_seed"
proof -
  let ?p = "example_profile Kind_dualsense Bus_bluetooth 78"
  have p: "gamepad_kind ?p = Kind_dualshock4 \<or> gamepad_kind ?p = Kind_dualsense"
    "device_type ?p = Dev_gamepad" "is_bluetooth ?p"
    "minimum_report_size ?p \<le> input_report_size ?p" "minimum_report_size ?p \<le> 78"
    by code_simp+
  obtain r c' where r: "pack_input_report example_env \<lparr>sequence_number = 0, packet_timer = 0\<rparr> ?p example_state = Some (r, c')"
    by (rule example_packs [OF p(5)])
  show ?thesis
    using bluetooth_reports_checksummed [OF p(1-4) r] r by auto
qed

text \<open>The Xbox One and Series report holds sixteen-bit sticks with the vertical axes
  negated, ten-bit triggers, a button word in which every button can be read back, the hat
  plus one, the guide byte and the battery strength.\<close>

theorem xbox_report_fields:
  assumes "gamepad_kind p = Kind_xbox_one \<or> gamepad_kind p = Kind_xbox_series"
    and "device_type p = Dev_gamepad" and "17 \<le> input_report_size p"
    and "pack_input_report e c p s = Some (r, c')"
  shows "let u = lround_err e; n = normalize_state s in
    c' = c \<and>
    read_u16 r 0 = Some (normalize_unsigned_axis u (sx (left_stick n))) \<and>
    read_u16 r 2 = Some (normalize_unsigned_axis u (fneg (sy (left_stick n)))) \<and>
    read_u16 r 4 = Some (normalize_unsigned_axis u (sx (right_stick n))) \<and>
    read_u16 r 6 = Some (normalize_unsigned_axis u (fneg (sy (right_stick n)))) \<and>
    read_u16 r 8 = Some (normalize_u10_trigger u (left_trigger n)) \<and>
    read_u16 r 10 = Some (normalize_u10_trigger u (right_trigger n)) \<and>
    (\<exists>w. read_u16 r 12 = Some w \<and> list_all (\<lambda>(i, b). bit w i = buttons_test (buttons s) b)
       (face_shoulder_button_map @ common_menu_button_map @ xbox_extra_button_map)) \<and>
    rd r 14 = Some (xbox_gip_hat_from_buttons (buttons s)) \<and>
    rd r 15 = Some (if buttons_test (buttons s) Btn_guide then 1 else 0) \<and>
    rd r 16 = Some (battery_strength u (battery n))"
proof -
  have r: "pack_xbox_gip_input_report e p s = Some r" "c' = c"
    using assms(1,2,4) by (auto simp: pack_input_report_def)
  show ?thesis
    using xbox_gip_report_fields [OF assms(3) r(1)] xbox_gip_button_bits_read [of "buttons s"] r(2)
    by (simp add: Let_def)
qed

theorem xbox_report_fields_witness:
  "\<exists>r. pack_input_report example_env \<lparr>sequence_number = 0, packet_timer = 0\<rparr> (example_profile Kind_xbox_one Bus_usb 17) example_state
      = Some (r, \<lparr>sequence_number = 0, packet_timer = 0\<rparr>) \<and> rd r 15 = Some 0"
proof -
  let ?p = "example_profile Kind_xbox_one Bus_usb 17"
  have p: "gamepad_kind ?p = Kind_xbox_one \<or> gamepad_kind ?p = Kind_xbox_series"
    "device_type ?p = Dev_gamepad" "17 \<le> input_report_size ?p" "minimum_report_size ?p \<le> 17"
    and g: "\<not> buttons_test (buttons example_state) Btn_guide"
    by code_simp+
  obtain r c' where r: "pack_input_report example_env \<lparr>sequence_number = 0, packet_timer = 0\<rparr> ?p example_state = Some (r, c')"
    by (rule example_packs [OF p(4)])
  show ?thesis
    using xbox_report_fields [OF p(1-3) r] r g by (auto simp: Let_def)
qed

text \<open>The generic and the Xbox 360 report start with the report identifier and a button
  word: sixteen buttons, the D-pad among them, in the first; twelve buttons and the hat in
  the top nibble in the second. Every button can be read back.\<close>

theorem generic_report_buttons:
  assumes "gamepad_kind p = Kind_generic \<or> gamepad_kind p = Kind_xbox_360"
    and "device_type p = Dev_gamepad" and "9 \<le> input_report_size p"
    and "pack_input_report e c p s = Some (r, c')"
  shows "r ! 0 = report_id p \<and> (\<exists>w. read_u16 r 1 = Some w
    \<and> list_all (\<lambda>(i, b). bit w i = buttons_test (buttons s) b)
        (face_shoulder_button_map @ common_menu_button_map @ common_extra_button_map)
    \<and> (if gamepad_kind p = Kind_generic
       then list_all (\<lambda>(i, b). bit w i = buttons_test (buttons s) b) standard_dpad_button_map
       else drop_bit 12 w = ucast (hat_from_buttons (buttons s))))"
proof (cases "gamepad_kind p = Kind_generic")
  case True
  then have "r = pack_standard_gamepad_input_report e p s"
    using assms(2,4) by (simp add: pack_input_report_def)
  then show ?thesis
    using generic_report_prefix [OF assms(3), of _ e s] standard_gamepad_button_bits_read [of "buttons s"] True
    by simp
next
  case False
  then have "r = pack_common_input_report e p s"
    using assms(1,2,4) by (simp add: pack_input_report_def)
  moreover have "list_all (\<lambda>(i, b). bit (common_button_bits bs OR dpad_hat_bits bs) i = buttons_test bs b)
      (face_shoulder_button_map @ common_menu_button_map @ common_extra_button_map)" for bs
    using common_button_bits_read [of bs] by (simp add: button_maps bit_common_word_low)
  ultimately show ?thesis
    using common_report_prefix [OF assms(2,3), of _ e s] common_hat_bits_read False by simp
qed

theorem generic_report_buttons_witness:
  "\<exists>r c'. pack_input_report example_env \<lparr>sequence_number = 0, packet_timer = 0\<rparr> (example_profile Kind_xbox_360 Bus_usb 9) example_state
      = Some (r, c') \<and> r ! 0 = 1"
proof -
  let ?p = "example_profile Kind_xbox_360 Bus_usb 9"
  have p: "gamepad_kind ?p = Kind_generic \<or> gamepad_kind ?p = Kind_xbox_360"
    "device_type ?p = Dev_gamepad" "9 \<le> input_report_size ?p" "minimum_report_size ?p \<le> 9"
    and i: "report_id ?p = 1"
    by code_simp+
  obtain r c' where r: "pack_input_report example_env \<lparr>sequence_number = 0, packet_timer = 0\<rparr> ?p example_state = Some (r, c')"
    by (rule example_packs [OF p(4)])
  show ?thesis
    using generic_report_buttons [OF p(1-3) r] r i by auto
qed

end
