(* ===== verification/Parse.thy ===== *)
theory Parse
  imports Pack
begin

text \<open>
  Output report parsing: from \<open>parse_output_reports\<close> of \<open>src/src/core/report.cpp\<close> down to
  the per-profile decoders. A read outside the report is undefined behaviour, the outer
  \<open>None\<close>; the source's \<open>std::optional\<close> results are the inner \<open>option\<close>.
\<close>

section \<open>PID rumble\<close>

record pid_rumble_amplitude =
  pid_left_trigger :: u16
  pid_right_trigger :: u16
  pid_low_frequency :: u16
  pid_high_frequency :: u16

definition scale_pid_rumble_magnitude :: "u8 \<Rightarrow> u16" where
  "scale_pid_rumble_magnitude value = ucast ((ucast value * 65535 + 50 :: u32) div 100)"

definition pid_rumble_payload_offset :: "device_profile \<Rightarrow> bytes \<Rightarrow> nat option" where
  "pid_rumble_payload_offset p report =
     (if gamepad_kind p = Kind_generic then
        (if 9 \<le> length report \<and> report ! 0 = report_id p then Some 1 else None)
      else if gamepad_kind p \<noteq> Kind_xbox_one \<and> gamepad_kind p \<noteq> Kind_xbox_series then None
      else if 9 \<le> length report \<and> report ! 0 = 0x03 then Some 1
      else if 9 \<le> length report \<and> report ! 0 = 0 then Some 1
      else if 8 \<le> length report then Some 0
      else None)"

definition decode_pid_rumble_report ::
  "device_profile \<Rightarrow> bytes \<Rightarrow> pid_rumble_amplitude option option" where
  "decode_pid_rumble_report p report =
     (case pid_rumble_payload_offset p report of
        None \<Rightarrow> Some None
      | Some off \<Rightarrow> do {
          magnitudes \<leftarrow> subspan report (off + 1) 4;
          if \<exists>m \<in> set magnitudes. 100 < m then Some None
          else do {
            head \<leftarrow> rd report off;
            duration \<leftarrow> rd report (off + 5);
            let enabled = head AND 0x0F;
            let enabled_magnitude = (\<lambda>enable_bit i.
                  if duration = 0 \<or> enabled AND enable_bit = 0 then 0
                  else scale_pid_rumble_magnitude (magnitudes ! i));
            Some (Some \<lparr>pid_left_trigger = enabled_magnitude 0x08 0,
                        pid_right_trigger = enabled_magnitude 0x04 1,
                        pid_low_frequency = enabled_magnitude 0x02 2,
                        pid_high_frequency = enabled_magnitude 0x01 3\<rparr>) } })"

section \<open>Switch Pro rumble and lights\<close>

record switch_rumble_amplitude =
  sw_low_frequency :: u16
  sw_high_frequency :: u16

definition switch_rumble_amplitudes :: "u16 list" where
  "switch_rumble_amplitudes =
     [0, 514, 775, 921, 1096, 1303, 1550, 1843, 2192, 2606, 3100, 3686,
      4383, 5213, 6199, 7372, 7698, 8039, 8395, 8767, 9155, 9560, 9984, 10426,
      10887, 11369, 11873, 12398, 12947, 13520, 14119, 14744, 15067, 15397, 15734, 16079,
      16431, 16790, 17158, 17534, 17918, 18310, 18711, 19121, 19540, 19967, 20405, 20851,
      21308, 21775, 22251, 22739, 23236, 23745, 24265, 24797, 25340, 25894, 26462, 27041,
      27633, 28238, 28856, 29488, 30134, 30794, 31468, 32157, 32861, 33581, 34316, 35068,
      35836, 36620, 37422, 38242, 39079, 39935, 40809, 41703, 42616, 43549, 44503, 45477,
      46473, 47491, 48531, 49593, 50679, 51789, 52923, 54082, 55266, 56476, 57713, 58977,
      60268, 61588, 62936, 64315, 65535]"

definition decode_switch_rumble_frame ::
  "bytes \<Rightarrow> nat \<Rightarrow> switch_rumble_amplitude option option" where
  "decode_switch_rumble_frame report off = do {
     b1 \<leftarrow> rd report (off + 1);
     let high_frequency_index = unat (b1 AND 0xFE) div 2;
     low_frequency_value \<leftarrow> rd report (off + 3);
     if length switch_rumble_amplitudes \<le> high_frequency_index
        \<or> low_frequency_value < 0x40 \<or> 0x72 < low_frequency_value then Some None
     else do {
       b2 \<leftarrow> rd report (off + 2);
       let low_frequency_index = (unat low_frequency_value - 0x40) * 2
             + (if b2 AND 0x80 \<noteq> 0 then 1 else 0);
       if length switch_rumble_amplitudes \<le> low_frequency_index then Some None
       else do {
         low \<leftarrow> rd switch_rumble_amplitudes low_frequency_index;
         high \<leftarrow> rd switch_rumble_amplitudes high_frequency_index;
         Some (Some \<lparr>sw_low_frequency = low, sw_high_frequency = high\<rparr>) } } }"

definition decode_switch_rumble_report :: "bytes \<Rightarrow> switch_rumble_amplitude option option" where
  "decode_switch_rumble_report report =
     (if length report < 10 \<or> (report ! 0 \<noteq> 0x01 \<and> report ! 0 \<noteq> 0x10) then Some None
      else do {
        left \<leftarrow> decode_switch_rumble_frame report 2;
        right \<leftarrow> decode_switch_rumble_frame report 6;
        (case (left, right) of
           (Some l, Some r) \<Rightarrow>
             Some (Some \<lparr>sw_low_frequency = max (sw_low_frequency l) (sw_low_frequency r),
                         sw_high_frequency = max (sw_high_frequency l) (sw_high_frequency r)\<rparr>)
         | _ \<Rightarrow> Some None) })"

definition decode_switch_home_light_intensity :: "env \<Rightarrow> u8 \<Rightarrow> u8" where
  "decode_switch_home_light_intensity e encoded_intensity =
     (let intensity = drop_bit 4 encoded_intensity; u = lround_err e in
      if intensity = 0 then 0
      else if intensity \<le> 6 then
        word_of_int (lroundF u (mulF (lit (uint intensity) 1) (lit 51 2)))
      else if intensity = 15 then 255
      else let normalized = divF (subF (lit (uint intensity) 1) (lit 1 2)) (lit 15 1)
           in word_of_int (lroundF u
                (mulF (powf e normalized (divF (lit 1 1) (lit 213 100))) (lit 255 1))))"

section \<open>PlayStation outputs\<close>

text \<open>The check both Bluetooth parsers make: the last four bytes are the CRC of the rest.\<close>

definition playstation_output_crc_ok :: "bytes \<Rightarrow> bool option" where
  "playstation_output_crc_ok report = do {
     let expected_crc = crc32 (take (length report - 4) report)
           (playstation_crc_seed playstation_output_crc_seed);
     actual_crc \<leftarrow> read_u32 report (length report - 4);
     Some (actual_crc = expected_crc) }"

definition dualsense_common_output_offset :: "bytes \<Rightarrow> nat option option" where
  "dualsense_common_output_offset report =
     (if 48 \<le> length report \<and> report ! 0 = 0x02 then Some (Some 1)
      else if 49 \<le> length report \<and> report ! 0 = 0x31 then do {
        crc_ok \<leftarrow> (if 78 \<le> length report then playstation_output_crc_ok report else Some True);
        if \<not> crc_ok then Some None
        else do {
          flags \<leftarrow> rd report 1;
          let enable_hid = has_flag flags 0x02;
          if \<not> enable_hid \<and> length report < 50 then Some None
          else Some (Some (if enable_hid then 2 else 3)) } }
      else Some None)"

definition dualshock4_common_output_offset :: "bytes \<Rightarrow> nat option option" where
  "dualshock4_common_output_offset report =
     (if 32 \<le> length report \<and> report ! 0 = 0x05 then Some (Some 1)
      else if 78 \<le> length report \<and> report ! 0 = 0x11 then do {
        flags \<leftarrow> rd report 1;
        crc_ok \<leftarrow> (if has_flag flags 0x40 then playstation_output_crc_ok report else Some True);
        if \<not> crc_ok then Some None else Some (Some 3) }
      else Some None)"

definition rumble_output :: "u16 \<Rightarrow> u16 \<Rightarrow> bytes \<Rightarrow> gamepad_output" where
  "rumble_output low high raw =
     default_output\<lparr>kind := Out_rumble, low_frequency_rumble := low,
       high_frequency_rumble := high, raw_report := raw\<rparr>"

definition rgb_output :: "u8 \<Rightarrow> u8 \<Rightarrow> u8 \<Rightarrow> bytes \<Rightarrow> gamepad_output" where
  "rgb_output r g b raw =
     default_output\<lparr>kind := Out_rgb_led, red := r, green := g, blue := b, raw_report := raw\<rparr>"

definition append_dualshock4_outputs ::
  "env \<Rightarrow> bytes \<Rightarrow> nat \<Rightarrow> gamepad_output list \<Rightarrow> gamepad_output list option" where
  "append_dualshock4_outputs e report off outputs = do {
     valid_flag0 \<leftarrow> rd report off;
     valid_flag1 \<leftarrow> rd report (off + 1);
     motor_right \<leftarrow> rd report (off + 3);
     motor_left \<leftarrow> rd report (off + 4);
     let u = lround_err e;
     let outputs = outputs @
       (if has_flag valid_flag0 0x01 then
          [rumble_output (scale_output_byte u motor_left) (scale_output_byte u motor_right) report]
        else if valid_flag0 = 0 \<and> valid_flag1 = 0 then [rumble_output 0 0 report]
        else []);
     (if has_flag valid_flag0 0x02 then do {
        r \<leftarrow> rd report (off + 5); g \<leftarrow> rd report (off + 6); b \<leftarrow> rd report (off + 7);
        Some (outputs @ [rgb_output r g b report]) }
      else Some outputs) }"

definition append_dualsense_outputs ::
  "env \<Rightarrow> bytes \<Rightarrow> nat \<Rightarrow> gamepad_output list \<Rightarrow> gamepad_output list option" where
  "append_dualsense_outputs e report off outputs = do {
     valid_flag0 \<leftarrow> rd report off;
     valid_flag1 \<leftarrow> rd report (off + 1);
     motor_right \<leftarrow> rd report (off + 2);
     motor_left \<leftarrow> rd report (off + 3);
     right_type \<leftarrow> rd report (off + 10);
     left_type \<leftarrow> rd report (off + 21);
     valid_flag2 \<leftarrow> rd report (off + 38);
     let u = lround_err e;
     let outputs = outputs @
       (if has_flag valid_flag0 0x01 \<or> has_flag valid_flag2 0x04 then
          [rumble_output (scale_output_byte u motor_left) (scale_output_byte u motor_right) report]
        else if valid_flag0 = 0 \<and> valid_flag1 = 0 \<and> valid_flag2 = 0 then [rumble_output 0 0 report]
        else []);
     outputs \<leftarrow> (if has_flag valid_flag1 0x04 then do {
        r \<leftarrow> rd report (off + 44); g \<leftarrow> rd report (off + 45); b \<leftarrow> rd report (off + 46);
        Some (outputs @ [rgb_output r g b report]) }
      else Some outputs);
     let trigger_flags = valid_flag0 AND (0x08 OR 0x04);
     (if trigger_flags \<noteq> 0 then do {
        right_effect \<leftarrow> subspan report (off + 11) 10;
        left_effect \<leftarrow> subspan report (off + 22) 10;
        Some (outputs @ [default_output\<lparr>kind := Out_adaptive_triggers,
          adaptive_trigger_flags := trigger_flags, left_trigger_effect_type := left_type,
          right_trigger_effect_type := right_type, right_trigger_effect := right_effect,
          left_trigger_effect := left_effect, raw_report := report\<rparr>]) }
      else Some outputs) }"

section \<open>Switch Pro outputs\<close>

definition player_lights_output :: "u8 \<Rightarrow> bytes \<Rightarrow> gamepad_output" where
  "player_lights_output player_lights report =
     default_output\<lparr>kind := Out_player_leds,
       player_leds := map (\<lambda>i. player_lights AND push_bit i 1 \<noteq> 0) [0..<4],
       flashing_player_leds := map (\<lambda>i. player_lights AND push_bit (i + 4) 1 \<noteq> 0) [0..<4],
       raw_report := report\<rparr>"

definition append_switch_pro_outputs ::
  "env \<Rightarrow> bytes \<Rightarrow> gamepad_output list \<Rightarrow> gamepad_output list option" where
  "append_switch_pro_outputs e report outputs = do {
     rumble \<leftarrow> decode_switch_rumble_report report;
     let outputs = outputs @
       (case rumble of None \<Rightarrow> []
        | Some a \<Rightarrow> [rumble_output (sw_low_frequency a) (sw_high_frequency a) report]);
     let outputs = outputs @
       (if 12 \<le> length report \<and> report ! 0 = 0x01 \<and> report ! 10 = 0x30
        then [player_lights_output (report ! 11) report] else []);
     Some (outputs @
       (if 15 \<le> length report \<and> report ! 0 = 0x01 \<and> report ! 10 = 0x38
        then let i = decode_switch_home_light_intensity e (report ! 12)
             in [rgb_output i i i report]
        else [])) }"

section \<open>Dispatch on the profile\<close>

definition pid_outputs :: "pid_rumble_amplitude \<Rightarrow> bytes \<Rightarrow> gamepad_output list" where
  "pid_outputs a report =
     [rumble_output (pid_low_frequency a) (pid_high_frequency a) report,
      default_output\<lparr>kind := Out_trigger_rumble, left_trigger_rumble := pid_left_trigger a,
        right_trigger_rumble := pid_right_trigger a, raw_report := report\<rparr>]"

definition profile_outputs ::
  "env \<Rightarrow> device_profile \<Rightarrow> bytes \<Rightarrow> gamepad_output list option" where
  "profile_outputs e p report =
     (case gamepad_kind p of
        Kind_dualshock4 \<Rightarrow> do {
          off \<leftarrow> dualshock4_common_output_offset report;
          (case off of None \<Rightarrow> Some [] | Some i \<Rightarrow> append_dualshock4_outputs e report i []) }
      | Kind_dualsense \<Rightarrow> do {
          off \<leftarrow> dualsense_common_output_offset report;
          (case off of None \<Rightarrow> Some [] | Some i \<Rightarrow> append_dualsense_outputs e report i []) }
      | Kind_switch_pro \<Rightarrow> append_switch_pro_outputs e report []
      | _ \<Rightarrow> Some [])"

definition parse_output_reports ::
  "env \<Rightarrow> device_profile \<Rightarrow> bytes \<Rightarrow> gamepad_output list option" where
  "parse_output_reports e p report = do {
     outputs \<leftarrow> profile_outputs e p report;
     if outputs \<noteq> [] then Some outputs
     else do {
       rumble \<leftarrow> decode_pid_rumble_report p report;
       (case rumble of
          Some a \<Rightarrow> Some (pid_outputs a report)
        | None \<Rightarrow>
            if gamepad_kind p = Kind_xbox_360 \<and> cap_rumble (capabilities p)
               \<and> 5 \<le> output_report_size p \<and> output_report_size p \<le> length report
               \<and> report ! 0 = report_id p
            then do {
              low \<leftarrow> read_u16 report 1;
              high \<leftarrow> read_u16 report 3;
              Some [rumble_output low high report] }
            else Some [default_output\<lparr>raw_report := report\<rparr>]) } }"

definition parse_output_report ::
  "env \<Rightarrow> device_profile \<Rightarrow> bytes \<Rightarrow> gamepad_output option" where
  "parse_output_report e p report = do {
     outputs \<leftarrow> parse_output_reports e p report;
     (case outputs of out # _ \<Rightarrow> Some out
      | [] \<Rightarrow> Some (default_output\<lparr>raw_report := report\<rparr>)) }"

section \<open>No read leaves the report\<close>

lemma pid_payload_offset_in_range:
  "pid_rumble_payload_offset p r = Some i \<Longrightarrow> i + 8 \<le> length r"
  by (auto simp: pid_rumble_payload_offset_def split: if_splits)

lemma decode_pid_rumble_report_defined: "\<exists>a. decode_pid_rumble_report p r = Some a"
proof (cases "pid_rumble_payload_offset p r")
  case (Some i)
  then have "i + 8 \<le> length r" by (rule pid_payload_offset_in_range)
  with Some show ?thesis
    by (simp add: decode_pid_rumble_report_def Let_def)
qed (simp add: decode_pid_rumble_report_def)

lemma length_switch_rumble_amplitudes [simp]: "length switch_rumble_amplitudes = 101"
  by (simp add: switch_rumble_amplitudes_def)

lemma decode_switch_rumble_frame_defined:
  "i + 3 < length r \<Longrightarrow> \<exists>a. decode_switch_rumble_frame r i = Some a"
  by (simp add: decode_switch_rumble_frame_def Let_def)

lemma decode_switch_rumble_report_defined: "\<exists>a. decode_switch_rumble_report r = Some a"
proof (cases "length r < 10")
  case False
  then obtain a b where "decode_switch_rumble_frame r 2 = Some a"
    "decode_switch_rumble_frame r 6 = Some b"
    using decode_switch_rumble_frame_defined [of 2 r] decode_switch_rumble_frame_defined [of 6 r]
    by auto
  then show ?thesis
    by (simp add: decode_switch_rumble_report_def split: option.split)
qed (simp add: decode_switch_rumble_report_def)

lemma playstation_output_crc_ok_defined:
  "4 \<le> length r \<Longrightarrow> \<exists>b. playstation_output_crc_ok r = Some b"
  by (simp add: playstation_output_crc_ok_def read_u32_ok)

lemma dualsense_offset_defined:
  "\<exists>o'. dualsense_common_output_offset r = Some o' \<and> (\<forall>i. o' = Some i \<longrightarrow> i + 47 \<le> length r)"
  using playstation_output_crc_ok_defined [of r]
  by (auto simp: dualsense_common_output_offset_def Let_def)

lemma dualshock4_offset_defined:
  "\<exists>o'. dualshock4_common_output_offset r = Some o' \<and> (\<forall>i. o' = Some i \<longrightarrow> i + 31 \<le> length r)"
  using playstation_output_crc_ok_defined [of r]
  by (auto simp: dualshock4_common_output_offset_def Let_def)

lemma append_dualshock4_outputs_defined:
  "i + 31 \<le> length r \<Longrightarrow> \<exists>xs. append_dualshock4_outputs e r i ys = Some xs"
  by (simp add: append_dualshock4_outputs_def Let_def)

lemma append_dualsense_outputs_defined:
  "i + 47 \<le> length r \<Longrightarrow> \<exists>xs. append_dualsense_outputs e r i ys = Some xs"
  by (simp add: append_dualsense_outputs_def Let_def)

lemma append_switch_pro_outputs_defined: "\<exists>xs. append_switch_pro_outputs e r ys = Some xs"
  using decode_switch_rumble_report_defined [of r]
  by (auto simp: append_switch_pro_outputs_def Let_def)

lemma profile_outputs_defined: "\<exists>xs. profile_outputs e p r = Some xs"
  using dualsense_offset_defined [of r] dualshock4_offset_defined [of r]
  by (cases "gamepad_kind p")
     (auto simp: profile_outputs_def append_switch_pro_outputs_defined
       append_dualsense_outputs_defined append_dualshock4_outputs_defined split: option.split)

section \<open>Every output carries the report\<close>

definition carries :: "bytes \<Rightarrow> gamepad_output list \<Rightarrow> bool" where
  "carries r outs \<longleftrightarrow> list_all (\<lambda>out. raw_report out = r) outs"

lemma carries_simps [simp]:
  "carries r []" "carries r (x # xs) \<longleftrightarrow> raw_report x = r \<and> carries r xs"
  "carries r (xs @ ys) \<longleftrightarrow> carries r xs \<and> carries r ys"
  by (simp_all add: carries_def)

lemma output_carries [simp]:
  "raw_report (rumble_output l h r) = r" "raw_report (rgb_output a b c r) = r"
  "raw_report (player_lights_output pl r) = r" "carries r (pid_outputs x r)"
  by (simp_all add: rumble_output_def rgb_output_def player_lights_output_def pid_outputs_def)

lemma append_dualshock4_carries:
  "append_dualshock4_outputs e r i ys = Some xs \<Longrightarrow> carries r ys \<Longrightarrow> carries r xs"
  by (auto simp: append_dualshock4_outputs_def Let_def bind_eq_Some_conv split: if_splits)

lemma append_dualsense_carries:
  "append_dualsense_outputs e r i ys = Some xs \<Longrightarrow> carries r ys \<Longrightarrow> carries r xs"
  by (auto simp: append_dualsense_outputs_def Let_def bind_eq_Some_conv split: if_splits)

lemma append_switch_pro_carries:
  "append_switch_pro_outputs e r ys = Some xs \<Longrightarrow> carries r ys \<Longrightarrow> carries r xs"
  by (auto simp: append_switch_pro_outputs_def Let_def bind_eq_Some_conv split: if_splits option.splits)

lemma profile_outputs_carries: "profile_outputs e p r = Some xs \<Longrightarrow> carries r xs"
  by (cases "gamepad_kind p")
     (auto simp: profile_outputs_def bind_eq_Some_conv split: option.splits
       dest: append_dualshock4_carries [OF _ carries_simps(1)]
         append_dualsense_carries [OF _ carries_simps(1)] append_switch_pro_carries [OF _ carries_simps(1)])

text \<open>Offsets of the source as successors, the form in which the simplifier computes them.\<close>

lemma offset_four_five: "5 = Suc (Suc (Suc (Suc (Suc 0))))" "4 = Suc (Suc (Suc (Suc 0)))"
  by simp_all

lemmas small_offsets = numeral_2_eq_2 numeral_3_eq_3 offset_four_five

lemma list_all_upt_D: "list_all P [0..<n] \<Longrightarrow> i < n \<Longrightarrow> P i"
  by (simp add: list_all_iff)

section \<open>Checksums\<close>

lemma output_crc_ok_iff:
  "4 \<le> length r \<Longrightarrow>
     playstation_output_crc_ok r = Some (playstation_crc_valid r playstation_output_crc_seed)"
  by (simp add: playstation_output_crc_ok_def playstation_crc_valid_def read_u32_ok Let_def)

text \<open>No report with one changed byte keeps a valid checksum.\<close>

lemma crc_detects_substitution:
  assumes valid: "playstation_crc_valid r seed" and i: "i < length r" and v: "v \<noteq> r ! i"
  shows "\<not> playstation_crc_valid (r[i := v]) seed"
proof -
  define k where "k = length r - 4"
  have k: "k + 4 = length r"
    using valid by (simp add: k_def playstation_crc_valid_def)
  have stored: "u32_le (r ! k) (r ! (k + 1)) (r ! (k + 2)) (r ! (k + 3))
      = crc32 (take k r) (playstation_crc_seed seed)"
    using valid k by (simp add: playstation_crc_valid_def k_def [symmetric] read_u32_ok)
  define r' where "r' = r[i := v]"
  have read: "read_u32 r' k = Some (u32_le (r' ! k) (r' ! (k + 1)) (r' ! (k + 2)) (r' ! (k + 3)))"
    using k by (simp add: read_u32_ok r'_def)
  have "u32_le (r' ! k) (r' ! (k + 1)) (r' ! (k + 2)) (r' ! (k + 3))
      \<noteq> crc32 (take k r') (playstation_crc_seed seed)"
  proof (cases "i < k")
    case True
    then have "take k r' = (take k r)[i := v]" and "i < length (take k r)" and "v \<noteq> take k r ! i"
      using v k by (simp_all add: r'_def take_update_swap)
    then have "crc32 (take k r') (playstation_crc_seed seed) \<noteq> crc32 (take k r) (playstation_crc_seed seed)"
      by (simp add: crc32_update_neq)
    then show ?thesis
      using True stored by (simp add: r'_def)
  next
    case False
    then have "take k r' = take k r"
      by (simp add: r'_def)
    moreover have "r' ! k \<noteq> r ! k \<or> r' ! (k + 1) \<noteq> r ! (k + 1) \<or> r' ! (k + 2) \<noteq> r ! (k + 2)
        \<or> r' ! (k + 3) \<noteq> r ! (k + 3)"
    proof -
      consider "i = k" | "i = k + 1" | "i = k + 2" | "i = k + 3"
        using False i k by linarith
      then show ?thesis
        using v i by cases (simp_all add: r'_def)
    qed
    ultimately show ?thesis
      using stored by (metis u32_le_inject)
  qed
  then show ?thesis
    using k read by (simp add: playstation_crc_valid_def k_def [symmetric] r'_def [symmetric])
       (simp add: r'_def k_def)
qed

lemma parse_output_reports_defined:
  obtains out outs where "parse_output_reports e p r = Some (out # outs)" "carries r (out # outs)"
proof -
  obtain xs where xs: "profile_outputs e p r = Some xs"
    using profile_outputs_defined by blast
  obtain a where a: "decode_pid_rumble_report p r = Some a"
    using decode_pid_rumble_report_defined by blast
  have "\<exists>ys. parse_output_reports e p r = Some ys \<and> ys \<noteq> [] \<and> carries r ys"
  proof (cases "xs = []")
    case True
    then show ?thesis
      using xs a by (cases a)
        (auto simp: parse_output_reports_def read_u16_ok pid_outputs_def)
  qed (use xs profile_outputs_carries [OF xs] in \<open>auto simp: parse_output_reports_def\<close>)
  then show thesis
    using that by (metis neq_Nil_conv)
qed

section \<open>Properties\<close>



definition plain_env :: env where
  "plain_env = \<lparr>lround_err = (\<lambda>_. 0), powf = (\<lambda>x y. x), ds4_elapsed_us = 0, ds_elapsed_ns = 0\<rparr>"

definition dualsense_example :: bytes where
  "dualsense_example = the (write_playstation_crc ((replicate 78 0)[0 := 0x31]) playstation_output_crc_seed)"

lemma dualsense_example_ok:
  "length dualsense_example = 78" "dualsense_example ! 0 = 0x31"
  "playstation_crc_valid dualsense_example playstation_output_crc_seed"
proof -
  let ?r = "(replicate 78 0)[0 := 0x31] :: bytes"
  obtain r where r: "write_playstation_crc ?r playstation_output_crc_seed = Some r"
    using keeps_obtain [OF keeps_write_playstation_crc [OF refl, of ?r]] by blast
  then have e: "dualsense_example = r"
    by (simp add: dualsense_example_def)
  show "playstation_crc_valid dualsense_example playstation_output_crc_seed"
    unfolding e by (rule write_playstation_crc_valid [OF r]) simp
  show "length dualsense_example = 78" "dualsense_example ! 0 = 0x31"
    using write_playstation_crc_frame [OF r] unfolding e by auto
qed




text \<open>The Switch rumble amplitudes: the table is strictly increasing, and a frame built
  from a low and a high index decodes to exactly these two entries.\<close>

theorem switch_rumble_frame_roundtrip:
  assumes "l < 101" and "h < 101"
  shows "decode_switch_rumble_frame
      [x, word_of_nat (2 * h), if odd l then 0x80 else 0, word_of_nat (0x40 + l div 2)] 0
    = Some (Some \<lparr>sw_low_frequency = switch_rumble_amplitudes ! l,
                  sw_high_frequency = switch_rumble_amplitudes ! h\<rparr>)
    \<and> sorted_wrt (<) switch_rumble_amplitudes"
proof -
  have sorted: "sorted_wrt (<) switch_rumble_amplitudes"
    by code_simp
  have "list_all (\<lambda>h. unat ((word_of_nat (2 * h) :: u8) AND 0xFE) div 2 = h) [0..<101]"
    by code_simp
  from list_all_upt_D [OF this assms(2)]
  have hi: "unat ((word_of_nat (2 * h) :: u8) AND 0xFE) div 2 = h" .
  have "list_all (\<lambda>l. unat (word_of_nat (0x40 + l div 2) :: u8) = 0x40 + l div 2) [0..<101]"
    by code_simp
  from list_all_upt_D [OF this assms(1)]
  have lo: "unat (word_of_nat (0x40 + l div 2) :: u8) = 0x40 + l div 2" .
  have "odd l \<longrightarrow> Suc (l div 2 * 2) = l \<and> \<not> 50 \<le> l div 2"
    using assms(1) by presburger
  then show ?thesis
    using assms hi lo sorted
    by (simp add: decode_switch_rumble_frame_def Let_def word_less_nat_alt)
qed

theorem switch_rumble_frame_roundtrip_witness:
  "decode_switch_rumble_frame [0, 200, 0, 0x72] 0
    = Some (Some \<lparr>sw_low_frequency = 65535, sw_high_frequency = 65535\<rparr>)"
proof -
  have "switch_rumble_amplitudes ! 100 = 65535"
    by code_simp
  then show ?thesis
    using switch_rumble_frame_roundtrip [of 100 100 0] by simp
qed

text \<open>A PID rumble report of the generic gamepad with all motors enabled and a duration:
  magnitudes up to one hundred percent give the two outputs with each magnitude scaled to
  sixteen bits and rounded, and one larger magnitude makes the parser hand the report on
  raw.\<close>

theorem pid_rumble_parsed:
  assumes "gamepad_kind p = Kind_generic" and "length r = 9" and "r ! 0 = report_id p"
    and "r ! 1 AND 0x0F = 0x0F" and "r ! 6 \<noteq> 0"
  shows "parse_output_reports e p r = Some
      (if r ! 2 \<le> 100 \<and> r ! 3 \<le> 100 \<and> r ! 4 \<le> 100 \<and> r ! 5 \<le> 100
       then [rumble_output (scale_pid_rumble_magnitude (r ! 4)) (scale_pid_rumble_magnitude (r ! 5)) r,
             default_output\<lparr>kind := Out_trigger_rumble,
               left_trigger_rumble := scale_pid_rumble_magnitude (r ! 2),
               right_trigger_rumble := scale_pid_rumble_magnitude (r ! 3), raw_report := r\<rparr>]
       else [default_output\<lparr>raw_report := r\<rparr>])
    \<and> (\<forall>m \<le> 100. unat (scale_pid_rumble_magnitude m) = (unat m * 65535 + 50) div 100)"
proof -
  have mags: "take 4 (drop (Suc (Suc 0)) r) = [r ! 2, r ! 3, r ! 4, r ! 5]"
    using assms(2) by (intro nth_equalityI) (auto simp: nth_Cons small_offsets split: nat.split)
  have scale: "unat (scale_pid_rumble_magnitude m) = (unat m * 65535 + 50) div 100" if "m \<le> 100" for m
  proof -
    have m: "unat m \<le> 100"
      using that by (simp add: word_le_nat_alt)
    have "unat (ucast m * 65535 + 50 :: u32) = unat m * 65535 + 50"
      using m by (simp add: unat_word_ariths unsigned_ucast_eq take_bit_nat_eq_self)
    then have "unat ((ucast m * 65535 + 50 :: u32) div 100) = (unat m * 65535 + 50) div 100"
      by (simp add: unat_div)
    moreover have "(unat m * 65535 + 50) div 100 < 2 ^ 16"
      using m by (simp add: div_less_iff_less_mult)
    ultimately show ?thesis
      by (simp add: scale_pid_rumble_magnitude_def unsigned_ucast_eq take_bit_nat_eq_self)
  qed
  have "decode_pid_rumble_report p r = Some
      (if r ! 2 \<le> 100 \<and> r ! 3 \<le> 100 \<and> r ! 4 \<le> 100 \<and> r ! 5 \<le> 100
       then Some \<lparr>pid_left_trigger = scale_pid_rumble_magnitude (r ! 2),
                  pid_right_trigger = scale_pid_rumble_magnitude (r ! 3),
                  pid_low_frequency = scale_pid_rumble_magnitude (r ! 4),
                  pid_high_frequency = scale_pid_rumble_magnitude (r ! 5)\<rparr>
       else None)"
    using assms mags
    by (auto simp: decode_pid_rumble_report_def pid_rumble_payload_offset_def Let_def not_le)
  then show ?thesis
    using assms(1) scale
    by (auto simp: parse_output_reports_def profile_outputs_def pid_outputs_def)
qed

theorem pid_rumble_parsed_witness:
  "parse_output_reports plain_env (default_profile\<lparr>gamepad_kind := Kind_generic\<rparr>) [1, 0x0F, 0, 0, 100, 0, 9, 0, 0]
    = Some [rumble_output 65535 0 [1, 0x0F, 0, 0, 100, 0, 9, 0, 0],
        default_output\<lparr>kind := Out_trigger_rumble, raw_report := [1, 0x0F, 0, 0, 100, 0, 9, 0, 0]\<rparr>]"
proof -
  have "scale_pid_rumble_magnitude 100 = 65535" "scale_pid_rumble_magnitude 0 = 0"
    by code_simp+
  then show ?thesis
    using pid_rumble_parsed [of "default_profile\<lparr>gamepad_kind := Kind_generic\<rparr>"
        "[1, 0x0F, 0, 0, 100, 0, 9, 0, 0]" plain_env] by (simp add: default_profile_def default_output_def)
qed

end
