(* ===== verification/VhfQueue.thy ===== *)
theory VhfQueue
  imports ReportBytes
begin

text \<open>
  The bounded queue that holds input reports while the Windows HID framework is not ready,
  \<open>src/src/platform/windows/shared/vhf_input_report_queue.hpp\<close>. A \<open>std::deque\<close> is a list
  whose head is its front. The pending mouse motion is an \<open>int\<close>: the source keeps it in
  \<open>std::int64_t\<close>, and one report adds at most \<open>2 ^ 15\<close>, so a wrap-around needs \<open>2 ^ 48\<close>
  reports merged without one \<open>pop\<close>.

  Two locales carry the proofs. \<open>coalescer\<close> is the contract of merging a report into the
  newest entry: entries and reports have a key (the discrete state of a gamepad report, the
  buttons of a mouse report) and only a report with the entry's key is absorbed; under it
  the sequence of keys, duplicates removed, survives every push. It is interpreted twice,
  for the replacement of gamepad reports and for the accumulation of mouse reports.
\<close>

section \<open>Protocol constants\<close>

definition LVH_WINDOWS_DEVICE_GAMEPAD :: u32 where "LVH_WINDOWS_DEVICE_GAMEPAD = 1"
definition LVH_WINDOWS_DEVICE_MOUSE :: u32 where "LVH_WINDOWS_DEVICE_MOUSE = 2"
definition LVH_WINDOWS_BUS_BLUETOOTH :: u32 where "LVH_WINDOWS_BUS_BLUETOOTH = 2"
definition LVH_WINDOWS_GAMEPAD_GENERIC :: u32 where "LVH_WINDOWS_GAMEPAD_GENERIC = 0"
definition LVH_WINDOWS_GAMEPAD_XBOX_ONE :: u32 where "LVH_WINDOWS_GAMEPAD_XBOX_ONE = 2"
definition LVH_WINDOWS_GAMEPAD_XBOX_SERIES :: u32 where "LVH_WINDOWS_GAMEPAD_XBOX_SERIES = 3"
definition LVH_WINDOWS_GAMEPAD_DUALSENSE :: u32 where "LVH_WINDOWS_GAMEPAD_DUALSENSE = 4"
definition LVH_WINDOWS_GAMEPAD_SWITCH_PRO :: u32 where "LVH_WINDOWS_GAMEPAD_SWITCH_PRO = 5"
definition LVH_WINDOWS_GAMEPAD_DUALSHOCK4 :: u32 where "LVH_WINDOWS_GAMEPAD_DUALSHOCK4 = 6"
definition LVH_WINDOWS_MOUSE_INPUT_REPORT_SIZE :: nat where
  "LVH_WINDOWS_MOUSE_INPUT_REPORT_SIZE = 7"

definition vhf_max_pending_input_reports :: nat where "vhf_max_pending_input_reports = 32"

lemmas lvh_constants = LVH_WINDOWS_DEVICE_GAMEPAD_def LVH_WINDOWS_DEVICE_MOUSE_def
  LVH_WINDOWS_GAMEPAD_GENERIC_def LVH_WINDOWS_GAMEPAD_XBOX_ONE_def
  LVH_WINDOWS_GAMEPAD_XBOX_SERIES_def LVH_WINDOWS_GAMEPAD_DUALSENSE_def
  LVH_WINDOWS_GAMEPAD_SWITCH_PRO_def LVH_WINDOWS_GAMEPAD_DUALSHOCK4_def
  LVH_WINDOWS_MOUSE_INPUT_REPORT_SIZE_def

section \<open>State\<close>

record vhf_config =
  vhf_device_type :: u32
  vhf_gamepad_kind :: u32
  vhf_bus_type :: u32
  input_report_id :: u8

record pending_mouse_report =
  mbuttons :: u8
  mx :: int
  my :: int
  wheel :: int
  pan :: int

record vhf_queue =
  protocol_reports :: "bytes list"
  mouse_reports :: "pending_mouse_report list"
  reports :: "bytes list"

definition empty_queue :: vhf_queue where
  "empty_queue = \<lparr>protocol_reports = [], mouse_reports = [], reports = []\<rparr>"

definition queue_empty :: "vhf_queue \<Rightarrow> bool" where
  "queue_empty q \<longleftrightarrow> protocol_reports q = [] \<and> mouse_reports q = [] \<and> reports q = []"

definition queue_size :: "vhf_queue \<Rightarrow> nat" where
  "queue_size q = length (protocol_reports q) + length (mouse_reports q) + length (reports q)"

section \<open>Operations\<close>

definition is_protocol_report :: "vhf_config \<Rightarrow> bytes \<Rightarrow> bool" where
  "is_protocol_report c report \<longleftrightarrow>
     vhf_device_type c = LVH_WINDOWS_DEVICE_GAMEPAD \<and> input_report_id c \<noteq> 0
     \<and> report \<noteq> [] \<and> hd report \<noteq> input_report_id c"

definition make_room :: "vhf_queue \<Rightarrow> vhf_queue" where
  "make_room q =
     (if queue_size q < vhf_max_pending_input_reports then q
      else if reports q \<noteq> [] then q\<lparr>reports := tl (reports q)\<rparr>
      else if mouse_reports q \<noteq> [] then q\<lparr>mouse_reports := tl (mouse_reports q)\<rparr>
      else q\<lparr>protocol_reports := tl (protocol_reports q)\<rparr>)"

definition equal_at :: "bytes \<Rightarrow> bytes \<Rightarrow> nat list \<Rightarrow> bool" where
  "equal_at left right offsets \<longleftrightarrow>
     list_all (\<lambda>i. i < length left \<and> i < length right \<and> left ! i = right ! i) offsets"

definition same_discrete_state :: "vhf_config \<Rightarrow> bytes \<Rightarrow> bytes \<Rightarrow> bool" where
  "same_discrete_state c left right \<longleftrightarrow>
     (if length left \<noteq> length right then False
      else if input_report_id c \<noteq> 0
        \<and> (left = [] \<or> hd left \<noteq> input_report_id c \<or> hd right \<noteq> input_report_id c) then False
      else if vhf_gamepad_kind c = LVH_WINDOWS_GAMEPAD_GENERIC then equal_at left right [0, 1, 2]
      else if vhf_gamepad_kind c = LVH_WINDOWS_GAMEPAD_XBOX_ONE
        \<or> vhf_gamepad_kind c = LVH_WINDOWS_GAMEPAD_XBOX_SERIES
      then equal_at left right [12, 13, 14, 15]
      else if vhf_gamepad_kind c = LVH_WINDOWS_GAMEPAD_SWITCH_PRO
      then equal_at left right [0, 3, 4, 5]
      else let bt = (vhf_bus_type c = LVH_WINDOWS_BUS_BLUETOOTH) in
        if vhf_gamepad_kind c = LVH_WINDOWS_GAMEPAD_DUALSHOCK4
        then let po = (if bt then 3 else 1) in
          equal_at left right [0, po + 4, po + 5, po + 6, po + 34, po + 38]
        else if vhf_gamepad_kind c = LVH_WINDOWS_GAMEPAD_DUALSENSE
        then let po = (if bt then 2 else 1) in
          equal_at left right [0, po + 7, po + 8, po + 9, po + 32, po + 36]
        else False)"

text \<open>The mouse fields. The callers check that the report has seven bytes.\<close>

definition mouse_i16 :: "bytes \<Rightarrow> nat \<Rightarrow> int" where
  "mouse_i16 report off =
     (let value = (ucast (report ! off) :: u32) OR push_bit 8 (ucast (report ! (off + 1)))
      in if 0x8000 \<le> value then uint value - 0x10000 else uint value)"

definition mouse_i8 :: "bytes \<Rightarrow> nat \<Rightarrow> int" where
  "mouse_i8 report off =
     (let value = (ucast (report ! off) :: u32)
      in if 0x80 \<le> value then uint value - 0x100 else uint value)"

definition set_mouse_i16 :: "bytes \<Rightarrow> nat \<Rightarrow> int \<Rightarrow> bytes" where
  "set_mouse_i16 report off value =
     (let encoded = (word_of_int value :: u16)
      in report[off := ucast (encoded AND 0xFF), off + 1 := ucast (drop_bit 8 encoded AND 0xFF)])"

definition clamp_int :: "int \<Rightarrow> int \<Rightarrow> int \<Rightarrow> int" where
  "clamp_int v lo hi = (if v < lo then lo else if hi < v then hi else v)"

definition push_mouse_report :: "bytes \<Rightarrow> vhf_queue \<Rightarrow> vhf_queue" where
  "push_mouse_report report q =
     (if mouse_reports q \<noteq> [] \<and> mbuttons (last (mouse_reports q)) = report ! 0
      then let p = last (mouse_reports q) in
        q\<lparr>mouse_reports := butlast (mouse_reports q)
            @ [p\<lparr>mx := mx p + mouse_i16 report 1, my := my p + mouse_i16 report 3,
                 wheel := wheel p + mouse_i8 report 5, pan := pan p + mouse_i8 report 6\<rparr>]\<rparr>
      else let q = make_room q in
        q\<lparr>mouse_reports := mouse_reports q
            @ [\<lparr>mbuttons = report ! 0, mx = mouse_i16 report 1, my = mouse_i16 report 3,
                wheel = mouse_i8 report 5, pan = mouse_i8 report 6\<rparr>]\<rparr>)"

definition pop_mouse_report :: "vhf_queue \<Rightarrow> bytes \<times> vhf_queue" where
  "pop_mouse_report q =
     (let p = hd (mouse_reports q);
          x = clamp_int (mx p) (- 32768) 32767;
          y = clamp_int (my p) (- 32768) 32767;
          w = clamp_int (wheel p) (- 127) 127;
          n = clamp_int (pan p) (- 127) 127;
          r = replicate LVH_WINDOWS_MOUSE_INPUT_REPORT_SIZE 0;
          r = r[0 := mbuttons p];
          r = set_mouse_i16 r 1 x;
          r = set_mouse_i16 r 3 y;
          r = r[5 := word_of_int w];
          r = r[6 := word_of_int n];
          p' = p\<lparr>mx := mx p - x, my := my p - y, wheel := wheel p - w, pan := pan p - n\<rparr>
      in (r, if mx p' = 0 \<and> my p' = 0 \<and> wheel p' = 0 \<and> pan p' = 0
             then q\<lparr>mouse_reports := tl (mouse_reports q)\<rparr>
             else q\<lparr>mouse_reports := p' # tl (mouse_reports q)\<rparr>))"

definition vhf_push :: "vhf_config \<Rightarrow> bytes \<Rightarrow> vhf_queue \<Rightarrow> vhf_queue" where
  "vhf_push c report q =
     (if vhf_device_type c = LVH_WINDOWS_DEVICE_MOUSE
        \<and> length report = LVH_WINDOWS_MOUSE_INPUT_REPORT_SIZE
      then push_mouse_report report q
      else if is_protocol_report c report
      then let q = make_room q in q\<lparr>protocol_reports := protocol_reports q @ [report]\<rparr>
      else if reports q \<noteq> [] \<and> vhf_device_type c = LVH_WINDOWS_DEVICE_GAMEPAD
        \<and> same_discrete_state c (last (reports q)) report
      then q\<lparr>reports := butlast (reports q) @ [report]\<rparr>
      else let q = make_room q in q\<lparr>reports := reports q @ [report]\<rparr>)"

definition vhf_pop :: "vhf_queue \<Rightarrow> (bytes \<times> vhf_queue) option" where
  "vhf_pop q =
     (case protocol_reports q of
        r # rs \<Rightarrow> Some (r, q\<lparr>protocol_reports := rs\<rparr>)
      | [] \<Rightarrow> if mouse_reports q \<noteq> [] then Some (pop_mouse_report q)
              else (case reports q of [] \<Rightarrow> None | r # rs \<Rightarrow> Some (r, q\<lparr>reports := rs\<rparr>)))"

definition vhf_clear :: "vhf_queue \<Rightarrow> vhf_queue" where
  "vhf_clear q = q\<lparr>protocol_reports := [], mouse_reports := [], reports := []\<rparr>"

section \<open>Histories\<close>

datatype vhf_op = Push bytes | Pop | Clear

text \<open>A sequence of operations: the reports handed out, and the queue that is left.\<close>

fun vhf_run :: "vhf_config \<Rightarrow> vhf_op list \<Rightarrow> vhf_queue \<Rightarrow> bytes list \<times> vhf_queue" where
  "vhf_run c [] q = ([], q)"
| "vhf_run c (Push r # ops) q = vhf_run c ops (vhf_push c r q)"
| "vhf_run c (Pop # ops) q =
     (case vhf_pop q of
        None \<Rightarrow> vhf_run c ops q
      | Some (r, q') \<Rightarrow> (let rest = vhf_run c ops q' in (r # fst rest, snd rest)))"
| "vhf_run c (Clear # ops) q = vhf_run c ops (vhf_clear q)"

fun pushed :: "vhf_op list \<Rightarrow> bytes list" where
  "pushed [] = []"
| "pushed (Push r # ops) = r # pushed ops"
| "pushed (_ # ops) = pushed ops"

text \<open>No push of the history finds the queue full, and nothing is cleared: the histories
  that lose no report.\<close>

fun lossless :: "vhf_config \<Rightarrow> vhf_op list \<Rightarrow> vhf_queue \<Rightarrow> bool" where
  "lossless c [] q \<longleftrightarrow> True"
| "lossless c (Push r # ops) q \<longleftrightarrow>
     queue_size q < vhf_max_pending_input_reports \<and> lossless c ops (vhf_push c r q)"
| "lossless c (Pop # ops) q \<longleftrightarrow>
     (case vhf_pop q of None \<Rightarrow> lossless c ops q | Some (_, q') \<Rightarrow> lossless c ops q')"
| "lossless c (Clear # ops) q \<longleftrightarrow> False"

section \<open>The bound\<close>

lemma queue_size_make_room:
  "queue_size q \<le> vhf_max_pending_input_reports \<Longrightarrow>
     queue_size (make_room q) < vhf_max_pending_input_reports"
  by (cases "reports q"; cases "mouse_reports q"; cases "protocol_reports q")
     (auto simp: make_room_def queue_size_def vhf_max_pending_input_reports_def)

lemma queue_size_push:
  assumes "queue_size q \<le> vhf_max_pending_input_reports"
  shows "queue_size (vhf_push c r q) \<le> vhf_max_pending_input_reports"
  using assms queue_size_make_room [OF assms]
  by (auto simp: vhf_push_def push_mouse_report_def queue_size_def Let_def neq_Nil_conv)

lemma queue_size_pop:
  "vhf_pop q = Some (r, q') \<Longrightarrow> queue_size q' \<le> queue_size q"
  by (auto simp: vhf_pop_def pop_mouse_report_def queue_size_def Let_def split: list.splits if_splits)

lemma queue_size_clear [simp]: "queue_size (vhf_clear q) = 0"
  by (simp add: vhf_clear_def queue_size_def)

lemma vhf_pop_None: "vhf_pop q = None \<longleftrightarrow> queue_empty q"
  by (auto simp: vhf_pop_def queue_empty_def split: list.splits)

lemma queue_size_run:
  "queue_size q \<le> vhf_max_pending_input_reports \<Longrightarrow>
     queue_size (snd (vhf_run c ops q)) \<le> vhf_max_pending_input_reports"
proof (induction c ops q rule: vhf_run.induct)
  case (3 c ops q)
  then show ?case
  proof (cases "vhf_pop q")
    case (Some a)
    then show ?thesis
      using 3 by (cases a) (auto simp: Let_def dest!: queue_size_pop)
  qed simp
qed (simp_all add: queue_size_push)

section \<open>Merging keeps the sequence of keys\<close>

lemma remdups_adj_snoc_same: "remdups_adj (xs @ [x, x]) = remdups_adj (xs @ [x])"
  by (simp add: remdups_adj_append_two)

lemma remdups_adj_append_cong:
  "remdups_adj xs = remdups_adj ys \<Longrightarrow> remdups_adj (xs @ zs) = remdups_adj (ys @ zs)"
proof -
  assume eq: "remdups_adj xs = remdups_adj ys"
  have "xs = [] \<longleftrightarrow> ys = []"
    using eq by (metis remdups_adj_Nil_iff)
  moreover have "last xs = last ys"
    using eq by (metis last_remdups_adj)
  ultimately show ?thesis
    using eq remdups_adj_append'' [of xs zs] remdups_adj_append'' [of ys zs]
    by (cases "xs = []") auto
qed

locale coalescer =
  fixes absorb :: "'e \<Rightarrow> 'r \<Rightarrow> 'e option"
    and fresh :: "'r \<Rightarrow> 'e"
    and ekey :: "'e \<Rightarrow> 'k"
    and rkey :: "'r \<Rightarrow> 'k"
  assumes fresh_key: "ekey (fresh r) = rkey r"
    and absorb_key: "absorb e r = Some e' \<Longrightarrow> ekey e = rkey r \<and> ekey e' = rkey r"
begin

definition enqueue :: "'r \<Rightarrow> 'e list \<Rightarrow> 'e list" where
  "enqueue r es =
     (case (if es = [] then None else absorb (last es) r) of
        Some e \<Rightarrow> butlast es @ [e]
      | None \<Rightarrow> es @ [fresh r])"

lemma enqueue_cases:
  "enqueue r es = es @ [fresh r]
   \<or> (\<exists>es' e e'. es = es' @ [e] \<and> absorb e r = Some e' \<and> enqueue r es = es' @ [e'])"
  by (cases es rule: rev_cases) (auto simp: enqueue_def split: option.splits)

lemma enqueue_keys:
  "remdups_adj (ks @ map ekey (enqueue r es)) = remdups_adj (ks @ map ekey es @ [rkey r])"
  using enqueue_cases [of r es]
proof (elim disjE exE conjE)
  fix es' e e'
  assume "es = es' @ [e]" and "absorb e r = Some e'" and "enqueue r es = es' @ [e']"
  then show ?thesis
    using remdups_adj_snoc_same [of "ks @ map ekey es'" "rkey r"] absorb_key [of e r e'] by simp
qed (simp add: fresh_key)

lemma enqueue_newest: "enqueue r es \<noteq> [] \<and> ekey (last (enqueue r es)) = rkey r"
  using enqueue_cases [of r es] by (auto simp: fresh_key dest: absorb_key)

end

text \<open>Gamepad reports: the key is the length and the discrete bytes.\<close>

definition discrete_offsets :: "vhf_config \<Rightarrow> nat list option" where
  "discrete_offsets c =
     (let bt = (vhf_bus_type c = LVH_WINDOWS_BUS_BLUETOOTH);
          k = vhf_gamepad_kind c in
      if k = LVH_WINDOWS_GAMEPAD_GENERIC then Some [0, 1, 2]
      else if k = LVH_WINDOWS_GAMEPAD_XBOX_ONE \<or> k = LVH_WINDOWS_GAMEPAD_XBOX_SERIES
      then Some [12, 13, 14, 15]
      else if k = LVH_WINDOWS_GAMEPAD_SWITCH_PRO then Some [0, 3, 4, 5]
      else if k = LVH_WINDOWS_GAMEPAD_DUALSHOCK4
      then Some (if bt then [0, 7, 8, 9, 37, 41] else [0, 5, 6, 7, 35, 39])
      else if k = LVH_WINDOWS_GAMEPAD_DUALSENSE
      then Some (if bt then [0, 9, 10, 11, 34, 38] else [0, 8, 9, 10, 33, 37])
      else None)"

definition discrete_key :: "vhf_config \<Rightarrow> bytes \<Rightarrow> nat \<times> u8 option list" where
  "discrete_key c r =
     (length r, map (rd r) (case discrete_offsets c of Some os \<Rightarrow> os | None \<Rightarrow> [0..<length r]))"

lemma same_discrete_state_key:
  assumes "same_discrete_state c l r"
  shows "discrete_key c l = discrete_key c r"
  using assms unfolding same_discrete_state_def discrete_key_def discrete_offsets_def equal_at_def
  by (auto simp: Let_def lvh_constants split: if_splits)

definition gamepad_absorb :: "vhf_config \<Rightarrow> bytes \<Rightarrow> bytes \<Rightarrow> bytes option" where
  "gamepad_absorb c l r =
     (if vhf_device_type c = LVH_WINDOWS_DEVICE_GAMEPAD \<and> same_discrete_state c l r
      then Some r else None)"

interpretation gp: coalescer "gamepad_absorb c" "\<lambda>r. r" "discrete_key c" "discrete_key c" for c
  by unfold_locales (auto simp: gamepad_absorb_def same_discrete_state_key split: if_splits)

text \<open>Mouse reports: the key is the button byte.\<close>

definition mouse_absorb :: "pending_mouse_report \<Rightarrow> bytes \<Rightarrow> pending_mouse_report option" where
  "mouse_absorb p report =
     (if mbuttons p = report ! 0
      then Some (p\<lparr>mx := mx p + mouse_i16 report 1, my := my p + mouse_i16 report 3,
                   wheel := wheel p + mouse_i8 report 5, pan := pan p + mouse_i8 report 6\<rparr>)
      else None)"

definition mouse_fresh :: "bytes \<Rightarrow> pending_mouse_report" where
  "mouse_fresh report =
     \<lparr>mbuttons = report ! 0, mx = mouse_i16 report 1, my = mouse_i16 report 3,
      wheel = mouse_i8 report 5, pan = mouse_i8 report 6\<rparr>"

interpretation mp: coalescer mouse_absorb mouse_fresh mbuttons "\<lambda>r. r ! 0"
  by unfold_locales (auto simp: mouse_absorb_def mouse_fresh_def split: if_splits)

text \<open>While there is room, a push is an \<open>enqueue\<close> of the matching coalescer.\<close>

lemma make_room_id [simp]:
  "queue_size q < vhf_max_pending_input_reports \<Longrightarrow> make_room q = q"
  by (simp add: make_room_def)

definition is_mouse_report :: "vhf_config \<Rightarrow> bytes \<Rightarrow> bool" where
  "is_mouse_report c r \<longleftrightarrow> vhf_device_type c = LVH_WINDOWS_DEVICE_MOUSE
     \<and> length r = LVH_WINDOWS_MOUSE_INPUT_REPORT_SIZE"

lemma push_enqueue:
  assumes "queue_size q < vhf_max_pending_input_reports"
  shows "vhf_push c r q =
    (if is_mouse_report c r then q\<lparr>mouse_reports := mp.enqueue r (mouse_reports q)\<rparr>
     else if is_protocol_report c r then q\<lparr>protocol_reports := protocol_reports q @ [r]\<rparr>
     else q\<lparr>reports := gp.enqueue c r (reports q)\<rparr>)"
  using assms
  by (auto simp: vhf_push_def push_mouse_report_def is_mouse_report_def mp.enqueue_def
      gp.enqueue_def mouse_absorb_def mouse_fresh_def gamepad_absorb_def Let_def)

section \<open>What a lossless history conserves\<close>

text \<open>A quantity of the queue: \<open>obs\<close> is what one report carries of it, \<open>pend\<close> what the queue
  still holds, and \<open>norm\<close> the equivalence up to which it is conserved.\<close>

locale conserved_queue =
  fixes c :: vhf_config
    and obs :: "bytes \<Rightarrow> 'k list"
    and pend :: "vhf_queue \<Rightarrow> 'k list"
    and norm :: "'k list \<Rightarrow> 'v"
    and inv :: "vhf_queue \<Rightarrow> bool"
  assumes norm_cong: "norm xs = norm ys \<Longrightarrow> norm (xs @ zs) = norm (ys @ zs)"
    and push_inv: "inv q \<Longrightarrow> queue_size q < vhf_max_pending_input_reports \<Longrightarrow> inv (vhf_push c r q)"
    and push_keys: "inv q \<Longrightarrow> queue_size q < vhf_max_pending_input_reports \<Longrightarrow>
      norm (ks @ pend (vhf_push c r q)) = norm (ks @ pend q @ obs r)"
    and pop_inv: "inv q \<Longrightarrow> vhf_pop q = Some (r, q') \<Longrightarrow> inv q'"
    and pop_keys: "inv q \<Longrightarrow> vhf_pop q = Some (r, q') \<Longrightarrow>
      norm (ks @ obs r @ pend q') = norm (ks @ pend q)"
begin

lemma run:
  "inv q \<Longrightarrow> lossless c ops q \<Longrightarrow>
     norm (ks @ concat (map obs (fst (vhf_run c ops q))) @ pend (snd (vhf_run c ops q)))
     = norm (ks @ pend q @ concat (map obs (pushed ops)))"
proof (induction ops arbitrary: q ks)
  case (Cons op ops)
  show ?case
  proof (cases op)
    case (Push r)
    have room: "queue_size q < vhf_max_pending_input_reports"
      using Cons.prems(2) Push by simp
    have "norm (ks @ concat (map obs (fst (vhf_run c (op # ops) q))) @ pend (snd (vhf_run c (op # ops) q)))
      = norm ((ks @ pend (vhf_push c r q)) @ concat (map obs (pushed ops)))"
      using Cons.IH [of "vhf_push c r q" ks] Cons.prems push_inv room Push by simp
    also have "\<dots> = norm ((ks @ pend q @ obs r) @ concat (map obs (pushed ops)))"
      by (rule norm_cong, rule push_keys [OF Cons.prems(1) room])
    finally show ?thesis
      using Push by simp
  next
    case Pop
    show ?thesis
    proof (cases "vhf_pop q")
      case None
      then show ?thesis using Cons Pop by simp
    next
      case (Some a)
      then obtain r q' where a: "vhf_pop q = Some (r, q')"
        by (cases a) simp
      have "norm ((ks @ obs r) @ concat (map obs (fst (vhf_run c ops q'))) @ pend (snd (vhf_run c ops q')))
        = norm ((ks @ obs r @ pend q') @ concat (map obs (pushed ops)))"
        using Cons.IH [of q' "ks @ obs r"] Cons.prems pop_inv a Pop by simp
      also have "\<dots> = norm ((ks @ pend q) @ concat (map obs (pushed ops)))"
        by (rule norm_cong, rule pop_keys [OF Cons.prems(1) a])
      finally show ?thesis
        using a Pop by (simp add: Let_def)
    qed
  next
    case Clear
    then show ?thesis using Cons.prems by simp
  qed
qed simp

end

lemmas push_room = push_enqueue is_mouse_report_def is_protocol_report_def lvh_constants

text \<open>Protocol replies of a gamepad pass through first in, first out.\<close>

definition gamepad_queue :: "vhf_config \<Rightarrow> vhf_queue \<Rightarrow> bool" where
  "gamepad_queue c q \<longleftrightarrow> vhf_device_type c = LVH_WINDOWS_DEVICE_GAMEPAD \<and> mouse_reports q = []
     \<and> list_all (is_protocol_report c) (protocol_reports q)
     \<and> list_all (\<lambda>r. \<not> is_protocol_report c r) (reports q)"

lemma gp_enqueue_all:
  "list_all P es \<Longrightarrow> P r \<Longrightarrow> list_all P (gp.enqueue c r es)"
  using gp.enqueue_cases [of c r es] by (auto simp: gamepad_absorb_def split: if_splits)

lemma gamepad_push:
  assumes "gamepad_queue c q" and "queue_size q < vhf_max_pending_input_reports"
  shows "vhf_push c r q =
    (if is_protocol_report c r then q\<lparr>protocol_reports := protocol_reports q @ [r]\<rparr>
     else q\<lparr>reports := gp.enqueue c r (reports q)\<rparr>)"
  using assms by (simp add: push_enqueue gamepad_queue_def is_mouse_report_def lvh_constants)

lemma gamepad_queue_push:
  "gamepad_queue c q \<Longrightarrow> queue_size q < vhf_max_pending_input_reports \<Longrightarrow>
     gamepad_queue c (vhf_push c r q)"
  using gp_enqueue_all [of "\<lambda>r. \<not> is_protocol_report c r" "reports q" r c]
  by (simp add: gamepad_push) (simp add: gamepad_queue_def)

lemma gamepad_pop_cases:
  assumes "gamepad_queue c q" and "vhf_pop q = Some (r, q')"
  shows "gamepad_queue c q' \<and>
    (is_protocol_report c r \<and> protocol_reports q = r # protocol_reports q' \<and> reports q' = reports q
     \<or> \<not> is_protocol_report c r \<and> protocol_reports q' = protocol_reports q
       \<and> reports q = r # reports q')"
  using assms by (auto simp: vhf_pop_def gamepad_queue_def split: list.splits)

interpretation fifo: conserved_queue c
  "\<lambda>r. if is_protocol_report c r then [r] else []" protocol_reports "\<lambda>xs. xs" "gamepad_queue c" for c
proof
  fix q q' :: vhf_queue and r :: bytes and ks :: "bytes list"
  assume q: "gamepad_queue c q"
  show "queue_size q < vhf_max_pending_input_reports \<Longrightarrow> gamepad_queue c (vhf_push c r q)"
    using q by (rule gamepad_queue_push)
  show "queue_size q < vhf_max_pending_input_reports \<Longrightarrow>
      ks @ protocol_reports (vhf_push c r q)
      = ks @ protocol_reports q @ (if is_protocol_report c r then [r] else [])"
    using q by (simp add: gamepad_push)
  assume pop: "vhf_pop q = Some (r, q')"
  show "gamepad_queue c q'"
    and "ks @ (if is_protocol_report c r then [r] else []) @ protocol_reports q'
      = ks @ protocol_reports q"
    using gamepad_pop_cases [OF q pop] by auto
qed simp

interpretation discrete: conserved_queue c
  "\<lambda>r. if is_protocol_report c r then [] else [discrete_key c r]"
  "\<lambda>q. map (discrete_key c) (reports q)" remdups_adj "gamepad_queue c" for c
proof
  fix q q' :: vhf_queue and r :: bytes and ks :: "(nat \<times> u8 option list) list"
  assume q: "gamepad_queue c q"
  show "queue_size q < vhf_max_pending_input_reports \<Longrightarrow> gamepad_queue c (vhf_push c r q)"
    using q by (rule gamepad_queue_push)
  show "queue_size q < vhf_max_pending_input_reports \<Longrightarrow>
      remdups_adj (ks @ map (discrete_key c) (reports (vhf_push c r q)))
      = remdups_adj (ks @ map (discrete_key c) (reports q)
          @ (if is_protocol_report c r then [] else [discrete_key c r]))"
    using q by (simp add: gamepad_push gp.enqueue_keys)
  assume pop: "vhf_pop q = Some (r, q')"
  show "gamepad_queue c q'"
    and "remdups_adj (ks @ (if is_protocol_report c r then [] else [discrete_key c r])
        @ map (discrete_key c) (reports q')) = remdups_adj (ks @ map (discrete_key c) (reports q))"
    using gamepad_pop_cases [OF q pop] by auto
qed (rule remdups_adj_append_cong)

section \<open>Relative mouse reports\<close>

lemma uint_two_bytes:
  "(ucast a :: u32) OR push_bit 8 (ucast b) = ucast (u16_le a b)"
proof (rule bit_word_eqI)
  fix n assume "n < LENGTH(32)"
  then show "bit ((ucast a :: u32) OR push_bit 8 (ucast b)) n = bit (ucast (u16_le a b) :: u32) n"
    using bit_imp_le_length [of a n] bit_imp_le_length [of b "n - 8"]
    by (auto simp: bit_u16_le bit_simps)
qed

lemma mouse_i16_le:
  "mouse_i16 r off = (let v = uint (u16_le (r ! off) (r ! (off + 1)))
                      in if 32768 \<le> v then v - 65536 else v)"
  unfolding mouse_i16_def uint_two_bytes
  by (simp add: Let_def word_le_def uint_up_ucast is_up)

lemma u16_le_encoded:
  "u16_le (ucast (w AND 0xFF)) (ucast (drop_bit 8 w AND 0xFF)) = (w :: u16)"
proof -
  have m: "(0xFF :: u16) = mask 8"
    by (simp add: mask_eq_exp_minus_1)
  show ?thesis
    unfolding m by (rule bit_word_eqI) (auto simp: bit_u16_le bit_simps)
qed

lemma mouse_i16_set:
  assumes "off + 1 < length r" and "- 32768 \<le> v" and "v \<le> 32767"
  shows "mouse_i16 (set_mouse_i16 r off v) off = v"
proof -
  have "mouse_i16 (set_mouse_i16 r off v) off =
    (let u = uint (word_of_int v :: u16) in if 32768 \<le> u then u - 65536 else u)"
    using assms(1) by (simp add: mouse_i16_le set_mouse_i16_def Let_def u16_le_encoded)
  moreover have "uint (word_of_int v :: u16) = (if v < 0 then v + 65536 else v)"
  proof (cases "v < 0")
    case True
    have "v mod 65536 = (v + 65536) mod 65536"
      by simp
    also have "\<dots> = v + 65536"
      using True assms by (intro mod_pos_pos_trivial) auto
    finally show ?thesis
      using True by (simp add: uint_word_of_int)
  qed (use assms in \<open>simp add: uint_word_of_int\<close>)
  ultimately show ?thesis
    using assms by (simp add: Let_def)
qed

lemma mouse_i16_set_other:
  "j + 1 < off \<or> off + 1 < j \<Longrightarrow> mouse_i16 (set_mouse_i16 r off v) j = mouse_i16 r j"
  by (auto simp: mouse_i16_le set_mouse_i16_def Let_def)

lemma mouse_i8_word:
  assumes "off < length r" and "r ! off = word_of_int v" and "- 128 \<le> v" and "v \<le> 127"
  shows "mouse_i8 r off = v"
proof -
  have "uint (word_of_int v :: u8) = (if v < 0 then v + 256 else v)"
  proof (cases "v < 0")
    case True
    have "v mod 256 = (v + 256) mod 256"
      by simp
    also have "\<dots> = v + 256"
      using True assms by (intro mod_pos_pos_trivial) auto
    finally show ?thesis
      using True by (simp add: uint_word_of_int)
  qed (use assms in \<open>simp add: uint_word_of_int\<close>)
  then show ?thesis
    using assms(2-4) by (simp add: mouse_i8_def Let_def word_le_def uint_up_ucast is_up)
qed

datatype mouse_field = Field_x | Field_y | Field_wheel | Field_pan

fun report_field :: "mouse_field \<Rightarrow> bytes \<Rightarrow> int" where
  "report_field Field_x r = mouse_i16 r 1"
| "report_field Field_y r = mouse_i16 r 3"
| "report_field Field_wheel r = mouse_i8 r 5"
| "report_field Field_pan r = mouse_i8 r 6"

fun pending_field :: "mouse_field \<Rightarrow> pending_mouse_report \<Rightarrow> int" where
  "pending_field Field_x p = mx p"
| "pending_field Field_y p = my p"
| "pending_field Field_wheel p = wheel p"
| "pending_field Field_pan p = pan p"

fun field_limits :: "mouse_field \<Rightarrow> int \<times> int" where
  "field_limits Field_x = (- 32768, 32767)"
| "field_limits Field_y = (- 32768, 32767)"
| "field_limits Field_wheel = (- 127, 127)"
| "field_limits Field_pan = (- 127, 127)"

definition emitted :: "mouse_field \<Rightarrow> pending_mouse_report \<Rightarrow> int" where
  "emitted f p = clamp_int (pending_field f p) (fst (field_limits f)) (snd (field_limits f))"

definition residue :: "pending_mouse_report \<Rightarrow> pending_mouse_report" where
  "residue p = p\<lparr>mx := mx p - emitted Field_x p, my := my p - emitted Field_y p,
     wheel := wheel p - emitted Field_wheel p, pan := pan p - emitted Field_pan p\<rparr>"

definition at_rest :: "pending_mouse_report \<Rightarrow> bool" where
  "at_rest p \<longleftrightarrow> mx p = 0 \<and> my p = 0 \<and> wheel p = 0 \<and> pan p = 0"

lemma residue_buttons [simp]: "mbuttons (residue p) = mbuttons p"
  by (simp add: residue_def)

lemma residue_field [simp]: "pending_field f (residue p) = pending_field f p - emitted f p"
  by (cases f) (simp_all add: residue_def)

lemma clamp_int_bounds: "lo \<le> hi \<Longrightarrow> lo \<le> clamp_int v lo hi \<and> clamp_int v lo hi \<le> hi"
  by (simp add: clamp_int_def)

lemma pop_mouse_queue:
  "mouse_reports q = p # ps \<Longrightarrow> snd (pop_mouse_report q) =
     q\<lparr>mouse_reports := (if at_rest (residue p) then ps else residue p # ps)\<rparr>"
  by (simp add: pop_mouse_report_def Let_def residue_def at_rest_def emitted_def)

lemma length_set_mouse_i16 [simp]: "length (set_mouse_i16 r off v) = length r"
  by (simp add: set_mouse_i16_def Let_def)

lemma mouse_i16_update [simp]: "i \<noteq> j \<Longrightarrow> i \<noteq> j + 1 \<Longrightarrow> mouse_i16 (r[i := v]) j = mouse_i16 r j"
  by (simp add: mouse_i16_def)

lemma mouse_i8_update [simp]: "i \<noteq> j \<Longrightarrow> mouse_i8 (r[i := v]) j = mouse_i8 r j"
  by (simp add: mouse_i8_def)

lemma pop_mouse_fields:
  assumes "mouse_reports q = p # ps"
  shows "length (fst (pop_mouse_report q)) = 7" and "fst (pop_mouse_report q) ! 0 = mbuttons p"
    and "report_field f (fst (pop_mouse_report q)) = emitted f p"
proof -
  define r where "r = fst (pop_mouse_report q)"
  have r: "r = (set_mouse_i16 (set_mouse_i16 ((replicate 7 0)[0 := mbuttons p])
      1 (emitted Field_x p)) 3 (emitted Field_y p))
      [5 := word_of_int (emitted Field_wheel p), 6 := word_of_int (emitted Field_pan p)]"
    using assms
    by (simp add: r_def pop_mouse_report_def Let_def emitted_def LVH_WINDOWS_MOUSE_INPUT_REPORT_SIZE_def)
  show "length (fst (pop_mouse_report q)) = 7"
    unfolding r_def [symmetric] r by simp
  show "fst (pop_mouse_report q) ! 0 = mbuttons p"
    unfolding r_def [symmetric] r by (simp add: set_mouse_i16_def Let_def)
  show "report_field f (fst (pop_mouse_report q)) = emitted f p"
    unfolding r_def [symmetric] r
    using clamp_int_bounds [of "- 32768" 32767 "pending_field f p"]
      clamp_int_bounds [of "- 127" 127 "pending_field f p"]
    by (cases f) (auto simp: emitted_def mouse_i16_set mouse_i16_set_other intro!: mouse_i8_word)
qed

definition mouse_queue :: "vhf_config \<Rightarrow> vhf_queue \<Rightarrow> bool" where
  "mouse_queue c q \<longleftrightarrow> vhf_device_type c = LVH_WINDOWS_DEVICE_MOUSE
     \<and> protocol_reports q = [] \<and> list_all (\<lambda>r. length r \<noteq> 7) (reports q)"

lemma mouse_push:
  assumes "mouse_queue c q" and "queue_size q < vhf_max_pending_input_reports"
  shows "vhf_push c r q =
    (if length r = 7 then q\<lparr>mouse_reports := mp.enqueue r (mouse_reports q)\<rparr>
     else q\<lparr>reports := reports q @ [r]\<rparr>)"
  using assms
  by (simp add: push_enqueue mouse_queue_def is_mouse_report_def is_protocol_report_def
      gp.enqueue_def gamepad_absorb_def lvh_constants)

lemma mouse_queue_push:
  "mouse_queue c q \<Longrightarrow> queue_size q < vhf_max_pending_input_reports \<Longrightarrow>
     mouse_queue c (vhf_push c r q)"
  by (simp add: mouse_push) (simp add: mouse_queue_def)

lemma mouse_pop_cases:
  assumes "mouse_queue c q" and "vhf_pop q = Some (r, q')"
  shows "mouse_queue c q' \<and>
    (length r \<noteq> 7 \<and> mouse_reports q' = mouse_reports q
     \<or> length r = 7 \<and> (\<exists>p ps. mouse_reports q = p # ps \<and> r ! 0 = mbuttons p
         \<and> (\<forall>f. report_field f r = emitted f p)
         \<and> mouse_reports q' = (if at_rest (residue p) then ps else residue p # ps)))"
proof (cases "mouse_reports q")
  case Nil
  then show ?thesis
    using assms by (auto simp: vhf_pop_def mouse_queue_def split: list.splits)
next
  case (Cons p ps)
  then have pop: "pop_mouse_report q = (r, q')"
    using assms by (simp add: vhf_pop_def mouse_queue_def)
  then have "r = fst (pop_mouse_report q)"
    and "q' = q\<lparr>mouse_reports := (if at_rest (residue p) then ps else residue p # ps)\<rparr>"
    using pop_mouse_queue [OF Cons] by simp_all
  then show ?thesis
    using pop_mouse_fields [OF Cons] Cons assms(1) by (simp add: mouse_queue_def)
qed

lemma remdups_adj_mid_same: "remdups_adj (xs @ x # x # ys) = remdups_adj (xs @ x # ys)"
  using remdups_adj_append_cong [OF remdups_adj_snoc_same, of xs x ys] by simp

interpretation buttons: conserved_queue c
  "\<lambda>r. if length r = 7 then [r ! 0] else []" "\<lambda>q. map mbuttons (mouse_reports q)"
  remdups_adj "mouse_queue c" for c
proof
  fix q q' :: vhf_queue and r :: bytes and ks :: "u8 list"
  assume q: "mouse_queue c q"
  show "queue_size q < vhf_max_pending_input_reports \<Longrightarrow> mouse_queue c (vhf_push c r q)"
    using q by (rule mouse_queue_push)
  show "queue_size q < vhf_max_pending_input_reports \<Longrightarrow>
      remdups_adj (ks @ map mbuttons (mouse_reports (vhf_push c r q)))
      = remdups_adj (ks @ map mbuttons (mouse_reports q) @ (if length r = 7 then [r ! 0] else []))"
    using q by (simp add: mouse_push mp.enqueue_keys)
  assume pop: "vhf_pop q = Some (r, q')"
  show "mouse_queue c q'"
    and "remdups_adj (ks @ (if length r = 7 then [r ! 0] else []) @ map mbuttons (mouse_reports q'))
      = remdups_adj (ks @ map mbuttons (mouse_reports q))"
    using mouse_pop_cases [OF q pop] remdups_adj_mid_same by auto
qed (rule remdups_adj_append_cong)

lemma at_rest_fields: "at_rest p \<longleftrightarrow> (\<forall>f. pending_field f p = 0)"
proof
  assume "\<forall>f. pending_field f p = 0"
  from this [rule_format, of Field_x] this [rule_format, of Field_y]
    this [rule_format, of Field_wheel] this [rule_format, of Field_pan]
  show "at_rest p" by (simp add: at_rest_def)
next
  assume "at_rest p"
  then show "\<forall>f. pending_field f p = 0"
  proof (intro allI)
    fix f show "pending_field f p = 0"
      using \<open>at_rest p\<close> by (cases f) (simp_all add: at_rest_def)
  qed
qed

lemma mouse_absorb_field:
  "mouse_absorb p r = Some p' \<Longrightarrow> pending_field f p' = pending_field f p + report_field f r"
  by (cases f) (auto simp: mouse_absorb_def split: if_splits)

lemma mouse_fresh_field: "pending_field f (mouse_fresh r) = report_field f r"
  by (cases f) (simp_all add: mouse_fresh_def)

lemma mouse_enqueue_sum:
  "sum_list (map (pending_field f) (mp.enqueue r es))
   = sum_list (map (pending_field f) es) + report_field f r"
  using mp.enqueue_cases [of r es] by (auto simp: mouse_absorb_field mouse_fresh_field)

interpretation motion: conserved_queue c
  "\<lambda>r. if length r = 7 then [report_field f r] else []"
  "\<lambda>q. map (pending_field f) (mouse_reports q)" sum_list "mouse_queue c" for c f
proof
  fix q q' :: vhf_queue and r :: bytes and ks :: "int list"
  assume q: "mouse_queue c q"
  show "queue_size q < vhf_max_pending_input_reports \<Longrightarrow> mouse_queue c (vhf_push c r q)"
    using q by (rule mouse_queue_push)
  show "queue_size q < vhf_max_pending_input_reports \<Longrightarrow>
      sum_list (ks @ map (pending_field f) (mouse_reports (vhf_push c r q)))
      = sum_list (ks @ map (pending_field f) (mouse_reports q)
          @ (if length r = 7 then [report_field f r] else []))"
    using q by (simp add: mouse_push mouse_enqueue_sum)
  assume pop: "vhf_pop q = Some (r, q')"
  show "mouse_queue c q'"
    and "sum_list (ks @ (if length r = 7 then [report_field f r] else [])
        @ map (pending_field f) (mouse_reports q')) = sum_list (ks @ map (pending_field f) (mouse_reports q))"
    using mouse_pop_cases [OF q pop] by (auto simp: at_rest_fields)
qed simp

section \<open>Draining\<close>

definition motion_left :: "pending_mouse_report \<Rightarrow> nat" where
  "motion_left p = nat \<bar>mx p\<bar> + nat \<bar>my p\<bar> + nat \<bar>wheel p\<bar> + nat \<bar>pan p\<bar>"

text \<open>An upper bound for the number of reports the queue can hand out without a push.\<close>

definition pending_work :: "vhf_queue \<Rightarrow> nat" where
  "pending_work q = length (protocol_reports q)
     + (\<Sum>p\<leftarrow>mouse_reports q. Suc (motion_left p)) + length (reports q)"

lemma clamp_int_shrinks:
  "lo < 0 \<Longrightarrow> 0 < hi \<Longrightarrow> nat \<bar>v - clamp_int v lo hi\<bar> \<le> nat \<bar>v\<bar>
     \<and> (v - clamp_int v lo hi \<noteq> 0 \<longrightarrow> nat \<bar>v - clamp_int v lo hi\<bar> < nat \<bar>v\<bar>)"
  by (auto simp: clamp_int_def)

lemma emitted_shrinks:
  "nat \<bar>pending_field f p - emitted f p\<bar> \<le> nat \<bar>pending_field f p\<bar>
   \<and> (pending_field f p - emitted f p \<noteq> 0 \<longrightarrow>
        nat \<bar>pending_field f p - emitted f p\<bar> < nat \<bar>pending_field f p\<bar>)"
proof -
  have "fst (field_limits f) < 0" and "0 < snd (field_limits f)"
    by (cases f; simp)+
  then show ?thesis
    unfolding emitted_def by (rule clamp_int_shrinks)
qed

lemma sum4_less:
  assumes "a' \<le> a" "b' \<le> b" "c' \<le> c" "d' \<le> (d :: nat)" and "a' < a \<or> b' < b \<or> c' < c \<or> d' < d"
  shows "a' + b' + c' + d' < a + b + c + d"
  using assms by linarith

lemma residue_motion:
  assumes "\<not> at_rest (residue p)"
  shows "motion_left (residue p) < motion_left p"
proof -
  have "motion_left r = nat \<bar>pending_field Field_x r\<bar> + nat \<bar>pending_field Field_y r\<bar>
      + nat \<bar>pending_field Field_wheel r\<bar> + nat \<bar>pending_field Field_pan r\<bar>" for r
    by (simp add: motion_left_def)
  moreover obtain f where "pending_field f p - emitted f p \<noteq> 0"
    using assms by (auto simp: at_rest_fields)
  ultimately show ?thesis
    using emitted_shrinks [of _ p] by (cases f) (auto simp only: residue_field intro!: sum4_less)
qed

lemma pop_reduces_work: "vhf_pop q = Some (r, q') \<Longrightarrow> pending_work q' < pending_work q"
proof (cases "protocol_reports q = [] \<and> mouse_reports q \<noteq> []")
  case True
  then obtain p ps where m: "mouse_reports q = p # ps"
    by (auto simp: neq_Nil_conv)
  assume "vhf_pop q = Some (r, q')"
  then have "q' = snd (pop_mouse_report q)"
    using True by (simp add: vhf_pop_def)
  then show ?thesis
    using residue_motion [of p] by (simp add: pop_mouse_queue [OF m] pending_work_def m)
qed (auto simp: vhf_pop_def pending_work_def split: list.splits if_splits)

lemma drained:
  "pending_work q \<le> n \<Longrightarrow> queue_empty (snd (vhf_run c (replicate n Pop) q))"
proof (induction n arbitrary: q)
  case 0
  then show ?case by (simp add: pending_work_def queue_empty_def)
next
  case (Suc n)
  show ?case
  proof (cases "vhf_pop q")
    case None
    then have "pending_work q = 0"
      by (simp add: vhf_pop_None queue_empty_def pending_work_def)
    then show ?thesis using None Suc.IH by simp
  next
    case (Some a)
    then show ?thesis
      using Suc pop_reduces_work [of q "fst a" "snd a"] by (cases a) (simp add: Let_def)
  qed
qed

lemma vhf_run_append:
  "vhf_run c (ops @ ops') q =
     (fst (vhf_run c ops q) @ fst (vhf_run c ops' (snd (vhf_run c ops q))),
      snd (vhf_run c ops' (snd (vhf_run c ops q))))"
  by (induction c ops q rule: vhf_run.induct) (auto simp: Let_def split: option.splits)

lemma lossless_append:
  "lossless c (ops @ ops') q \<longleftrightarrow> lossless c ops q \<and> lossless c ops' (snd (vhf_run c ops q))"
  by (induction c ops q rule: vhf_run.induct) (auto simp: Let_def split: option.splits)

lemma pushed_append [simp]: "pushed (ops @ ops') = pushed ops @ pushed ops'"
  by (induction ops rule: pushed.induct) simp_all

lemma pushed_pops [simp]: "pushed (replicate n Pop) = []"
  by (induction n) simp_all

lemma lossless_pops [simp]: "lossless c (replicate n Pop) q"
  by (induction n arbitrary: q) (auto split: option.splits)

lemma empty_queues [simp]:
  "vhf_device_type c = LVH_WINDOWS_DEVICE_GAMEPAD \<Longrightarrow> gamepad_queue c empty_queue"
  "vhf_device_type c = LVH_WINDOWS_DEVICE_MOUSE \<Longrightarrow> mouse_queue c empty_queue"
  "protocol_reports empty_queue = []" "mouse_reports empty_queue = []" "reports empty_queue = []"
  by (simp_all add: gamepad_queue_def mouse_queue_def empty_queue_def)

lemma concat_singletons [simp]:
  "concat (map (\<lambda>r. if P r then [f r] else []) xs) = map f (filter P xs)"
  "concat (map (\<lambda>r. if P r then [] else [f r]) xs) = map f (filter (\<lambda>r. \<not> P r) xs)"
  by (induction xs) auto

lemma mouse_motion_drained:
  assumes "vhf_device_type c = LVH_WINDOWS_DEVICE_MOUSE" and "lossless c ops empty_queue"
    and "n = pending_work (snd (vhf_run c ops empty_queue))"
  shows "queue_empty (snd (vhf_run c (ops @ replicate n Pop) empty_queue))
    \<and> (\<Sum>r\<leftarrow>filter (\<lambda>r. length r = 7) (fst (vhf_run c (ops @ replicate n Pop) empty_queue)).
         report_field f r)
      = (\<Sum>r\<leftarrow>filter (\<lambda>r. length r = 7) (pushed ops). report_field f r)"
proof -
  have e: "queue_empty (snd (vhf_run c (ops @ replicate n Pop) empty_queue))"
    using drained [of "snd (vhf_run c ops empty_queue)" n c] assms(3)
    by (simp add: vhf_run_append)
  then show ?thesis
    using motion.run [of c empty_queue "ops @ replicate n Pop" "[]" f] assms(1,2)
    by (simp add: lossless_append queue_empty_def)
qed

section \<open>Properties\<close>

text \<open>Whatever is pushed, popped and cleared, the queue never holds more than
  \<open>vhf_max_pending_input_reports\<close> entries.\<close>

theorem vhf_queue_bounded:
  "queue_size (snd (vhf_run c ops empty_queue)) \<le> vhf_max_pending_input_reports"
  by (rule queue_size_run) (simp add: queue_size_def vhf_max_pending_input_reports_def)

text \<open>C16: For a gamepad, a history that never finds the queue full hands out every protocol
  reply, in order; and the input reports handed out, followed by those still waiting, show
  the same sequence of discrete states (buttons, D-pad, touch lifecycle) as the reports
  pushed, repetitions removed: no press is coalesced away and none is invented.\<close>

theorem vhf_gamepad_order:
  assumes "vhf_device_type c = LVH_WINDOWS_DEVICE_GAMEPAD" and "lossless c ops empty_queue"
    and "vhf_run c ops empty_queue = (out, q)"
  shows "filter (is_protocol_report c) out @ protocol_reports q
      = filter (is_protocol_report c) (pushed ops)
    \<and> remdups_adj (map (discrete_key c) (filter (\<lambda>r. \<not> is_protocol_report c r) out @ reports q))
      = remdups_adj (map (discrete_key c) (filter (\<lambda>r. \<not> is_protocol_report c r) (pushed ops)))"
  using fifo.run [of c empty_queue ops "[]"] discrete.run [of c empty_queue ops "[]"] assms
  by simp

definition pad_config :: vhf_config where
  "pad_config =
     \<lparr>vhf_device_type = 1, vhf_gamepad_kind = 0, vhf_bus_type = 1, input_report_id = 1\<rparr>"

definition pad_history :: "vhf_op list" where
  "pad_history = [Push [1, 0, 0, 9], Push [1, 0, 0, 5], Pop, Push [33, 7], Push [1, 1, 0, 5]]"

theorem vhf_gamepad_order_witness:
  "fst (vhf_run pad_config pad_history empty_queue) = [[1, 0, 0, 5]] \<and>
   filter (is_protocol_report pad_config) (fst (vhf_run pad_config pad_history empty_queue))
     @ protocol_reports (snd (vhf_run pad_config pad_history empty_queue)) = [[33, 7]]"
proof -
  have hyp: "vhf_device_type pad_config = LVH_WINDOWS_DEVICE_GAMEPAD"
    "lossless pad_config pad_history empty_queue"
    by code_simp+
  have "fst (vhf_run pad_config pad_history empty_queue) = [[1, 0, 0, 5]]"
    and "filter (is_protocol_report pad_config) (pushed pad_history) = [[33, 7]]"
    by code_simp+
  then show ?thesis
    using vhf_gamepad_order [OF hyp surjective_pairing] by simp
qed

text \<open>For a mouse, the reports handed out together with the pending ones show the button
  states of the pushed reports in their order, repetitions removed: a click is neither lost
  nor reordered while motion is merged.\<close>

theorem vhf_mouse_button_order:
  assumes "vhf_device_type c = LVH_WINDOWS_DEVICE_MOUSE" and "lossless c ops empty_queue"
    and "vhf_run c ops empty_queue = (out, q)"
  shows "remdups_adj (map (\<lambda>r. r ! 0) (filter (\<lambda>r. length r = 7) out) @ map mbuttons (mouse_reports q))
    = remdups_adj (map (\<lambda>r. r ! 0) (filter (\<lambda>r. length r = 7) (pushed ops)))"
  using buttons.run [of c empty_queue ops "[]"] assms by simp

definition mouse_config :: vhf_config where
  "mouse_config =
     \<lparr>vhf_device_type = 2, vhf_gamepad_kind = 0, vhf_bus_type = 1, input_report_id = 0\<rparr>"

definition mouse_history :: "vhf_op list" where
  "mouse_history =
     [Push [1, 255, 127, 0, 0, 1, 0], Push [1, 1, 0, 255, 255, 1, 0], Push [0, 0, 0, 0, 0, 0, 0],
      Pop]"

lemma mouse_history_ok:
  "vhf_device_type mouse_config = LVH_WINDOWS_DEVICE_MOUSE"
  "lossless mouse_config mouse_history empty_queue"
  by code_simp+

theorem vhf_mouse_button_order_witness:
  "remdups_adj (map (\<lambda>r. r ! 0) (filter (\<lambda>r. length r = 7) (fst (vhf_run mouse_config mouse_history empty_queue)))
     @ map mbuttons (mouse_reports (snd (vhf_run mouse_config mouse_history empty_queue))))
   = [1, 0]"
proof -
  have "remdups_adj (map (\<lambda>r. r ! 0) (filter (\<lambda>r. length r = 7) (pushed mouse_history))) = [1, 0]"
    by code_simp
  then show ?thesis
    using vhf_mouse_button_order [OF mouse_history_ok surjective_pairing] by simp
qed

text \<open>Mouse motion is conserved: after a history that never finds the queue full, popping
  until the queue is empty (\<open>pending_work\<close> pops are enough) hands out exactly the horizontal
  and vertical motion, wheel and pan that were pushed, although every report is clamped to
  the range of its field.\<close>

theorem vhf_mouse_motion_delivered:
  assumes "vhf_device_type c = LVH_WINDOWS_DEVICE_MOUSE" and "lossless c ops empty_queue"
    and "n = pending_work (snd (vhf_run c ops empty_queue))"
  shows "queue_empty (snd (vhf_run c (ops @ replicate n Pop) empty_queue))
    \<and> (\<Sum>r\<leftarrow>filter (\<lambda>r. length r = 7) (fst (vhf_run c (ops @ replicate n Pop) empty_queue)).
         report_field f r)
      = (\<Sum>r\<leftarrow>filter (\<lambda>r. length r = 7) (pushed ops). report_field f r)"
  using assms by (rule mouse_motion_drained)

theorem vhf_mouse_motion_delivered_witness:
  "(\<Sum>r\<leftarrow>filter (\<lambda>r. length r = 7) (fst (vhf_run mouse_config
      (mouse_history @ replicate (pending_work (snd (vhf_run mouse_config mouse_history empty_queue))) Pop)
      empty_queue)). report_field Field_x r) = 32768"
proof -
  have "(\<Sum>r\<leftarrow>filter (\<lambda>r. length r = 7) (pushed mouse_history). report_field Field_x r) = 32768"
    by code_simp
  then show ?thesis
    using vhf_mouse_motion_delivered [OF mouse_history_ok refl, of Field_x] by simp
qed

text \<open>The newest input report is always kept, also when the queue is full: after a push
  of a report that is neither a mouse report nor a protocol reply, it is the last one
  waiting.\<close>

theorem vhf_newest_report_kept:
  assumes "\<not> is_mouse_report c r" and "\<not> is_protocol_report c r"
  shows "reports (vhf_push c r q) \<noteq> [] \<and> last (reports (vhf_push c r q)) = r"
  using assms by (auto simp: vhf_push_def is_mouse_report_def Let_def)

theorem vhf_newest_report_kept_witness:
  "last (reports (vhf_push mouse_config [5, 6] empty_queue)) = [5, 6]"
proof -
  have "\<not> is_mouse_report mouse_config [5, 6]" "\<not> is_protocol_report mouse_config [5, 6]"
    by code_simp+
  then show ?thesis
    using vhf_newest_report_kept by blast
qed

end
