(* ===== verification/PidRumble.thy ===== *)
theory PidRumble
  imports ReportBytes Floats
begin

text \<open>
  The scheduler of DirectInput PID effects,
  \<open>src/src/platform/windows/shared/generic_pid_rumble.hpp\<close>: a table of forty effects with a
  start, a duration and a loop count, a device gain, and a pause that shifts every running
  effect. Time points are ticks of the steady clock (nanoseconds) since its epoch, as
  integers; a duration of the protocol is a 16-bit number of milliseconds.

  The table keeps its forty entries: an effect block index selects one or none, as the
  pointer \<open>effect(index)\<close> does.
\<close>

section \<open>Protocol\<close>

definition generic_pid_set_effect_report_id :: u8 where "generic_pid_set_effect_report_id = 0x11"
definition generic_pid_set_envelope_report_id :: u8 where "generic_pid_set_envelope_report_id = 0x12"
definition generic_pid_set_periodic_report_id :: u8 where "generic_pid_set_periodic_report_id = 0x14"
definition generic_pid_set_constant_force_report_id :: u8 where
  "generic_pid_set_constant_force_report_id = 0x15"
definition generic_pid_effect_operation_report_id :: u8 where
  "generic_pid_effect_operation_report_id = 0x1A"
definition generic_pid_block_free_report_id :: u8 where "generic_pid_block_free_report_id = 0x1B"
definition generic_pid_device_control_report_id :: u8 where
  "generic_pid_device_control_report_id = 0x1C"
definition generic_pid_device_gain_report_id :: u8 where "generic_pid_device_gain_report_id = 0x1D"
definition generic_pid_max_effects :: nat where "generic_pid_max_effects = 40"

lemmas pid_report_ids = generic_pid_set_effect_report_id_def generic_pid_set_envelope_report_id_def
  generic_pid_set_periodic_report_id_def generic_pid_set_constant_force_report_id_def
  generic_pid_effect_operation_report_id_def generic_pid_block_free_report_id_def
  generic_pid_device_control_report_id_def generic_pid_device_gain_report_id_def

text \<open>Reads two bytes; every caller has checked the size.\<close>

definition pid_read_u16 :: "bytes \<Rightarrow> nat \<Rightarrow> u16" where
  "pid_read_u16 report off = ucast (report ! off) + ucast (report ! (off + 1)) * 256"

text \<open>The argument of \<open>std::lround\<close> is clamped and finite, so that the value of
  \<open>std::lround\<close> on a NaN plays no role (\<open>scale_force_finite\<close> below).\<close>

definition pid_scaled :: "u16 \<Rightarrow> u8 \<Rightarrow> u8 \<Rightarrow> flt" where
  "pid_scaled value effect_gain device_gain =
     (let maximum = flit binary64 10000 1;
          magnitude = min \<bar>sint value\<bar> 10000
      in fmul binary64
           (fmul binary64
             (fmul binary64 (fdiv binary64 (flit binary64 magnitude 1) maximum) (flit binary64 65535 1))
             (fdiv binary64 (flit binary64 (uint effect_gain) 1) (flit binary64 255 1)))
           (fdiv binary64 (flit binary64 (uint device_gain) 1) (flit binary64 255 1)))"

definition scale_force :: "u16 \<Rightarrow> u8 \<Rightarrow> u8 \<Rightarrow> u16" where
  "scale_force value effect_gain device_gain =
     word_of_int (lround binary64 (\<lambda>_. 0)
       (fclamp (pid_scaled value effect_gain device_gain) (flit binary64 0 1) (flit binary64 65535 1)))"

section \<open>State\<close>

record pid_effect =
  effect_type :: u8
  effect_gain :: u8
  magnitude :: u16
  duration :: u16
  start_delay :: u16
  operation_start :: int
  start :: int
  finish :: "int option"
  duration_is_infinite :: bool
  loop_count :: u8
  loop_count_is_infinite :: bool
  running :: bool
  started :: bool

record pid_rumble =
  effects :: "pid_effect list"
  device_gain :: u8
  last_strength :: u16
  actuators_enabled :: bool
  paused :: bool
  pause_started :: "int option"

record pid_update =
  recognized :: bool
  rumble_changed :: bool
  strength :: u16

definition default_effect :: pid_effect where
  "default_effect = \<lparr>effect_type = 0, effect_gain = 255, magnitude = 0, duration = 0, start_delay = 0,
     operation_start = 0, start = 0, finish = None, duration_is_infinite = True, loop_count = 1,
     loop_count_is_infinite = False, running = False, started = False\<rparr>"

definition initial_rumble :: pid_rumble where
  "initial_rumble = \<lparr>effects = replicate generic_pid_max_effects default_effect, device_gain = 255,
     last_strength = 0, actuators_enabled = True, paused = False, pause_started = None\<rparr>"

definition ignored_update :: pid_update where
  "ignored_update = \<lparr>recognized = False, rumble_changed = False, strength = 0\<rparr>"

definition quiet_update :: pid_update where
  "quiet_update = \<lparr>recognized = True, rumble_changed = False, strength = 0\<rparr>"

definition ticks :: "u16 \<Rightarrow> int" where
  "ticks milliseconds = uint milliseconds * 1000000"

section \<open>Effects\<close>

definition update_effect_end :: "pid_effect \<Rightarrow> pid_effect" where
  "update_effect_end e =
     (if duration_is_infinite e \<or> loop_count_is_infinite e then e\<lparr>finish := None\<rparr>
      else e\<lparr>finish := Some (start e + ticks (duration e) * uint (loop_count e))\<rparr>)"

definition expire_effect :: "int \<Rightarrow> pid_effect \<Rightarrow> pid_effect" where
  "expire_effect now e =
     (if \<not> running e then e
      else let e = (if \<not> started e \<and> start e \<le> now then e\<lparr>started := True\<rparr> else e)
           in (case finish e of
                 None \<Rightarrow> e
               | Some t \<Rightarrow> if t \<le> now then e\<lparr>running := False, started := False, finish := None\<rparr> else e))"

definition start_effect :: "u8 \<Rightarrow> int \<Rightarrow> pid_effect \<Rightarrow> pid_effect" where
  "start_effect loops now e =
     (let e = e\<lparr>running := True, operation_start := now, started := (start_delay e = 0)\<rparr>;
          e = e\<lparr>start := operation_start e + ticks (start_delay e), loop_count := max loops 1,
                loop_count_is_infinite := (loops = 255)\<rparr>
      in update_effect_end e)"

definition reschedule_running_effect :: "int \<Rightarrow> pid_effect \<Rightarrow> pid_effect" where
  "reschedule_running_effect now e =
     (if \<not> running e then e
      else let e = (if \<not> started e
                    then let s = operation_start e + ticks (start_delay e)
                         in e\<lparr>start := s, started := (s \<le> now)\<rparr>
                    else e)
           in expire_effect now (update_effect_end e))"

definition stop_effect :: "pid_effect \<Rightarrow> pid_effect" where
  "stop_effect e = e\<lparr>running := False, started := False, finish := None\<rparr>"

text \<open>One pass of the loop in \<open>continue_effects\<close>.\<close>

definition shift_effect :: "int \<Rightarrow> pid_effect \<Rightarrow> pid_effect" where
  "shift_effect pause_duration e =
     (if \<not> running e then e
      else e\<lparr>operation_start := operation_start e + pause_duration,
             start := start e + pause_duration,
             finish := map_option (\<lambda>t. t + pause_duration) (finish e)\<rparr>)"

definition effect_index :: "u8 \<Rightarrow> nat option" where
  "effect_index effect_block_index =
     (if effect_block_index = 0 \<or> generic_pid_max_effects < unat effect_block_index then None
      else Some (unat effect_block_index - 1))"

section \<open>The rumble state\<close>

definition stop_all_effects :: "pid_rumble \<Rightarrow> pid_rumble" where
  "stop_all_effects s = s\<lparr>effects := map stop_effect (effects s)\<rparr>"

definition expire_effects :: "int \<Rightarrow> pid_rumble \<Rightarrow> pid_rumble" where
  "expire_effects now s =
     (if paused s then s else s\<lparr>effects := map (expire_effect now) (effects s)\<rparr>)"

definition effect_force :: "u8 \<Rightarrow> int \<Rightarrow> pid_effect \<Rightarrow> u32" where
  "effect_force gain now e =
     (if \<not> running e \<or> \<not> started e \<or> now < start e \<or> effect_type e \<noteq> 1 \<and> effect_type e \<noteq> 2 then 0
      else ucast (scale_force (magnitude e) (effect_gain e) gain))"

definition current_strength :: "int \<Rightarrow> pid_rumble \<Rightarrow> u16" where
  "current_strength now s =
     (if \<not> actuators_enabled s \<or> paused s then 0
      else ucast (min (foldl (\<lambda>combined e. combined + effect_force (device_gain s) now e) 0 (effects s)) 65535))"

definition current_update :: "bool \<Rightarrow> int \<Rightarrow> pid_rumble \<Rightarrow> pid_update \<times> pid_rumble" where
  "current_update changed now s =
     (if \<not> changed then (quiet_update, s)
      else let v = current_strength now s
           in (\<lparr>recognized = True, rumble_changed = True, strength = v\<rparr>, s\<lparr>last_strength := v\<rparr>))"

definition continue_effects :: "int \<Rightarrow> pid_rumble \<Rightarrow> pid_rumble" where
  "continue_effects now s =
     (if \<not> paused s then s\<lparr>paused := False, pause_started := None\<rparr>
      else case pause_started s of
             None \<Rightarrow> s\<lparr>paused := False, pause_started := None\<rparr>
           | Some t \<Rightarrow> s\<lparr>effects := map (shift_effect (now - t)) (effects s), paused := False,
                        pause_started := None\<rparr>)"

section \<open>Report handlers\<close>

definition handle_set_effect :: "bytes \<Rightarrow> int \<Rightarrow> pid_rumble \<Rightarrow> pid_update \<times> pid_rumble" where
  "handle_set_effect data now s =
     (if length data \<le> 10 then (quiet_update, s)
      else case effect_index (data ! 0) of
             None \<Rightarrow> (quiet_update, s)
           | Some i \<Rightarrow>
               (let e = effects s ! i;
                    was_running = running e;
                    d = pid_read_u16 data 2;
                    e = e\<lparr>effect_type := data ! 1, duration := d, duration_is_infinite := (d = 0xFFFF),
                          start_delay := pid_read_u16 data 8, effect_gain := data ! 10\<rparr>;
                    e = reschedule_running_effect now e
                in current_update was_running now (s\<lparr>effects := (effects s)[i := e]\<rparr>)))"

definition handle_magnitude ::
  "bytes \<Rightarrow> u8 \<Rightarrow> int \<Rightarrow> pid_rumble \<Rightarrow> pid_update \<times> pid_rumble" where
  "handle_magnitude data expected_type now s =
     (if length data < 3 then (quiet_update, s)
      else case effect_index (data ! 0) of
             None \<Rightarrow> (quiet_update, s)
           | Some i \<Rightarrow>
               (let e = (effects s ! i)\<lparr>effect_type := expected_type, magnitude := pid_read_u16 data 1\<rparr>
                in current_update (running e) now (s\<lparr>effects := (effects s)[i := e]\<rparr>)))"

definition handle_effect_operation :: "bytes \<Rightarrow> int \<Rightarrow> pid_rumble \<Rightarrow> pid_update \<times> pid_rumble" where
  "handle_effect_operation data now s =
     (if length data < 2 then (quiet_update, s)
      else case effect_index (data ! 0) of
             None \<Rightarrow> (quiet_update, s)
           | Some i \<Rightarrow>
               (let operation = data ! 1;
                    s = (if operation = 2 then stop_all_effects s else s);
                    loops = (if 2 < length data then data ! 2 else 1);
                    s = (if operation = 1 \<or> operation = 2
                         then s\<lparr>effects := (effects s)[i := start_effect loops now (effects s ! i)]\<rparr>
                         else if operation = 3
                         then s\<lparr>effects := (effects s)[i := stop_effect (effects s ! i)]\<rparr>
                         else s)
                in current_update True now s))"

definition handle_block_free :: "bytes \<Rightarrow> int \<Rightarrow> pid_rumble \<Rightarrow> pid_update \<times> pid_rumble" where
  "handle_block_free data now s =
     (let s = (if data = [] then s
               else case effect_index (data ! 0) of
                      None \<Rightarrow> s
                    | Some i \<Rightarrow> s\<lparr>effects := (effects s)[i := default_effect]\<rparr>)
      in current_update True now s)"

definition handle_device_control :: "bytes \<Rightarrow> int \<Rightarrow> pid_rumble \<Rightarrow> pid_update \<times> pid_rumble" where
  "handle_device_control data now s =
     (if data = [] then (quiet_update, s)
      else let command = data ! 0;
               s = (if command = 1 then s\<lparr>actuators_enabled := True\<rparr>
                    else if command = 2 then s\<lparr>actuators_enabled := False\<rparr>
                    else if command = 3 then stop_all_effects s
                    else if command = 4
                    then s\<lparr>effects := replicate generic_pid_max_effects default_effect, device_gain := 255,
                           actuators_enabled := True, paused := False, pause_started := None\<rparr>
                    else if command = 5
                    then (if \<not> paused s then s\<lparr>paused := True, pause_started := Some now\<rparr> else s)
                    else if command = 6 then continue_effects now s
                    else s)
           in current_update True now s)"

definition handle_device_gain :: "bytes \<Rightarrow> int \<Rightarrow> pid_rumble \<Rightarrow> pid_update \<times> pid_rumble" where
  "handle_device_gain data now s =
     (let s = (if data = [] then s else s\<lparr>device_gain := data ! 0\<rparr>) in current_update True now s)"

definition handle_output_report :: "bytes \<Rightarrow> int \<Rightarrow> pid_rumble \<Rightarrow> pid_update \<times> pid_rumble" where
  "handle_output_report report now s =
     (case report of
        [] \<Rightarrow> (ignored_update, s)
      | rid # data \<Rightarrow>
          (let s = expire_effects now s in
           if rid = generic_pid_set_effect_report_id then handle_set_effect data now s
           else if rid = generic_pid_set_envelope_report_id then (quiet_update, s)
           else if rid = generic_pid_set_periodic_report_id then handle_magnitude data 2 now s
           else if rid = generic_pid_set_constant_force_report_id then handle_magnitude data 1 now s
           else if rid = generic_pid_effect_operation_report_id then handle_effect_operation data now s
           else if rid = generic_pid_block_free_report_id then handle_block_free data now s
           else if rid = generic_pid_device_control_report_id then handle_device_control data now s
           else if rid = generic_pid_device_gain_report_id then handle_device_gain data now s
           else (ignored_update, s)))"

definition advance :: "int \<Rightarrow> pid_rumble \<Rightarrow> pid_update \<times> pid_rumble" where
  "advance now s =
     (let s = expire_effects now s; v = current_strength now s in
      if v = last_strength s then (quiet_update, s)
      else (\<lparr>recognized = True, rumble_changed = True, strength = v\<rparr>, s\<lparr>last_strength := v\<rparr>))"

definition effect_transition :: "pid_effect \<Rightarrow> int option" where
  "effect_transition e =
     (if \<not> running e then None else if started e then finish e else Some (start e))"

definition next_transition :: "pid_rumble \<Rightarrow> int option" where
  "next_transition s =
     (if paused s then None
      else foldl (\<lambda>best e. case effect_transition e of
                     None \<Rightarrow> best
                   | Some t \<Rightarrow> (case best of None \<Rightarrow> Some t | Some b \<Rightarrow> if t < b then Some t else best))
             None (effects s))"

section \<open>Effects over time\<close>

text \<open>A running effect that has started did so by \<open>now\<close>, and no effect ends before it
  starts.\<close>

definition effect_ok :: "int \<Rightarrow> pid_effect \<Rightarrow> bool" where
  "effect_ok now e \<longleftrightarrow>
     (running e \<longrightarrow> (started e \<longrightarrow> start e \<le> now) \<and> (\<forall>t. finish e = Some t \<longrightarrow> start e \<le> t))"

lemma ticks_nonneg [simp]: "0 \<le> ticks m"
  by (simp add: ticks_def)

lemma effect_ok_mono: "effect_ok t e \<Longrightarrow> t \<le> now \<Longrightarrow> effect_ok now e"
  by (auto simp: effect_ok_def)

lemma effect_ok_stopped [simp]: "effect_ok now default_effect" "effect_ok now (stop_effect e)"
  by (simp_all add: effect_ok_def default_effect_def stop_effect_def)

lemma effect_ok_end:
  "(running e \<Longrightarrow> started e \<Longrightarrow> start e \<le> now) \<Longrightarrow> effect_ok now (update_effect_end e)"
  by (auto simp: effect_ok_def update_effect_end_def)

lemma effect_ok_expire: "effect_ok now e \<Longrightarrow> effect_ok now (expire_effect now e)"
  by (auto simp: effect_ok_def expire_effect_def Let_def split: option.splits)

lemma effect_ok_start: "effect_ok now (start_effect loops now e)"
  unfolding start_effect_def Let_def by (rule effect_ok_end) (simp add: ticks_def)

lemma effect_ok_reschedule: "effect_ok now e \<Longrightarrow> effect_ok now (reschedule_running_effect now e)"
proof (cases "running e")
  case True
  assume "effect_ok now e"
  then show ?thesis
    unfolding reschedule_running_effect_def Let_def
    using True by (simp, intro conjI impI effect_ok_expire effect_ok_end) (auto simp: effect_ok_def)
qed (simp add: reschedule_running_effect_def)

lemma effect_ok_shift: "effect_ok t e \<Longrightarrow> effect_ok (t + d) (shift_effect d e)"
  by (auto simp: effect_ok_def shift_effect_def)

lemma effect_ok_magnitude [simp]:
  "effect_ok now (e\<lparr>effect_type := ty, magnitude := m\<rparr>) = effect_ok now e"
  by (simp add: effect_ok_def)

lemma effect_ok_set [simp]:
  "effect_ok now (e\<lparr>effect_type := ty, duration := d, duration_is_infinite := b, start_delay := sd,
     effect_gain := g\<rparr>) = effect_ok now e"
  by (simp add: effect_ok_def)

text \<open>Expiry looks at the latest time only.\<close>

lemma expire_effect_expire:
  "t \<le> now \<Longrightarrow> expire_effect now (expire_effect t e) = expire_effect now e"
  by (cases "finish e") (auto simp: expire_effect_def Let_def)

lemma expire_effect_shift:
  "expire_effect (t + d) (shift_effect d e) = shift_effect d (expire_effect t e)
   \<or> \<not> running (expire_effect (t + d) (shift_effect d e)) \<and> \<not> running (expire_effect t e)"
proof (cases "running e")
  case True
  then show ?thesis
    by (cases e; cases "finish e"; cases "started e")
       (auto simp: expire_effect_def shift_effect_def Let_def)
qed (simp add: expire_effect_def shift_effect_def)

lemma effect_force_shift:
  "effect_force g (t + d) (expire_effect (t + d) (shift_effect d e)) = effect_force g t (expire_effect t e)"
  using expire_effect_shift [of t d e] by (auto simp: effect_force_def shift_effect_def)

lemma foldl_add_cong:
  "(\<And>e. e \<in> set es \<Longrightarrow> f e = g (h e)) \<Longrightarrow>
     foldl (\<lambda>a e. a + f e) (z :: u32) es = foldl (\<lambda>a e. a + g e) z (map h es)"
  by (induction es arbitrary: z) auto

text \<open>Until its next transition an expired effect stays as it is.\<close>

lemma effect_quiet:
  assumes "effect_ok t1 e" and "t1 \<le> t2" and "\<And>n. effect_transition e = Some n \<Longrightarrow> t2 < n"
  shows "expire_effect t2 e = e" and "effect_force g t2 e = effect_force g t1 e"
proof -
  show "expire_effect t2 e = e"
  proof (cases "running e \<and> \<not> started e")
    case True
    then have "t2 < start e"
      using assms(3) by (simp add: effect_transition_def)
    then show ?thesis
      using True assms(1) by (cases "finish e") (auto simp: expire_effect_def effect_ok_def)
  next
    case False
    then show ?thesis
      using assms(3) by (cases "finish e") (auto simp: expire_effect_def effect_transition_def)
  qed
  show "effect_force g t2 e = effect_force g t1 e"
    using assms(1,2) by (auto simp: effect_force_def effect_ok_def)
qed

lemma foldl_earliest:
  "foldl (\<lambda>best e. case f e of None \<Rightarrow> best
      | Some t \<Rightarrow> (case best of None \<Rightarrow> Some t | Some b \<Rightarrow> if t < b then Some t else best)) z es = r \<Longrightarrow>
   (\<forall>t. (z = Some t \<or> (\<exists>e \<in> set es. f e = Some t)) \<longrightarrow> (\<exists>n. r = Some n \<and> n \<le> (t :: int)))"
proof (induction es arbitrary: z)
  case (Cons e es)
  define z' where "z' = (case f e of None \<Rightarrow> z
      | Some t \<Rightarrow> (case z of None \<Rightarrow> Some t | Some b \<Rightarrow> if t < b then Some t else z))"
  have IH: "\<forall>t. (z' = Some t \<or> (\<exists>e \<in> set es. f e = Some t)) \<longrightarrow> (\<exists>n. r = Some n \<and> n \<le> t)"
    using Cons by (simp add: z'_def)
  have "\<exists>b. z' = Some b \<and> b \<le> t" if "z = Some t \<or> f e = Some t" for t
    using that by (cases z; cases "f e") (auto simp: z'_def)
  then show ?case
    using IH by (metis (no_types, lifting) order_trans set_ConsD)
qed auto

lemma next_transition_earliest:
  "\<not> paused s \<Longrightarrow> e \<in> set (effects s) \<Longrightarrow> effect_transition e = Some t \<Longrightarrow>
     \<exists>n. next_transition s = Some n \<and> n \<le> t"
  using foldl_earliest [OF refl, where f = effect_transition and z = None and es = "effects s"]
  by (auto simp: next_transition_def)

section \<open>The invariant of the rumble state\<close>

definition reference_time :: "int \<Rightarrow> pid_rumble \<Rightarrow> int" where
  "reference_time now s = (case pause_started s of None \<Rightarrow> now | Some p \<Rightarrow> p)"

definition rumble_ok :: "int \<Rightarrow> pid_rumble \<Rightarrow> bool" where
  "rumble_ok now s \<longleftrightarrow> length (effects s) = generic_pid_max_effects
     \<and> (paused s \<longleftrightarrow> pause_started s \<noteq> None) \<and> reference_time now s \<le> now
     \<and> list_all (effect_ok (reference_time now s)) (effects s)"

lemma effect_index_less: "effect_index b = Some i \<Longrightarrow> i < generic_pid_max_effects"
  by (auto simp: effect_index_def unat_eq_0 split: if_splits) (metis diff_less_mono2 less_one
      linorder_not_le order_less_le_trans not_gr_zero unat_eq_0 diff_Suc_less One_nat_def)

lemma rumble_ok_update [simp]:
  "rumble_ok now (s\<lparr>last_strength := v\<rparr>) = rumble_ok now s"
  "rumble_ok now (s\<lparr>device_gain := g\<rparr>) = rumble_ok now s"
  "rumble_ok now (s\<lparr>actuators_enabled := b\<rparr>) = rumble_ok now s"
  by (simp_all add: rumble_ok_def reference_time_def)

lemma rumble_ok_current_update [simp]:
  "rumble_ok now (snd (current_update b now' s)) = rumble_ok now s"
  by (simp add: current_update_def Let_def)

lemma rumble_ok_effect:
  "rumble_ok now s \<Longrightarrow> effect_ok (reference_time now s) e \<Longrightarrow>
     rumble_ok now (s\<lparr>effects := (effects s)[i := e]\<rparr>)"
  by (auto simp: rumble_ok_def reference_time_def list_all_iff dest: subsetD [OF set_update_subset_insert])

lemma rumble_ok_nth:
  "rumble_ok now s \<Longrightarrow> effect_index b = Some i \<Longrightarrow> effect_ok (reference_time now s) (effects s ! i)"
  by (simp add: rumble_ok_def list_all_length effect_index_less)

lemma reference_time_stop_all [simp]: "reference_time now (stop_all_effects s) = reference_time now s"
  by (simp add: reference_time_def stop_all_effects_def)

lemma rumble_ok_stop_all: "rumble_ok now s \<Longrightarrow> rumble_ok now (stop_all_effects s)"
  by (simp add: rumble_ok_def stop_all_effects_def reference_time_def list_all_iff)

lemma rumble_ok_expire:
  assumes "rumble_ok t s" and "t \<le> now"
  shows "rumble_ok now (expire_effects now s)"
  using assms
  by (auto simp: rumble_ok_def expire_effects_def reference_time_def list_all_iff
      intro!: effect_ok_expire intro: effect_ok_mono)

lemma rumble_ok_continue: "rumble_ok now s \<Longrightarrow> rumble_ok now (continue_effects now s)"
proof -
  assume ok: "rumble_ok now s"
  have "effect_ok now (shift_effect (now - p) e)" if "effect_ok p e" for p e
    using effect_ok_shift [OF that, of "now - p"] by simp
  then show ?thesis
    using ok by (cases "pause_started s")
      (auto simp: rumble_ok_def continue_effects_def reference_time_def list_all_iff)
qed

text \<open>The reports that start or reschedule an effect.\<close>

definition may_start :: "bytes \<Rightarrow> bool" where
  "may_start report \<longleftrightarrow> report \<noteq> [] \<and>
     hd report \<in> {generic_pid_set_effect_report_id, generic_pid_effect_operation_report_id}"

lemma rumble_ok_set_effect:
  "rumble_ok now s \<Longrightarrow> reference_time now s = now \<Longrightarrow>
     rumble_ok now (snd (handle_set_effect data now s))"
  using rumble_ok_nth [of now s "data ! 0"]
  by (auto simp: handle_set_effect_def Let_def split: option.split
      intro!: rumble_ok_effect effect_ok_reschedule)

lemma rumble_ok_magnitude:
  "rumble_ok now s \<Longrightarrow> rumble_ok now (snd (handle_magnitude data ty now s))"
  using rumble_ok_nth [of now s "data ! 0"]
  by (auto simp: handle_magnitude_def Let_def split: option.split intro!: rumble_ok_effect)

lemma rumble_ok_operation:
  "rumble_ok now s \<Longrightarrow> reference_time now s = now \<Longrightarrow>
     rumble_ok now (snd (handle_effect_operation data now s))"
  using rumble_ok_nth [of now s "data ! 0"] rumble_ok_stop_all [of now s]
  by (auto simp: handle_effect_operation_def Let_def split: option.split
      intro!: rumble_ok_effect effect_ok_start)

lemma rumble_ok_block_free:
  "rumble_ok now s \<Longrightarrow> rumble_ok now (snd (handle_block_free data now s))"
  by (auto simp: handle_block_free_def Let_def split: option.split intro!: rumble_ok_effect)

lemma rumble_ok_reset:
  "rumble_ok now (s\<lparr>effects := replicate generic_pid_max_effects default_effect, device_gain := 255,
     actuators_enabled := True, paused := False, pause_started := None\<rparr>)"
  by (simp add: rumble_ok_def reference_time_def list_all_iff)

lemma rumble_ok_pause:
  "rumble_ok now s \<Longrightarrow> \<not> paused s \<Longrightarrow> rumble_ok now (s\<lparr>paused := True, pause_started := Some now\<rparr>)"
  by (auto simp: rumble_ok_def reference_time_def)

lemma rumble_ok_device_control:
  "rumble_ok now s \<Longrightarrow> rumble_ok now (snd (handle_device_control data now s))"
  by (simp add: handle_device_control_def Let_def rumble_ok_stop_all rumble_ok_reset rumble_ok_pause
      rumble_ok_continue)

lemma rumble_ok_device_gain:
  "rumble_ok now s \<Longrightarrow> rumble_ok now (snd (handle_device_gain data now s))"
  by (simp add: handle_device_gain_def Let_def)

lemma rumble_ok_later: "rumble_ok t s \<Longrightarrow> t \<le> now \<Longrightarrow> rumble_ok now s"
  by (auto simp: rumble_ok_def reference_time_def list_all_iff intro: effect_ok_mono split: option.splits)

lemma rumble_ok_handle:
  assumes s: "rumble_ok t s" and t: "t \<le> now" and p: "\<not> (paused s \<and> may_start report)"
  shows "rumble_ok now (snd (handle_output_report report now s))"
proof (cases report)
  case Nil
  then show ?thesis
    using rumble_ok_later [OF s t] by (simp add: handle_output_report_def)
next
  case (Cons rid data)
  define s1 where "s1 = expire_effects now s"
  have ok: "rumble_ok now s1"
    unfolding s1_def by (rule rumble_ok_expire [OF s t])
  have now: "reference_time now s1 = now" if "may_start report"
    using p that ok by (auto simp: s1_def expire_effects_def rumble_ok_def reference_time_def)
  have starts: "rid = generic_pid_set_effect_report_id \<or> rid = generic_pid_effect_operation_report_id
      \<Longrightarrow> reference_time now s1 = now"
    using now Cons by (auto simp: may_start_def)
  show ?thesis
    using ok starts unfolding Cons
    by (simp add: handle_output_report_def s1_def [symmetric] Let_def rumble_ok_set_effect
        rumble_ok_magnitude rumble_ok_operation rumble_ok_block_free rumble_ok_device_control
        rumble_ok_device_gain)
qed

lemma rumble_ok_advance: "rumble_ok t s \<Longrightarrow> t \<le> now \<Longrightarrow> rumble_ok now (snd (advance now s))"
  using rumble_ok_expire [of t s now] by (simp add: advance_def Let_def)

lemma rumble_ok_initial: "rumble_ok t initial_rumble"
  by (simp add: rumble_ok_def initial_rumble_def reference_time_def list_all_iff)

text \<open>The states the driver reaches: reports and timer ticks at nondecreasing times. The last
  premise leaves out the start of an effect during a pause, which the last section is about.\<close>

inductive pid_reachable :: "pid_rumble \<Rightarrow> int \<Rightarrow> bool" where
  initial: "pid_reachable initial_rumble t"
| report: "pid_reachable s t \<Longrightarrow> t \<le> now \<Longrightarrow> \<not> (paused s \<and> may_start r) \<Longrightarrow>
     pid_reachable (snd (handle_output_report r now s)) now"
| tick: "pid_reachable s t \<Longrightarrow> t \<le> now \<Longrightarrow> pid_reachable (snd (advance now s)) now"

lemma pid_reachable_ok: "pid_reachable s t \<Longrightarrow> rumble_ok t s"
  by (induction rule: pid_reachable.induct)
     (auto intro: rumble_ok_initial rumble_ok_handle rumble_ok_advance)

section \<open>Forces\<close>

text \<open>One in the fixed-point representation of doubles.\<close>

definition unit64 :: int where "unit64 = 2 ^ 1074"

lemma unit64_pos [simp]: "0 < unit64"
  by (simp add: unit64_def)

lemma flit64:
  assumes "0 \<le> n" and "n < 2 ^ 53"
  shows "flit binary64 n 1 = Fin (n * unit64)"
  using fround_exact [of n binary64 1 1074] assms
  unfolding flit_def binary64_simps unit64_def by (simp only: mult_1_right)

lemma zero64:
  "fmul binary64 (Fin 0) (Fin 0) = Fin 0" "0 < c \<Longrightarrow> fdiv binary64 (Fin 0) (Fin c) = Fin 0"
  using fround_exact [of 0 binary64 _ 0] by simp_all

lemma mul64:
  assumes "0 \<le> n" and "n < 2 ^ 53"
  shows "fmul binary64 (Fin (n * unit64)) (Fin unit64) = Fin (n * unit64)"
  using fround_exact [of n binary64 "2 ^ 1074" 1074] assms
  unfolding fmul.simps binary64_simps unit64_def by simp

lemma div64: "0 < n \<Longrightarrow> fdiv binary64 (Fin (n * unit64)) (Fin (n * unit64)) = Fin unit64"
  using fround_exact [of 1 binary64 "n * unit64" 1074]
  unfolding fdiv.simps binary64_simps unit64_def by (simp add: mult_ac abs_mult sgn_mult)

lemma pid_scaled_mono:
  assumes "min \<bar>sint v\<bar> 10000 \<le> min \<bar>sint v'\<bar> 10000" and "g \<le> g'" and "d \<le> d'"
  shows "\<exists>k k'. pid_scaled v g d = Fin k \<and> pid_scaled v' g' d' = Fin k'
    \<and> 0 \<le> k \<and> k \<le> k' \<and> k' \<le> 65535 * unit64"
proof -
  define m m' where "m = min \<bar>sint v\<bar> 10000" and "m' = min \<bar>sint v'\<bar> 10000"
  have m: "0 \<le> m" "m \<le> m'" "m' \<le> 10000"
    using assms(1) by (auto simp: m_def m'_def)
  have gd: "uint g \<le> uint g'" "uint g' \<le> 255" "uint d \<le> uint d'" "uint d' \<le> 255"
    using assms(2,3) uint_lt2p [of g'] uint_lt2p [of d'] by (simp_all add: word_le_def)
  have lit: "flit binary64 n 1 = Fin (n * unit64)" if "0 \<le> n" "n \<le> 65535" for n
    using that by (intro flit64) auto
  obtain a a' where a: "fdiv binary64 (Fin (m * unit64)) (Fin (10000 * unit64)) = Fin a"
    "fdiv binary64 (Fin (m' * unit64)) (Fin (10000 * unit64)) = Fin a'" "0 \<le> a" "a \<le> a'" "a' \<le> unit64"
    using fdiv_pair [of "m * unit64" "m' * unit64" "10000 * unit64" "10000 * unit64" binary64 unit64] m
    by (auto simp: div64 zero64 simp del: fdiv.simps)
  obtain b b' where b: "fmul binary64 (Fin a) (Fin (65535 * unit64)) = Fin b"
    "fmul binary64 (Fin a') (Fin (65535 * unit64)) = Fin b'" "0 \<le> b" "b \<le> b'" "b' \<le> 65535 * unit64"
    using fmul_pair [of a a' unit64 "65535 * unit64" "65535 * unit64" "65535 * unit64" binary64
        "65535 * unit64"] a(3-5) mul64 [of 65535] zero64(1)
    by (auto simp: mult.commute)
  obtain x x' where x: "fdiv binary64 (Fin (uint g * unit64)) (Fin (255 * unit64)) = Fin x"
    "fdiv binary64 (Fin (uint g' * unit64)) (Fin (255 * unit64)) = Fin x'" "0 \<le> x" "x \<le> x'" "x' \<le> unit64"
    using fdiv_pair [of "uint g * unit64" "uint g' * unit64" "255 * unit64" "255 * unit64" binary64 unit64] gd
    by (auto simp: div64 zero64 simp del: fdiv.simps)
  obtain c c' where c: "fmul binary64 (Fin b) (Fin x) = Fin c"
    "fmul binary64 (Fin b') (Fin x') = Fin c'" "0 \<le> c" "c \<le> c'" "c' \<le> 65535 * unit64"
    using fmul_pair [of b b' "65535 * unit64" x x' unit64 binary64 "65535 * unit64"] b(3-5) x(3-5)
      mul64 [of 65535] zero64(1) by auto
  obtain y y' where y: "fdiv binary64 (Fin (uint d * unit64)) (Fin (255 * unit64)) = Fin y"
    "fdiv binary64 (Fin (uint d' * unit64)) (Fin (255 * unit64)) = Fin y'" "0 \<le> y" "y \<le> y'" "y' \<le> unit64"
    using fdiv_pair [of "uint d * unit64" "uint d' * unit64" "255 * unit64" "255 * unit64" binary64 unit64] gd
    by (auto simp: div64 zero64 simp del: fdiv.simps)
  obtain k k' where k: "fmul binary64 (Fin c) (Fin y) = Fin k"
    "fmul binary64 (Fin c') (Fin y') = Fin k'" "0 \<le> k" "k \<le> k'" "k' \<le> 65535 * unit64"
    using fmul_pair [of c c' "65535 * unit64" y y' unit64 binary64 "65535 * unit64"] c(3-5) y(3-5)
      mul64 [of 65535] zero64(1) by auto
  have "pid_scaled v g d = Fin k" and "pid_scaled v' g' d' = Fin k'"
    using m gd
    by (simp_all add: pid_scaled_def Let_def lit m_def [symmetric] m'_def [symmetric] a b x c y k
        del: fmul.simps fdiv.simps)
  then show ?thesis
    using k by blast
qed

lemma scale_force_Fin:
  assumes "pid_scaled v g d = Fin k" and "0 \<le> k" and "k \<le> 65535 * unit64"
  shows "uint (scale_force v g d) = round_away k unit64"
proof -
  have "0 \<le> round_away k unit64" and "round_away k unit64 \<le> 65535"
    using round_away_mono [of 0 k unit64] round_away_mono [of k "65535 * unit64" unit64] assms
    by (simp_all add: round_away_def [of 0])
  then show ?thesis
    using assms flit64 [of 65535] flit64 [of 0]
    by (simp add: scale_force_def uint_word_of_int unit64_def min_def)
qed

lemma scale_force_mono:
  assumes "min \<bar>sint v\<bar> 10000 \<le> min \<bar>sint v'\<bar> 10000" and "g \<le> g'" and "d \<le> d'"
  shows "scale_force v g d \<le> scale_force v' g' d'"
  using pid_scaled_mono [OF assms] scale_force_Fin [of v g d] scale_force_Fin [of v' g' d']
    round_away_mono [of _ _ unit64]
  by (auto simp: word_le_def)

lemma scale_force_full: "scale_force 10000 255 255 = 65535"
proof -
  have lit: "flit binary64 10000 1 = Fin (10000 * unit64)" "flit binary64 65535 1 = Fin (65535 * unit64)"
    "flit binary64 255 1 = Fin (255 * unit64)"
    by (rule flit64; simp)+
  have div: "fdiv binary64 (Fin (10000 * unit64)) (Fin (10000 * unit64)) = Fin unit64"
    "fdiv binary64 (Fin (255 * unit64)) (Fin (255 * unit64)) = Fin unit64"
    by (rule div64; simp)+
  have mul: "fmul binary64 (Fin (65535 * unit64)) (Fin unit64) = Fin (65535 * unit64)"
    by (rule mul64; simp)
  moreover have "fmul binary64 (Fin unit64) (Fin (65535 * unit64))
      = fmul binary64 (Fin (65535 * unit64)) (Fin unit64)"
    by (simp only: fmul.simps mult.commute)
  ultimately have mul': "fmul binary64 (Fin unit64) (Fin (65535 * unit64)) = Fin (65535 * unit64)"
    by (simp only:)
  have "min \<bar>sint (10000 :: u16)\<bar> 10000 = 10000" "uint (255 :: u8) = 255"
    by code_simp+
  then have "pid_scaled 10000 255 255 = Fin (65535 * unit64)"
    by (simp only: pid_scaled_def Let_def lit div mul mul')
  from scale_force_Fin [OF this] have "uint (scale_force 10000 255 255) = 65535"
    using unit64_pos round_away_mult [of unit64 65535] by linarith
  then show ?thesis
    by (metis word_of_int_numeral word_of_int_uint)
qed

section \<open>Strength\<close>

lemma foldl_force_sum:
  assumes "\<And>e. unat (f e) \<le> 65535" and "unat z + length es * 65535 < 2 ^ 32"
  shows "unat (foldl (\<lambda>c e. c + f e) (z :: u32) es) = unat z + (\<Sum>e\<leftarrow>es. unat (f e))"
  using assms(2)
proof (induction es arbitrary: z)
  case (Cons e es)
  have "unat (z + f e) = unat z + unat (f e)"
    using Cons.prems assms(1) [of e] by (subst unat_add_lem [THEN iffD1]) auto
  then show ?case
    using Cons assms(1) [of e] by simp
qed simp

lemma effect_force_le: "unat (effect_force g now e) \<le> 65535"
  using unsigned_less [of "scale_force (magnitude e) (effect_gain e) g", where 'a = nat]
  by (simp add: effect_force_def unsigned_ucast_eq take_bit_nat_eq_self)

lemma current_strength_last [simp]: "current_strength now (s\<lparr>last_strength := v\<rparr>) = current_strength now s"
  by (simp add: current_strength_def)

text \<open>The result of \<open>continue_effects\<close> after a pause.\<close>

lemma pause_continue_state:
  assumes "\<not> paused s"
    and s2: "s2 = snd (handle_output_report [generic_pid_device_control_report_id, 6] t2
                 (snd (handle_output_report [generic_pid_device_control_report_id, 5] t1 s)))"
  shows "effects s2 = map (shift_effect (t2 - t1)) (effects (expire_effects t1 s))"
    and "\<not> paused s2" and "device_gain s2 = device_gain s"
    and "actuators_enabled s2 = actuators_enabled s"
  using assms(1) unfolding s2
  by (simp_all add: handle_output_report_def handle_device_control_def current_update_def Let_def
      continue_effects_def expire_effects_def pid_report_ids)

section \<open>Properties\<close>


definition pid_example :: pid_rumble where
  "pid_example = snd (handle_output_report [0x1A, 1, 1] 0
     (snd (handle_output_report [0x11, 1, 3, 10, 0, 0, 0, 0, 0, 0, 0, 255] 0 initial_rumble)))"


text \<open>A pause is transparent: pausing at \<open>t1\<close> and continuing at \<open>t2\<close> gives, \<open>d\<close> after the
  continue, the strength that the unpaused state has \<open>d\<close> after \<open>t1\<close>.\<close>

theorem pid_pause_transparent:
  assumes "\<not> paused s" and "0 \<le> d"
  shows "current_strength (t2 + d) (expire_effects (t2 + d)
       (snd (handle_output_report [generic_pid_device_control_report_id, 6] t2
         (snd (handle_output_report [generic_pid_device_control_report_id, 5] t1 s)))))
    = current_strength (t1 + d) (expire_effects (t1 + d) s)"
proof -
  define s2 where "s2 = snd (handle_output_report [generic_pid_device_control_report_id, 6] t2
                 (snd (handle_output_report [generic_pid_device_control_report_id, 5] t1 s)))"
  note s2 = pause_continue_state [OF assms(1) s2_def]
  have "effect_force g (t2 + d) (expire_effect (t2 + d) (shift_effect (t2 - t1) (expire_effect t1 e)))
      = effect_force g (t1 + d) (expire_effect (t1 + d) e)" for g e
    using effect_force_shift [of g "t1 + d" "t2 - t1" "expire_effect t1 e"] assms(2)
    by (simp add: expire_effect_expire algebra_simps)
  then have "foldl (\<lambda>c e. c + effect_force g (t2 + d) e) 0 (effects (expire_effects (t2 + d) s2))
      = foldl (\<lambda>c e. c + effect_force g (t1 + d) e) 0 (effects (expire_effects (t1 + d) s))" for g
    using assms(1) s2(2) by (simp add: expire_effects_def s2(1) foldl_map comp_def)
  then show ?thesis
    using assms(1) s2(2-4) by (simp add: s2_def [symmetric] current_strength_def expire_effects_def)
qed

theorem pid_pause_transparent_witness:
  "current_strength 27 (expire_effects 27
       (snd (handle_output_report [generic_pid_device_control_report_id, 6] 20
         (snd (handle_output_report [generic_pid_device_control_report_id, 5] 10 pid_example)))))
    = current_strength 17 (expire_effects 17 pid_example)"
proof -
  have "\<not> paused pid_example"
    by code_simp
  then show ?thesis
    using pid_pause_transparent [of pid_example 7 20 10] by simp
qed

text \<open>The lifetime of an effect: started at \<open>t0\<close> it contributes its force exactly from its
  start delay until the end of its last loop (for ever when duration or loop count are
  infinite), and only the constant and the periodic type do.\<close>

theorem pid_effect_lifetime:
  "effect_force g t (expire_effect t (start_effect n t0 e)) =
     (if (effect_type e = 1 \<or> effect_type e = 2) \<and> t0 + ticks (start_delay e) \<le> t
         \<and> (duration_is_infinite e \<or> n = 255
             \<or> t < t0 + ticks (start_delay e) + ticks (duration e) * uint (max n 1))
      then ucast (scale_force (magnitude e) (effect_gain e) g) else 0)"
  by (cases "duration_is_infinite e \<or> n = 255")
     (auto simp: effect_force_def expire_effect_def start_effect_def update_effect_end_def Let_def
       ticks_def)

text \<open>The strength is the saturated sum of the forces: with the forty effects of a
  reachable state the 32-bit sum does not wrap around.\<close>

theorem pid_strength_saturates:
  assumes "pid_reachable s t" and "actuators_enabled s" and "\<not> paused s"
  shows "unat (current_strength now s)
    = min 65535 (\<Sum>e\<leftarrow>effects s. unat (effect_force (device_gain s) now e))"
proof -
  define total where "total = foldl (\<lambda>c e. c + effect_force (device_gain s) now e) 0 (effects s)"
  have "length (effects s) = 40"
    using pid_reachable_ok [OF assms(1)] by (simp add: rumble_ok_def generic_pid_max_effects_def)
  then have "unat total = (\<Sum>e\<leftarrow>effects s. unat (effect_force (device_gain s) now e))"
    unfolding total_def by (subst foldl_force_sum) (simp_all add: effect_force_le)
  moreover have "unat (current_strength now s) = min 65535 (unat total)"
    using assms(2,3)
    by (auto simp: current_strength_def total_def [symmetric] min_def word_le_nat_alt
        unsigned_ucast_eq take_bit_nat_eq_self)
  ultimately show ?thesis
    by simp
qed

theorem pid_strength_saturates_witness:
  "unat (current_strength 5 initial_rumble) = 0"
proof -
  have hyp: "actuators_enabled initial_rumble" "\<not> paused initial_rumble"
    by code_simp+
  have zero: "(\<Sum>e\<leftarrow>effects initial_rumble. unat (effect_force (device_gain initial_rumble) 5 e)) = 0"
    by (simp add: initial_rumble_def effect_force_def default_effect_def sum_list_replicate)
  show ?thesis
    using pid_strength_saturates [OF pid_reachable.initial [of 0] hyp, of 5] unfolding zero by simp
qed

text \<open>A force grows with the magnitude, the effect gain and the device gain, and the full
  force is full scale.\<close>

theorem pid_force_monotone:
  assumes "min \<bar>sint v\<bar> 10000 \<le> min \<bar>sint v'\<bar> 10000" and "g \<le> g'" and "d \<le> d'"
  shows "scale_force v g d \<le> scale_force v' g' d' \<and> scale_force 10000 255 255 = 65535"
  using scale_force_mono [OF assms] scale_force_full by simp

theorem pid_force_monotone_witness: "scale_force 5000 128 255 \<le> scale_force 10000 255 255"
proof -
  have "(min (abs (sint (5000 :: u16))) 10000) \<le> (min (abs (sint (10000 :: u16))) 10000)"
    "(128 :: u8) \<le> 255" "(255 :: u8) \<le> 255"
    by code_simp+
  from pid_force_monotone [OF this] show ?thesis
    by blast
qed

text \<open>Reports that are too short or name no effect block change nothing but what time has
  changed already.\<close>

theorem pid_malformed_ignored:
  assumes "rid = generic_pid_set_effect_report_id \<and> length data \<le> 10
    \<or> rid \<in> {generic_pid_set_periodic_report_id, generic_pid_set_constant_force_report_id} \<and> length data < 3
    \<or> rid = generic_pid_effect_operation_report_id \<and> length data < 2
    \<or> rid \<in> {generic_pid_set_effect_report_id, generic_pid_set_periodic_report_id,
          generic_pid_set_constant_force_report_id, generic_pid_effect_operation_report_id}
        \<and> effect_index (data ! 0) = None"
  shows "handle_output_report (rid # data) now s = (quiet_update, expire_effects now s)"
  using assms
  by (auto simp: handle_output_report_def pid_report_ids handle_set_effect_def handle_magnitude_def
      handle_effect_operation_def Let_def)

theorem pid_malformed_ignored_witness:
  "handle_output_report [0x1A, 41, 1, 1] 7 pid_example = (quiet_update, expire_effects 7 pid_example)"
proof -
  have "effect_index (([41, 1, 1] :: bytes) ! 0) = None"
    by code_simp
  then show ?thesis
    using pid_malformed_ignored [of "0x1A" "[41, 1, 1]" 7 pid_example] by (simp add: pid_report_ids)
qed

text \<open>A device reset returns to the initial state, with no effect left and no rumble.\<close>

theorem pid_device_reset:
  "handle_output_report [generic_pid_device_control_report_id, 4] now s =
     (\<lparr>recognized = True, rumble_changed = True, strength = 0\<rparr>, initial_rumble)"
proof -
  have "effect_force 255 now default_effect = 0"
    by (simp add: effect_force_def default_effect_def)
  then have "foldl (\<lambda>c e. c + effect_force 255 now e) 0 (replicate n default_effect) = 0" for n
    by (induction n) auto
  then show ?thesis
    by (simp add: handle_output_report_def pid_report_ids handle_device_control_def Let_def
        current_update_def current_strength_def initial_rumble_def expire_effects_def)
qed

text \<open>The exception to the two timing properties: an effect started during a pause is
  shifted by the whole pause although it missed part of it. Here it is started at 5 in a
  pause from 0 to 10; after the continue it is scheduled for 15, and yet the state has no
  next transition, so that the timer sleeps over its start.\<close>

theorem effect_started_in_pause:
  "let s = snd (handle_output_report [0x1C, 5] 0 initial_rumble);
       s = snd (handle_output_report [0x1A, 1, 1, 255] 5 s);
       s = snd (handle_output_report [0x1C, 6] 10 s);
       e = effects s ! 0
   in running e \<and> started e \<and> start e = 15 \<and> next_transition s = None"
  by code_simp

text \<open>A set-effect report during a pause expires the selected effect against the clock that
  runs on: the effect of 10 ms has run for 1 ms when it is paused, and is gone after the
  continue.\<close>

theorem effect_expires_in_pause:
  "let set = [0x11, 1, 3, 10, 0, 0, 0, 0, 0, 0, 0, 255];
       s = snd (handle_output_report set 0 initial_rumble);
       s = snd (handle_output_report [0x1A, 1, 1] 0 s);
       s = snd (handle_output_report [0x1C, 5] 1000000 s);
       without = snd (handle_output_report [0x1C, 6] 20000000 s);
       s = snd (handle_output_report set 15000000 s);
       s = snd (handle_output_report [0x1C, 6] 20000000 s)
   in running (effects without ! 0) \<and> \<not> running (effects s ! 0)"
  by code_simp

end
