(* ===== verification/PidFeature.thy ===== *)
theory PidFeature
  imports PidRumble
begin

text \<open>
  The driver-side state of the PID feature handshake, the class
  \<open>GenericPidFeatureState\<close> of
  \<open>src/src/platform/windows/shared/generic_pid_protocol.hpp\<close> (create, load, pool and state
  reports), and the conversion of the trigger bytes for DirectInput in the same file.
\<close>

section \<open>State\<close>

definition generic_pid_create_new_effect_report_id :: u8 where
  "generic_pid_create_new_effect_report_id = 0x11"
definition generic_pid_block_load_report_id :: u8 where "generic_pid_block_load_report_id = 0x12"
definition generic_pid_pool_report_id :: u8 where "generic_pid_pool_report_id = 0x13"
definition generic_pid_state_report_id :: u8 where "generic_pid_state_report_id = 0x14"

lemmas pid_feature_ids = generic_pid_create_new_effect_report_id_def
  generic_pid_block_load_report_id_def generic_pid_pool_report_id_def
  generic_pid_state_report_id_def generic_pid_effect_operation_report_id_def
  generic_pid_block_free_report_id_def generic_pid_device_control_report_id_def

definition load_success :: u8 where "load_success = 1"
definition load_full :: u8 where "load_full = 2"
definition load_error :: u8 where "load_error = 3"
definition state_device_paused :: u8 where "state_device_paused = 0x01"
definition state_actuators_enabled :: u8 where "state_actuators_enabled = 0x02"
definition state_actuator_power :: u8 where "state_actuator_power = 0x10"
definition state_effect_playing :: u8 where "state_effect_playing = 0x20"

lemmas pid_state_flags = state_device_paused_def state_actuators_enabled_def
  state_actuator_power_def state_effect_playing_def

record pid_feature =
  allocated :: "bool list"
  last_effect_block_index :: u8
  load_status :: u8
  state_effect_block_index :: u8
  state_flags :: u8

definition initial_feature :: pid_feature where
  "initial_feature = \<lparr>allocated = replicate generic_pid_max_effects False,
     last_effect_block_index = 0, load_status = 0, state_effect_block_index = 0,
     state_flags = state_actuators_enabled OR state_actuator_power\<rparr>"

section \<open>Operations\<close>

definition pid_payload :: "u8 \<Rightarrow> bytes \<Rightarrow> bytes" where
  "pid_payload rid report = (if report \<noteq> [] \<and> hd report = rid then tl report else report)"

text \<open>The loop of \<open>create_effect\<close>: the first index whose entry is free.\<close>

fun first_free :: "bool list \<Rightarrow> nat option" where
  "first_free [] = None"
| "first_free (b # bs) = (if b then map_option Suc (first_free bs) else Some 0)"

definition create_effect :: "bytes \<Rightarrow> pid_feature \<Rightarrow> pid_feature" where
  "create_effect data s =
     (if data = [] \<or> data ! 0 < 1 \<or> 12 < data ! 0
      then s\<lparr>last_effect_block_index := 0, load_status := load_error\<rparr>
      else case first_free (allocated s) of
             Some i \<Rightarrow> s\<lparr>allocated := (allocated s)[i := True],
                         last_effect_block_index := word_of_nat (i + 1), load_status := load_success\<rparr>
           | None \<Rightarrow> s\<lparr>last_effect_block_index := 0, load_status := load_full\<rparr>)"

definition free_effect :: "u8 \<Rightarrow> pid_feature \<Rightarrow> pid_feature" where
  "free_effect b s =
     (case effect_index b of
        None \<Rightarrow> s
      | Some i \<Rightarrow>
          (let s = s\<lparr>allocated := (allocated s)[i := False]\<rparr> in
           if state_effect_block_index s = b
           then s\<lparr>state_effect_block_index := 0,
                  state_flags := state_flags s AND NOT state_effect_playing\<rparr>
           else s))"

definition effect_operation :: "u8 \<Rightarrow> u8 \<Rightarrow> pid_feature \<Rightarrow> pid_feature" where
  "effect_operation b operation s =
     (case effect_index b of
        None \<Rightarrow> s
      | Some i \<Rightarrow>
          if \<not> allocated s ! i then s
          else let s = s\<lparr>state_effect_block_index := b\<rparr> in
            if operation = 1 \<or> operation = 2
            then s\<lparr>state_flags := state_flags s OR state_effect_playing\<rparr>
            else if operation = 3
            then s\<lparr>state_flags := state_flags s AND NOT state_effect_playing\<rparr>
            else s)"

definition device_control :: "u8 \<Rightarrow> pid_feature \<Rightarrow> pid_feature" where
  "device_control command s =
     (if command = 1
      then s\<lparr>state_flags := state_flags s OR (state_actuators_enabled OR state_actuator_power)\<rparr>
      else if command = 2 then s\<lparr>state_flags := state_flags s AND NOT state_actuators_enabled\<rparr>
      else if command = 3
      then s\<lparr>state_effect_block_index := 0, state_flags := state_flags s AND NOT state_effect_playing\<rparr>
      else if command = 4
      then s\<lparr>allocated := replicate (length (allocated s)) False, last_effect_block_index := 0,
             load_status := 0, state_effect_block_index := 0,
             state_flags := state_actuators_enabled OR state_actuator_power\<rparr>
      else if command = 5 then s\<lparr>state_flags := state_flags s OR state_device_paused\<rparr>
      else if command = 6 then s\<lparr>state_flags := state_flags s AND NOT state_device_paused\<rparr>
      else s)"

definition ram_pool_available :: "pid_feature \<Rightarrow> u16" where
  "ram_pool_available s = 0xFFFF - word_of_nat (length (filter (\<lambda>b. b) (allocated s)))"

definition handle_set_feature :: "u8 \<Rightarrow> bytes \<Rightarrow> pid_feature \<Rightarrow> bool \<times> pid_feature" where
  "handle_set_feature rid report s =
     (let data = pid_payload rid report in
      if rid = generic_pid_create_new_effect_report_id then (True, create_effect data s)
      else if rid = generic_pid_block_free_report_id
      then (True, if data \<noteq> [] then free_effect (data ! 0) s else s)
      else if rid = generic_pid_device_control_report_id
      then (True, if data \<noteq> [] then device_control (data ! 0) s else s)
      else (False, s))"

definition feature_output_report :: "u8 \<Rightarrow> bytes \<Rightarrow> pid_feature \<Rightarrow> bool \<times> pid_feature" where
  "feature_output_report rid report s =
     (let data = pid_payload rid report in
      if rid = generic_pid_effect_operation_report_id
      then (True, if 2 \<le> length data then effect_operation (data ! 0) (data ! 1) s else s)
      else if rid = generic_pid_block_free_report_id
      then (True, if data \<noteq> [] then free_effect (data ! 0) s else s)
      else if rid = generic_pid_device_control_report_id
      then (True, if data \<noteq> [] then device_control (data ! 0) s else s)
      else (False, s))"

definition get_feature_report :: "u8 \<Rightarrow> pid_feature \<Rightarrow> bytes option" where
  "get_feature_report rid s =
     (if rid = generic_pid_create_new_effect_report_id then Some [rid, 0, 0, 0]
      else if rid = generic_pid_block_load_report_id
      then let available = ram_pool_available s in
        Some [rid, last_effect_block_index s, load_status s, ucast (available mod 256),
              ucast (available div 256)]
      else if rid = generic_pid_pool_report_id
      then Some [rid, 0xFF, 0xFF, word_of_nat generic_pid_max_effects, 0x01]
      else if rid = generic_pid_state_report_id
      then Some [rid, state_effect_block_index s, state_flags s]
      else None)"

definition make_generic_windows_input_report :: "bytes \<Rightarrow> bytes" where
  "make_generic_windows_input_report report =
     (if length report \<le> 8 then report
      else let r = report[7 := 255 - report ! 7] in r[8 := 255 - r ! 8])"

section \<open>The pool\<close>

lemma first_free_Some:
  "first_free bs = Some i \<Longrightarrow> i < length bs \<and> \<not> bs ! i \<and> (\<forall>j<i. bs ! j)"
proof (induction bs arbitrary: i)
  case (Cons b bs)
  then show ?case
    by (auto split: if_splits simp: nth_Cons split: nat.split)
qed simp

lemma first_free_None: "first_free bs = None \<longleftrightarrow> list_all (\<lambda>b. b) bs"
  by (induction bs) auto

lemma effect_index_unat:
  "effect_index b = (if unat b = 0 \<or> 40 < unat b then None else Some (unat b - 1))"
  by (simp add: effect_index_def generic_pid_max_effects_def unat_eq_0)

lemma effect_index_Some:
  "effect_index b = Some i \<longleftrightarrow> b = word_of_nat (i + 1) \<and> i < generic_pid_max_effects"
proof
  assume "effect_index b = Some i"
  then have u: "unat b = i + 1" and i: "i < 40"
    unfolding effect_index_unat by (auto split: if_splits)
  have "b = word_of_nat (unat b)"
    by simp
  then show "b = word_of_nat (i + 1) \<and> i < generic_pid_max_effects"
    using i unfolding u generic_pid_max_effects_def by simp
next
  assume b: "b = word_of_nat (i + 1) \<and> i < generic_pid_max_effects"
  then have "i + 1 < 2 ^ LENGTH(8)"
    by (simp add: generic_pid_max_effects_def)
  then have "unat (word_of_nat (i + 1) :: u8) = i + 1"
    by (simp only: unsigned_of_nat take_bit_nat_eq_self of_nat_id)
  then have "unat b = i + 1"
    using b by (simp only:)
  then show "effect_index b = Some i"
    using b unfolding effect_index_unat by (simp add: generic_pid_max_effects_def)
qed

lemma filter_update_count:
  "i < length bs \<Longrightarrow> \<not> bs ! i \<Longrightarrow>
     length (filter (\<lambda>b. b) (bs[i := True])) = Suc (length (filter (\<lambda>b. b) bs))"
  by (induction bs arbitrary: i) (auto simp: nth_Cons split: nat.splits)

section \<open>Invariant\<close>

text \<open>The selected effect is allocated, and only a selected effect plays.\<close>

definition feature_ok :: "pid_feature \<Rightarrow> bool" where
  "feature_ok s \<longleftrightarrow> length (allocated s) = generic_pid_max_effects
     \<and> (state_effect_block_index s = 0
        \<or> (\<exists>i. effect_index (state_effect_block_index s) = Some i \<and> allocated s ! i))
     \<and> (state_effect_block_index s = 0 \<longrightarrow> \<not> bit (state_flags s) 5)"

lemma playing_bit [simp]:
  "\<not> bit (f AND NOT state_effect_playing) 5"
  "bit (f AND NOT state_actuators_enabled) 5 = bit f 5"
  "bit (f AND NOT state_device_paused) 5 = bit f 5"
  "bit (f OR state_device_paused) 5 = bit f 5"
  "bit (f OR (state_actuators_enabled OR state_actuator_power)) 5 = bit f 5"
  "\<not> bit (state_actuators_enabled OR state_actuator_power) 5"
  by (simp_all add: pid_state_flags bit_and_iff bit_or_iff bit_not_iff)

lemma feature_ok_initial: "feature_ok initial_feature"
  by (simp add: feature_ok_def initial_feature_def)

lemma feature_ok_create: "feature_ok s \<Longrightarrow> feature_ok (create_effect data s)"
  using first_free_Some [of "allocated s"]
  by (auto simp: feature_ok_def create_effect_def effect_index_Some nth_list_update split: option.split)

lemma feature_ok_free: "feature_ok s \<Longrightarrow> feature_ok (free_effect b s)"
proof (cases "effect_index b")
  case (Some i)
  assume ok: "feature_ok s"
  show ?thesis
  proof (cases "state_effect_block_index s = b")
    case True
    then show ?thesis
      using ok Some by (simp add: feature_ok_def free_effect_def)
  next
    case False
    have "j \<noteq> i" if "effect_index (state_effect_block_index s) = Some j" for j
      using that Some False by (auto simp: effect_index_Some)
    then show ?thesis
      using ok Some False by (auto simp: feature_ok_def free_effect_def)
  qed
qed (simp add: free_effect_def)

lemma feature_ok_operation: "feature_ok s \<Longrightarrow> feature_ok (effect_operation b op s)"
  by (cases "effect_index b")
     (auto simp: feature_ok_def effect_operation_def Let_def effect_index_unat split: if_splits)

lemma feature_ok_control: "feature_ok s \<Longrightarrow> feature_ok (device_control cmd s)"
  by (auto simp: feature_ok_def device_control_def)

lemma feature_ok_handle:
  "feature_ok s \<Longrightarrow> feature_ok (snd (handle_set_feature rid r s))"
  "feature_ok s \<Longrightarrow> feature_ok (snd (feature_output_report rid r s))"
  by (simp_all add: handle_set_feature_def feature_output_report_def Let_def feature_ok_create
      feature_ok_free feature_ok_operation feature_ok_control)

datatype feature_event = Set_feature u8 bytes | Feature_output u8 bytes

definition feature_step :: "feature_event \<Rightarrow> pid_feature \<Rightarrow> pid_feature" where
  "feature_step ev s =
     (case ev of Set_feature rid r \<Rightarrow> snd (handle_set_feature rid r s)
      | Feature_output rid r \<Rightarrow> snd (feature_output_report rid r s))"

lemma feature_ok_step: "feature_ok s \<Longrightarrow> feature_ok (feature_step ev s)"
  by (cases ev) (simp_all add: feature_step_def feature_ok_handle)

lemma feature_ok_run: "feature_ok s \<Longrightarrow> feature_ok (fold feature_step evs s)"
  by (induction evs arbitrary: s) (simp_all add: feature_ok_step)

section \<open>Properties\<close>


text \<open>A create-effect request of a known type returns the first free block, which was not
  allocated before and is now, and takes one byte of the pool, leaving every other block
  alone; when all forty are taken it answers full and changes no block.\<close>

theorem pid_create_effect_allocates:
  assumes "length (allocated s) = generic_pid_max_effects"
    and "1 \<le> t" and "t \<le> 12"
    and "s' = snd (handle_set_feature generic_pid_create_new_effect_report_id
               [generic_pid_create_new_effect_report_id, t] s)"
  shows "(\<exists>i. effect_index (last_effect_block_index s') = Some i \<and> load_status s' = load_success
      \<and> \<not> allocated s ! i \<and> (\<forall>j < i. allocated s ! j) \<and> allocated s' = (allocated s)[i := True]
      \<and> ram_pool_available s' = ram_pool_available s - 1)
    \<or> list_all (\<lambda>b. b) (allocated s) \<and> last_effect_block_index s' = 0 \<and> load_status s' = load_full
      \<and> allocated s' = allocated s"
proof -
  have s': "s' = create_effect [t] s"
    using assms(4) by (simp add: handle_set_feature_def pid_payload_def Let_def)
  have t: "\<not> t < 1" "\<not> 12 < t"
    using assms(2,3) by (blast dest: leD)+
  show ?thesis
  proof (cases "first_free (allocated s)")
    case None
    then show ?thesis
      using t first_free_None [of "allocated s", THEN iffD1] by (simp add: s' create_effect_def)
  next
    case (Some i)
    note i = first_free_Some [OF Some]
    have "ram_pool_available (s\<lparr>allocated := (allocated s)[i := True],
        last_effect_block_index := x, load_status := y\<rparr>) = ram_pool_available s - 1" for x y
      using i by (simp add: ram_pool_available_def filter_update_count)
    moreover have "effect_index (word_of_nat (i + 1)) = Some i"
      using i assms(1) effect_index_Some [of "word_of_nat (i + 1)" i] by simp
    ultimately show ?thesis
      using i t Some by (simp add: s' create_effect_def)
  qed
qed

theorem pid_create_effect_allocates_witness:
  "let s' = snd (handle_set_feature generic_pid_create_new_effect_report_id
               [generic_pid_create_new_effect_report_id, 4] initial_feature)
   in load_status s' = load_success \<and> last_effect_block_index s' = 1"
proof -
  define s' where "s' = snd (handle_set_feature generic_pid_create_new_effect_report_id
               [generic_pid_create_new_effect_report_id, 4] initial_feature)"
  have len: "length (allocated initial_feature) = generic_pid_max_effects"
    and t: "1 \<le> (4 :: u8)" "(4 :: u8) \<le> 12" and free: "\<not> allocated initial_feature ! 0"
    and some: "\<not> list_all (\<lambda>b. b) (allocated initial_feature)"
    by code_simp+
  obtain i where "effect_index (last_effect_block_index s') = Some i" "load_status s' = load_success"
    "\<forall>j < i. allocated initial_feature ! j"
    using pid_create_effect_allocates [OF len t s'_def] some by blast
  moreover from this have "i = 0"
    using free by blast
  ultimately show ?thesis
    by (simp add: s'_def [symmetric] Let_def effect_index_Some)
qed

text \<open>Reports for DirectInput change the two trigger bytes only, and converting twice gives
  the report back.\<close>

theorem pid_trigger_polarity_involution:
  "make_generic_windows_input_report (make_generic_windows_input_report r) = r
   \<and> length (make_generic_windows_input_report r) = length r
   \<and> (\<forall>i. i \<noteq> 7 \<and> i \<noteq> 8 \<longrightarrow> make_generic_windows_input_report r ! i = r ! i)"
  by (auto simp: make_generic_windows_input_report_def Let_def nth_list_update
      list_update_swap intro!: nth_equalityI)

theorem pid_trigger_polarity_involution_witness:
  "make_generic_windows_input_report (make_generic_windows_input_report [1, 2, 3, 4, 5, 6, 7, 8, 9])
   = [1, 2, 3, 4, 5, 6, 7, 8, 9]"
  using pid_trigger_polarity_involution by blast

end
