(* ===== verification/Events.thy ===== *)
theory Events
  imports Types
begin

text \<open>
  The rest of the data model of \<open>src/src/include/libvirtualhid/types.hpp\<close>: keyboard, mouse,
  touch and pen events, the creation options of the six device types and the backend
  capabilities. \<open>std::int32_t\<close> fields are integers in the range of the type; no code of the
  runtime does arithmetic on them in less than 64 bits.
\<close>

section \<open>Creation options\<close>

record pointer_viewport =
  offset_x :: int
  offset_y :: int
  width :: int
  height :: int

definition default_viewport :: pointer_viewport where
  "default_viewport = \<lparr>offset_x = 0, offset_y = 0, width = 0, height = 0\<rparr>"

record create_gamepad_options =
  gamepad_profile :: device_profile
  metadata :: gamepad_metadata

record create_keyboard_options =
  keyboard_profile :: device_profile
  auto_repeat_interval_ms :: u32
  keyboard_stable_id :: string

record create_mouse_options =
  mouse_profile :: device_profile
  mouse_stable_id :: string
  desktop :: pointer_viewport
  viewport :: pointer_viewport

record create_touchscreen_options =
  touchscreen_profile :: device_profile
  touchscreen_stable_id :: string

record create_trackpad_options =
  trackpad_profile :: device_profile
  trackpad_stable_id :: string

record create_pen_tablet_options =
  pen_tablet_profile :: device_profile
  pen_tablet_stable_id :: string

section \<open>Events\<close>

record keyboard_event =
  key_code :: u16
  key_pressed :: bool
  scan_code :: u16
  uses_normalized_key_code :: bool
  prefer_native_scan_code :: bool
  extended :: bool

definition default_keyboard_event :: keyboard_event where
  "default_keyboard_event = \<lparr>key_code = 0, key_pressed = False, scan_code = 0,
     uses_normalized_key_code = False, prefer_native_scan_code = False, extended = False\<rparr>"

type_synonym keyboard_text_event = string

datatype pointer_transition =
  Transition_update | Transition_release | Transition_cancel | Transition_leave

datatype mouse_button = Mouse_left | Mouse_middle | Mouse_right | Mouse_side | Mouse_extra

fun mouse_button_underlying :: "mouse_button \<Rightarrow> nat" where
  "mouse_button_underlying Mouse_left = 0"
| "mouse_button_underlying Mouse_middle = 1"
| "mouse_button_underlying Mouse_right = 2"
| "mouse_button_underlying Mouse_side = 3"
| "mouse_button_underlying Mouse_extra = 4"

datatype mouse_event_kind =
    Ev_relative_motion | Ev_absolute_motion | Ev_button | Ev_vertical_scroll
  | Ev_horizontal_scroll

record mouse_event =
  event_kind :: mouse_event_kind
  ev_x :: int
  ev_y :: int
  absolute_x :: flt
  absolute_y :: flt
  has_fractional_absolute_coordinates :: bool
  ev_width :: int
  ev_height :: int
  ev_button :: mouse_button
  ev_pressed :: bool
  high_resolution_scroll :: int

definition default_mouse_event :: mouse_event where
  "default_mouse_event = \<lparr>event_kind = Ev_relative_motion, ev_x = 0, ev_y = 0,
     absolute_x = Fin 0, absolute_y = Fin 0, has_fractional_absolute_coordinates = False,
     ev_width = 0, ev_height = 0, ev_button = Mouse_left, ev_pressed = False,
     high_resolution_scroll = 0\<rparr>"

record touch_contact =
  touch_id :: int
  touch_x :: flt
  touch_y :: flt
  pressure :: flt
  orientation :: int
  touching :: bool
  touch_viewport :: pointer_viewport
  contact_major_axis :: flt
  contact_minor_axis :: flt

definition default_contact :: touch_contact where
  "default_contact = \<lparr>touch_id = 0, touch_x = Fin 0, touch_y = Fin 0, pressure = Fin 0,
     orientation = 0, touching = True, touch_viewport = default_viewport,
     contact_major_axis = Fin 0, contact_minor_axis = Fin 0\<rparr>"

datatype pen_tool_type =
  Pen_pen | Pen_eraser | Pen_brush | Pen_pencil | Pen_airbrush | Pen_touch | Pen_unchanged

datatype pen_button = Pen_primary | Pen_secondary | Pen_tertiary

record pen_tool_state =
  tool :: pen_tool_type
  pen_x :: flt
  pen_y :: flt
  pen_pressure :: flt
  distance :: flt
  tilt_x :: flt
  tilt_y :: flt
  transition :: pointer_transition
  pen_viewport :: pointer_viewport

definition default_pen_tool :: pen_tool_state where
  "default_pen_tool = \<lparr>tool = Pen_pen, pen_x = Fin 0, pen_y = Fin 0,
     pen_pressure = flit binary32 (-1) 1, distance = flit binary32 (-1) 1, tilt_x = Fin 0,
     tilt_y = Fin 0, transition = Transition_update, pen_viewport = default_viewport\<rparr>"

end
