(* ===== verification/Devices.thy ===== *)
theory Devices
  imports Events Pack
begin

text \<open>
  The device handles of \<open>src/src/core/runtime.cpp\<close>: one record per device structure, over a
  common base with the identifier, the open flag and the number of submitted events, and
  one function per operation. The backend is the abstract class of
  \<open>src/src/core/backend.hpp\<close>: a record of functions on a state \<open>'w\<close> of its own, so that
  every theorem holds for every backend; the in-memory backend of \<open>backend.cpp\<close> is one
  value of it. A method body runs under the device's mutex and is one step.

  The locale \<open>device_operation\<close> is the contract of every submitting operation; it is
  interpreted for the operations of all six device types.
\<close>

section \<open>Backend interface\<close>

record backend_capabilities =
  backend_name :: string
  supports_virtual_hid :: bool
  supports_gamepad :: bool
  supports_keyboard :: bool
  supports_mouse :: bool
  supports_touchscreen :: bool
  supports_trackpad :: bool
  supports_pen_tablet :: bool
  supports_output_reports :: bool
  supports_xtest_fallback :: bool
  requires_installed_driver :: bool

datatype device_node_kind =
  Node_input_event | Node_joystick | Node_hidraw | Node_sysfs | Node_other

record device_node =
  node_kind :: device_node_kind
  node_path :: string

text \<open>A consumer callback is a name; calling it is an entry of the list of calls an operation
  returns.\<close>

type_synonym output_callback = nat

text \<open>A creation result of the backend: its status and whether the device pointer is set.\<close>

record creation_result =
  result_status :: operation_status
  result_device :: bool

definition created :: "('a) creation_result_scheme \<Rightarrow> bool" where
  "created r \<longleftrightarrow> status_ok (result_status r) \<and> result_device r"

record gamepad_creation_result = creation_result +
  effective_profile :: "device_profile option"

record 'w backend =
  capabilities_of :: backend_capabilities
  be_create_gamepad :: "u64 \<Rightarrow> create_gamepad_options \<Rightarrow> 'w \<Rightarrow> gamepad_creation_result \<times> 'w"
  be_create_keyboard :: "u64 \<Rightarrow> create_keyboard_options \<Rightarrow> 'w \<Rightarrow> creation_result \<times> 'w"
  be_create_mouse :: "u64 \<Rightarrow> create_mouse_options \<Rightarrow> 'w \<Rightarrow> creation_result \<times> 'w"
  be_create_touchscreen :: "u64 \<Rightarrow> create_touchscreen_options \<Rightarrow> 'w \<Rightarrow> creation_result \<times> 'w"
  be_create_trackpad :: "u64 \<Rightarrow> create_trackpad_options \<Rightarrow> 'w \<Rightarrow> creation_result \<times> 'w"
  be_create_pen_tablet :: "u64 \<Rightarrow> create_pen_tablet_options \<Rightarrow> 'w \<Rightarrow> creation_result \<times> 'w"
  gamepad_be_submit :: "u64 \<Rightarrow> gamepad_state \<Rightarrow> bytes \<Rightarrow> 'w \<Rightarrow> operation_status \<times> 'w"
  be_device_nodes :: "u64 \<Rightarrow> 'w \<Rightarrow> device_node list"
  gamepad_be_set_output_callback :: "u64 \<Rightarrow> output_callback option \<Rightarrow> 'w \<Rightarrow> 'w"
  gamepad_be_close :: "u64 \<Rightarrow> 'w \<Rightarrow> operation_status \<times> 'w"
  keyboard_be_submit :: "u64 \<Rightarrow> keyboard_event \<Rightarrow> 'w \<Rightarrow> operation_status \<times> 'w"
  keyboard_be_type_text :: "u64 \<Rightarrow> keyboard_text_event \<Rightarrow> 'w \<Rightarrow> operation_status \<times> 'w"
  keyboard_be_close :: "u64 \<Rightarrow> 'w \<Rightarrow> operation_status \<times> 'w"
  mouse_be_submit :: "u64 \<Rightarrow> mouse_event \<Rightarrow> 'w \<Rightarrow> operation_status \<times> 'w"
  mouse_be_close :: "u64 \<Rightarrow> 'w \<Rightarrow> operation_status \<times> 'w"
  touchscreen_be_place :: "u64 \<Rightarrow> touch_contact \<Rightarrow> 'w \<Rightarrow> operation_status \<times> 'w"
  touchscreen_be_release :: "u64 \<Rightarrow> int \<Rightarrow> pointer_transition \<Rightarrow> 'w \<Rightarrow> operation_status \<times> 'w"
  touchscreen_be_close :: "u64 \<Rightarrow> 'w \<Rightarrow> operation_status \<times> 'w"
  trackpad_be_place :: "u64 \<Rightarrow> touch_contact \<Rightarrow> 'w \<Rightarrow> operation_status \<times> 'w"
  trackpad_be_release :: "u64 \<Rightarrow> int \<Rightarrow> pointer_transition \<Rightarrow> 'w \<Rightarrow> operation_status \<times> 'w"
  trackpad_be_button :: "u64 \<Rightarrow> bool \<Rightarrow> 'w \<Rightarrow> operation_status \<times> 'w"
  trackpad_be_close :: "u64 \<Rightarrow> 'w \<Rightarrow> operation_status \<times> 'w"
  pen_tablet_be_place_tool :: "u64 \<Rightarrow> pen_tool_state \<Rightarrow> 'w \<Rightarrow> operation_status \<times> 'w"
  pen_tablet_be_button :: "u64 \<Rightarrow> pen_button \<Rightarrow> bool \<Rightarrow> 'w \<Rightarrow> operation_status \<times> 'w"
  pen_tablet_be_close :: "u64 \<Rightarrow> 'w \<Rightarrow> operation_status \<times> 'w"

definition fake_capabilities :: backend_capabilities where
  "fake_capabilities = \<lparr>backend_name = ''fake'', supports_virtual_hid = False,
     supports_gamepad = True, supports_keyboard = True, supports_mouse = True,
     supports_touchscreen = True, supports_trackpad = True, supports_pen_tablet = True,
     supports_output_reports = True, supports_xtest_fallback = False,
     requires_installed_driver = False\<rparr>"

text \<open>The in-memory backend: its state is the output callback of each gamepad.\<close>

definition fake_backend :: "(u64 \<Rightarrow> output_callback option) backend" where
  "fake_backend =
     \<lparr>capabilities_of = fake_capabilities,
      be_create_gamepad = (\<lambda>_ _ w. (\<lparr>result_status = success, result_device = True, effective_profile = None\<rparr>, w)),
      be_create_keyboard = (\<lambda>_ _ w. (\<lparr>result_status = success, result_device = True\<rparr>, w)),
      be_create_mouse = (\<lambda>_ _ w. (\<lparr>result_status = success, result_device = True\<rparr>, w)),
      be_create_touchscreen = (\<lambda>_ _ w. (\<lparr>result_status = success, result_device = True\<rparr>, w)),
      be_create_trackpad = (\<lambda>_ _ w. (\<lparr>result_status = success, result_device = True\<rparr>, w)),
      be_create_pen_tablet = (\<lambda>_ _ w. (\<lparr>result_status = success, result_device = True\<rparr>, w)),
      gamepad_be_submit = (\<lambda>_ _ _ w. (success, w)),
      be_device_nodes = (\<lambda>_ _. []),
      gamepad_be_set_output_callback = (\<lambda>i cb w. w(i := cb)),
      gamepad_be_close = (\<lambda>_ w. (success, w)),
      keyboard_be_submit = (\<lambda>_ _ w. (success, w)),
      keyboard_be_type_text = (\<lambda>_ _ w. (success, w)),
      keyboard_be_close = (\<lambda>_ w. (success, w)),
      mouse_be_submit = (\<lambda>_ _ w. (success, w)),
      mouse_be_close = (\<lambda>_ w. (success, w)),
      touchscreen_be_place = (\<lambda>_ _ w. (success, w)),
      touchscreen_be_release = (\<lambda>_ _ _ w. (success, w)),
      touchscreen_be_close = (\<lambda>_ w. (success, w)),
      trackpad_be_place = (\<lambda>_ _ w. (success, w)),
      trackpad_be_release = (\<lambda>_ _ _ w. (success, w)),
      trackpad_be_button = (\<lambda>_ _ w. (success, w)),
      trackpad_be_close = (\<lambda>_ w. (success, w)),
      pen_tablet_be_place_tool = (\<lambda>_ _ w. (success, w)),
      pen_tablet_be_button = (\<lambda>_ _ _ w. (success, w)),
      pen_tablet_be_close = (\<lambda>_ w. (success, w))\<rparr>"

section \<open>Logger\<close>

text \<open>The consumer's callback, if any, with the calls in which it throws; the messages it was
  called with; and the flag that is set once it has thrown.\<close>

record logger =
  log_callback :: "(log_level \<Rightarrow> string \<Rightarrow> bool) option"
  callback_failed :: bool
  delivered :: "(log_level \<times> string) list"

definition log_enabled :: "logger \<Rightarrow> bool" where
  "log_enabled lg \<longleftrightarrow> log_callback lg \<noteq> None \<and> \<not> callback_failed lg"

definition log_emit :: "log_level \<Rightarrow> string \<Rightarrow> logger \<Rightarrow> logger" where
  "log_emit level msg lg =
     (if \<not> log_enabled lg then lg
      else case log_callback lg of
             None \<Rightarrow> lg
           | Some throws \<Rightarrow>
               (let lg = lg\<lparr>delivered := delivered lg @ [(level, msg)]\<rparr>
                in if throws level msg then lg\<lparr>callback_failed := True\<rparr> else lg))"

section \<open>Devices\<close>

record device_base =
  dev_id :: u64
  has_backend :: bool
  dev_open :: bool
  submitted :: nat

record gamepad_device = device_base +
  gamepad_options :: create_gamepad_options
  last_state :: gamepad_state
  last_report :: bytes
  output_callback :: "output_callback option"

record keyboard_device = device_base +
  keyboard_options :: create_keyboard_options
  last_key_event :: keyboard_event
  last_text_event :: keyboard_text_event

record mouse_device = device_base +
  mouse_options :: create_mouse_options
  last_mouse_event :: mouse_event

record touchscreen_device = device_base +
  touchscreen_options :: create_touchscreen_options
  last_contact :: touch_contact

record trackpad_device = device_base +
  trackpad_options :: create_trackpad_options
  last_pad_contact :: touch_contact

record pen_tablet_device = device_base +
  pen_tablet_options :: create_pen_tablet_options
  last_tool :: pen_tool_state

text \<open>\<open>close()\<close> of every handle class: idempotent, and the device is closed whatever the
  backend answers.\<close>

definition close_device ::
  "(u64 \<Rightarrow> 'w \<Rightarrow> operation_status \<times> 'w) \<Rightarrow> 'd device_base_scheme \<Rightarrow> 'w \<Rightarrow>
     operation_status \<times> 'd device_base_scheme \<times> 'w" where
  "close_device backend_close d w =
     (if \<not> dev_open d then (success, d, w)
      else let (status, w) = (if has_backend d then backend_close (dev_id d) w else (success, w))
           in (status, d\<lparr>dev_open := False\<rparr>, w))"

text \<open>\<open>device_nodes()\<close> of every handle class.\<close>

definition device_nodes :: "'w backend \<Rightarrow> 'd device_base_scheme \<Rightarrow> 'w \<Rightarrow> device_node list" where
  "device_nodes b d w = (if has_backend d then be_device_nodes b (dev_id d) w else [])"

text \<open>The body of every submitting method, \<open>submit_touch_event\<close> for the touch devices: refuse
  when closed, ask the backend, and only then record the event and count it.\<close>

definition submit_event ::
  "string \<Rightarrow> (u64 \<Rightarrow> 'w \<Rightarrow> operation_status \<times> 'w) \<Rightarrow>
     ('d device_base_scheme \<Rightarrow> 'd device_base_scheme) \<Rightarrow> 'd device_base_scheme \<Rightarrow> 'w \<Rightarrow>
     operation_status \<times> 'd device_base_scheme \<times> 'w" where
  "submit_event closed_message backend_action device_update d w =
     (if \<not> dev_open d then (failure Err_device_closed closed_message, d, w)
      else let (status, w) = (if has_backend d then backend_action (dev_id d) w else (success, w))
           in if \<not> status_ok status then (status, d, w)
              else (success, (device_update d)\<lparr>submitted := submitted d + 1\<rparr>, w))"

section \<open>Gamepad\<close>

definition gamepad_close ::
  "'w backend \<Rightarrow> gamepad_device \<Rightarrow> 'w \<Rightarrow> operation_status \<times> gamepad_device \<times> 'w" where
  "gamepad_close b d w = close_device (gamepad_be_close b) d w"

text \<open>The static counters of the packers are part of the state; \<open>None\<close> would be a write outside
  the report.\<close>

definition gamepad_submit ::
  "'w backend \<Rightarrow> env \<Rightarrow> gamepad_state \<Rightarrow> gamepad_device \<Rightarrow> counters \<times> 'w \<Rightarrow>
     (operation_status \<times> gamepad_device \<times> counters \<times> 'w) option" where
  "gamepad_submit b e state d cw =
     (let (c, w) = cw in
      if \<not> dev_open d then Some (failure Err_device_closed ''gamepad is closed'', d, c, w)
      else case pack_input_report e c (gamepad_profile (gamepad_options d)) state of
             None \<Rightarrow> None
           | Some (report, c) \<Rightarrow>
               if report = []
               then Some (failure Err_backend_failure ''failed to pack gamepad input report'', d, c, w)
               else let normalized = normalize_state state;
                        (status, w) = (if has_backend d then gamepad_be_submit b (dev_id d) normalized report w
                                       else (success, w))
                    in if \<not> status_ok status then Some (status, d, c, w)
                       else Some (success,
                              d\<lparr>last_state := normalized, last_report := report,
                                submitted := submitted d + 1\<rparr>, c, w))"

definition gamepad_set_output_callback ::
  "'w backend \<Rightarrow> output_callback option \<Rightarrow> gamepad_device \<Rightarrow> 'w \<Rightarrow> gamepad_device \<times> 'w" where
  "gamepad_set_output_callback b cb d w =
     (d\<lparr>output_callback := cb\<rparr>,
      if has_backend d then gamepad_be_set_output_callback b (dev_id d) cb w else w)"

text \<open>The status and the call made, outside the lock.\<close>

definition gamepad_dispatch_output ::
  "gamepad_output \<Rightarrow> gamepad_device \<Rightarrow> operation_status \<times> (output_callback \<times> gamepad_output) list" where
  "gamepad_dispatch_output output d =
     (if \<not> dev_open d then (failure Err_device_closed ''gamepad is closed'', [])
      else (success, case output_callback d of None \<Rightarrow> [] | Some cb \<Rightarrow> [(cb, output)]))"

section \<open>Keyboard\<close>

definition validate_keyboard_event :: "keyboard_event \<Rightarrow> operation_status" where
  "validate_keyboard_event event =
     (if key_code event = 0 then failure Err_invalid_argument ''keyboard key code must not be zero''
      else success)"

definition keyboard_close ::
  "'w backend \<Rightarrow> keyboard_device \<Rightarrow> 'w \<Rightarrow> operation_status \<times> keyboard_device \<times> 'w" where
  "keyboard_close b d w = close_device (keyboard_be_close b) d w"

definition keyboard_submit ::
  "'w backend \<Rightarrow> keyboard_event \<Rightarrow> keyboard_device \<Rightarrow> 'w \<Rightarrow> operation_status \<times> keyboard_device \<times> 'w" where
  "keyboard_submit b event d w =
     (let validation = validate_keyboard_event event in
      if \<not> status_ok validation then (validation, d, w)
      else submit_event ''keyboard is closed'' (\<lambda>i. keyboard_be_submit b i event)
             (\<lambda>d. d\<lparr>last_key_event := event\<rparr>) d w)"

definition keyboard_press ::
  "'w backend \<Rightarrow> u16 \<Rightarrow> keyboard_device \<Rightarrow> 'w \<Rightarrow> operation_status \<times> keyboard_device \<times> 'w" where
  "keyboard_press b k = keyboard_submit b (default_keyboard_event\<lparr>key_code := k, key_pressed := True\<rparr>)"

definition keyboard_release ::
  "'w backend \<Rightarrow> u16 \<Rightarrow> keyboard_device \<Rightarrow> 'w \<Rightarrow> operation_status \<times> keyboard_device \<times> 'w" where
  "keyboard_release b k = keyboard_submit b (default_keyboard_event\<lparr>key_code := k, key_pressed := False\<rparr>)"

definition keyboard_type_text ::
  "'w backend \<Rightarrow> keyboard_text_event \<Rightarrow> keyboard_device \<Rightarrow> 'w \<Rightarrow>
     operation_status \<times> keyboard_device \<times> 'w" where
  "keyboard_type_text b event d w =
     submit_event ''keyboard is closed'' (\<lambda>i. keyboard_be_type_text b i event)
       (\<lambda>d. d\<lparr>last_text_event := event\<rparr>) d w"

section \<open>Mouse\<close>

definition validate_mouse_event :: "mouse_event \<Rightarrow> operation_status" where
  "validate_mouse_event event =
     (if event_kind event = Ev_absolute_motion \<and> (ev_width event \<le> 0 \<or> ev_height event \<le> 0)
      then failure Err_invalid_argument ''absolute mouse movement requires positive dimensions''
      else success)"

definition digit :: "nat \<Rightarrow> char" where
  "digit n = ''0123456789'' ! n"

fun show_nat :: "nat \<Rightarrow> string" where
  "show_nat n = (if n < 10 then [digit n] else show_nat (n div 10) @ [digit (n mod 10)])"

declare show_nat.simps [simp del]

definition show_int :: "int \<Rightarrow> string" where
  "show_int i = (if i < 0 then ''-'' @ show_nat (nat (- i)) else show_nat (nat i))"

text \<open>\<open>fmt\<close> is the stream's formatting of a \<open>float\<close>.\<close>

definition mouse_event_description ::
  "(flt \<Rightarrow> string) \<Rightarrow> u64 \<Rightarrow> mouse_event \<Rightarrow> pointer_viewport \<Rightarrow> pointer_viewport \<Rightarrow> string" where
  "mouse_event_description fmt i event desk view =
     ''mouse '' @ show_nat (unat i) @ '' '' @
     (case event_kind event of
        Ev_relative_motion \<Rightarrow>
          ''relative motion x='' @ show_int (ev_x event) @ '' y='' @ show_int (ev_y event)
      | Ev_absolute_motion \<Rightarrow>
          ''absolute motion x='' @
          (if has_fractional_absolute_coordinates event
           then fmt (absolute_x event) @ '' y='' @ fmt (absolute_y event)
           else show_int (ev_x event) @ '' y='' @ show_int (ev_y event)) @
          '' source='' @ show_int (ev_width event) @ ''x'' @ show_int (ev_height event) @
          (if 0 < width view \<and> 0 < height view
           then '' viewport='' @ show_int (offset_x view) @ '','' @ show_int (offset_y view) @ '' '' @
                show_int (width view) @ ''x'' @ show_int (height view) @ '' desktop='' @
                show_int (offset_x desk) @ '','' @ show_int (offset_y desk) @ '' '' @
                show_int (width desk) @ ''x'' @ show_int (height desk)
           else '' viewport=platform-default'')
      | Ev_button \<Rightarrow>
          ''button '' @ show_nat (mouse_button_underlying (ev_button event)) @
          (if ev_pressed event then '' pressed'' else '' released'')
      | Ev_vertical_scroll \<Rightarrow> ''vertical scroll distance='' @ show_int (high_resolution_scroll event)
      | Ev_horizontal_scroll \<Rightarrow>
          ''horizontal scroll distance='' @ show_int (high_resolution_scroll event))"

definition mouse_close ::
  "'w backend \<Rightarrow> mouse_device \<Rightarrow> 'w \<Rightarrow> operation_status \<times> mouse_device \<times> 'w" where
  "mouse_close b d w = close_device (mouse_be_close b) d w"

definition mouse_submit ::
  "'w backend \<Rightarrow> (flt \<Rightarrow> string) \<Rightarrow> mouse_event \<Rightarrow> mouse_device \<Rightarrow> logger \<times> 'w \<Rightarrow>
     operation_status \<times> mouse_device \<times> logger \<times> 'w" where
  "mouse_submit b fmt event d lw =
     (let (lg, w) = lw; validation = validate_mouse_event event in
      if \<not> status_ok validation
      then (validation, d, log_emit Log_warning (''rejected mouse event: '' @ message validation) lg, w)
      else
        let lg = (if log_enabled lg
                  then log_emit Log_debug
                    (mouse_event_description fmt (dev_id d) event (desktop (mouse_options d))
                       (viewport (mouse_options d))) lg
                  else lg);
            (status, d, w) = submit_event ''mouse is closed'' (\<lambda>i. mouse_be_submit b i event)
              (\<lambda>d. d\<lparr>last_mouse_event := event\<rparr>) d w
        in (status, d,
            if \<not> status_ok status then log_emit Log_error (''mouse input failed: '' @ message status) lg else lg,
            w))"

definition relative_event :: "int \<Rightarrow> int \<Rightarrow> mouse_event" where
  "relative_event delta_x delta_y =
     default_mouse_event\<lparr>event_kind := Ev_relative_motion, ev_x := delta_x, ev_y := delta_y\<rparr>"

definition absolute_event :: "int \<Rightarrow> int \<Rightarrow> int \<Rightarrow> int \<Rightarrow> mouse_event" where
  "absolute_event x y w h =
     default_mouse_event\<lparr>event_kind := Ev_absolute_motion, ev_x := x, ev_y := y, ev_width := w,
       ev_height := h\<rparr>"

text \<open>The \<open>float\<close> overload; the cast to \<open>std::int32_t\<close> keeps the low bits of the \<open>long\<close>.\<close>

definition absolute_event_float :: "(flt \<Rightarrow> int) \<Rightarrow> flt \<Rightarrow> flt \<Rightarrow> int \<Rightarrow> int \<Rightarrow> mouse_event" where
  "absolute_event_float u x y w h =
     default_mouse_event\<lparr>event_kind := Ev_absolute_motion,
       ev_x := sint (word_of_int (lround binary32 u x) :: u32),
       ev_y := sint (word_of_int (lround binary32 u y) :: u32),
       absolute_x := x, absolute_y := y, has_fractional_absolute_coordinates := True,
       ev_width := w, ev_height := h\<rparr>"

definition button_event :: "mouse_button \<Rightarrow> bool \<Rightarrow> mouse_event" where
  "button_event b p = default_mouse_event\<lparr>event_kind := Ev_button, ev_button := b, ev_pressed := p\<rparr>"

definition vertical_scroll_event :: "int \<Rightarrow> mouse_event" where
  "vertical_scroll_event amount =
     default_mouse_event\<lparr>event_kind := Ev_vertical_scroll, high_resolution_scroll := amount\<rparr>"

definition horizontal_scroll_event :: "int \<Rightarrow> mouse_event" where
  "horizontal_scroll_event amount =
     default_mouse_event\<lparr>event_kind := Ev_horizontal_scroll, high_resolution_scroll := amount\<rparr>"

section \<open>Touchscreen\<close>

definition validate_touch_contact :: "touch_contact \<Rightarrow> operation_status" where
  "validate_touch_contact contact =
     (if touch_id contact < 0 then failure Err_invalid_argument ''touch contact id must not be negative''
      else success)"

definition touchscreen_close ::
  "'w backend \<Rightarrow> touchscreen_device \<Rightarrow> 'w \<Rightarrow> operation_status \<times> touchscreen_device \<times> 'w" where
  "touchscreen_close b d w = close_device (touchscreen_be_close b) d w"

definition touchscreen_place_contact ::
  "'w backend \<Rightarrow> touch_contact \<Rightarrow> touchscreen_device \<Rightarrow> 'w \<Rightarrow>
     operation_status \<times> touchscreen_device \<times> 'w" where
  "touchscreen_place_contact b contact d w =
     (let validation = validate_touch_contact contact in
      if \<not> status_ok validation then (validation, d, w)
      else submit_event ''touchscreen is closed'' (\<lambda>i. touchscreen_be_place b i contact)
             (\<lambda>d. d\<lparr>last_contact := contact\<rparr>) d w)"

text \<open>\<open>release_contact\<close>, \<open>cancel_contact\<close> and \<open>leave_contact\<close> differ in the transition.\<close>

definition touchscreen_end_contact ::
  "'w backend \<Rightarrow> pointer_transition \<Rightarrow> int \<Rightarrow> touchscreen_device \<Rightarrow> 'w \<Rightarrow>
     operation_status \<times> touchscreen_device \<times> 'w" where
  "touchscreen_end_contact b t i d w =
     (if i < 0 then (failure Err_invalid_argument ''touch contact id must not be negative'', d, w)
      else submit_event ''touchscreen is closed'' (\<lambda>dev. touchscreen_be_release b dev i t)
             (\<lambda>d. d\<lparr>last_contact := (last_contact d)\<lparr>touch_id := i\<rparr>\<rparr>) d w)"

definition touchscreen_release_contact ::
  "'w backend \<Rightarrow> int \<Rightarrow> touchscreen_device \<Rightarrow> 'w \<Rightarrow> operation_status \<times> touchscreen_device \<times> 'w" where
  "touchscreen_release_contact b = touchscreen_end_contact b Transition_release"

definition touchscreen_cancel_contact ::
  "'w backend \<Rightarrow> int \<Rightarrow> touchscreen_device \<Rightarrow> 'w \<Rightarrow> operation_status \<times> touchscreen_device \<times> 'w" where
  "touchscreen_cancel_contact b = touchscreen_end_contact b Transition_cancel"

definition touchscreen_leave_contact ::
  "'w backend \<Rightarrow> int \<Rightarrow> touchscreen_device \<Rightarrow> 'w \<Rightarrow> operation_status \<times> touchscreen_device \<times> 'w" where
  "touchscreen_leave_contact b = touchscreen_end_contact b Transition_leave"

section \<open>Trackpad\<close>

definition trackpad_close ::
  "'w backend \<Rightarrow> trackpad_device \<Rightarrow> 'w \<Rightarrow> operation_status \<times> trackpad_device \<times> 'w" where
  "trackpad_close b d w = close_device (trackpad_be_close b) d w"

definition trackpad_place_contact ::
  "'w backend \<Rightarrow> touch_contact \<Rightarrow> trackpad_device \<Rightarrow> 'w \<Rightarrow> operation_status \<times> trackpad_device \<times> 'w" where
  "trackpad_place_contact b contact d w =
     (let validation = validate_touch_contact contact in
      if \<not> status_ok validation then (validation, d, w)
      else submit_event ''trackpad is closed'' (\<lambda>i. trackpad_be_place b i contact)
             (\<lambda>d. d\<lparr>last_pad_contact := contact\<rparr>) d w)"

definition trackpad_release_contact ::
  "'w backend \<Rightarrow> int \<Rightarrow> trackpad_device \<Rightarrow> 'w \<Rightarrow> operation_status \<times> trackpad_device \<times> 'w" where
  "trackpad_release_contact b i d w =
     (if i < 0 then (failure Err_invalid_argument ''touch contact id must not be negative'', d, w)
      else submit_event ''trackpad is closed'' (\<lambda>dev. trackpad_be_release b dev i Transition_release)
             (\<lambda>d. d\<lparr>last_pad_contact := (last_pad_contact d)\<lparr>touch_id := i\<rparr>\<rparr>) d w)"

definition trackpad_button ::
  "'w backend \<Rightarrow> bool \<Rightarrow> trackpad_device \<Rightarrow> 'w \<Rightarrow> operation_status \<times> trackpad_device \<times> 'w" where
  "trackpad_button b p d w =
     submit_event ''trackpad is closed'' (\<lambda>i. trackpad_be_button b i p) (\<lambda>d. d) d w"

section \<open>Pen tablet\<close>

definition pen_tablet_close ::
  "'w backend \<Rightarrow> pen_tablet_device \<Rightarrow> 'w \<Rightarrow> operation_status \<times> pen_tablet_device \<times> 'w" where
  "pen_tablet_close b d w = close_device (pen_tablet_be_close b) d w"

definition pen_tablet_place_tool ::
  "'w backend \<Rightarrow> pen_tool_state \<Rightarrow> pen_tablet_device \<Rightarrow> 'w \<Rightarrow>
     operation_status \<times> pen_tablet_device \<times> 'w" where
  "pen_tablet_place_tool b state d w =
     submit_event ''pen tablet is closed'' (\<lambda>i. pen_tablet_be_place_tool b i state)
       (\<lambda>d. d\<lparr>last_tool := state\<rparr>) d w"

definition pen_tablet_button ::
  "'w backend \<Rightarrow> pen_button \<Rightarrow> bool \<Rightarrow> pen_tablet_device \<Rightarrow> 'w \<Rightarrow>
     operation_status \<times> pen_tablet_device \<times> 'w" where
  "pen_tablet_button b btn p d w =
     submit_event ''pen tablet is closed'' (\<lambda>i. pen_tablet_be_button b i btn p) (\<lambda>d. d) d w"

section \<open>The contract of the submitting operations\<close>

text \<open>An event is either accepted, counted once, or changes nothing of the device; a closed
  device accepts nothing; and no event opens, closes or renames a device.\<close>

fun run_ops ::
  "('e \<Rightarrow> 'd device_base_scheme \<Rightarrow> 'w \<Rightarrow> operation_status \<times> 'd device_base_scheme \<times> 'w) \<Rightarrow>
     'e list \<Rightarrow> 'd device_base_scheme \<Rightarrow> 'w \<Rightarrow>
     operation_status list \<times> 'd device_base_scheme \<times> 'w" where
  "run_ops oper [] d w = ([], d, w)"
| "run_ops oper (e # es) d w =
     (let (st, d, w) = oper e d w; (sts, d, w) = run_ops oper es d w in (st # sts, d, w))"

locale device_operation =
  fixes oper :: "'e \<Rightarrow> 'd device_base_scheme \<Rightarrow> 'w \<Rightarrow> operation_status \<times> 'd device_base_scheme \<times> 'w"
  assumes contract: "oper e d w = (st, d', w') \<Longrightarrow>
      (\<not> dev_open d \<longrightarrow> \<not> status_ok st) \<and> (\<not> status_ok st \<longrightarrow> d' = d)
      \<and> (status_ok st \<longrightarrow> submitted d' = submitted d + 1)
      \<and> dev_id d' = dev_id d \<and> dev_open d' = dev_open d"
begin

lemma closed_rejected: "oper e d w = (st, d', w') \<Longrightarrow> \<not> dev_open d \<Longrightarrow> \<not> status_ok st"
  using contract by blast

lemma rejected_unchanged: "oper e d w = (st, d', w') \<Longrightarrow> \<not> status_ok st \<Longrightarrow> d' = d"
  using contract by blast

lemma accepted_counted:
  "oper e d w = (st, d', w') \<Longrightarrow> status_ok st \<Longrightarrow> submitted d' = submitted d + 1"
  using contract by blast

lemma identity_kept: "oper e d w = (st, d', w') \<Longrightarrow> dev_id d' = dev_id d \<and> dev_open d' = dev_open d"
  using contract by blast

lemma run_counts:
  "run_ops oper es d w = (sts, d', w') \<Longrightarrow>
     submitted d' = submitted d + length (filter status_ok sts)
     \<and> length sts = length es \<and> dev_id d' = dev_id d \<and> dev_open d' = dev_open d"
proof (induction es arbitrary: d w sts)
  case (Cons e es)
  obtain st d1 w1 where op: "oper e d w = (st, d1, w1)"
    by (cases "oper e d w") auto
  obtain sts1 where run: "run_ops oper es d1 w1 = (sts1, d', w')" and sts: "sts = st # sts1"
    using Cons.prems op by (auto split: prod.splits)
  show ?case
    using Cons.IH [OF run] identity_kept [OF op] accepted_counted [OF op] rejected_unchanged [OF op] sts
    by (cases "status_ok st") auto
qed auto

lemma run_closed:
  "run_ops oper es d w = (sts, d', w') \<Longrightarrow> \<not> dev_open d \<Longrightarrow>
     list_all (\<lambda>st. \<not> status_ok st) sts \<and> d' = d"
proof (induction es arbitrary: d w sts)
  case (Cons e es)
  obtain st d1 w1 where op: "oper e d w = (st, d1, w1)"
    by (cases "oper e d w") auto
  obtain sts1 where run: "run_ops oper es d1 w1 = (sts1, d', w')" and sts: "sts = st # sts1"
    using Cons.prems op by (auto split: prod.splits)
  have "\<not> status_ok st" "d1 = d"
    using closed_rejected [OF op] rejected_unchanged [OF op] Cons.prems(2) by auto
  then show ?case
    using Cons.IH [OF run] Cons.prems(2) sts by simp
qed auto

text \<open>The whole contract of a sequence of events, in the form the properties use.\<close>

lemma run_contract:
  "case run_ops oper es d w of (sts, d', w') \<Rightarrow>
     length sts = length es
     \<and> submitted d' = submitted d + length (filter status_ok sts)
     \<and> dev_id d' = dev_id d \<and> dev_open d' = dev_open d
     \<and> (if dev_open d then True else filter status_ok sts = [] \<and> d' = d)"
proof -
  obtain sts d' w' where run: "run_ops oper es d w = (sts, d', w')"
    by (cases "run_ops oper es d w") auto
  show ?thesis
    using run_counts [OF run] run_closed [OF run] run by (auto simp: list_all_iff filter_empty_conv)
qed

end

text \<open>The events of each device type, and its operations as one function of the event.\<close>

datatype keyboard_input = Key keyboard_event | Type_text keyboard_text_event
datatype touchscreen_input =
  Place touch_contact | Release int | Cancel int | Leave int
datatype trackpad_input = Pad_place touch_contact | Pad_release int | Pad_button bool
datatype pen_input = Pen_tool pen_tool_state | Pen_press pen_button bool

fun keyboard_op :: "'w backend \<Rightarrow> keyboard_input \<Rightarrow> keyboard_device \<Rightarrow> 'w \<Rightarrow>
    operation_status \<times> keyboard_device \<times> 'w" where
  "keyboard_op b (Key e) = keyboard_submit b e"
| "keyboard_op b (Type_text t) = keyboard_type_text b t"

fun touchscreen_op :: "'w backend \<Rightarrow> touchscreen_input \<Rightarrow> touchscreen_device \<Rightarrow> 'w \<Rightarrow>
    operation_status \<times> touchscreen_device \<times> 'w" where
  "touchscreen_op b (Place c) = touchscreen_place_contact b c"
| "touchscreen_op b (Release i) = touchscreen_release_contact b i"
| "touchscreen_op b (Cancel i) = touchscreen_cancel_contact b i"
| "touchscreen_op b (Leave i) = touchscreen_leave_contact b i"

fun trackpad_op :: "'w backend \<Rightarrow> trackpad_input \<Rightarrow> trackpad_device \<Rightarrow> 'w \<Rightarrow>
    operation_status \<times> trackpad_device \<times> 'w" where
  "trackpad_op b (Pad_place c) = trackpad_place_contact b c"
| "trackpad_op b (Pad_release i) = trackpad_release_contact b i"
| "trackpad_op b (Pad_button p) = trackpad_button b p"

fun pen_op :: "'w backend \<Rightarrow> pen_input \<Rightarrow> pen_tablet_device \<Rightarrow> 'w \<Rightarrow>
    operation_status \<times> pen_tablet_device \<times> 'w" where
  "pen_op b (Pen_tool t) = pen_tablet_place_tool b t"
| "pen_op b (Pen_press btn p) = pen_tablet_button b btn p"

text \<open>The gamepad operation on the pair of the packers' counters and the backend state; the
  packers are total, so that the option is always \<open>Some\<close> (\<open>gamepad_submit_total\<close>).\<close>

definition gamepad_op :: "'w backend \<Rightarrow> env \<Rightarrow> gamepad_state \<Rightarrow> gamepad_device \<Rightarrow> counters \<times> 'w \<Rightarrow>
    operation_status \<times> gamepad_device \<times> counters \<times> 'w" where
  "gamepad_op b e state d cw = the (gamepad_submit b e state d cw)"

lemma gamepad_submit_total: "\<exists>r. gamepad_submit b e state d cw = Some r"
proof -
  obtain r c' where "pack_input_report e (fst cw) (gamepad_profile (gamepad_options d)) state = Some (r, c')"
    using pack_input_report_small [of "gamepad_profile (gamepad_options d)" e "fst cw" state]
      keeps_fst_obtain [OF pack_input_report_keeps [of "gamepad_profile (gamepad_options d)" e "fst cw" state]]
    by (meson not_le)
  then show ?thesis
    by (cases cw) (simp add: gamepad_submit_def Let_def split: prod.splits)
qed

lemma submit_event_contract:
  assumes "submit_event msg act upd d w = (st, d', w')"
    and "\<And>x. dev_id (upd x) = dev_id x" and "\<And>x. dev_open (upd x) = dev_open x"
  shows "(\<not> dev_open d \<longrightarrow> \<not> status_ok st) \<and> (\<not> status_ok st \<longrightarrow> d' = d)
    \<and> (status_ok st \<longrightarrow> submitted d' = submitted d + 1)
    \<and> dev_id d' = dev_id d \<and> dev_open d' = dev_open d"
  using assms by (auto simp: submit_event_def split: if_splits prod.splits)

lemmas input_defs = keyboard_submit_def keyboard_type_text_def touchscreen_place_contact_def
  touchscreen_release_contact_def touchscreen_cancel_contact_def touchscreen_leave_contact_def
  touchscreen_end_contact_def trackpad_place_contact_def trackpad_release_contact_def
  trackpad_button_def pen_tablet_place_tool_def pen_tablet_button_def

lemma keyboard_op_contract:
  assumes "keyboard_op b e d w = (st, d', w')"
  shows "(\<not> dev_open d \<longrightarrow> \<not> status_ok st) \<and> (\<not> status_ok st \<longrightarrow> d' = d)
    \<and> (status_ok st \<longrightarrow> submitted d' = submitted d + 1)
    \<and> dev_id d' = dev_id d \<and> dev_open d' = dev_open d"
  using assms
  by (cases e) (auto simp: input_defs submit_event_def Let_def split: if_splits prod.splits)

lemma mouse_op_contract:
  assumes "mouse_submit b fmt e d w = (st, d', w')"
  shows "(\<not> dev_open d \<longrightarrow> \<not> status_ok st) \<and> (\<not> status_ok st \<longrightarrow> d' = d)
    \<and> (status_ok st \<longrightarrow> submitted d' = submitted d + 1)
    \<and> dev_id d' = dev_id d \<and> dev_open d' = dev_open d"
  using assms
  by (auto simp: mouse_submit_def submit_event_def Let_def split: if_splits prod.splits)

lemma touchscreen_op_contract:
  assumes "touchscreen_op b e d w = (st, d', w')"
  shows "(\<not> dev_open d \<longrightarrow> \<not> status_ok st) \<and> (\<not> status_ok st \<longrightarrow> d' = d)
    \<and> (status_ok st \<longrightarrow> submitted d' = submitted d + 1)
    \<and> dev_id d' = dev_id d \<and> dev_open d' = dev_open d"
  using assms
  by (cases e) (auto simp: input_defs submit_event_def Let_def split: if_splits prod.splits)

lemma trackpad_op_contract:
  assumes "trackpad_op b e d w = (st, d', w')"
  shows "(\<not> dev_open d \<longrightarrow> \<not> status_ok st) \<and> (\<not> status_ok st \<longrightarrow> d' = d)
    \<and> (status_ok st \<longrightarrow> submitted d' = submitted d + 1)
    \<and> dev_id d' = dev_id d \<and> dev_open d' = dev_open d"
  using assms
  by (cases e) (auto simp: input_defs submit_event_def Let_def split: if_splits prod.splits)

lemma pen_op_contract:
  assumes "pen_op b e d w = (st, d', w')"
  shows "(\<not> dev_open d \<longrightarrow> \<not> status_ok st) \<and> (\<not> status_ok st \<longrightarrow> d' = d)
    \<and> (status_ok st \<longrightarrow> submitted d' = submitted d + 1)
    \<and> dev_id d' = dev_id d \<and> dev_open d' = dev_open d"
  using assms
  by (cases e) (auto simp: input_defs submit_event_def Let_def split: if_splits prod.splits)

lemma gamepad_op_contract:
  assumes "gamepad_op b env s d cw = (st, d', cw')"
  shows "(\<not> dev_open d \<longrightarrow> \<not> status_ok st) \<and> (\<not> status_ok st \<longrightarrow> d' = d)
    \<and> (status_ok st \<longrightarrow> submitted d' = submitted d + 1)
    \<and> dev_id d' = dev_id d \<and> dev_open d' = dev_open d"
proof -
  have "gamepad_submit b env s d cw = Some (st, d', cw')"
    using assms gamepad_submit_total [of b env s d cw] by (auto simp: gamepad_op_def)
  then show ?thesis
    by (auto simp: gamepad_submit_def Let_def split: if_splits prod.splits option.splits)
qed

interpretation keyboard: device_operation "keyboard_op b" for b :: "'w backend"
  by unfold_locales (rule keyboard_op_contract)

interpretation mouse: device_operation "mouse_submit b fmt" for b :: "'w backend" and fmt
  by unfold_locales (rule mouse_op_contract)

interpretation touchscreen: device_operation "touchscreen_op b" for b :: "'w backend"
  by unfold_locales (rule touchscreen_op_contract)

interpretation trackpad: device_operation "trackpad_op b" for b :: "'w backend"
  by unfold_locales (rule trackpad_op_contract)

interpretation pen_tablet: device_operation "pen_op b" for b :: "'w backend"
  by unfold_locales (rule pen_op_contract)

interpretation gamepad: device_operation "gamepad_op b env" for b :: "'w backend" and env
  by unfold_locales (rule gamepad_op_contract)

section \<open>Properties\<close>

lemma pack_input_report_normalized:
  "pack_input_report e c p (normalize_state s) = pack_input_report e c p s"
  by (cases "gamepad_kind p")
     (simp_all add: pack_input_report_def pack_common_input_report_def Let_def
       pack_xbox_gip_input_report_def pack_dualshock4_input_report_def
       pack_dualsense_input_report_def pack_switch_pro_input_report_def
       pack_standard_gamepad_input_report_def normalize_state_idem)

lemma gamepad_submit_cases:
  "case gamepad_submit b e s d (c, w) of
     None \<Rightarrow> False
   | Some (st, d', c', w') \<Rightarrow>
       if status_ok st
       then dev_open d \<and> last_state d' = normalize_state s
         \<and> pack_input_report e c (gamepad_profile (gamepad_options d)) (last_state d') = Some (last_report d', c')
         \<and> length (last_report d') = input_report_size (gamepad_profile (gamepad_options d))
         \<and> submitted d' = submitted d + 1
         \<and> (if has_backend d
             then \<exists>st0. status_ok st0
               \<and> gamepad_be_submit b (dev_id d) (last_state d') (last_report d') w = (st0, w')
             else w' = w)
       else d' = d \<and> (if dev_open d then True else c' = c \<and> w' = w)"
proof -
  obtain st d' c' w' where submit: "gamepad_submit b e s d (c, w) = Some (st, d', c', w')"
    using gamepad_submit_total [of b e s d "(c, w)"] by (metis prod.exhaust)
  have size: "r = [] \<or> length r = input_report_size (gamepad_profile (gamepad_options d))"
    if "pack_input_report e c (gamepad_profile (gamepad_options d)) s = Some (r, c'')" for r c''
    using that pack_input_report_small [of "gamepad_profile (gamepad_options d)" e c s]
      keeps_fst_obtain [OF pack_input_report_keeps [of "gamepad_profile (gamepad_options d)" e c s]]
    by (metis not_le_imp_less option.inject prod.inject)
  show ?thesis
    using submit size
    by (auto simp: gamepad_submit_def Let_def pack_input_report_normalized
        split: if_splits prod.splits option.splits)
qed

text \<open>The result of a sequence of events on a device: every event has a status, the count grows
  by the number of accepted ones, the device keeps its identifier and its open flag, and a
  closed device accepts nothing and stays as it is.\<close>

definition events_accounted ::
  "'e list \<Rightarrow> 'd device_base_scheme \<Rightarrow> operation_status list \<times> 'd device_base_scheme \<times> 'w \<Rightarrow> bool" where
  "events_accounted es d r =
     (case r of (sts, d', w') \<Rightarrow>
        length sts = length es
        \<and> submitted d' = submitted d + length (filter status_ok sts)
        \<and> dev_id d' = dev_id d \<and> dev_open d' = dev_open d
        \<and> (if dev_open d then True else filter status_ok sts = [] \<and> d' = d))"

text \<open>C19: For every device type and every backend, whatever sequence of events is submitted and
  whichever of them the backend refuses: the event count of the device grows by exactly the
  number of accepted events, and a closed device accepts none and does not change.\<close>

theorem device_events_accounted:
  "events_accounted gs g (run_ops (gamepad_op b e) gs g cw)
   \<and> events_accounted ks k (run_ops (keyboard_op b) ks k w)
   \<and> events_accounted ms m (run_ops (mouse_submit b fmt) ms m lw)
   \<and> events_accounted ts t (run_ops (touchscreen_op b) ts t w)
   \<and> events_accounted ps p (run_ops (trackpad_op b) ps p w)
   \<and> events_accounted qs q (run_ops (pen_op b) qs q w)"
  unfolding events_accounted_def
  by (intro conjI gamepad.run_contract keyboard.run_contract mouse.run_contract
      touchscreen.run_contract trackpad.run_contract pen_tablet.run_contract)

text \<open>Submitting a gamepad state always returns. When it is accepted, the device was open,
  it keeps the normalised state and the report of that very state, of the profile's input
  size, and the backend accepted exactly this pair; when it is refused the device is
  unchanged, and a closed device does not reach the packer or the backend.\<close>

theorem gamepad_submit_result:
  "case gamepad_submit b e s d (c, w) of
     None \<Rightarrow> False
   | Some (st, d', c', w') \<Rightarrow>
       if status_ok st
       then dev_open d \<and> last_state d' = normalize_state s
         \<and> pack_input_report e c (gamepad_profile (gamepad_options d)) (last_state d') = Some (last_report d', c')
         \<and> length (last_report d') = input_report_size (gamepad_profile (gamepad_options d))
         \<and> submitted d' = submitted d + 1
         \<and> (if has_backend d
             then \<exists>st0. status_ok st0
               \<and> gamepad_be_submit b (dev_id d) (last_state d') (last_report d') w = (st0, w')
             else w' = w)
       else d' = d \<and> (if dev_open d then True else c' = c \<and> w' = w)"
  by (rule gamepad_submit_cases)

end
