(* ===== verification/Runtime.thy ===== *)
theory Runtime
  imports Devices "HOL-Library.Multiset"
begin

text \<open>
  The \<open>Runtime\<close> class of \<open>src/src/core/runtime.cpp\<close>: validation of the creation options,
  the six creation methods, the device lists and \<open>close_all\<close>.

  The source keeps weak pointers to the devices and the caller owns the handles. Here a
  list entry is \<open>Some\<close> device while its handle lives and \<open>None\<close> once the handle is
  destroyed, and a handle is the index of its entry. The runtime's and the devices' mutexes
  make every method one step; \<open>runtime_step\<close> is the step of one call and \<open>runtime_run\<close> a
  sequence of calls in the order in which they take their locks. The backend, chosen by
  \<open>create_backend\<close>, is an argument with a state of its own (\<open>world\<close>).
\<close>

section \<open>Validation of creation options\<close>

definition validate_gamepad_options :: "create_gamepad_options \<Rightarrow> operation_status" where
  "validate_gamepad_options options =
     (let p = gamepad_profile options in
      if device_type p \<noteq> Dev_gamepad then failure Err_unsupported_profile ''device profile is not a gamepad''
      else if profile_name p = [] then failure Err_invalid_argument ''device profile name must not be empty''
      else if report_descriptor p = []
        then failure Err_invalid_argument ''device profile report descriptor must not be empty''
      else if input_report_size p = 0
        then failure Err_invalid_argument ''device profile input report size must not be zero''
      else success)"

definition validate_keyboard_options :: "create_keyboard_options \<Rightarrow> operation_status" where
  "validate_keyboard_options options =
     (let p = keyboard_profile options in
      if device_type p \<noteq> Dev_keyboard then failure Err_unsupported_profile ''device profile is not a keyboard''
      else if profile_name p = [] then failure Err_invalid_argument ''device profile name must not be empty''
      else success)"

definition valid_dimensions :: "pointer_viewport \<Rightarrow> bool" where
  "valid_dimensions v \<longleftrightarrow> 0 \<le> width v \<and> 0 \<le> height v
     \<and> (width v = 0 \<and> height v = 0 \<or> 0 < width v \<and> 0 < height v)"

text \<open>The sums are computed in 64 bits and cannot wrap for 32-bit fields.\<close>

definition viewport_escapes :: "pointer_viewport \<Rightarrow> pointer_viewport \<Rightarrow> bool" where
  "viewport_escapes view desk \<longleftrightarrow>
     (let desktop_right = offset_x desk + width desk;
          desktop_bottom = offset_y desk + height desk;
          viewport_right = offset_x view + width view;
          viewport_bottom = offset_y view + height view
      in offset_x view < offset_x desk \<or> offset_y view < offset_y desk
         \<or> desktop_right < viewport_right \<or> desktop_bottom < viewport_bottom)"

definition validate_mouse_options :: "create_mouse_options \<Rightarrow> operation_status" where
  "validate_mouse_options options =
     (let p = mouse_profile options;
          has_desktop = 0 < width (desktop options);
          has_viewport = 0 < width (viewport options)
      in
      if device_type p \<noteq> Dev_mouse then failure Err_unsupported_profile ''device profile is not a mouse''
      else if profile_name p = [] then failure Err_invalid_argument ''device profile name must not be empty''
      else if \<not> valid_dimensions (desktop options) \<or> \<not> valid_dimensions (viewport options)
        then failure Err_invalid_argument ''mouse viewport dimensions must both be positive or both be zero''
      else if has_desktop \<noteq> has_viewport
        then failure Err_invalid_argument ''mouse desktop and target viewport must be configured together''
      else if has_desktop \<and> viewport_escapes (viewport options) (desktop options)
        then failure Err_invalid_argument ''mouse target viewport must be contained by the virtual desktop''
      else success)"

definition validate_touchscreen_options :: "create_touchscreen_options \<Rightarrow> operation_status" where
  "validate_touchscreen_options options =
     (let p = touchscreen_profile options in
      if device_type p \<noteq> Dev_touchscreen
        then failure Err_unsupported_profile ''device profile is not a touchscreen''
      else if profile_name p = [] then failure Err_invalid_argument ''device profile name must not be empty''
      else success)"

definition validate_trackpad_options :: "create_trackpad_options \<Rightarrow> operation_status" where
  "validate_trackpad_options options =
     (let p = trackpad_profile options in
      if device_type p \<noteq> Dev_trackpad then failure Err_unsupported_profile ''device profile is not a trackpad''
      else if profile_name p = [] then failure Err_invalid_argument ''device profile name must not be empty''
      else success)"

definition validate_pen_tablet_options :: "create_pen_tablet_options \<Rightarrow> operation_status" where
  "validate_pen_tablet_options options =
     (let p = pen_tablet_profile options in
      if device_type p \<noteq> Dev_pen_tablet then failure Err_unsupported_profile ''device profile is not a pen tablet''
      else if profile_name p = [] then failure Err_invalid_argument ''device profile name must not be empty''
      else success)"

section \<open>State\<close>

record 'w runtime =
  runtime_backend :: "'w backend"
  runtime_kind :: backend_kind
  caps :: backend_capabilities
  runtime_logger :: logger
  next_device_id :: u64
  gamepads :: "gamepad_device option list"
  keyboards :: "keyboard_device option list"
  mice :: "mouse_device option list"
  touchscreens :: "touchscreen_device option list"
  trackpads :: "trackpad_device option list"
  pen_tablets :: "pen_tablet_device option list"
  packers :: counters
  world :: 'w

text \<open>The constructor, given the backend that \<open>create_backend\<close> chose for \<open>kind\<close>.\<close>

definition runtime_create ::
  "backend_kind \<Rightarrow> (log_level \<Rightarrow> string \<Rightarrow> bool) option \<Rightarrow> 'w backend \<Rightarrow> counters \<Rightarrow> 'w \<Rightarrow> 'w runtime" where
  "runtime_create knd cb b c w =
     \<lparr>runtime_backend = b, runtime_kind = knd, caps = capabilities_of b,
      runtime_logger = log_emit Log_info (''initialized '' @ backend_name (capabilities_of b) @ '' backend'')
        \<lparr>log_callback = cb, callback_failed = False, delivered = []\<rparr>,
      next_device_id = 1, gamepads = [], keyboards = [], mice = [], touchscreens = [],
      trackpads = [], pen_tablets = [], packers = c, world = w\<rparr>"

text \<open>The platform backend where no native implementation exists: it creates nothing. Its
  device operations are never called, and answer like its creation methods.\<close>

definition unavailable :: operation_status where
  "unavailable = failure Err_backend_unavailable ''platform backend is not implemented yet''"

definition refused :: creation_result where
  "refused = \<lparr>result_status = unavailable, result_device = False\<rparr>"

definition unsupported_backend :: "'w backend" where
  "unsupported_backend =
     \<lparr>capabilities_of = fake_capabilities\<lparr>backend_name := ''platform-default-unimplemented'',
        supports_gamepad := False, supports_keyboard := False, supports_mouse := False,
        supports_touchscreen := False, supports_trackpad := False, supports_pen_tablet := False,
        supports_output_reports := False\<rparr>,
      be_create_gamepad = (\<lambda>_ _ w. (\<lparr>result_status = unavailable, result_device = False, effective_profile = None\<rparr>, w)),
      be_create_keyboard = (\<lambda>_ _ w. (refused, w)),
      be_create_mouse = (\<lambda>_ _ w. (refused, w)),
      be_create_touchscreen = (\<lambda>_ _ w. (refused, w)),
      be_create_trackpad = (\<lambda>_ _ w. (refused, w)),
      be_create_pen_tablet = (\<lambda>_ _ w. (refused, w)),
      gamepad_be_submit = (\<lambda>_ _ _ w. (unavailable, w)),
      be_device_nodes = (\<lambda>_ _. []),
      gamepad_be_set_output_callback = (\<lambda>_ _ w. w),
      gamepad_be_close = (\<lambda>_ w. (unavailable, w)),
      keyboard_be_submit = (\<lambda>_ _ w. (unavailable, w)),
      keyboard_be_type_text = (\<lambda>_ _ w. (unavailable, w)),
      keyboard_be_close = (\<lambda>_ w. (unavailable, w)),
      mouse_be_submit = (\<lambda>_ _ w. (unavailable, w)),
      mouse_be_close = (\<lambda>_ w. (unavailable, w)),
      touchscreen_be_place = (\<lambda>_ _ w. (unavailable, w)),
      touchscreen_be_release = (\<lambda>_ _ _ w. (unavailable, w)),
      touchscreen_be_close = (\<lambda>_ w. (unavailable, w)),
      trackpad_be_place = (\<lambda>_ _ w. (unavailable, w)),
      trackpad_be_release = (\<lambda>_ _ _ w. (unavailable, w)),
      trackpad_be_button = (\<lambda>_ _ w. (unavailable, w)),
      trackpad_be_close = (\<lambda>_ w. (unavailable, w)),
      pen_tablet_be_place_tool = (\<lambda>_ _ w. (unavailable, w)),
      pen_tablet_be_button = (\<lambda>_ _ _ w. (unavailable, w)),
      pen_tablet_be_close = (\<lambda>_ w. (unavailable, w))\<rparr>"

section \<open>Creation\<close>

text \<open>The result of a creation method: its status and, when a handle is returned, its index.
  The identifier is taken before the backend is asked, so that a refusal consumes it.\<close>

definition take_device_id :: "'w runtime \<Rightarrow> u64 \<times> 'w runtime" where
  "take_device_id rt = (next_device_id rt, rt\<lparr>next_device_id := next_device_id rt + 1\<rparr>)"

definition create_gamepad ::
  "create_gamepad_options \<Rightarrow> 'w runtime \<Rightarrow> (operation_status \<times> nat option) \<times> 'w runtime" where
  "create_gamepad options rt =
     (let validation = validate_gamepad_options options in
      if \<not> status_ok validation then ((validation, None), rt)
      else
        let (i, rt) = take_device_id rt;
            (r, w) = be_create_gamepad (runtime_backend rt) i options (world rt);
            rt = rt\<lparr>world := w\<rparr>
        in if \<not> created r then ((result_status r, None), rt)
           else
             let effective = (case effective_profile r of None \<Rightarrow> options
                              | Some p \<Rightarrow> options\<lparr>gamepad_profile := p\<rparr>);
                 d = \<lparr>dev_id = i, has_backend = True, dev_open = True, submitted = 0,
                      gamepad_options = effective, last_state = default_gamepad_state,
                      last_report = [], output_callback = None\<rparr>
             in ((success, Some (length (gamepads rt))), rt\<lparr>gamepads := gamepads rt @ [Some d]\<rparr>))"

definition create_keyboard ::
  "create_keyboard_options \<Rightarrow> 'w runtime \<Rightarrow> (operation_status \<times> nat option) \<times> 'w runtime" where
  "create_keyboard options rt =
     (let validation = validate_keyboard_options options in
      if \<not> status_ok validation then ((validation, None), rt)
      else
        let (i, rt) = take_device_id rt;
            (r, w) = be_create_keyboard (runtime_backend rt) i options (world rt);
            rt = rt\<lparr>world := w\<rparr>
        in if \<not> created r then ((result_status r, None), rt)
           else
             let d = \<lparr>dev_id = i, has_backend = True, dev_open = True, submitted = 0,
                      keyboard_options = options, last_key_event = default_keyboard_event,
                      last_text_event = ''''\<rparr>
             in ((success, Some (length (keyboards rt))), rt\<lparr>keyboards := keyboards rt @ [Some d]\<rparr>))"

definition create_mouse ::
  "create_mouse_options \<Rightarrow> 'w runtime \<Rightarrow> (operation_status \<times> nat option) \<times> 'w runtime" where
  "create_mouse options rt =
     (let validation = validate_mouse_options options in
      if \<not> status_ok validation
      then ((validation, None),
            rt\<lparr>runtime_logger := log_emit Log_warning
                 (''rejected mouse creation: '' @ message validation) (runtime_logger rt)\<rparr>)
      else
        let (i, rt) = take_device_id rt;
            (r, w) = be_create_mouse (runtime_backend rt) i options (world rt);
            rt = rt\<lparr>world := w\<rparr>
        in if \<not> created r
           then ((result_status r, None),
                 rt\<lparr>runtime_logger := log_emit Log_error
                      (''mouse creation failed: '' @ message (result_status r)) (runtime_logger rt)\<rparr>)
           else
             let d = \<lparr>dev_id = i, has_backend = True, dev_open = True, submitted = 0,
                      mouse_options = options, last_mouse_event = default_mouse_event\<rparr>;
                 rt' = rt\<lparr>mice := mice rt @ [Some d]\<rparr>
             in ((success, Some (length (mice rt))),
                 rt'\<lparr>runtime_logger := log_emit Log_info (''created mouse '' @ show_nat (unat i))
                       (runtime_logger rt')\<rparr>))"

definition create_touchscreen ::
  "create_touchscreen_options \<Rightarrow> 'w runtime \<Rightarrow> (operation_status \<times> nat option) \<times> 'w runtime" where
  "create_touchscreen options rt =
     (let validation = validate_touchscreen_options options in
      if \<not> status_ok validation then ((validation, None), rt)
      else
        let (i, rt) = take_device_id rt;
            (r, w) = be_create_touchscreen (runtime_backend rt) i options (world rt);
            rt = rt\<lparr>world := w\<rparr>
        in if \<not> created r then ((result_status r, None), rt)
           else
             let d = \<lparr>dev_id = i, has_backend = True, dev_open = True, submitted = 0,
                      touchscreen_options = options, last_contact = default_contact\<rparr>
             in ((success, Some (length (touchscreens rt))), rt\<lparr>touchscreens := touchscreens rt @ [Some d]\<rparr>))"

definition create_trackpad ::
  "create_trackpad_options \<Rightarrow> 'w runtime \<Rightarrow> (operation_status \<times> nat option) \<times> 'w runtime" where
  "create_trackpad options rt =
     (let validation = validate_trackpad_options options in
      if \<not> status_ok validation then ((validation, None), rt)
      else
        let (i, rt) = take_device_id rt;
            (r, w) = be_create_trackpad (runtime_backend rt) i options (world rt);
            rt = rt\<lparr>world := w\<rparr>
        in if \<not> created r then ((result_status r, None), rt)
           else
             let d = \<lparr>dev_id = i, has_backend = True, dev_open = True, submitted = 0,
                      trackpad_options = options, last_pad_contact = default_contact\<rparr>
             in ((success, Some (length (trackpads rt))), rt\<lparr>trackpads := trackpads rt @ [Some d]\<rparr>))"

definition create_pen_tablet ::
  "create_pen_tablet_options \<Rightarrow> 'w runtime \<Rightarrow> (operation_status \<times> nat option) \<times> 'w runtime" where
  "create_pen_tablet options rt =
     (let validation = validate_pen_tablet_options options in
      if \<not> status_ok validation then ((validation, None), rt)
      else
        let (i, rt) = take_device_id rt;
            (r, w) = be_create_pen_tablet (runtime_backend rt) i options (world rt);
            rt = rt\<lparr>world := w\<rparr>
        in if \<not> created r then ((result_status r, None), rt)
           else
             let d = \<lparr>dev_id = i, has_backend = True, dev_open = True, submitted = 0,
                      pen_tablet_options = options, last_tool = default_pen_tool\<rparr>
             in ((success, Some (length (pen_tablets rt))), rt\<lparr>pen_tablets := pen_tablets rt @ [Some d]\<rparr>))"

section \<open>Device lists\<close>

definition handle :: "'d option list \<Rightarrow> nat \<Rightarrow> 'd option" where
  "handle ds i = (if i < length ds then ds ! i else None)"

definition count_open_devices :: "'d device_base_scheme option list \<Rightarrow> nat" where
  "count_open_devices ds =
     foldl (\<lambda>count weak. case weak of None \<Rightarrow> count
        | Some d \<Rightarrow> if dev_open d then count + 1 else count) 0 ds"

definition active_device_count :: "'w runtime \<Rightarrow> nat" where
  "active_device_count rt =
     count_open_devices (gamepads rt) + count_open_devices (keyboards rt) + count_open_devices (mice rt) +
     count_open_devices (touchscreens rt) + count_open_devices (trackpads rt) +
     count_open_devices (pen_tablets rt)"

text \<open>\<open>close_devices\<close>: the backend of every living device is closed, also of a device that is
  already closed, and its answer is dropped.\<close>

fun close_devices ::
  "(u64 \<Rightarrow> 'w \<Rightarrow> operation_status \<times> 'w) \<Rightarrow> 'd device_base_scheme option list \<Rightarrow> 'w \<Rightarrow>
     'd device_base_scheme option list \<times> 'w" where
  "close_devices backend_close [] w = ([], w)"
| "close_devices backend_close (None # ds) w =
     (let (ds, w) = close_devices backend_close ds w in (None # ds, w))"
| "close_devices backend_close (Some d # ds) w =
     (let w = (if has_backend d then snd (backend_close (dev_id d) w) else w);
          (ds, w) = close_devices backend_close ds w
      in (Some (d\<lparr>dev_open := False\<rparr>) # ds, w))"

definition close_all :: "'w runtime \<Rightarrow> 'w runtime" where
  "close_all rt =
     (let b = runtime_backend rt;
          (gs, w) = close_devices (gamepad_be_close b) (gamepads rt) (world rt);
          (ks, w) = close_devices (keyboard_be_close b) (keyboards rt) w;
          (ms, w) = close_devices (mouse_be_close b) (mice rt) w;
          (ts, w) = close_devices (touchscreen_be_close b) (touchscreens rt) w;
          (ps, w) = close_devices (trackpad_be_close b) (trackpads rt) w;
          (qs, w) = close_devices (pen_tablet_be_close b) (pen_tablets rt) w
      in rt\<lparr>gamepads := gs, keyboards := ks, mice := ms, touchscreens := ts, trackpads := ps,
            pen_tablets := qs, world := w\<rparr>)"

section \<open>Calls on handles\<close>

text \<open>A call on the handle \<open>i\<close> of a device list: nothing when the handle no longer exists.
  Destroying a handle closes the device and drops the entry.\<close>

definition call_handle ::
  "('d \<Rightarrow> 'w \<Rightarrow> operation_status \<times> 'd \<times> 'w) \<Rightarrow> nat \<Rightarrow> 'd option list \<Rightarrow> 'w \<Rightarrow>
     operation_status option \<times> 'd option list \<times> 'w" where
  "call_handle oper i ds w =
     (case handle ds i of None \<Rightarrow> (None, ds, w)
      | Some d \<Rightarrow> let (st, d, w) = oper d w in (Some st, ds[i := Some d], w))"

definition drop_handle :: "nat \<Rightarrow> 'd option list \<Rightarrow> 'd option list" where
  "drop_handle i ds = ds[i := None]"

datatype device_class =
  Gamepads | Keyboards | Mice | Touchscreens | Trackpads | Pen_tablets

definition close_handle :: "device_class \<Rightarrow> nat \<Rightarrow> 'w runtime \<Rightarrow> operation_status option \<times> 'w runtime" where
  "close_handle cls i rt =
     (let b = runtime_backend rt; w = world rt in
      case cls of
        Gamepads \<Rightarrow> let (st, ds, w) = call_handle (gamepad_close b) i (gamepads rt) w
                    in (st, rt\<lparr>gamepads := ds, world := w\<rparr>)
      | Keyboards \<Rightarrow> let (st, ds, w) = call_handle (keyboard_close b) i (keyboards rt) w
                    in (st, rt\<lparr>keyboards := ds, world := w\<rparr>)
      | Mice \<Rightarrow> let (st, ds, w) = call_handle (mouse_close b) i (mice rt) w
                    in (st, rt\<lparr>mice := ds, world := w\<rparr>)
      | Touchscreens \<Rightarrow> let (st, ds, w) = call_handle (touchscreen_close b) i (touchscreens rt) w
                    in (st, rt\<lparr>touchscreens := ds, world := w\<rparr>)
      | Trackpads \<Rightarrow> let (st, ds, w) = call_handle (trackpad_close b) i (trackpads rt) w
                    in (st, rt\<lparr>trackpads := ds, world := w\<rparr>)
      | Pen_tablets \<Rightarrow> let (st, ds, w) = call_handle (pen_tablet_close b) i (pen_tablets rt) w
                    in (st, rt\<lparr>pen_tablets := ds, world := w\<rparr>))"

definition destroy_handle :: "device_class \<Rightarrow> nat \<Rightarrow> 'w runtime \<Rightarrow> 'w runtime" where
  "destroy_handle cls i rt =
     (let rt = snd (close_handle cls i rt) in
      case cls of
        Gamepads \<Rightarrow> rt\<lparr>gamepads := drop_handle i (gamepads rt)\<rparr>
      | Keyboards \<Rightarrow> rt\<lparr>keyboards := drop_handle i (keyboards rt)\<rparr>
      | Mice \<Rightarrow> rt\<lparr>mice := drop_handle i (mice rt)\<rparr>
      | Touchscreens \<Rightarrow> rt\<lparr>touchscreens := drop_handle i (touchscreens rt)\<rparr>
      | Trackpads \<Rightarrow> rt\<lparr>trackpads := drop_handle i (trackpads rt)\<rparr>
      | Pen_tablets \<Rightarrow> rt\<lparr>pen_tablets := drop_handle i (pen_tablets rt)\<rparr>)"

datatype input =
    To_gamepad gamepad_state | To_keyboard keyboard_input | To_mouse mouse_event
  | To_touchscreen touchscreen_input | To_trackpad trackpad_input | To_pen_tablet pen_input

text \<open>The two parameters of an input: the clocks of the packers and the stream's formatting of
  a \<open>float\<close> in the log.\<close>

definition input_handle ::
  "env \<Rightarrow> (flt \<Rightarrow> string) \<Rightarrow> input \<Rightarrow> nat \<Rightarrow> 'w runtime \<Rightarrow> operation_status option \<times> 'w runtime" where
  "input_handle e fmt inp i rt =
     (let b = runtime_backend rt; w = world rt in
      case inp of
        To_gamepad s \<Rightarrow>
          let (st, ds, c, w) = call_handle (gamepad_op b e s) i (gamepads rt) (packers rt, w)
          in (st, rt\<lparr>gamepads := ds, packers := c, world := w\<rparr>)
      | To_keyboard k \<Rightarrow>
          let (st, ds, w) = call_handle (keyboard_op b k) i (keyboards rt) w
          in (st, rt\<lparr>keyboards := ds, world := w\<rparr>)
      | To_mouse m \<Rightarrow>
          let (st, ds, lg, w) = call_handle (mouse_submit b fmt m) i (mice rt) (runtime_logger rt, w)
          in (st, rt\<lparr>mice := ds, runtime_logger := lg, world := w\<rparr>)
      | To_touchscreen t \<Rightarrow>
          let (st, ds, w) = call_handle (touchscreen_op b t) i (touchscreens rt) w
          in (st, rt\<lparr>touchscreens := ds, world := w\<rparr>)
      | To_trackpad t \<Rightarrow>
          let (st, ds, w) = call_handle (trackpad_op b t) i (trackpads rt) w
          in (st, rt\<lparr>trackpads := ds, world := w\<rparr>)
      | To_pen_tablet p \<Rightarrow>
          let (st, ds, w) = call_handle (pen_op b p) i (pen_tablets rt) w
          in (st, rt\<lparr>pen_tablets := ds, world := w\<rparr>))"

datatype creation =
    New_gamepad create_gamepad_options | New_keyboard create_keyboard_options
  | New_mouse create_mouse_options | New_touchscreen create_touchscreen_options
  | New_trackpad create_trackpad_options | New_pen_tablet create_pen_tablet_options

fun create_device :: "creation \<Rightarrow> 'w runtime \<Rightarrow> (operation_status \<times> nat option) \<times> 'w runtime" where
  "create_device (New_gamepad opts) = create_gamepad opts"
| "create_device (New_keyboard opts) = create_keyboard opts"
| "create_device (New_mouse opts) = create_mouse opts"
| "create_device (New_touchscreen opts) = create_touchscreen opts"
| "create_device (New_trackpad opts) = create_trackpad opts"
| "create_device (New_pen_tablet opts) = create_pen_tablet opts"

text \<open>One call of the library, and a sequence of calls.\<close>

datatype runtime_call =
    Create creation | Input input nat | Close device_class nat | Destroy device_class nat | Close_all

fun runtime_step :: "env \<Rightarrow> (flt \<Rightarrow> string) \<Rightarrow> runtime_call \<Rightarrow> 'w runtime \<Rightarrow> 'w runtime" where
  "runtime_step e fmt (Create c) rt = snd (create_device c rt)"
| "runtime_step e fmt (Input inp i) rt = snd (input_handle e fmt inp i rt)"
| "runtime_step e fmt (Close cls i) rt = snd (close_handle cls i rt)"
| "runtime_step e fmt (Destroy cls i) rt = destroy_handle cls i rt"
| "runtime_step e fmt Close_all rt = close_all rt"

definition runtime_run :: "env \<Rightarrow> (flt \<Rightarrow> string) \<Rightarrow> runtime_call list \<Rightarrow> 'w runtime \<Rightarrow> 'w runtime" where
  "runtime_run e fmt calls rt = foldl (\<lambda>rt call. runtime_step e fmt call rt) rt calls"

end
