(* ===== verification/RuntimeFacts.thy ===== *)
theory RuntimeFacts
  imports Runtime
begin

text \<open>
  The properties of the runtime: identifiers are unique, \<open>active_device_count\<close> counts the
  open devices call by call, \<open>close_all\<close> is final, and what a creation method leaves behind.
  The lemmas on a call through a handle are proved once in the locale \<open>device_operation\<close> and
  used for the six device types through its interpretations.
\<close>

section \<open>Device lists\<close>

definition live_ids :: "'d device_base_scheme option list \<Rightarrow> u64 list" where
  "live_ids ds = concat (map (\<lambda>d. case d of None \<Rightarrow> [] | Some d \<Rightarrow> [dev_id d]) ds)"

definition device_ids :: "'w runtime \<Rightarrow> u64 list" where
  "device_ids rt = live_ids (gamepads rt) @ live_ids (keyboards rt) @ live_ids (mice rt)
     @ live_ids (touchscreens rt) @ live_ids (trackpads rt) @ live_ids (pen_tablets rt)"

definition open_entry :: "'d device_base_scheme option \<Rightarrow> bool" where
  "open_entry d = (case d of None \<Rightarrow> False | Some d \<Rightarrow> dev_open d)"

lemma live_ids_simps [simp]:
  "live_ids [] = []" "live_ids (None # ds) = live_ids ds"
  "live_ids (Some d # ds) = dev_id d # live_ids ds"
  "live_ids (xs @ ys) = live_ids xs @ live_ids ys"
  by (simp_all add: live_ids_def)

lemma open_entry_simps [simp]: "\<not> open_entry None" "open_entry (Some d) = dev_open d"
  by (simp_all add: open_entry_def)

lemma count_open_foldl:
  "foldl (\<lambda>count weak. case weak of None \<Rightarrow> count
      | Some d \<Rightarrow> if dev_open d then count + 1 else count) n ds = n + length (filter open_entry ds)"
  by (induction ds arbitrary: n) (auto split: option.split)

lemma count_open_filter: "count_open_devices ds = length (filter open_entry ds)"
  by (simp add: count_open_devices_def count_open_foldl)

lemma count_open_simps [simp]:
  "count_open_devices [] = 0"
  "count_open_devices (d # ds) = (if open_entry d then 1 else 0) + count_open_devices ds"
  "count_open_devices (xs @ ys) = count_open_devices xs + count_open_devices ys"
  by (simp_all add: count_open_filter)

lemma handle_Cons: "handle (d # ds) i = (case i of 0 \<Rightarrow> d | Suc j \<Rightarrow> handle ds j)"
  by (simp add: handle_def split: nat.split)

lemma handle_Nil [simp]: "handle [] i = None"
  by (simp add: handle_def)

lemma live_ids_update:
  "handle ds i = Some d \<Longrightarrow> dev_id d' = dev_id d \<Longrightarrow> live_ids (ds[i := Some d']) = live_ids ds"
proof (induction ds arbitrary: i)
  case (Cons x ds)
  then show ?case by (cases i; cases x) (auto simp: handle_Cons)
qed simp

lemma count_open_update:
  "handle ds i = Some d \<Longrightarrow>
     count_open_devices (ds[i := Some d']) + (if dev_open d then 1 else 0)
       = count_open_devices ds + (if dev_open d' then 1 else 0)"
proof (induction ds arbitrary: i)
  case (Cons x ds)
  then show ?case by (cases i; cases x) (force simp: handle_Cons split: if_splits)+
qed simp

lemma live_ids_drop: "mset (live_ids (drop_handle i ds)) \<subseteq># mset (live_ids ds)"
  unfolding drop_handle_def
proof (induction ds arbitrary: i)
  case (Cons x ds)
  then show ?case
    by (cases i; cases x) (auto intro: subset_mset.trans [OF Cons.IH] simp: subset_mset.add_increasing)
qed simp

lemma count_open_drop:
  "count_open_devices (drop_handle i ds) + (if open_entry (handle ds i) then 1 else 0)
     = count_open_devices ds"
  unfolding drop_handle_def
proof (induction ds arbitrary: i)
  case (Cons x ds)
  then show ?case by (cases i; cases x) (auto simp: handle_Cons)
qed simp

lemma close_devices_kept:
  "close_devices bc ds w = (ds', w') \<Longrightarrow>
     live_ids ds' = live_ids ds \<and> count_open_devices ds' = 0 \<and> length ds' = length ds"
  by (induction bc ds w arbitrary: ds' w' rule: close_devices.induct) (auto split: prod.splits)

section \<open>Calls through handles\<close>

context device_operation
begin

lemma call_handle_kept:
  assumes "call_handle (oper e) i ds w = (st, ds', w')"
  shows "live_ids ds' = live_ids ds" and "count_open_devices ds' = count_open_devices ds"
proof -
  have "live_ids ds' = live_ids ds \<and> count_open_devices ds' = count_open_devices ds"
  proof (cases "handle ds i")
    case (Some d)
    obtain st1 d1 w1 where op: "oper e d w = (st1, d1, w1)"
      by (cases "oper e d w") auto
    then show ?thesis
      using assms Some identity_kept [OF op] live_ids_update [OF Some, of d1] count_open_update [OF Some, of d1]
      by (auto simp: call_handle_def split: if_splits)
  qed (use assms in \<open>simp add: call_handle_def\<close>)
  then show "live_ids ds' = live_ids ds" "count_open_devices ds' = count_open_devices ds"
    by simp_all
qed

end

lemma call_handle_close:
  assumes "call_handle (close_device bc) i ds w = (st, ds', w')"
  shows "live_ids ds' = live_ids ds
    \<and> count_open_devices ds' + (if open_entry (handle ds i) then 1 else 0) = count_open_devices ds
    \<and> \<not> open_entry (handle ds' i)"
proof (cases "handle ds i")
  case (Some d)
  obtain st1 d1 w1 where op: "close_device bc d w = (st1, d1, w1)"
    by (cases "close_device bc d w") auto
  then have d1: "dev_id d1 = dev_id d" "\<not> dev_open d1"
    by (auto simp: close_device_def split: if_splits prod.splits)
  have "i < length ds"
    using Some by (auto simp: handle_def split: if_splits)
  then show ?thesis
    using assms Some op d1 live_ids_update [OF Some, of d1] count_open_update [OF Some, of d1]
    by (auto simp: call_handle_def handle_def split: if_splits)
qed (use assms in \<open>simp add: call_handle_def\<close>)

lemmas close_handle_unfold = close_handle_def gamepad_close_def [abs_def] keyboard_close_def [abs_def]
  mouse_close_def [abs_def] touchscreen_close_def [abs_def] trackpad_close_def [abs_def]
  pen_tablet_close_def [abs_def]

text \<open>Whether a handle names an open device.\<close>

definition handle_open :: "device_class \<Rightarrow> nat \<Rightarrow> 'w runtime \<Rightarrow> bool" where
  "handle_open cls i rt =
     (case cls of
        Gamepads \<Rightarrow> open_entry (handle (gamepads rt) i)
      | Keyboards \<Rightarrow> open_entry (handle (keyboards rt) i)
      | Mice \<Rightarrow> open_entry (handle (mice rt) i)
      | Touchscreens \<Rightarrow> open_entry (handle (touchscreens rt) i)
      | Trackpads \<Rightarrow> open_entry (handle (trackpads rt) i)
      | Pen_tablets \<Rightarrow> open_entry (handle (pen_tablets rt) i))"

lemma input_handle_kept:
  assumes "input_handle e fmt inp i rt = (st, rt')"
  shows "next_device_id rt' = next_device_id rt \<and> device_ids rt' = device_ids rt
    \<and> active_device_count rt' = active_device_count rt"
  using assms
  by (cases inp)
     (auto simp: input_handle_def device_ids_def active_device_count_def Let_def split: prod.splits
       dest: gamepad.call_handle_kept keyboard.call_handle_kept mouse.call_handle_kept
         touchscreen.call_handle_kept trackpad.call_handle_kept pen_tablet.call_handle_kept)

lemma close_handle_kept:
  assumes "close_handle cls i rt = (st, rt')"
  shows "next_device_id rt' = next_device_id rt \<and> device_ids rt' = device_ids rt
    \<and> active_device_count rt' + (if handle_open cls i rt then 1 else 0) = active_device_count rt
    \<and> \<not> handle_open cls i rt'"
  using assms
  by (cases cls)
     (auto simp: close_handle_unfold device_ids_def active_device_count_def handle_open_def Let_def
       split: prod.splits dest!: call_handle_close)

lemma destroy_handle_kept:
  "next_device_id (destroy_handle cls i rt) = next_device_id rt
   \<and> mset (device_ids (destroy_handle cls i rt)) \<subseteq># mset (device_ids rt)
   \<and> active_device_count (destroy_handle cls i rt) + (if handle_open cls i rt then 1 else 0)
       = active_device_count rt"
proof -
  obtain st rt1 where close: "close_handle cls i rt = (st, rt1)"
    by (cases "close_handle cls i rt") auto
  note kept = close_handle_kept [OF close]
  have "mset (device_ids (destroy_handle cls i rt)) \<subseteq># mset (device_ids rt1)"
    using close
    by (cases cls) (auto simp: destroy_handle_def device_ids_def intro!: subset_mset.add_mono live_ids_drop)
  moreover have "active_device_count (destroy_handle cls i rt) = active_device_count rt1"
    using close kept
    by (cases cls)
       (auto simp: destroy_handle_def active_device_count_def handle_open_def
         dest: count_open_drop [THEN sym, THEN trans]
         simp: count_open_drop [where i = i, symmetric, of "gamepads rt1"]
           count_open_drop [where i = i, symmetric, of "keyboards rt1"]
           count_open_drop [where i = i, symmetric, of "mice rt1"]
           count_open_drop [where i = i, symmetric, of "touchscreens rt1"]
           count_open_drop [where i = i, symmetric, of "trackpads rt1"]
           count_open_drop [where i = i, symmetric, of "pen_tablets rt1"])
  moreover have "next_device_id (destroy_handle cls i rt) = next_device_id rt1"
    using close by (cases cls) (auto simp: destroy_handle_def)
  ultimately show ?thesis
    using kept by simp
qed

lemma close_all_kept:
  "next_device_id (close_all rt) = next_device_id rt \<and> device_ids (close_all rt) = device_ids rt
   \<and> active_device_count (close_all rt) = 0"
  by (auto simp: close_all_def device_ids_def active_device_count_def Let_def split: prod.splits
      dest!: close_devices_kept)

section \<open>Creation\<close>

lemma create_device_cases:
  assumes "create_device c rt = ((st, h), rt')"
  shows "(if h = None
    then device_ids rt' = device_ids rt \<and> active_device_count rt' = active_device_count rt
      \<and> next_device_id rt' \<in> {next_device_id rt, next_device_id rt + 1}
    else status_ok st \<and> mset (device_ids rt') = add_mset (next_device_id rt) (mset (device_ids rt))
      \<and> active_device_count rt' = active_device_count rt + 1
      \<and> next_device_id rt' = next_device_id rt + 1)"
  using assms
  by (cases c)
     (auto simp: create_gamepad_def create_keyboard_def create_mouse_def create_touchscreen_def
       create_trackpad_def create_pen_tablet_def take_device_id_def device_ids_def
       active_device_count_def Let_def split: if_splits prod.splits)

section \<open>Identifiers\<close>

text \<open>At most \<open>n\<close> identifiers have been taken, and the living devices carry distinct ones of
  them.\<close>

definition ids_ok :: "nat \<Rightarrow> 'w runtime \<Rightarrow> bool" where
  "ids_ok n rt \<longleftrightarrow> distinct (device_ids rt) \<and> list_all (\<lambda>i. i < next_device_id rt) (device_ids rt)
     \<and> unat (next_device_id rt) \<le> n"

lemma distinct_count_le: "distinct xs \<longleftrightarrow> (\<forall>a. count (mset xs) a \<le> 1)"
proof -
  have pos: "a \<in> set xs \<longleftrightarrow> 0 < count (mset xs) a" for a
    by simp
  show ?thesis
    unfolding distinct_count_atmost_1 pos by (simp add: le_less less_Suc_eq)
qed

lemma ids_ok_submset:
  assumes "ids_ok n rt" and "mset (device_ids rt') \<subseteq># mset (device_ids rt)"
    and "next_device_id rt' = next_device_id rt"
  shows "ids_ok n rt'"
proof -
  have "distinct (device_ids rt')"
    using assms(1) mset_subset_eq_count [OF assms(2)]
    by (auto simp: ids_ok_def distinct_count_le intro: order.trans)
  then show ?thesis
    using assms set_mset_mono [OF assms(2)] by (auto simp: ids_ok_def list_all_iff)
qed

lemma unat_next:
  fixes i :: u64
  assumes "unat i \<le> n" and "n < 2 ^ 64 - 1"
  shows "unat (i + 1) = unat i + 1" and "i < i + 1"
proof -
  show *: "unat (i + 1) = unat i + 1"
    using assms by (simp add: unat_word_ariths)
  show "i < i + 1"
    using * by (simp add: word_less_nat_alt)
qed

lemma ids_ok_create:
  assumes "ids_ok n rt" and "n < 2 ^ 64 - 1" and "create_device c rt = ((st, h), rt')"
  shows "ids_ok (n + 1) rt'"
proof (cases h)
  case None
  then show ?thesis
    using assms(1) create_device_cases [OF assms(3)] unat_next [of "next_device_id rt" n] assms(2)
    by (auto simp: ids_ok_def list_all_iff intro: order.strict_trans)
next
  case (Some j)
  then have new: "mset (device_ids rt') = add_mset (next_device_id rt) (mset (device_ids rt))"
    and nxt: "next_device_id rt' = next_device_id rt + 1"
    using create_device_cases [OF assms(3)] by auto
  have perm: "mset (device_ids rt') = mset (next_device_id rt # device_ids rt)"
    using new by simp
  have fresh: "next_device_id rt \<notin> set (device_ids rt)"
    using assms(1) by (auto simp: ids_ok_def list_all_iff)
  have "distinct (device_ids rt')"
    using assms(1) fresh mset_eq_imp_distinct_iff [OF perm] by (simp add: ids_ok_def)
  moreover have "set (device_ids rt') = insert (next_device_id rt) (set (device_ids rt))"
    using mset_eq_setD [OF perm] by simp
  ultimately show ?thesis
    using assms(1,2) nxt unat_next [of "next_device_id rt" n]
    by (auto simp: ids_ok_def list_all_iff intro: order.strict_trans)
qed

lemma ids_ok_mono: "ids_ok n rt \<Longrightarrow> n \<le> m \<Longrightarrow> ids_ok m rt"
  by (simp add: ids_ok_def)

lemma ids_ok_step:
  assumes "ids_ok n rt" and "n < 2 ^ 64 - 1"
  shows "ids_ok (n + 1) (runtime_step e fmt call rt)"
proof (cases call)
  case (Create c)
  obtain st h rt' where "create_device c rt = ((st, h), rt')"
    by (cases "create_device c rt") auto
  then show ?thesis
    using ids_ok_create [OF assms] Create by simp
next
  case (Input inp i)
  obtain st rt' where "input_handle e fmt inp i rt = (st, rt')"
    by (cases "input_handle e fmt inp i rt") auto
  then show ?thesis
    using input_handle_kept [of e fmt inp i rt st rt'] assms(1) Input by (simp add: ids_ok_def)
next
  case (Close cls i)
  obtain st rt' where "close_handle cls i rt = (st, rt')"
    by (cases "close_handle cls i rt") auto
  then show ?thesis
    using close_handle_kept [of cls i rt st rt'] assms(1) Close by (simp add: ids_ok_def)
next
  case (Destroy cls i)
  then show ?thesis
    using destroy_handle_kept [of cls i rt] ids_ok_submset [OF assms(1), of "destroy_handle cls i rt"]
    by (auto intro: ids_ok_mono)
next
  case Close_all
  then show ?thesis
    using close_all_kept [of rt] assms(1) by (simp add: ids_ok_def)
qed

lemma ids_ok_run:
  "ids_ok n rt \<Longrightarrow> n + length calls < 2 ^ 64 \<Longrightarrow> ids_ok (n + length calls) (runtime_run e fmt calls rt)"
proof (induction calls arbitrary: n rt)
  case (Cons call calls)
  have "ids_ok (n + 1) (runtime_step e fmt call rt)"
    using Cons.prems by (intro ids_ok_step) auto
  then show ?case
    using Cons.IH [of "n + 1" "runtime_step e fmt call rt"] Cons.prems by (simp add: runtime_run_def)
qed (simp add: runtime_run_def)

lemma ids_ok_initial: "ids_ok 1 (runtime_create knd cb b c w)"
  by (simp add: ids_ok_def runtime_create_def device_ids_def)

lemma runtime_step_active:
  "case call of
     Create c \<Rightarrow> active_device_count (runtime_step e fmt call rt)
       = active_device_count rt + (if snd (fst (create_device c rt)) = None then 0 else 1)
   | Input inp i \<Rightarrow> active_device_count (runtime_step e fmt call rt) = active_device_count rt
   | Close cls i \<Rightarrow> active_device_count (runtime_step e fmt call rt)
         + (if handle_open cls i rt then 1 else 0) = active_device_count rt
       \<and> \<not> handle_open cls i (runtime_step e fmt call rt)
   | Destroy cls i \<Rightarrow> active_device_count (runtime_step e fmt call rt)
         + (if handle_open cls i rt then 1 else 0) = active_device_count rt
   | Close_all \<Rightarrow> active_device_count (runtime_step e fmt call rt) = 0"
proof (cases call)
  case (Create c)
  obtain st h rt' where "create_device c rt = ((st, h), rt')"
    by (cases "create_device c rt") auto
  then show ?thesis
    using Create create_device_cases [of c rt st h rt'] by (simp split: if_splits)
next
  case (Input inp i)
  then show ?thesis
    using input_handle_kept [of e fmt inp i rt] by (cases "input_handle e fmt inp i rt") simp
next
  case (Close cls i)
  then show ?thesis
    using close_handle_kept [of cls i rt] by (cases "close_handle cls i rt") simp
next
  case (Destroy cls i)
  then show ?thesis
    using destroy_handle_kept [of cls i rt] by simp
next
  case Close_all
  then show ?thesis
    using close_all_kept [of rt] by simp
qed

section \<open>An example runtime\<close>

definition example_clocks :: env where
  "example_clocks = \<lparr>lround_err = (\<lambda>_. 0), powf = (\<lambda>x y. x), ds4_elapsed_us = 0, ds_elapsed_ns = 0\<rparr>"

definition example_runtime :: "(u64 \<Rightarrow> output_callback option) runtime" where
  "example_runtime = runtime_create Backend_fake None fake_backend
     \<lparr>sequence_number = 0, packet_timer = 0\<rparr> (\<lambda>_. None)"

definition example_keyboard :: create_keyboard_options where
  "example_keyboard = \<lparr>keyboard_profile = default_profile\<lparr>device_type := Dev_keyboard, profile_name := ''k''\<rparr>,
     auto_repeat_interval_ms = 50, keyboard_stable_id = ''''\<rparr>"

definition example_calls :: "runtime_call list" where
  "example_calls = [Create (New_keyboard example_keyboard), Create (New_keyboard example_keyboard),
     Destroy Keyboards 0, Create (New_keyboard example_keyboard)]"

section \<open>Properties\<close>

text \<open>C20: Device identifiers are unique: after any sequence of calls on a new runtime, on any
  backend and however many creations it refuses, no two living devices have the same
  identifier. The bound is that of the 64-bit counter.\<close>

theorem runtime_ids_unique:
  assumes "length calls < 2 ^ 64 - 1"
  shows "distinct (device_ids (runtime_run e fmt calls (runtime_create knd cb b c w)))"
proof -
  have "1 + length calls < 2 ^ 64"
    using assms by simp
  then have "ids_ok (1 + length calls) (runtime_run e fmt calls (runtime_create knd cb b c w))"
    by (rule ids_ok_run [OF ids_ok_initial])
  then show ?thesis
    by (simp add: ids_ok_def)
qed

theorem runtime_ids_unique_witness:
  "distinct (device_ids (runtime_run example_clocks (\<lambda>_. ''0'') example_calls example_runtime))
   \<and> device_ids (runtime_run example_clocks (\<lambda>_. ''0'') example_calls example_runtime) = [2, 3]"
proof -
  have "length example_calls < 2 ^ 64 - 1"
    by (simp add: example_calls_def)
  then have "distinct (device_ids (runtime_run example_clocks (\<lambda>_. ''0'') example_calls example_runtime))"
    unfolding example_runtime_def by (rule runtime_ids_unique)
  moreover have "device_ids (runtime_run example_clocks (\<lambda>_. ''0'') example_calls example_runtime) = [2, 3]"
    by code_simp
  ultimately show ?thesis by simp
qed

text \<open>\<open>active_device_count\<close> counts the open devices call by call: a creation adds one
  exactly when it returns a handle, closing or destroying a handle subtracts one exactly when
  its device was open, input leaves the count alone and \<open>close_all\<close> makes it zero.\<close>

theorem runtime_active_count:
  "case call of
     Create c \<Rightarrow> active_device_count (runtime_step e fmt call rt)
       = active_device_count rt + (if snd (fst (create_device c rt)) = None then 0 else 1)
   | Input inp i \<Rightarrow> active_device_count (runtime_step e fmt call rt) = active_device_count rt
   | Close cls i \<Rightarrow> active_device_count (runtime_step e fmt call rt)
         + (if handle_open cls i rt then 1 else 0) = active_device_count rt
       \<and> \<not> handle_open cls i (runtime_step e fmt call rt)
   | Destroy cls i \<Rightarrow> active_device_count (runtime_step e fmt call rt)
         + (if handle_open cls i rt then 1 else 0) = active_device_count rt
   | Close_all \<Rightarrow> active_device_count (runtime_step e fmt call rt) = 0"
  by (rule runtime_step_active)

fun creates :: "runtime_call \<Rightarrow> bool" where
  "creates (Create c) \<longleftrightarrow> True"
| "creates _ \<longleftrightarrow> False"

lemma no_creation_closed:
  "active_device_count rt = 0 \<Longrightarrow> \<not> creates call \<Longrightarrow> active_device_count (runtime_step e fmt call rt) = 0"
  using runtime_step_active [where call = call and e = e and fmt = fmt and rt = rt] by (cases call) auto

text \<open>\<open>close_all\<close> is final: after it no device is open, and none is opened by any sequence
  of further inputs, closings and destructions; only a creation makes an open device.\<close>

theorem runtime_close_all_final:
  assumes "list_all (\<lambda>call. \<not> creates call) calls"
  shows "active_device_count (runtime_run e fmt (Close_all # calls) rt) = 0"
proof -
  have "active_device_count (runtime_run e fmt calls rt) = 0"
    if "active_device_count rt = 0" "list_all (\<lambda>call. \<not> creates call) calls" for rt :: "'a runtime"
    using that
    by (induction calls arbitrary: rt) (auto simp: runtime_run_def no_creation_closed)
  then show ?thesis
    using assms close_all_kept [of rt] by (simp add: runtime_run_def)
qed

theorem runtime_close_all_final_witness:
  "active_device_count (runtime_run example_clocks (\<lambda>_. ''0'') (Close_all # [Input (To_keyboard (Type_text ''a'')) 1,
     Destroy Keyboards 1]) (runtime_run example_clocks (\<lambda>_. ''0'') example_calls example_runtime)) = 0
   \<and> active_device_count (runtime_run example_clocks (\<lambda>_. ''0'') example_calls example_runtime) = 2"
proof -
  have calls: "list_all (\<lambda>call. \<not> creates call) [Input (To_keyboard (Type_text ''a'')) 1, Destroy Keyboards 1]"
    by simp
  have "active_device_count (runtime_run example_clocks (\<lambda>_. ''0'') example_calls example_runtime) = 2"
    by code_simp
  then show ?thesis
    using runtime_close_all_final [OF calls] by simp
qed

text \<open>The outcome of \<open>create_gamepad\<close>. Options that fail validation change nothing. Otherwise
  an identifier is consumed and the backend is asked once; when it refuses, its status is
  returned without a handle; when it creates the device, the handle names an open device with
  this identifier, the effective profile of the backend, no report and no callback.\<close>

theorem create_gamepad_outcome:
  "let validation = validate_gamepad_options options;
       (r, w) = be_create_gamepad (runtime_backend rt) (next_device_id rt) options (world rt)
   in case create_gamepad options rt of ((st, h), rt') \<Rightarrow>
     if \<not> status_ok validation then st = validation \<and> h = None \<and> rt' = rt
     else next_device_id rt' = next_device_id rt + 1 \<and> world rt' = w
       \<and> (if \<not> created r then st = result_status r \<and> h = None \<and> gamepads rt' = gamepads rt
          else st = success \<and> h = Some (length (gamepads rt))
            \<and> (\<exists>d. handle (gamepads rt') (length (gamepads rt)) = Some d
                \<and> dev_id d = next_device_id rt \<and> dev_open d \<and> submitted d = 0 \<and> last_report d = []
                \<and> output_callback d = None
                \<and> gamepad_profile (gamepad_options d)
                   = (case effective_profile r of None \<Rightarrow> gamepad_profile options | Some p \<Rightarrow> p)
                \<and> metadata (gamepad_options d) = metadata options))"
  by (auto simp: create_gamepad_def take_device_id_def Let_def handle_def nth_append
      split: prod.splits option.splits)

text \<open>The pixels of a viewport.\<close>

definition pixels :: "pointer_viewport \<Rightarrow> (int \<times> int) set" where
  "pixels v = {(x, y). offset_x v \<le> x \<and> x < offset_x v + width v \<and> offset_y v \<le> y \<and> y < offset_y v + height v}"

lemma pixels_empty: "pixels v = {} \<longleftrightarrow> width v \<le> 0 \<or> height v \<le> 0"
proof
  show "width v \<le> 0 \<or> height v \<le> 0" if "pixels v = {}"
  proof (rule ccontr)
    assume "\<not> ?thesis"
    then have "(offset_x v, offset_y v) \<in> pixels v"
      by (simp add: pixels_def)
    then show False using that by simp
  qed
qed (auto simp: pixels_def)

lemma viewport_contained:
  assumes "0 < width v" "0 < height v"
  shows "pixels v \<subseteq> pixels d \<longleftrightarrow> \<not> viewport_escapes v d"
proof
  assume sub: "pixels v \<subseteq> pixels d"
  have "(offset_x v, offset_y v) \<in> pixels v"
    "(offset_x v + width v - 1, offset_y v + height v - 1) \<in> pixels v"
    using assms by (simp_all add: pixels_def)
  then have "(offset_x v, offset_y v) \<in> pixels d"
    "(offset_x v + width v - 1, offset_y v + height v - 1) \<in> pixels d"
    using sub by blast+
  then show "\<not> viewport_escapes v d"
    by (auto simp: pixels_def viewport_escapes_def Let_def)
qed (auto simp: pixels_def viewport_escapes_def Let_def)

text \<open>A mouse is created only with a usable geometry: the options are accepted exactly when
  the profile is a named mouse profile and either neither rectangle is configured or both are
  and every pixel of the target viewport is a pixel of the desktop.\<close>

theorem mouse_geometry_validated:
  "status_ok (validate_mouse_options options) \<longleftrightarrow>
     device_type (mouse_profile options) = Dev_mouse \<and> profile_name (mouse_profile options) \<noteq> []
     \<and> (if width (desktop options) = 0 \<and> height (desktop options) = 0
        then width (viewport options) = 0 \<and> height (viewport options) = 0
        else 0 < width (desktop options) \<and> 0 < height (desktop options)
          \<and> pixels (viewport options) \<noteq> {}
          \<and> pixels (viewport options) \<subseteq> pixels (desktop options))"
proof (cases "0 < width (viewport options) \<and> 0 < height (viewport options)")
  case True
  then show ?thesis
    using viewport_contained [of "viewport options" "desktop options"]
    by (auto simp: validate_mouse_options_def valid_dimensions_def Let_def pixels_empty)
next
  case False
  then show ?thesis
    by (auto simp: validate_mouse_options_def valid_dimensions_def Let_def pixels_empty)
qed

end
