(* ===== verification/GamepadAdapter.thy ===== *)
theory GamepadAdapter
  imports RuntimeFacts
begin

text \<open>
  \<open>src/src/core/gamepad_adapter.cpp\<close>: which buttons and outputs a profile supports, and the
  adapter that caches a gamepad state and submits it after every partial update. The adapter
  owns a handle of the runtime of \<open>Runtime\<close>: its device pointer is the device behind that
  handle, and is null (\<open>None\<close>) after a move.

  \<open>adapter_step\<close> is one call of an updating method; the specification \<open>update_required\<close>,
  \<open>update_effect\<close> says of each what it needs and what it does to the cached state.
\<close>

section \<open>Profile support\<close>

record profile_support =
  supports_rumble :: bool
  supports_trigger_rumble :: bool
  supports_rgb_led :: bool
  supports_adaptive_triggers :: bool
  supports_motion :: bool
  supports_touchpad :: bool
  supports_battery :: bool
  supports_misc1_button :: bool
  supports_touchpad_button :: bool
  supported_rear_paddle_count :: u8
  supports_player_leds :: bool

definition no_support :: profile_support where
  "no_support = \<lparr>supports_rumble = False, supports_trigger_rumble = False, supports_rgb_led = False,
     supports_adaptive_triggers = False, supports_motion = False, supports_touchpad = False,
     supports_battery = False, supports_misc1_button = False, supports_touchpad_button = False,
     supported_rear_paddle_count = 0, supports_player_leds = False\<rparr>"

definition common_buttons :: "gamepad_button list" where
  "common_buttons = [Btn_a, Btn_b, Btn_x, Btn_y, Btn_back, Btn_start, Btn_guide, Btn_left_stick,
     Btn_right_stick, Btn_left_shoulder, Btn_right_shoulder, Btn_dpad_up, Btn_dpad_down,
     Btn_dpad_left, Btn_dpad_right]"

definition is_common_button :: "gamepad_button \<Rightarrow> bool" where
  "is_common_button b \<longleftrightarrow> b \<in> set common_buttons"

fun supports_common_misc1_button :: "gamepad_profile_kind \<Rightarrow> bool" where
  "supports_common_misc1_button Kind_generic = True"
| "supports_common_misc1_button Kind_xbox_series = True"
| "supports_common_misc1_button Kind_dualsense = True"
| "supports_common_misc1_button Kind_switch_pro = True"
| "supports_common_misc1_button Kind_xbox_360 = False"
| "supports_common_misc1_button Kind_xbox_one = False"
| "supports_common_misc1_button Kind_dualshock4 = False"

definition gamepad_profile_support :: "device_profile \<Rightarrow> profile_support" where
  "gamepad_profile_support p =
     (if device_type p \<noteq> Dev_gamepad then no_support
      else no_support\<lparr>
        supports_rumble := cap_rumble (capabilities p),
        supports_trigger_rumble := cap_trigger_rumble (capabilities p),
        supports_rgb_led := cap_rgb_led (capabilities p),
        supports_adaptive_triggers := cap_adaptive_triggers (capabilities p),
        supports_player_leds := cap_player_leds (capabilities p),
        supports_motion := cap_motion (capabilities p),
        supports_touchpad := cap_touchpad (capabilities p),
        supports_battery := cap_battery (capabilities p),
        supports_misc1_button := supports_common_misc1_button (gamepad_kind p),
        supports_touchpad_button := cap_touchpad (capabilities p)\<rparr>)"

definition supports_gamepad_button :: "device_profile \<Rightarrow> gamepad_button \<Rightarrow> bool" where
  "supports_gamepad_button p button =
     (if device_type p \<noteq> Dev_gamepad then False
      else
        let support = gamepad_profile_support p in
        if is_common_button button then True
        else if button = Btn_misc1 then supports_misc1_button support
        else if button = Btn_touchpad then supports_touchpad_button support
        else let paddle_count = supported_rear_paddle_count support in
          case button of
            Btn_paddle1 \<Rightarrow> 1 \<le> paddle_count
          | Btn_paddle2 \<Rightarrow> 2 \<le> paddle_count
          | Btn_paddle3 \<Rightarrow> 3 \<le> paddle_count
          | Btn_paddle4 \<Rightarrow> 4 \<le> paddle_count
          | _ \<Rightarrow> False)"

definition supports_gamepad_output :: "device_profile \<Rightarrow> gamepad_output_kind \<Rightarrow> bool" where
  "supports_gamepad_output p output_kind =
     (if device_type p \<noteq> Dev_gamepad then False
      else
        let support = gamepad_profile_support p in
        case output_kind of
          Out_rumble \<Rightarrow> supports_rumble support
        | Out_trigger_rumble \<Rightarrow> supports_trigger_rumble support
        | Out_rgb_led \<Rightarrow> supports_rgb_led support
        | Out_adaptive_triggers \<Rightarrow> supports_adaptive_triggers support
        | Out_player_leds \<Rightarrow> supports_player_leds support
        | Out_raw_report \<Rightarrow> 0 < output_report_size p)"

section \<open>Adapter\<close>

record adapter =
  adapter_handle :: "nat option"
  support :: profile_support
  cached :: gamepad_state

definition missing_gamepad :: operation_status where
  "missing_gamepad = failure Err_device_closed ''gamepad adapter has no owned gamepad''"

definition unsupported_feature :: "string \<Rightarrow> operation_status" where
  "unsupported_feature feature = failure Err_unsupported_profile feature"

definition adapter_device :: "adapter \<Rightarrow> 'w runtime \<Rightarrow> gamepad_device option" where
  "adapter_device a rt = (case adapter_handle a of None \<Rightarrow> None | Some h \<Rightarrow> handle (gamepads rt) h)"

definition make_adapter :: "nat option \<Rightarrow> 'w runtime \<Rightarrow> adapter" where
  "make_adapter h rt =
     (let a = \<lparr>adapter_handle = h, support = no_support, cached = default_gamepad_state\<rparr> in
      case adapter_device a rt of None \<Rightarrow> a
      | Some d \<Rightarrow> a\<lparr>support := gamepad_profile_support (gamepad_profile (gamepad_options d))\<rparr>)"

definition adapter_is_open :: "adapter \<Rightarrow> 'w runtime \<Rightarrow> bool" where
  "adapter_is_open a rt = (case adapter_device a rt of None \<Rightarrow> False | Some d \<Rightarrow> dev_open d)"

definition adapter_submit :: "env \<Rightarrow> adapter \<Rightarrow> 'w runtime \<Rightarrow> operation_status \<times> 'w runtime" where
  "adapter_submit e a rt =
     (case adapter_handle a of None \<Rightarrow> (missing_gamepad, rt)
      | Some h \<Rightarrow>
          let (st, ds, c, w) = call_handle (gamepad_op (runtime_backend rt) e (cached a)) h
                (gamepads rt) (packers rt, world rt)
          in (case st of None \<Rightarrow> missing_gamepad | Some st \<Rightarrow> st,
              rt\<lparr>gamepads := ds, packers := c, world := w\<rparr>))"

text \<open>Store and submit, without a check (\<open>set_state\<close>, the sticks and the triggers), and behind
  a check of the gamepad and of a feature.\<close>

definition adapter_store ::
  "env \<Rightarrow> (gamepad_state \<Rightarrow> gamepad_state) \<Rightarrow> adapter \<Rightarrow> 'w runtime \<Rightarrow>
     operation_status \<times> adapter \<times> 'w runtime" where
  "adapter_store e f a rt =
     (let a = a\<lparr>cached := f (cached a)\<rparr>; (st, rt) = adapter_submit e a rt in (st, a, rt))"

definition adapter_checked ::
  "env \<Rightarrow> (gamepad_device \<Rightarrow> operation_status) \<Rightarrow> (gamepad_state \<Rightarrow> gamepad_state) \<Rightarrow> adapter \<Rightarrow> 'w runtime \<Rightarrow>
     operation_status \<times> adapter \<times> 'w runtime" where
  "adapter_checked e check f a rt =
     (case adapter_device a rt of None \<Rightarrow> (missing_gamepad, a, rt)
      | Some d \<Rightarrow> if \<not> status_ok (check d) then (check d, a, rt) else adapter_store e f a rt)"

definition set_state :: "env \<Rightarrow> gamepad_state \<Rightarrow> adapter \<Rightarrow> 'w runtime \<Rightarrow> operation_status \<times> adapter \<times> 'w runtime" where
  "set_state e s = adapter_store e (\<lambda>_. s)"

definition set_button ::
  "env \<Rightarrow> gamepad_button \<Rightarrow> bool \<Rightarrow> adapter \<Rightarrow> 'w runtime \<Rightarrow> operation_status \<times> adapter \<times> 'w runtime" where
  "set_button e button pressed =
     adapter_checked e
       (\<lambda>d. if \<not> supports_gamepad_button (gamepad_profile (gamepad_options d)) button
            then unsupported_feature ''selected gamepad profile cannot expose the requested button''
            else success)
       (\<lambda>s. s\<lparr>buttons := buttons_set (buttons s) button pressed\<rparr>)"

definition set_left_stick :: "env \<Rightarrow> stick \<Rightarrow> adapter \<Rightarrow> 'w runtime \<Rightarrow> operation_status \<times> adapter \<times> 'w runtime" where
  "set_left_stick e v = adapter_store e (\<lambda>s. s\<lparr>left_stick := v\<rparr>)"

definition set_right_stick :: "env \<Rightarrow> stick \<Rightarrow> adapter \<Rightarrow> 'w runtime \<Rightarrow> operation_status \<times> adapter \<times> 'w runtime" where
  "set_right_stick e v = adapter_store e (\<lambda>s. s\<lparr>right_stick := v\<rparr>)"

definition set_left_trigger :: "env \<Rightarrow> flt \<Rightarrow> adapter \<Rightarrow> 'w runtime \<Rightarrow> operation_status \<times> adapter \<times> 'w runtime" where
  "set_left_trigger e v = adapter_store e (\<lambda>s. s\<lparr>left_trigger := v\<rparr>)"

definition set_right_trigger :: "env \<Rightarrow> flt \<Rightarrow> adapter \<Rightarrow> 'w runtime \<Rightarrow> operation_status \<times> adapter \<times> 'w runtime" where
  "set_right_trigger e v = adapter_store e (\<lambda>s. s\<lparr>right_trigger := v\<rparr>)"

definition motion_check :: "adapter \<Rightarrow> operation_status" where
  "motion_check a =
     (if \<not> supports_motion (support a)
      then unsupported_feature ''selected gamepad profile cannot expose motion sensor input'' else success)"

definition battery_check :: "adapter \<Rightarrow> operation_status" where
  "battery_check a =
     (if \<not> supports_battery (support a)
      then unsupported_feature ''selected gamepad profile cannot expose battery input'' else success)"

definition touchpad_check :: "nat \<Rightarrow> adapter \<Rightarrow> operation_status" where
  "touchpad_check index a =
     (if \<not> supports_touchpad (support a)
      then unsupported_feature ''selected gamepad profile cannot expose touchpad input''
      else if 2 \<le> index then failure Err_invalid_argument ''touchpad contact index is out of range''
      else success)"

definition set_acceleration ::
  "env \<Rightarrow> vector3 option \<Rightarrow> adapter \<Rightarrow> 'w runtime \<Rightarrow> operation_status \<times> adapter \<times> 'w runtime" where
  "set_acceleration e v a = adapter_checked e (\<lambda>_. motion_check a) (\<lambda>s. s\<lparr>acceleration := v\<rparr>) a"

definition set_gyroscope ::
  "env \<Rightarrow> vector3 option \<Rightarrow> adapter \<Rightarrow> 'w runtime \<Rightarrow> operation_status \<times> adapter \<times> 'w runtime" where
  "set_gyroscope e v a = adapter_checked e (\<lambda>_. motion_check a) (\<lambda>s. s\<lparr>gyroscope := v\<rparr>) a"

definition set_motion ::
  "env \<Rightarrow> vector3 \<Rightarrow> vector3 \<Rightarrow> adapter \<Rightarrow> 'w runtime \<Rightarrow> operation_status \<times> adapter \<times> 'w runtime" where
  "set_motion e v g a =
     adapter_checked e (\<lambda>_. motion_check a) (\<lambda>s. s\<lparr>acceleration := Some v, gyroscope := Some g\<rparr>) a"

definition clear_motion :: "env \<Rightarrow> adapter \<Rightarrow> 'w runtime \<Rightarrow> operation_status \<times> adapter \<times> 'w runtime" where
  "clear_motion e a =
     adapter_checked e (\<lambda>_. motion_check a) (\<lambda>s. s\<lparr>acceleration := None, gyroscope := None\<rparr>) a"

definition set_battery ::
  "env \<Rightarrow> gamepad_battery \<Rightarrow> adapter \<Rightarrow> 'w runtime \<Rightarrow> operation_status \<times> adapter \<times> 'w runtime" where
  "set_battery e v a = adapter_checked e (\<lambda>_. battery_check a) (\<lambda>s. s\<lparr>battery := Some v\<rparr>) a"

definition clear_battery :: "env \<Rightarrow> adapter \<Rightarrow> 'w runtime \<Rightarrow> operation_status \<times> adapter \<times> 'w runtime" where
  "clear_battery e a = adapter_checked e (\<lambda>_. battery_check a) (\<lambda>s. s\<lparr>battery := None\<rparr>) a"

definition put_contact :: "nat \<Rightarrow> gamepad_touch_contact \<Rightarrow> gamepad_state \<Rightarrow> gamepad_state" where
  "put_contact index contact s =
     (if index = 0 then s\<lparr>contact0 := contact\<rparr> else s\<lparr>contact1 := contact\<rparr>)"

definition set_touchpad_contact ::
  "env \<Rightarrow> nat \<Rightarrow> gamepad_touch_contact \<Rightarrow> adapter \<Rightarrow> 'w runtime \<Rightarrow> operation_status \<times> adapter \<times> 'w runtime" where
  "set_touchpad_contact e index contact a =
     adapter_checked e (\<lambda>_. touchpad_check index a) (put_contact index contact) a"

definition clear_touchpad_contact ::
  "env \<Rightarrow> nat \<Rightarrow> adapter \<Rightarrow> 'w runtime \<Rightarrow> operation_status \<times> adapter \<times> 'w runtime" where
  "clear_touchpad_contact e index a =
     adapter_checked e (\<lambda>_. touchpad_check index a) (put_contact index default_touch_contact) a"

definition adapter_set_output_callback ::
  "output_callback option \<Rightarrow> adapter \<Rightarrow> 'w runtime \<Rightarrow> 'w runtime" where
  "adapter_set_output_callback cb a rt =
     (case adapter_handle a of None \<Rightarrow> rt
      | Some h \<Rightarrow>
          (case handle (gamepads rt) h of None \<Rightarrow> rt
           | Some d \<Rightarrow>
               let (d, w) = gamepad_set_output_callback (runtime_backend rt) cb d (world rt)
               in rt\<lparr>gamepads := (gamepads rt)[h := Some d], world := w\<rparr>))"

definition adapter_dispatch_output ::
  "gamepad_output \<Rightarrow> adapter \<Rightarrow> 'w runtime \<Rightarrow> operation_status \<times> (output_callback \<times> gamepad_output) list" where
  "adapter_dispatch_output output a rt =
     (case adapter_device a rt of None \<Rightarrow> (missing_gamepad, [])
      | Some d \<Rightarrow> gamepad_dispatch_output output d)"

definition adapter_close :: "adapter \<Rightarrow> 'w runtime \<Rightarrow> operation_status \<times> 'w runtime" where
  "adapter_close a rt =
     (case adapter_handle a of None \<Rightarrow> (missing_gamepad, rt)
      | Some h \<Rightarrow> let (st, rt) = close_handle Gamepads h rt
                  in (case st of None \<Rightarrow> missing_gamepad | Some st \<Rightarrow> st, rt))"

text \<open>The destructor closes the gamepad and destroys its handle.\<close>

definition adapter_destroy :: "adapter \<Rightarrow> 'w runtime \<Rightarrow> 'w runtime" where
  "adapter_destroy a rt =
     (case adapter_handle a of None \<Rightarrow> rt
      | Some h \<Rightarrow> destroy_handle Gamepads h (snd (adapter_close a rt)))"

definition adapter_create ::
  "env \<Rightarrow> create_gamepad_options \<Rightarrow> 'w runtime \<Rightarrow> (operation_status \<times> adapter option) \<times> 'w runtime" where
  "adapter_create e options rt =
     (let ((st, h), rt) = create_gamepad options rt in
      if h = None then ((st, None), rt)
      else
        let a = make_adapter h rt;
            (st, rt) = adapter_submit e a rt
        in if \<not> status_ok st
           then ((st, None), adapter_destroy a (snd (adapter_close a rt)))
           else ((success, Some a), rt))"

section \<open>Updates\<close>

datatype adapter_update =
    Set_state gamepad_state | Set_button gamepad_button bool | Set_left_stick stick
  | Set_right_stick stick | Set_left_trigger flt | Set_right_trigger flt
  | Set_acceleration "vector3 option" | Set_gyroscope "vector3 option"
  | Set_motion vector3 vector3 | Clear_motion | Set_battery gamepad_battery | Clear_battery
  | Set_touchpad_contact nat gamepad_touch_contact | Clear_touchpad_contact nat

fun adapter_step ::
  "env \<Rightarrow> adapter_update \<Rightarrow> adapter \<Rightarrow> 'w runtime \<Rightarrow> operation_status \<times> adapter \<times> 'w runtime" where
  "adapter_step e (Set_state s) = set_state e s"
| "adapter_step e (Set_button b p) = set_button e b p"
| "adapter_step e (Set_left_stick v) = set_left_stick e v"
| "adapter_step e (Set_right_stick v) = set_right_stick e v"
| "adapter_step e (Set_left_trigger v) = set_left_trigger e v"
| "adapter_step e (Set_right_trigger v) = set_right_trigger e v"
| "adapter_step e (Set_acceleration v) = set_acceleration e v"
| "adapter_step e (Set_gyroscope v) = set_gyroscope e v"
| "adapter_step e (Set_motion v g) = set_motion e v g"
| "adapter_step e Clear_motion = clear_motion e"
| "adapter_step e (Set_battery v) = set_battery e v"
| "adapter_step e Clear_battery = clear_battery e"
| "adapter_step e (Set_touchpad_contact i c) = set_touchpad_contact e i c"
| "adapter_step e (Clear_touchpad_contact i) = clear_touchpad_contact e i"

text \<open>The specification: which updates are stored without a check, the error of the others,
  and the effect on the cached state.\<close>

fun update_unchecked :: "adapter_update \<Rightarrow> bool" where
  "update_unchecked (Set_state _) = True"
| "update_unchecked (Set_left_stick _) = True"
| "update_unchecked (Set_right_stick _) = True"
| "update_unchecked (Set_left_trigger _) = True"
| "update_unchecked (Set_right_trigger _) = True"
| "update_unchecked _ = False"

fun update_required :: "adapter_update \<Rightarrow> profile_support \<Rightarrow> device_profile \<Rightarrow> bool" where
  "update_required (Set_button b _) spt p = supports_gamepad_button p b"
| "update_required (Set_acceleration _) spt p = supports_motion spt"
| "update_required (Set_gyroscope _) spt p = supports_motion spt"
| "update_required (Set_motion _ _) spt p = supports_motion spt"
| "update_required Clear_motion spt p = supports_motion spt"
| "update_required (Set_battery _) spt p = supports_battery spt"
| "update_required Clear_battery spt p = supports_battery spt"
| "update_required (Set_touchpad_contact _ _) spt p = supports_touchpad spt"
| "update_required (Clear_touchpad_contact _) spt p = supports_touchpad spt"
| "update_required _ spt p = True"

fun update_index :: "adapter_update \<Rightarrow> nat" where
  "update_index (Set_touchpad_contact i _) = i"
| "update_index (Clear_touchpad_contact i) = i"
| "update_index _ = 0"

fun update_effect :: "adapter_update \<Rightarrow> gamepad_state \<Rightarrow> gamepad_state" where
  "update_effect (Set_state s') s = s'"
| "update_effect (Set_button b p) s = s\<lparr>buttons := buttons_set (buttons s) b p\<rparr>"
| "update_effect (Set_left_stick v) s = s\<lparr>left_stick := v\<rparr>"
| "update_effect (Set_right_stick v) s = s\<lparr>right_stick := v\<rparr>"
| "update_effect (Set_left_trigger v) s = s\<lparr>left_trigger := v\<rparr>"
| "update_effect (Set_right_trigger v) s = s\<lparr>right_trigger := v\<rparr>"
| "update_effect (Set_acceleration v) s = s\<lparr>acceleration := v\<rparr>"
| "update_effect (Set_gyroscope v) s = s\<lparr>gyroscope := v\<rparr>"
| "update_effect (Set_motion v g) s = s\<lparr>acceleration := Some v, gyroscope := Some g\<rparr>"
| "update_effect Clear_motion s = s\<lparr>acceleration := None, gyroscope := None\<rparr>"
| "update_effect (Set_battery v) s = s\<lparr>battery := Some v\<rparr>"
| "update_effect Clear_battery s = s\<lparr>battery := None\<rparr>"
| "update_effect (Set_touchpad_contact i c) s = put_contact i c s"
| "update_effect (Clear_touchpad_contact i) s = put_contact i default_touch_contact s"

lemmas adapter_update_defs = set_state_def set_button_def set_left_stick_def set_right_stick_def
  set_left_trigger_def set_right_trigger_def set_acceleration_def set_gyroscope_def set_motion_def
  clear_motion_def set_battery_def clear_battery_def set_touchpad_contact_def
  clear_touchpad_contact_def adapter_store_def adapter_checked_def motion_check_def
  battery_check_def touchpad_check_def unsupported_feature_def

lemma adapter_step_cases:
  "case adapter_step e u a rt of (st, a', rt') \<Rightarrow>
     if update_unchecked u
     then a' = a\<lparr>cached := update_effect u (cached a)\<rparr> \<and> adapter_submit e a' rt = (st, rt')
     else
       (case adapter_device a rt of
          None \<Rightarrow> st = missing_gamepad \<and> a' = a \<and> rt' = rt
        | Some d \<Rightarrow>
            if \<not> update_required u (support a) (gamepad_profile (gamepad_options d))
            then code st = Err_unsupported_profile \<and> a' = a \<and> rt' = rt
            else if 2 \<le> update_index u
            then code st = Err_invalid_argument \<and> a' = a \<and> rt' = rt
            else a' = a\<lparr>cached := update_effect u (cached a)\<rparr> \<and> adapter_submit e a' rt = (st, rt'))"
  by (cases u) (auto simp: adapter_update_defs Let_def split: option.split prod.splits)

lemma adapter_device_cached [simp]: "adapter_device (a\<lparr>cached := s\<rparr>) rt = adapter_device a rt"
  by (simp add: adapter_device_def)

text \<open>One submission of the adapter: what it leaves behind the handle, and that it opens,
  closes and renames no device.\<close>

lemma adapter_submit_cases:
  assumes "adapter_submit e a rt = (st, rt')"
  shows "(if status_ok st
      then (case adapter_device a rt' of None \<Rightarrow> False
        | Some d \<Rightarrow> dev_open d \<and> last_state d = normalize_state (cached a)
            \<and> (\<exists>d0. adapter_device a rt = Some d0 \<and> submitted d = submitted d0 + 1
              \<and> gamepad_options d = gamepad_options d0))
      else adapter_device a rt' = adapter_device a rt)
    \<and> device_ids rt' = device_ids rt \<and> active_device_count rt' = active_device_count rt"
proof (cases "adapter_device a rt")
  case None
  then show ?thesis
    using assms
    by (auto simp: adapter_submit_def adapter_device_def call_handle_def missing_gamepad_def
        split: option.splits)
next
  case (Some d)
  then obtain h where h: "adapter_handle a = Some h" "handle (gamepads rt) h = Some d"
    by (auto simp: adapter_device_def split: option.splits)
  obtain st1 d1 c1 w1 where submit:
    "gamepad_submit (runtime_backend rt) e (cached a) d (packers rt, world rt) = Some (st1, d1, c1, w1)"
    using gamepad_submit_total by (metis prod.exhaust)
  have op: "gamepad_op (runtime_backend rt) e (cached a) d (packers rt, world rt) = (st1, d1, c1, w1)"
    using submit by (simp add: gamepad_op_def)
  have len: "h < length (gamepads rt)"
    using h by (auto simp: handle_def split: if_splits)
  have rt': "st = st1" "rt' = rt\<lparr>gamepads := (gamepads rt)[h := Some d1], packers := c1, world := w1\<rparr>"
    using assms h op by (auto simp: adapter_submit_def call_handle_def)
  have kept: "dev_id d1 = dev_id d" "dev_open d1 = dev_open d"
    using gamepad.identity_kept [OF op] by simp_all
  have dev: "adapter_device a rt' = Some d1"
    using h len rt' by (simp add: adapter_device_def handle_def)
  have opts: "gamepad_options d1 = gamepad_options d"
    using submit by (auto simp: gamepad_submit_def Let_def split: if_splits option.splits prod.splits)
  have "device_ids rt' = device_ids rt \<and> active_device_count rt' = active_device_count rt"
    using live_ids_update [OF h(2), of d1] count_open_update [OF h(2), of d1] kept rt'(2)
    by (simp add: device_ids_def active_device_count_def)
  moreover have "if status_ok st1 then dev_open d1 \<and> last_state d1 = normalize_state (cached a)
      \<and> submitted d1 = submitted d + 1 else d1 = d"
    using gamepad_submit_cases [where b = "runtime_backend rt" and e = e and s = "cached a" and d = d
        and c = "packers rt" and w = "world rt"] submit kept
    by (simp split: if_splits)
  ultimately show ?thesis
    using dev Some rt'(1) opts by (auto split: if_splits)
qed

lemma create_gamepad_device:
  assumes "create_gamepad options rt = ((st, Some h), rt')"
  shows "\<exists>d. handle (gamepads rt') h = Some d \<and> dev_open d \<and> submitted d = 0"
  using assms
  by (auto simp: create_gamepad_def take_device_id_def Let_def handle_def
      split: prod.splits if_splits)

lemma adapter_close_destroy:
  assumes "adapter_handle a = Some h" and "handle_open Gamepads h rt"
  shows "active_device_count (adapter_destroy a (snd (adapter_close a rt))) + 1 = active_device_count rt"
proof -
  obtain st1 rt1 where close1: "close_handle Gamepads h rt = (st1, rt1)"
    by (cases "close_handle Gamepads h rt") auto
  obtain st2 rt2 where close2: "close_handle Gamepads h rt1 = (st2, rt2)"
    by (cases "close_handle Gamepads h rt1") auto
  have "active_device_count (destroy_handle Gamepads h rt2) = active_device_count rt2"
    using destroy_handle_kept [of Gamepads h rt2] close_handle_kept [OF close2] by simp
  then show ?thesis
    using close_handle_kept [OF close1] close_handle_kept [OF close2] close1 close2 assms
    by (simp add: adapter_destroy_def adapter_close_def)
qed

section \<open>Properties\<close>


text \<open>Adapter and device agree: after an accepted update the device is open and its last
  state is the normalised cached state, with one more submission; after a refused one the
  device is as before. No update opens or closes a device.\<close>

theorem adapter_device_synced:
  "case adapter_step e u a rt of (st, a', rt') \<Rightarrow>
     active_device_count rt' = active_device_count rt \<and>
     (if status_ok st
      then (case adapter_device a' rt' of None \<Rightarrow> False
        | Some d \<Rightarrow> dev_open d \<and> last_state d = normalize_state (cached a')
            \<and> (\<exists>d0. adapter_device a rt = Some d0 \<and> submitted d = submitted d0 + 1))
      else adapter_device a' rt' = adapter_device a rt)"
proof -
  obtain st a' rt' where step: "adapter_step e u a rt = (st, a', rt')"
    by (cases "adapter_step e u a rt") auto
  have "adapter_submit e a' rt = (st, rt') \<and> adapter_device a' rt = adapter_device a rt
    \<or> \<not> status_ok st \<and> a' = a \<and> rt' = rt"
    using adapter_step_cases [where e = e and u = u and a = a and rt = rt] step
    by (auto simp: missing_gamepad_def status_ok_def split: if_splits option.splits)
  then show ?thesis
    using adapter_submit_cases [of e a' rt st rt'] step by (auto split: if_splits option.splits)
qed

text \<open>C28: Creating an adapter leaks nothing: it fails without a trace in the device count, also
  when the gamepad was created and only its first report was refused, or it returns an
  adapter on a new open device that has received exactly the neutral state.\<close>

theorem adapter_create_no_leak:
  "case adapter_create e options rt of ((st, res), rt') \<Rightarrow>
     (case res of
        None \<Rightarrow> active_device_count rt' = active_device_count rt
      | Some a \<Rightarrow> st = success \<and> active_device_count rt' = active_device_count rt + 1
          \<and> cached a = default_gamepad_state
          \<and> (case adapter_device a rt' of None \<Rightarrow> False
             | Some d \<Rightarrow> dev_open d \<and> submitted d = 1
                 \<and> last_state d = normalize_state default_gamepad_state
                 \<and> support a = gamepad_profile_support (gamepad_profile (gamepad_options d))))"
proof -
  obtain st1 h rt1 where create: "create_gamepad options rt = ((st1, h), rt1)"
    by (metis prod.exhaust)
  then have cases: "create_device (New_gamepad options) rt = ((st1, h), rt1)"
    by simp
  show ?thesis
  proof (cases h)
    case None
    then show ?thesis
      using create create_device_cases [OF cases] by (simp add: adapter_create_def)
  next
    case (Some i)
    define a where "a = make_adapter h rt1"
    obtain d where d: "handle (gamepads rt1) i = Some d" "dev_open d" "submitted d = 0"
      using create create_gamepad_device Some by blast
    have a: "adapter_handle a = Some i" "adapter_device a rt1 = Some d" "cached a = default_gamepad_state"
      "support a = gamepad_profile_support (gamepad_profile (gamepad_options d))"
      using d Some by (simp_all add: a_def make_adapter_def adapter_device_def Let_def)
    obtain st2 rt2 where submit: "adapter_submit e a rt1 = (st2, rt2)"
      by (cases "adapter_submit e a rt1") auto
    note after = adapter_submit_cases [OF submit] create_device_cases [OF cases]
    have made: "make_adapter (Some i) rt1 = a"
      using Some by (simp add: a_def)
    show ?thesis
    proof (cases "status_ok st2")
      case True
      then have "adapter_create e options rt = ((success, Some a), rt2)"
        using create Some submit by (simp add: adapter_create_def made)
      then show ?thesis
        using True Some after a d by (auto split: option.splits)
    next
      case False
      then have res: "adapter_create e options rt
          = ((st2, None), adapter_destroy a (snd (adapter_close a rt2)))"
        using create Some submit by (simp add: adapter_create_def made)
      have "handle_open Gamepads i rt2"
        using False after a d by (auto simp: handle_open_def adapter_device_def)
      then show ?thesis
        using adapter_close_destroy [OF a(1), of rt2] res False Some after by simp
    qed
  qed
qed

end
