(* ===== verification/SwitchProReply.thy ===== *)
theory SwitchProReply
  imports Pack
begin

text \<open>
  The replies a native HID backend sends while a host initialises a Nintendo Switch Pro
  controller, \<open>src/src/shared/switch_pro_protocol.hpp\<close>. The 64-byte reply is a list of
  bytes and every index into it or into the host's report is checked; the packet timer
  is the atomic counter the input packer also draws from, passed in and returned with the other
  \<open>counters\<close>. The calibration reads are
  compared with a flat flash memory, \<open>spi_byte\<close>.
\<close>

section \<open>Constants and copies\<close>

definition switch_pro_report_size :: nat where "switch_pro_report_size = 64"

definition controller_mac :: bytes where
  "controller_mac = [0x02, 0x00, 0x00, 0x00, 0x00, 0x01]"

definition factory_stick_calibration :: bytes where
  "factory_stick_calibration =
     [0xFF, 0xF7, 0x7F, 0x00, 0x08, 0x80, 0xFF, 0xF7, 0x7F,
      0x00, 0x08, 0x80, 0xFF, 0xF7, 0x7F, 0xFF, 0xF7, 0x7F]"

definition factory_imu_calibration :: bytes where
  "factory_imu_calibration =
     [0x00, 0x00, 0x00, 0x00, 0x00, 0x00, 0x00, 0x40, 0x00, 0x40, 0x00, 0x40,
      0x00, 0x00, 0x00, 0x00, 0x00, 0x00, 0x3B, 0x34, 0x3B, 0x34, 0x3B, 0x34]"

text \<open>The 64-bit sums of the source do not wrap: an address has 32 bits, a size 8.\<close>

definition copy_spi_data :: "bytes \<Rightarrow> u32 \<Rightarrow> u8 \<Rightarrow> u32 \<Rightarrow> bytes \<Rightarrow> bytes option" where
  "copy_spi_data reply requested_address requested_size data_address spi_data =
     (let requested_end = unat requested_address + unat requested_size;
          data_end = unat data_address + length spi_data;
          copy_begin = max (unat requested_address) (unat data_address);
          copy_end = min requested_end data_end in
      if copy_end \<le> copy_begin then Some reply
      else let source_offset = copy_begin - unat data_address;
               destination_offset = 20 + (copy_begin - unat requested_address) in
        if length reply \<le> destination_offset then Some reply
        else let copy_size = min (copy_end - copy_begin) (length reply - destination_offset)
          in do { chunk \<leftarrow> subspan spi_data source_offset copy_size;
                  splice reply destination_offset chunk })"

section \<open>The replies\<close>

definition set_neutral_controller_state :: "bytes \<Rightarrow> u8 \<Rightarrow> bytes option" where
  "set_neutral_controller_state reply timer = do {
     r \<leftarrow> put reply 1 timer;
     r \<leftarrow> put r 2 0x81;
     r \<leftarrow> put r 6 0x00;
     r \<leftarrow> put r 7 0x08;
     r \<leftarrow> put r 8 0x80;
     r \<leftarrow> put r 9 0x00;
     r \<leftarrow> put r 10 0x08;
     put r 11 0x80 }"

definition set_spi_reply :: "bytes \<Rightarrow> bytes \<Rightarrow> bytes option" where
  "set_spi_reply reply output_report = do {
     address \<leftarrow> read_u32 output_report 11;
     count \<leftarrow> rd output_report (11 + 4);
     echoed \<leftarrow> subspan output_report 11 5;
     r \<leftarrow> splice reply 15 echoed;
     r \<leftarrow> copy_spi_data r address count 0x603D factory_stick_calibration;
     copy_spi_data r address count 0x6020 factory_imu_calibration }"

definition set_device_info_reply :: "bytes \<Rightarrow> bytes option" where
  "set_device_info_reply reply = do {
     r \<leftarrow> put reply 15 0x04;
     r \<leftarrow> put r (15 + 1) 0x33;
     r \<leftarrow> put r (15 + 2) 0x03;
     r \<leftarrow> put r (15 + 3) 0x02;
     r \<leftarrow> splice r (15 + 4) controller_mac;
     r \<leftarrow> put r (15 + 10) 0x01;
     put r (15 + 11) 0x01 }"

text \<open>The result pairs the optional reply with the counters.\<close>

definition make_switch_pro_reply ::
    "bytes \<Rightarrow> u8 option \<Rightarrow> counters \<Rightarrow> (bytes option \<times> counters) option" where
  "make_switch_pro_reply output_report given counter =
     (if output_report = [] then Some (None, counter)
      else do {
        kind \<leftarrow> rd output_report 0;
        if kind = 0x80 then
          if length output_report < 2 then Some (None, counter)
          else do {
            command \<leftarrow> rd output_report 1;
            if command = 0x04 then Some (None, counter)
            else do {
              r \<leftarrow> put (replicate switch_pro_report_size 0) 0 0x81;
              r \<leftarrow> put r 1 command;
              r \<leftarrow> (if command = 0x01 then do {
                       r \<leftarrow> put r 3 0x03;
                       splice r 4 (rev controller_mac) }
                   else Some r);
              Some (Some r, counter) } }
        else if kind \<noteq> 0x01 \<or> length output_report < 11 then Some (None, counter)
        else do {
          subcommand \<leftarrow> rd output_report 10;
          if subcommand = 0x10 \<and> length output_report < 16 then Some (None, counter)
          else do {
            r \<leftarrow> put (replicate switch_pro_report_size 0) 0 0x21;
            let (timer, counter') = (case given of Some t \<Rightarrow> (t, counter)
                                     | None \<Rightarrow> next_switch_pro_packet_timer counter);
            r \<leftarrow> set_neutral_controller_state r timer;
            let acknowledgement = (if subcommand = 0x10 then 0x90
                                   else if subcommand = 0x02 then 0x82 else 0x80);
            r \<leftarrow> put r 13 acknowledgement;
            r \<leftarrow> put r 14 subcommand;
            r \<leftarrow> (if subcommand = 0x10 then set_spi_reply r output_report
                 else if subcommand = 0x02 then set_device_info_reply r else Some r);
            Some (Some r, counter') } } })"

section \<open>The flash memory behind the reads\<close>

text \<open>The reference: the bytes a read is to return, by flash address. Every address
  outside the two calibration blocks reads as zero.\<close>

definition spi_byte :: "nat \<Rightarrow> u8" where
  "spi_byte a =
     (if 0x6020 \<le> a \<and> a < 0x6020 + 24 then factory_imu_calibration ! (a - 0x6020)
      else if 0x603D \<le> a \<and> a < 0x603D + 18 then factory_stick_calibration ! (a - 0x603D)
      else 0)"

lemma calibration_sizes [simp]:
  "length factory_stick_calibration = 18" "length factory_imu_calibration = 24"
  "length controller_mac = 6" "switch_pro_report_size = 64"
  by (simp_all add: factory_stick_calibration_def factory_imu_calibration_def
      controller_mac_def switch_pro_report_size_def)

text \<open>Byte \<open>i\<close> of a reply is flash address \<open>a + (i - 20)\<close>; it is copied when the request
  asks for it and the block of \<open>l\<close> bytes at \<open>b\<close> holds it.\<close>

definition spi_window :: "nat \<Rightarrow> nat \<Rightarrow> nat \<Rightarrow> nat \<Rightarrow> nat \<Rightarrow> bool" where
  "spi_window a c b l i \<longleftrightarrow> 20 \<le> i \<and> i < 20 + c \<and> b + 20 \<le> a + i \<and> a + i < b + l + 20"

lemma copied_window:
  fixes a b c l i n k d m e :: nat
  assumes "m = a \<or> m = b" "a \<le> m" "b \<le> m"
    and "e = a + c \<or> e = b + l" "e \<le> a + c" "e \<le> b + l"
    and "d + a = 20 + m" "n + m = e \<or> n + d = k" "n + m \<le> e" "n + d \<le> k" "i < k"
  shows "d \<le> i \<and> i < d + n \<longleftrightarrow> spi_window a c b l i"
proof
  assume "d \<le> i \<and> i < d + n"
  then have "20 \<le> i" "i < 20 + c" "b + 20 \<le> a + i" "a + i < b + l + 20"
    using assms by linarith+
  then show "spi_window a c b l i"
    by (simp add: spi_window_def)
next
  assume "spi_window a c b l i"
  then have w: "20 \<le> i" "i < 20 + c" "b + 20 \<le> a + i" "a + i < b + l + 20"
    by (simp_all add: spi_window_def)
  have "d \<le> i"
    using assms(1) by (rule disjE) (use assms(7) w in linarith)+
  moreover have "a + i < e + 20"
    using assms(4) by (rule disjE) (use w in linarith)+
  then have "i < d + n"
    using assms(8) by (elim disjE) (use assms(7,11) in linarith)+
  ultimately show "d \<le> i \<and> i < d + n"
    by simp
qed

lemma window_apart:
  fixes a b c l i k d m e :: nat
  assumes "m = a \<or> m = b" "e = a + c \<or> e = b + l" "d + a = 20 + m"
    and "e \<le> m \<or> k \<le> d" "i < k"
  shows "\<not> spi_window a c b l i"
proof
  assume "spi_window a c b l i"
  then have w: "20 \<le> i" "i < 20 + c" "b + 20 \<le> a + i" "a + i < b + l + 20"
    by (simp_all add: spi_window_def)
  have "d \<le> i"
    using assms(1) by (rule disjE) (use assms(3) w in linarith)+
  moreover have "a + i < e + 20"
    using assms(2) by (rule disjE) (use w in linarith)+
  ultimately show False
    using assms(4) by (elim disjE) (use assms(3,5) in linarith)+
qed

lemma copy_spi_data_cases:
  fixes r :: bytes and addr :: u32 and count :: u8 and base :: u32 and block :: bytes
  obtains (apart) "copy_spi_data r addr count base block = Some r"
      "\<And>i. i < length r \<Longrightarrow> \<not> spi_window (unat addr) (unat count) (unat base) (length block) i"
  | (copied) d s n chunk where
      "copy_spi_data r addr count base block = splice r d chunk" "length chunk = n"
      "\<And>j. j < n \<Longrightarrow> chunk ! j = block ! (s + j)"
      "d + n \<le> length r" "d + unat addr = 20 + unat base + s"
      "\<And>i. i < length r \<Longrightarrow> d \<le> i \<and> i < d + n \<longleftrightarrow>
         spi_window (unat addr) (unat count) (unat base) (length block) i"
proof -
  define m where "m = max (unat addr) (unat base)"
  define e where "e = min (unat addr + unat count) (unat base + length block)"
  define d where "d = 20 + (m - unat addr)"
  have m: "m = unat addr \<or> m = unat base" "unat addr \<le> m" "unat base \<le> m"
    by (auto simp: m_def)
  have e: "e = unat addr + unat count \<or> e = unat base + length block"
      "e \<le> unat addr + unat count" "e \<le> unat base + length block"
    by (auto simp: e_def min_def)
  have d: "d + unat addr = 20 + m"
    using m(2) by (simp add: d_def)
  show thesis
  proof (cases "e \<le> m \<or> length r \<le> d")
    case True
    then have "copy_spi_data r addr count base block = Some r"
      by (auto simp: copy_spi_data_def Let_def simp flip: m_def e_def d_def)
    then show ?thesis
      using window_apart [OF m(1) e(1) d True] by (rule apart)
  next
    case False
    define n where "n = min (e - m) (length r - d)"
    have n: "n + m = e \<or> n + d = length r" "n + m \<le> e" "n + d \<le> length r"
      using False unfolding n_def by linarith+
    obtain s where s: "m = unat base + s"
      using m(3) by (auto simp: le_iff_add)
    have fits: "s + n \<le> length block"
      using n e(3) s by linarith
    have "copy_spi_data r addr count base block =
        subspan block (m - unat base) n \<bind> splice r d"
      using False unfolding copy_spi_data_def Let_def
      by (simp only: if_False de_Morgan_disj not_le flip: m_def e_def d_def n_def) simp
    also have "\<dots> = splice r d (take n (drop s block))"
      using s fits by (simp only: diff_add_inverse subspan_ok bind.bind_lunit)
    finally show ?thesis
      using fits d s n(3) copied_window [OF m e d n]
      by (intro copied [of d "take n (drop s block)" n s]) (simp_all add: min_absorb2)
  qed
qed

lemma keeps_copy_spi_data [keeps_intros]:
  assumes "length r = n"
  shows "keeps n (copy_spi_data r addr count base block)"
proof (cases rule: copy_spi_data_cases [where addr = addr and base = base and count = count
      and block = block and r = r])
  case apart
  then show ?thesis
    using assms by (simp add: keeps_Some)
next
  case (copied d s m chunk)
  then show ?thesis
    using assms by (simp only: keeps_splice)
qed

text \<open>A copy changes exactly the reply bytes of its window.\<close>

lemma copy_spi_data_nth:
  assumes "copy_spi_data r addr count base block = Some r'" "i < length r"
  shows "r' ! i =
    (if spi_window (unat addr) (unat count) (unat base) (length block) i
     then block ! (unat addr + i - (unat base + 20)) else r ! i)"
proof (cases rule: copy_spi_data_cases [where addr = addr and base = base and count = count
      and block = block and r = r])
  case apart
  with assms show ?thesis
    by simp
next
  case (copied d s n chunk)
  have "s + (i - d) = unat addr + i - (unat base + 20)" if "d \<le> i"
    using copied(5) that by linarith
  moreover have "r' ! i = (if d \<le> i \<and> i < d + n then chunk ! (i - d) else r ! i)"
    using copied(1,2,4) assms by (auto simp: nth_splice)
  ultimately show ?thesis
    using copied(3) [of "i - d"] copied(6) [OF assms(2)] by auto
qed

section \<open>The replies are well formed\<close>

lemma set_neutral_controller_state_ok [buffer_simps]:
  "12 \<le> length r \<Longrightarrow> set_neutral_controller_state r t = Some
     (r[1 := t, 2 := 0x81, 6 := 0x00, 7 := 0x08, 8 := 0x80, 9 := 0x00, 10 := 0x08, 11 := 0x80])"
  by (simp add: set_neutral_controller_state_def)

lemma keeps_set_device_info_reply [keeps_intros]:
  "length r = n \<Longrightarrow> 27 \<le> n \<Longrightarrow> keeps n (set_device_info_reply r)"
  unfolding set_device_info_reply_def by (intro keeps_intros) simp_all

lemma set_device_info_reply_head:
  "set_device_info_reply r = Some r' \<Longrightarrow> i < 15 \<Longrightarrow> r' ! i = r ! i"
  unfolding set_device_info_reply_def
  by (auto simp: put_Some_iff splice_def bind_eq_Some_conv nth_append split: if_splits)

text \<open>A calibration read: the echoed request and the flash bytes behind it.\<close>

lemma set_spi_reply_cases:
  assumes "length r = 64" "16 \<le> length out"
    and a: "a = unat (u32_le (out ! 11) (out ! 12) (out ! 13) (out ! 14))"
    and c: "c = unat (out ! 15)"
  obtains r' where "set_spi_reply r out = Some r'" "length r' = 64"
    "\<forall>i < 64. r' ! i =
      (if spi_window a c 0x6020 24 i then factory_imu_calibration ! (a + i - 0x6034)
       else if spi_window a c 0x603D 18 i then factory_stick_calibration ! (a + i - 0x6051)
       else if 15 \<le> i \<and> i < 20 then out ! (i - 4) else r ! i)"
proof -
  let ?addr = "u32_le (out ! 11) (out ! 12) (out ! 13) (out ! 14)"
  let ?r1 = "take 15 r @ take 5 (drop 11 out) @ drop 20 r"
  have r1: "length ?r1 = 64"
    "\<And>i. i < 64 \<Longrightarrow> ?r1 ! i = (if 15 \<le> i \<and> i < 20 then out ! (i - 4) else r ! i)"
    using assms by (auto simp: nth_append)
  obtain r2 where r2: "copy_spi_data ?r1 ?addr (out ! 15) 0x603D factory_stick_calibration = Some r2"
      "length r2 = 64"
    using keeps_obtain [OF keeps_copy_spi_data [OF r1(1)]] by blast
  obtain r3 where r3: "copy_spi_data r2 ?addr (out ! 15) 0x6020 factory_imu_calibration = Some r3"
      "length r3 = 64"
    using keeps_obtain [OF keeps_copy_spi_data [OF r2(2)]] by blast
  have first: "set_spi_reply r out = Some r3"
    using assms r2 r3 by (simp add: set_spi_reply_def buffer_simps)
  have content: "r3 ! i =
      (if spi_window a c 0x6020 24 i then factory_imu_calibration ! (a + i - 0x6034)
       else if spi_window a c 0x603D 18 i then factory_stick_calibration ! (a + i - 0x6051)
       else if 15 \<le> i \<and> i < 20 then out ! (i - 4) else r ! i)" if "i < 64" for i
    using copy_spi_data_nth [OF r3(1)] copy_spi_data_nth [OF r2(1)] r1 r2(2) that
    by (simp add: a c)
  show thesis
    using first r3(2) content by (intro that) blast+
qed

text \<open>The two windows together are the flash memory.\<close>

lemma spi_windows:
  "20 \<le> i \<Longrightarrow>
   (if spi_window a c 0x6020 24 i then factory_imu_calibration ! (a + i - 0x6034)
    else if spi_window a c 0x603D 18 i then factory_stick_calibration ! (a + i - 0x6051)
    else 0) = (if i < 20 + c then spi_byte (a + (i - 20)) else 0)"
  by (auto simp: spi_window_def spi_byte_def)

text \<open>The requests that get an answer.\<close>

definition answerable :: "bytes \<Rightarrow> bool" where
  "answerable out =
     (case out of [] \<Rightarrow> False
      | first # rest \<Rightarrow>
          if first = 0x80 then rest \<noteq> [] \<and> rest ! 0 \<noteq> 0x04
          else first = 0x01 \<and> 10 \<le> length rest \<and> (rest ! 9 = 0x10 \<longrightarrow> 15 \<le> length rest))"

text \<open>The reply to a subcommand: its header, and a body per subcommand.\<close>

definition subcommand_header :: "u8 \<Rightarrow> u8 \<Rightarrow> bytes" where
  "subcommand_header timer subcommand =
     [0x21, timer, 0x81, 0, 0, 0, 0x00, 0x08, 0x80, 0x00, 0x08, 0x80, 0,
      if subcommand = 0x10 then 0x90 else if subcommand = 0x02 then 0x82 else 0x80, subcommand]"

lemma make_subcommand_reply:
  assumes "out ! 0 = 0x01" "11 \<le> length out" "out ! 10 = 0x10 \<longrightarrow> 16 \<le> length out"
    and "(t, c') = (case pt of Some t \<Rightarrow> (t, c) | None \<Rightarrow> next_switch_pro_packet_timer c)"
  shows "make_switch_pro_reply out pt c =
    map_option (\<lambda>r. (Some r, c'))
      ((if out ! 10 = 0x10 then \<lambda>r. set_spi_reply r out
        else if out ! 10 = 0x02 then set_device_info_reply else Some)
       (subcommand_header t (out ! 10) @ replicate 49 0))"
proof -
  have [simp]: "out \<noteq> []"
    using assms(2) by auto
  have "(replicate 64 0)[0 := 0x21, 1 := t, 2 := 0x81, 6 := 0x00, 7 := 0x08, 8 := 0x80, 9 := 0x00,
      10 := 0x08, 11 := 0x80, 13 := a, 14 := s] =
      [0x21, t, 0x81, 0, 0, 0, 0x00, 0x08, 0x80, 0x00, 0x08, 0x80, 0, a, s] @ replicate 49 (0 :: u8)"
    for a s
    by (simp add: numeral_eq_Suc)
  then show ?thesis
    using assms
    by (auto simp: make_switch_pro_reply_def next_switch_pro_packet_timer_def buffer_simps
        subcommand_header_def map_option_case bind_split split: option.splits prod.splits)
qed

lemma length_subcommand_header [simp]: "length (subcommand_header t s) = 15"
  by (simp add: subcommand_header_def)

lemma set_spi_reply_body:
  assumes "length h = 15" "16 \<le> length out"
  obtains r where "set_spi_reply (h @ replicate 49 0) out = Some r" "length r = 64"
    "take 15 r = h" "take 5 (drop 15 r) = take 5 (drop 11 out)"
    "drop 20 r = map (\<lambda>i. if i < unat (out ! 15)
       then spi_byte (unat (u32_le (out ! 11) (out ! 12) (out ! 13) (out ! 14)) + i) else 0) [0..<44]"
proof -
  let ?a = "unat (u32_le (out ! 11) (out ! 12) (out ! 13) (out ! 14))" and ?c = "unat (out ! 15)"
  have "length (h @ replicate 49 (0 :: u8)) = 64"
    using assms by simp
  then obtain r where r: "set_spi_reply (h @ replicate 49 0) out = Some r" "length r = 64"
    "\<forall>i < 64. r ! i =
      (if spi_window ?a ?c 0x6020 24 i then factory_imu_calibration ! (?a + i - 0x6034)
       else if spi_window ?a ?c 0x603D 18 i then factory_stick_calibration ! (?a + i - 0x6051)
       else if 15 \<le> i \<and> i < 20 then out ! (i - 4) else (h @ replicate 49 0) ! i)"
    by (rule set_spi_reply_cases [OF _ assms(2) refl refl])
  have low: "r ! i = (if i < 15 then h ! i else out ! (i - 4))" if "i < 20" for i
    using r(3) [rule_format, of i] that assms by (auto simp: spi_window_def nth_append)
  have high: "r ! (20 + i) = (if i < ?c then spi_byte (?a + i) else 0)" if "i < 44" for i
  proof -
    have rest: "(h @ replicate 49 0) ! (20 + i) = 0"
      using that assms by (simp add: nth_append)
    show ?thesis
      using r(3) [rule_format, of "20 + i"] that spi_windows [of "20 + i" ?a ?c]
      by (simp only: rest if_False) (simp split: if_splits)
  qed
  show thesis
    using r(1,2)
  proof (rule that)
    show "take 15 r = h"
      using low r(2) assms by (auto intro!: nth_equalityI)
    show "take 5 (drop 15 r) = take 5 (drop 11 out)"
      using low r(2) assms by (auto intro!: nth_equalityI)
    show "drop 20 r = map (\<lambda>i. if i < ?c then spi_byte (?a + i) else 0) [0..<44]"
      using high r(2) by (auto intro!: nth_equalityI)
  qed
qed

section \<open>Properties\<close>

text \<open>A calibration read is answered with exactly the flash bytes it asks
  for, at most the 44 that fit behind the reply's header and the echoed address, and with
  zeros after them: partial overlaps with the calibration blocks, a read across both, and
  addresses near the end of the 32-bit range included.\<close>

lemma switch_spi_read:
  assumes "16 \<le> length out" "out ! 0 = 0x01" "out ! 10 = 0x10"
  shows "\<exists>r c'. make_switch_pro_reply out pt c = Some (Some r, c') \<and> length r = 64 \<and>
    take 5 (drop 15 r) = take 5 (drop 11 out) \<and>
    drop 20 r = map (\<lambda>i. if i < unat (out ! 15)
       then spi_byte (unat (u32_le (out ! 11) (out ! 12) (out ! 13) (out ! 14)) + i) else 0) [0..<44]"
proof -
  obtain t c' where t: "(t, c') = (case pt of Some t \<Rightarrow> (t, c) | None \<Rightarrow> next_switch_pro_packet_timer c)"
    by (metis surj_pair)
  have "11 \<le> length out"
    using assms(1) by simp
  from make_subcommand_reply [OF assms(2) this _ t] assms
  have "make_switch_pro_reply out pt c = map_option (\<lambda>r. (Some r, c'))
      (set_spi_reply (subcommand_header t 0x10 @ replicate 49 0) out)"
    by simp
  moreover obtain r where
    "set_spi_reply (subcommand_header t 0x10 @ replicate 49 0) out = Some r" "length r = 64"
    "take 15 r = subcommand_header t 0x10" "take 5 (drop 15 r) = take 5 (drop 11 out)"
    "drop 20 r = map (\<lambda>i. if i < unat (out ! 15)
       then spi_byte (unat (u32_le (out ! 11) (out ! 12) (out ! 13) (out ! 14)) + i) else 0) [0..<44]"
    by (rule set_spi_reply_body [OF length_subcommand_header assms(1)])
  ultimately show ?thesis
    by simp
qed

definition spi_example :: bytes where
  "spi_example = [0x01, 0, 0, 0, 0, 0, 0, 0, 0, 0, 0x10, 0x3A, 0x60, 0, 0, 0x05]"

definition example_counters :: counters where
  "example_counters = \<lparr>sequence_number = 0, packet_timer = 0\<rparr>"

lemma switch_spi_read_witness:
  "\<exists>r c'. make_switch_pro_reply spi_example (Some 7) example_counters = Some (Some r, c') \<and>
     take 5 (drop 20 r) = [0, 0, 0, 0xFF, 0xF7]"
proof -
  have example: "16 \<le> length spi_example" "spi_example ! 0 = 0x01" "spi_example ! 10 = 0x10"
    by (simp_all add: spi_example_def)
  obtain r c' where r: "make_switch_pro_reply spi_example (Some 7) example_counters = Some (Some r, c')"
    "drop 20 r = map (\<lambda>i. if i < unat (spi_example ! 15) then spi_byte (unat (u32_le
       (spi_example ! 11) (spi_example ! 12) (spi_example ! 13) (spi_example ! 14)) + i)
       else 0) [0..<44]"
    using switch_spi_read [OF example, of "Some 7" example_counters] by blast
  have "u32_le (spi_example ! 11) (spi_example ! 12) (spi_example ! 13) (spi_example ! 14) = 0x603A"
    by (simp add: spi_example_def u32_le_def)
  then have "take 5 (drop 20 r) = map (\<lambda>i. spi_byte (0x603A + i)) [0..<5]"
    by (simp add: r(2) take_map spi_example_def)
  also have "\<dots> = [0, 0, 0, 0xFF, 0xF7]"
    by (simp add: upt_rec spi_byte_def factory_stick_calibration_def)
  finally show ?thesis
    using r(1) by blast
qed

text \<open>Every report a host sends is handled inside its bounds: it is answered
  exactly when it is a complete command, a subcommand's reply echoes the subcommand with
  its acknowledgement behind the neutral controller state, and the packet timer advances
  by one exactly when its value was used.\<close>

lemma switch_reply_total:
  "case make_switch_pro_reply out pt c of
     None \<Rightarrow> False
   | Some (None, c') \<Rightarrow> \<not> answerable out \<and> c' = c
   | Some (Some r, c') \<Rightarrow> answerable out \<and> length r = 64 \<and>
       (if out ! 0 = 0x80 then r ! 0 = 0x81 \<and> r ! 1 = out ! 1 \<and> c' = c
        else take 15 r =
               subcommand_header (case pt of Some t \<Rightarrow> t | None \<Rightarrow> ucast (packet_timer c)) (out ! 10) \<and>
             c' = (if pt = None then c\<lparr>packet_timer := packet_timer c + 1\<rparr> else c))"
proof (cases "out \<noteq> [] \<and> out ! 0 = 0x01 \<and> answerable out")
  case False
  show ?thesis
  proof (cases "out = [] \<or> out ! 0 \<noteq> 0x80")
    case True
    with False show ?thesis
      by (cases out) (auto simp: make_switch_pro_reply_def answerable_def rd_def)
  next
    case False
    then obtain rest where "out = 0x80 # rest"
      by (cases out) auto
    then show ?thesis
      by (cases rest) (simp_all add: make_switch_pro_reply_def answerable_def controller_mac_def
          nth_append)
  qed
next
  case True
  then have out: "out ! 0 = 0x01" "11 \<le> length out" "out ! 10 = 0x10 \<longrightarrow> 16 \<le> length out"
    by (auto simp: answerable_def split: list.splits if_splits)
  obtain t c' where t: "(t, c') = (case pt of Some t \<Rightarrow> (t, c) | None \<Rightarrow> next_switch_pro_packet_timer c)"
    by (metis surj_pair)
  let ?r = "subcommand_header t (out ! 10) @ replicate 49 0"
  let ?body = "(if out ! 10 = 0x10 then \<lambda>r. set_spi_reply r out
        else if out ! 10 = 0x02 then set_device_info_reply else Some) ?r"
  have "\<exists>r. ?body = Some r \<and> length r = 64 \<and> take 15 r = subcommand_header t (out ! 10)"
  proof (cases "out ! 10 = 0x10")
    case True
    with out(3) show ?thesis
      using set_spi_reply_body [OF length_subcommand_header, of out t "out ! 10"] by auto
  next
    case False
    obtain r where r: "set_device_info_reply ?r = Some r" "length r = 64"
      using keeps_obtain [OF keeps_set_device_info_reply, of ?r 64] by auto
    have "take 15 r = subcommand_header t (out ! 10)"
      using set_device_info_reply_head [OF r(1)] r(2)
      by (auto intro!: nth_equalityI simp: nth_append)
    with False r show ?thesis
      by auto
  qed
  with make_subcommand_reply [OF out t] t True out(1) show ?thesis
    by (auto simp: next_switch_pro_packet_timer_def Let_def split: option.splits)
qed

end
