(* ===== verification/HidDescriptor.thy ===== *)
theory HidDescriptor
  imports Prelude
begin

text \<open>
  What a HID report descriptor promises, after the Device Class Definition for HID 1.11
  (section 6.2.2): a reader for the descriptor's item stream, the global item state with its
  push and pop, and the bits each main item adds to a report. It is the reference that the
  descriptors of the sources are compared with, not code of the library: the host's HID
  stack reads a descriptor this way before it accepts a report of the device.

  The reader takes one byte at a time. \<open>hid_eval\<close> evaluates it on a literal descriptor; the
  congruence \<open>hid_run_cong\<close> keeps the simplifier out of the bytes still to be read.
\<close>

section \<open>The reader's state\<close>

datatype hid_report = Input_report | Output_report | Feature_report

text \<open>A field is a run of bits of one report.\<close>

record hid_field =
  hid_kind :: hid_report
  hid_id :: nat
  hid_bits :: nat

text \<open>The global items a report's layout depends on: report size, report count, report ID.\<close>

type_synonym hid_globals = "nat \<times> nat \<times> nat"

text \<open>Between items \<open>hid_left\<close> is 0; inside one it counts the data bytes to come, \<open>hid_value\<close>
  and \<open>hid_scale\<close> hold the little-endian value read so far.\<close>

record hid_reader =
  hid_now :: hid_globals
  hid_saved :: "hid_globals list"
  hid_depth :: nat
  hid_tag :: nat
  hid_left :: nat
  hid_scale :: nat
  hid_value :: nat

definition hid_start :: hid_reader where
  "hid_start = \<lparr>hid_now = (0, 0, 0), hid_saved = [], hid_depth = 0,
     hid_tag = 0, hid_left = 0, hid_scale = 1, hid_value = 0\<rparr>"

section \<open>Items\<close>

text \<open>Main items must stand inside a collection.\<close>

definition hid_main :: "hid_report \<Rightarrow> hid_reader \<Rightarrow> (hid_reader \<times> hid_field list) option" where
  "hid_main k s =
     (if hid_depth s = 0 then None
      else case hid_now s of (bits, count, rid) \<Rightarrow>
        Some (s, [\<lparr>hid_kind = k, hid_id = rid, hid_bits = bits * count\<rparr>]))"

text \<open>One item: the next state and the fields it adds. A report ID is a byte other than 0.\<close>

definition hid_item ::
    "nat \<Rightarrow> nat \<Rightarrow> hid_reader \<Rightarrow> (hid_reader \<times> hid_field list) option" where
  "hid_item tag v s =
     (if tag = 0x80 then hid_main Input_report s
      else if tag = 0x90 then hid_main Output_report s
      else if tag = 0xB0 then hid_main Feature_report s
      else if tag = 0xA0 then Some (s\<lparr>hid_depth := hid_depth s + 1\<rparr>, [])
      else if tag = 0xC0 then
        (if hid_depth s = 0 then None else Some (s\<lparr>hid_depth := hid_depth s - 1\<rparr>, []))
      else if tag = 0x74 then
        (case hid_now s of (_, count, rid) \<Rightarrow> Some (s\<lparr>hid_now := (v, count, rid)\<rparr>, []))
      else if tag = 0x94 then
        (case hid_now s of (bits, _, rid) \<Rightarrow> Some (s\<lparr>hid_now := (bits, v, rid)\<rparr>, []))
      else if tag = 0x84 then
        (if v = 0 \<or> 255 < v then None
         else case hid_now s of (bits, count, _) \<Rightarrow> Some (s\<lparr>hid_now := (bits, count, v)\<rparr>, []))
      else if tag = 0xA4 then Some (s\<lparr>hid_saved := hid_now s # hid_saved s\<rparr>, [])
      else if tag = 0xB4 then
        (case hid_saved s of [] \<Rightarrow> None
         | g # gs \<Rightarrow> Some (s\<lparr>hid_now := g, hid_saved := gs\<rparr>, []))
      else Some (s, []))"

text \<open>The two low bits of an item's prefix give the size of its data, the rest its type and
  tag. Long items, prefix \<open>0xFE\<close>, do not occur in the sources and are refused.\<close>

definition hid_data_size :: "nat \<Rightarrow> nat" where
  "hid_data_size prefix = (if prefix mod 4 = 3 then 4 else prefix mod 4)"

definition hid_byte :: "nat \<Rightarrow> hid_reader \<Rightarrow> (hid_reader \<times> hid_field list) option" where
  "hid_byte b s =
     (if hid_left s = 0 then
        if b = 0xFE then None
        else if hid_data_size b = 0 then hid_item b 0 s
        else Some (s\<lparr>hid_tag := b - b mod 4, hid_left := hid_data_size b,
               hid_scale := 1, hid_value := 0\<rparr>, [])
      else if hid_left s = 1 then
        hid_item (hid_tag s) (hid_value s + hid_scale s * b)
          (s\<lparr>hid_left := 0, hid_scale := 1, hid_value := 0\<rparr>)
      else Some (s\<lparr>hid_left := hid_left s - 1, hid_scale := 256 * hid_scale s,
             hid_value := hid_value s + hid_scale s * b\<rparr>, []))"

text \<open>At the end no item is cut off and every collection is closed.\<close>

fun hid_run :: "bytes \<Rightarrow> hid_reader \<Rightarrow> hid_field list option" where
  "hid_run [] s = (if hid_left s = 0 \<and> hid_depth s = 0 then Some [] else None)"
| "hid_run (b # bs) s =
     (case hid_byte (unat b) s of None \<Rightarrow> None
      | Some (s', added) \<Rightarrow> map_option (append added) (hid_run bs s'))"

definition descriptor_fields :: "bytes \<Rightarrow> hid_field list option" where
  "descriptor_fields d = hid_run d hid_start"

section \<open>Reports\<close>

fun report_bits :: "hid_report \<Rightarrow> nat \<Rightarrow> hid_field list \<Rightarrow> nat" where
  "report_bits k i [] = 0"
| "report_bits k i (f # fs) =
     (if hid_kind f = k \<and> hid_id f = i then hid_bits f else 0) + report_bits k i fs"

text \<open>The size of a report on the wire: a numbered report starts with its ID.\<close>

definition report_length :: "hid_report \<Rightarrow> nat \<Rightarrow> bytes \<Rightarrow> nat option" where
  "report_length k i d =
     (case descriptor_fields d of None \<Rightarrow> None
      | Some fs \<Rightarrow>
          let bits = report_bits k i fs in
          if bits = 0 \<or> bits mod 8 \<noteq> 0 then None
          else Some (bits div 8 + (if i = 0 then 0 else 1)))"

section \<open>Evaluation\<close>

lemma hid_run_cong: "s = s' \<Longrightarrow> hid_run bs s = hid_run bs s'"
  by simp

lemma report_bits_none:
  "list_all (\<lambda>f. \<not> (hid_kind f = k \<and> hid_id f = i)) fs \<Longrightarrow> report_bits k i fs = 0"
  by (induction fs) auto

lemmas hid_eval =
  descriptor_fields_def hid_data_size_def hid_start_def hid_item_def hid_main_def hid_byte_def

lemma report_length_fields:
  "descriptor_fields d = Some fs \<Longrightarrow> report_bits k i fs = 8 * n \<Longrightarrow> 0 < n \<Longrightarrow>
   report_length k i d = Some (n + (if i = 0 then 0 else 1))"
  by (simp add: report_length_def)

end
