(* ===== verification/XboxBluetooth.thy ===== *)
theory XboxBluetooth
  imports ReportBytes HidDescriptor
begin

text \<open>
  The Xbox Bluetooth transport shared by the Linux and macOS backends,
  \<open>src/src/platform/shared/xbox_bluetooth_transport.hpp\<close>: its report descriptor, and the
  input report rebuilt from a packed Xbox report and the buttons.
\<close>

definition xbox_bluetooth_input_report_id :: u8 where "xbox_bluetooth_input_report_id = 0x01"
definition xbox_bluetooth_rumble_report_id :: u8 where "xbox_bluetooth_rumble_report_id = 0x03"
definition xbox_bluetooth_battery_report_id :: u8 where "xbox_bluetooth_battery_report_id = 0x04"

definition make_xbox_bluetooth_report_descriptor :: "bool \<Rightarrow> bytes" where
  "make_xbox_bluetooth_report_descriptor include_battery =
     [0x05, 0x01, 0x09, 0x05, 0xA1, 0x01, 0x85, xbox_bluetooth_input_report_id, 0x09, 0x01,
      0xA1, 0x00, 0x09, 0x30, 0x09, 0x31, 0x15, 0x00, 0x27, 0xFF, 0xFF, 0x00, 0x00, 0x95,
      0x02, 0x75, 0x10, 0x81, 0x02, 0xC0, 0x09, 0x01, 0xA1, 0x00, 0x09, 0x33, 0x09, 0x34,
      0x15, 0x00, 0x27, 0xFF, 0xFF, 0x00, 0x00, 0x95, 0x02, 0x75, 0x10, 0x81, 0x02, 0xC0,
      0x05, 0x01, 0x09, 0x32, 0x15, 0x00, 0x26, 0xFF, 0x03, 0x95, 0x01, 0x75, 0x0A, 0x81,
      0x02, 0x15, 0x00, 0x25, 0x00, 0x75, 0x06, 0x95, 0x01, 0x81, 0x03, 0x05, 0x01, 0x09,
      0x35, 0x15, 0x00, 0x26, 0xFF, 0x03, 0x95, 0x01, 0x75, 0x0A, 0x81, 0x02, 0x15, 0x00,
      0x25, 0x00, 0x75, 0x06, 0x95, 0x01, 0x81, 0x03, 0x05, 0x01, 0x09, 0x39, 0x15, 0x01,
      0x25, 0x08, 0x35, 0x00, 0x46, 0x3B, 0x01, 0x66, 0x14, 0x00, 0x75, 0x04, 0x95, 0x01,
      0x81, 0x42, 0x75, 0x04, 0x95, 0x01, 0x15, 0x00, 0x25, 0x00, 0x35, 0x00, 0x45, 0x00,
      0x65, 0x00, 0x81, 0x03, 0x05, 0x09, 0x19, 0x01, 0x29, 0x0F, 0x15, 0x00, 0x25, 0x01,
      0x75, 0x01, 0x95, 0x0F, 0x81, 0x02, 0x15, 0x00, 0x25, 0x00, 0x75, 0x01, 0x95, 0x01,
      0x81, 0x03, 0x05, 0x0C, 0x0A, 0xB2, 0x00, 0x15, 0x00, 0x25, 0x01, 0x95, 0x01, 0x75,
      0x01, 0x81, 0x02, 0x15, 0x00, 0x25, 0x00, 0x75, 0x07, 0x95, 0x01, 0x81, 0x03, 0x05,
      0x0F, 0x09, 0x21, 0x85, xbox_bluetooth_rumble_report_id, 0xA1, 0x02, 0x09, 0x97,
      0x15, 0x00, 0x25, 0x01, 0x75, 0x04, 0x95, 0x01, 0x91, 0x02, 0x15, 0x00, 0x25, 0x00,
      0x75, 0x04, 0x95, 0x01, 0x91, 0x03, 0x09, 0x70, 0x15, 0x00, 0x25, 0x64, 0x75, 0x08,
      0x95, 0x04, 0x91, 0x02, 0x09, 0x50, 0x66, 0x01, 0x10, 0x55, 0x0E, 0x15, 0x00, 0x26,
      0xFF, 0x00, 0x75, 0x08, 0x95, 0x01, 0x91, 0x02, 0x09, 0xA7, 0x15, 0x00, 0x26, 0xFF,
      0x00, 0x75, 0x08, 0x95, 0x01, 0x91, 0x02, 0x65, 0x00, 0x55, 0x00, 0x09, 0x7C, 0x15,
      0x00, 0x26, 0xFF, 0x00, 0x75, 0x08, 0x95, 0x01, 0x91, 0x02, 0xC0] @
     (if include_battery then
     [0x05, 0x06, 0x09, 0x20, 0x85, xbox_bluetooth_battery_report_id, 0x15, 0x04, 0x25,
      0x07, 0x75, 0x08, 0x95, 0x01, 0x81, 0x02]
      else []) @ [0xC0]"

section \<open>The input report\<close>

definition xbox_bluetooth_buttons :: "button_set \<Rightarrow> (gamepad_button \<times> u8) list \<Rightarrow> u8" where
  "xbox_bluetooth_buttons s table =
     foldl (\<lambda>v (b, flag). v OR (if buttons_test s b then flag else 0)) 0 table"

definition make_xbox_bluetooth_input_report :: "gamepad_state \<Rightarrow> bytes \<Rightarrow> bool \<Rightarrow> bytes option" where
  "make_xbox_bluetooth_input_report state packed_report include_share_button =
     (if length packed_report < 17 then Some []
      else do {
        r \<leftarrow> put (replicate 17 0) 0 xbox_bluetooth_input_report_id;
        sticks \<leftarrow> subspan packed_report 0 8;
        r \<leftarrow> splice r 1 sticks;
        triggers \<leftarrow> subspan packed_report 8 4;
        r \<leftarrow> splice r 9 triggers;
        hat \<leftarrow> rd packed_report 14;
        r \<leftarrow> put r 13 hat;
        r \<leftarrow> put r 14 (xbox_bluetooth_buttons (buttons state)
               [(Btn_a, 0x01), (Btn_b, 0x02), (Btn_x, 0x08), (Btn_y, 0x10),
                (Btn_left_shoulder, 0x40), (Btn_right_shoulder, 0x80)]);
        r \<leftarrow> put r 15 (xbox_bluetooth_buttons (buttons state)
               [(Btn_back, 0x04), (Btn_start, 0x08), (Btn_guide, 0x10),
                (Btn_left_stick, 0x20), (Btn_right_stick, 0x40)]);
        if include_share_button \<and> buttons_test (buttons state) Btn_misc1
        then put r 16 0x01 else Some r })"

section \<open>The report and its descriptor\<close>

text \<open>Where a host that follows the descriptor finds each button: byte and bit.\<close>

fun xbox_bluetooth_button_place :: "gamepad_button \<Rightarrow> (nat \<times> nat) option" where
  "xbox_bluetooth_button_place Btn_a = Some (14, 0)"
| "xbox_bluetooth_button_place Btn_b = Some (14, 1)"
| "xbox_bluetooth_button_place Btn_x = Some (14, 3)"
| "xbox_bluetooth_button_place Btn_y = Some (14, 4)"
| "xbox_bluetooth_button_place Btn_left_shoulder = Some (14, 6)"
| "xbox_bluetooth_button_place Btn_right_shoulder = Some (14, 7)"
| "xbox_bluetooth_button_place Btn_back = Some (15, 2)"
| "xbox_bluetooth_button_place Btn_start = Some (15, 3)"
| "xbox_bluetooth_button_place Btn_guide = Some (15, 4)"
| "xbox_bluetooth_button_place Btn_left_stick = Some (15, 5)"
| "xbox_bluetooth_button_place Btn_right_stick = Some (15, 6)"
| "xbox_bluetooth_button_place Btn_misc1 = Some (16, 0)"
| "xbox_bluetooth_button_place _ = None"

lemmas xbox_bluetooth_descriptor_eval =
  make_xbox_bluetooth_report_descriptor_def xbox_bluetooth_input_report_id_def
  xbox_bluetooth_rumble_report_id_def xbox_bluetooth_battery_report_id_def

lemma xbox_bluetooth_descriptor_lengths:
  "report_length Input_report 1 (make_xbox_bluetooth_report_descriptor has_charge) = Some 17"
  "report_length Output_report 3 (make_xbox_bluetooth_report_descriptor has_charge) = Some 9"
  "report_length Input_report 4 (make_xbox_bluetooth_report_descriptor True) = Some 2"
  by (cases has_charge; simp add: xbox_bluetooth_descriptor_eval report_length_def hid_eval cong: hid_run_cong)+

lemma xbox_bluetooth_report_bytes:
  assumes "17 \<le> length packed"
  shows "make_xbox_bluetooth_input_report state packed share = Some
    (0x01 # take 12 packed @
      [packed ! 14,
       xbox_bluetooth_buttons (buttons state)
         [(Btn_a, 0x01), (Btn_b, 0x02), (Btn_x, 0x08), (Btn_y, 0x10),
          (Btn_left_shoulder, 0x40), (Btn_right_shoulder, 0x80)],
       xbox_bluetooth_buttons (buttons state)
         [(Btn_back, 0x04), (Btn_start, 0x08), (Btn_guide, 0x10),
          (Btn_left_stick, 0x20), (Btn_right_stick, 0x40)],
       if share \<and> buttons_test (buttons state) Btn_misc1 then 0x01 else 0])"
proof -
  have "take 8 packed @ take 4 (drop 8 packed) = take 12 packed"
    using take_add [of 8 4 packed] by simp
  moreover have "length (take 8 packed) = 8" "length (take 4 (drop 8 packed)) = 4"
    using assms by simp_all
  moreover have "replicate 8 (0 :: u8) = [0, 0, 0, 0, 0, 0, 0, 0]"
      "(replicate 17 (0 :: u8))[0 := v] = v # replicate 16 0" for v
    by (simp_all add: numeral_eq_Suc)
  ultimately show ?thesis
    using assms
    by (auto simp: make_xbox_bluetooth_input_report_def xbox_bluetooth_input_report_id_def
        nth_append list_update_append)
qed

section \<open>Properties\<close>

text \<open>C13: The packed sticks, triggers and hat are moved, every supported button
  is found at its place, and the report has the length its descriptor declares. A packed
  report that is too short gives no report.\<close>

lemma xbox_bluetooth_report:
  "case make_xbox_bluetooth_input_report state packed share of
     None \<Rightarrow> False
   | Some r \<Rightarrow>
       if length packed < 17 then r = []
       else report_length Input_report (unat (r ! 0))
              (make_xbox_bluetooth_report_descriptor has_charge) = Some (length r) \<and>
            take 12 (drop 1 r) = take 12 packed \<and> r ! 13 = packed ! 14 \<and>
            (\<forall>b. case xbox_bluetooth_button_place b of None \<Rightarrow> True
               | Some (byte, i) \<Rightarrow> bit (r ! byte) i =
                   (buttons_test (buttons state) b \<and> (if b = Btn_misc1 then share else True)))"
proof (cases "length packed < 17")
  case True
  then show ?thesis
    by (simp add: make_xbox_bluetooth_input_report_def)
next
  case False
  define t where "t = take 12 packed"
  have t: "length t = 12"
    using False by (simp add: t_def)
  then have at: "(t @ [h, x, y, z]) ! 12 = h" "(t @ [h, x, y, z]) ! 13 = x"
      "(t @ [h, x, y, z]) ! 14 = y" "(t @ [h, x, y, z]) ! 15 = z" for h x y z :: u8
    by (simp_all add: nth_append)
  have "case xbox_bluetooth_button_place b of None \<Rightarrow> True
      | Some (byte, i) \<Rightarrow> bit ((0x01 # t @
          [packed ! 14,
           xbox_bluetooth_buttons (buttons state)
             [(Btn_a, 0x01), (Btn_b, 0x02), (Btn_x, 0x08), (Btn_y, 0x10),
              (Btn_left_shoulder, 0x40), (Btn_right_shoulder, 0x80)],
           xbox_bluetooth_buttons (buttons state)
             [(Btn_back, 0x04), (Btn_start, 0x08), (Btn_guide, 0x10),
              (Btn_left_stick, 0x20), (Btn_right_stick, 0x40)],
           if share \<and> buttons_test (buttons state) Btn_misc1 then 0x01 else 0]) ! byte) i =
        (buttons_test (buttons state) b \<and> (if b = Btn_misc1 then share else True))" for b
    by (cases b) (simp_all add: at xbox_bluetooth_buttons_def bit_or_iff split del: if_split,
        auto)
  with False t show ?thesis
    by (simp add: xbox_bluetooth_report_bytes xbox_bluetooth_descriptor_lengths [simplified One_nat_def] at flip: t_def)
qed

end
