(* ===== verification/Profiles.thy ===== *)
theory Profiles
  imports Pack HidDescriptor
begin

text \<open>
  The built-in device profiles and their report descriptors, \<open>src/src/core/profiles.cpp\<close>:
  the descriptor builders with their byte tables, the profile builders, and the lookup by
  gamepad kind.
\<close>

section \<open>Constants\<close>

definition common_button_count :: u8 where "common_button_count = 12"
definition standard_button_count :: u8 where "standard_button_count = 16"
definition common_axis_count :: u8 where "common_axis_count = 6"
definition common_button_bytes :: nat where "common_button_bytes = 2"

definition common_report_size :: nat where
  "common_report_size = 1 + common_button_bytes + unat common_axis_count"

definition common_output_report_size :: nat where "common_output_report_size = 5"
definition pid_rumble_payload_size :: nat where "pid_rumble_payload_size = 8"

definition pid_rumble_output_report_size :: nat where
  "pid_rumble_output_report_size = pid_rumble_payload_size + 1"

definition xbox_gip_input_report_size :: nat where "xbox_gip_input_report_size = 17"
definition switch_pro_report_id :: u8 where "switch_pro_report_id = 0x30"
definition switch_pro_input_report_size :: nat where "switch_pro_input_report_size = 64"
definition switch_pro_output_report_size :: nat where "switch_pro_output_report_size = 64"
definition dualshock4_usb_input_report_size :: nat where "dualshock4_usb_input_report_size = 64"
definition dualshock4_usb_output_report_size :: nat where "dualshock4_usb_output_report_size = 32"

definition dualshock4_bluetooth_input_report_size :: nat where
  "dualshock4_bluetooth_input_report_size = 78"

definition dualshock4_bluetooth_output_report_size :: nat where
  "dualshock4_bluetooth_output_report_size = 78"

definition dualsense_usb_input_report_size :: nat where "dualsense_usb_input_report_size = 64"
definition dualsense_usb_output_report_size :: nat where "dualsense_usb_output_report_size = 48"

definition dualsense_bluetooth_input_report_size :: nat where
  "dualsense_bluetooth_input_report_size = 78"

definition dualsense_bluetooth_output_report_size :: nat where
  "dualsense_bluetooth_output_report_size = 78"

section \<open>Descriptors written in hexadecimal\<close>

definition hex_nibble :: "char \<Rightarrow> u8" where
  "hex_nibble digit =
     (let d = (of_char digit :: nat) in
      if 0x30 \<le> d \<and> d \<le> 0x39 then of_nat (d - 0x30)
      else if 0x41 \<le> d \<and> d \<le> 0x46 then of_nat (d - 0x41 + 10)
      else if 0x61 \<le> d \<and> d \<le> 0x66 then of_nat (d - 0x61 + 10)
      else 0)"

definition byte_from_hex :: "char \<Rightarrow> char \<Rightarrow> u8" where
  "byte_from_hex high low = push_bit 4 (hex_nibble high) OR hex_nibble low"

text \<open>A last single digit is ignored.\<close>

fun bytes_from_hex :: "string \<Rightarrow> bytes" where
  "bytes_from_hex (high # low # rest) = byte_from_hex high low # bytes_from_hex rest"
| "bytes_from_hex _ = []"

definition xbox_one_descriptor :: string where
  "xbox_one_descriptor =
      ''05010905a101a10009300931150027ffff0000950275108102c0a10009330934150027ffff0000'' @
      ''950275108102c005010932150026ff039501750a81021500250075069501810305010935150026'' @
      ''ff039501750a81021500250075069501810305091901290a950a75018102150025007506950181'' @
      ''0305010939150125083500463b0166140075049501814275049501150025003500450065008103'' @
      ''a102050f0997150025017504950191021500250091030970150025647508950491020950660110'' @
      ''550e26ff009501910209a7910265005500097c9102c005010980a1000985150025019501750181'' @
      ''0215002500750795018103c005060920150026ff00750895018102c0''"

definition xbox_series_descriptor :: string where
  "xbox_series_descriptor =
      ''05010905a101a10009300931150027ffff0000950275108102c0a10009330934150027ffff0000'' @
      ''950275108102c005010932150026ff039501750a81021500250075069501810305010935150026'' @
      ''ff039501750a81021500250075069501810305091901290c950c75018102150025007504950181'' @
      ''0305010939150125083500463b0166140075049501814275049501150025003500450065008103'' @
      ''a102050f0997150025017504950191021500250091030970150025647508950491020950660110'' @
      ''550e26ff009501910209a7910265005500097c9102c005010980a1000985150025019501750181'' @
      ''0215002500750795018103c005060920150026ff00750895018102c0''"

definition make_xbox_gip_report_descriptor :: "bool \<Rightarrow> bytes" where
  "make_xbox_gip_report_descriptor include_share_button =
     bytes_from_hex (if include_share_button then xbox_series_descriptor else xbox_one_descriptor)"

definition make_switch_pro_report_descriptor :: bytes where
  "make_switch_pro_report_descriptor = bytes_from_hex (
      ''050115000904a1018530050105091901290a150025017501950a5500650081020509190b290e15'' @
      ''0025017501950481027501950281030b01000100a1000b300001000b310001000b320001000b35'' @
      ''000100150027ffff0000751095048102c00b39000100150025073500463b016514750495018102'' @
      ''0509190f2912150025017501950481027508953481030600ff852109017508953f810385810902'' @
      ''7508953f8103850109037508953f9183851009047508953f9183858009057508953f9183858209'' @
      ''067508953f9183c0'')"

section \<open>Descriptors built from parts\<close>

definition append_descriptor_bytes :: "bytes \<Rightarrow> bytes \<Rightarrow> bytes" where
  "append_descriptor_bytes descriptor extra = descriptor @ extra"

definition append_common_gamepad_buttons :: "bytes \<Rightarrow> bool \<Rightarrow> bytes" where
  "append_common_gamepad_buttons descriptor include_misc_button =
     descriptor @
     [0x05, 0x09, 0x09, 0x01, 0x09, 0x02, 0x09, 0x04, 0x09, 0x05, 0x09, 0x07, 0x09, 0x08,
      0x09, 0x0B, 0x09, 0x0C, 0x09, 0x0E, 0x09, 0x0F, 0x09, 0x0D] @
     (if include_misc_button then [0x09, 0x06] else []) @
     [0x15, 0x00, 0x25, 0x01, 0x75, 0x01, 0x95,
      if include_misc_button then common_button_count else common_button_count - 1, 0x81,
      0x02] @
     (if include_misc_button then [] else [0x75, 0x01, 0x95, 0x01, 0x81, 0x03])"

definition append_pid_rumble_output :: "bytes \<Rightarrow> bytes" where
  "append_pid_rumble_output descriptor = descriptor @
     [0xA1, 0x02, 0x05, 0x0F, 0x09, 0x97, 0x15, 0x00, 0x25, 0x01, 0x75, 0x04, 0x95, 0x01,
      0x91, 0x02, 0x15, 0x00, 0x25, 0x00, 0x91, 0x03, 0x09, 0x70, 0x15, 0x00, 0x25, 0x64,
      0x75, 0x08, 0x95, 0x04, 0x91, 0x02, 0x09, 0x50, 0x66, 0x01, 0x10, 0x55, 0x0E, 0x26,
      0xFF, 0x00, 0x95, 0x01, 0x91, 0x02, 0x09, 0xA7, 0x91, 0x02, 0x65, 0x00, 0x55, 0x00,
      0x09, 0x7C, 0x91, 0x02, 0xC0]"

definition make_gamepad_report_descriptor :: "u8 \<Rightarrow> bool \<Rightarrow> bytes" where
  "make_gamepad_report_descriptor r supports_rumble =
     (let descriptor = [0x05, 0x01, 0x09, 0x05, 0xA1, 0x01, 0x85, r];
          descriptor = append_common_gamepad_buttons descriptor False;
          descriptor = append_descriptor_bytes descriptor
     [0x05, 0x01, 0x09, 0x39, 0x15, 0x00, 0x25, 0x07, 0x35, 0x00, 0x46, 0x3B, 0x01, 0x65,
      0x14, 0x75, 0x04, 0x95, 0x01, 0x81, 0x42, 0x65, 0x00, 0x05, 0x01, 0x15, 0x00, 0x26,
      0xFF, 0x00, 0x75, 0x08, 0x95, common_axis_count, 0x09, 0x30, 0x09, 0x31, 0x09,
      0x32, 0x09, 0x33, 0x09, 0x34, 0x09, 0x35, 0x81, 0x02];
          descriptor = (if supports_rumble then append_descriptor_bytes descriptor
     [0x06, 0x00, 0xFF, 0x09, 0x01, 0x15, 0x00, 0x26, 0xFF, 0x00, 0x75, 0x08, 0x95, 0x04,
      0x91, 0x02]
            else descriptor)
      in descriptor @ [0xC0])"

definition make_standard_gamepad_report_descriptor :: "u8 \<Rightarrow> bool \<Rightarrow> bytes" where
  "make_standard_gamepad_report_descriptor r supports_rumble =
     (let descriptor =
     [0x05, 0x01, 0x09, 0x05, 0xA1, 0x01, 0x85, r, 0x05, 0x09, 0x19, 0x01, 0x29,
      standard_button_count, 0x15, 0x00, 0x25, 0x01, 0x75, 0x01, 0x95,
      standard_button_count, 0x81, 0x02, 0x05, 0x01, 0x15, 0x00, 0x26, 0xFF, 0x00, 0x75,
      0x08, 0x95, common_axis_count, 0x09, 0x30, 0x09, 0x31, 0x09, 0x33, 0x09, 0x34,
      0x09, 0x32, 0x09, 0x35, 0x81, 0x02];
          descriptor = (if supports_rumble then append_pid_rumble_output descriptor else descriptor)
      in descriptor @ [0xC0])"

definition make_playstation_common_gamepad_descriptor_prefix :: "u8 \<Rightarrow> bytes" where
  "make_playstation_common_gamepad_descriptor_prefix r =
     [0x05, 0x01, 0x09, 0x05, 0xA1, 0x01, 0x85, r, 0x09, 0x30, 0x09, 0x31, 0x09, 0x32,
      0x09, 0x35, 0x15, 0x00, 0x26, 0xFF, 0x00, 0x75, 0x08, 0x95, 0x04, 0x81, 0x02, 0x09,
      0x39, 0x15, 0x00, 0x25, 0x07, 0x35, 0x00, 0x46, 0x3B, 0x01, 0x65, 0x14, 0x75, 0x04,
      0x95, 0x01, 0x81, 0x42, 0x65, 0x00, 0x05, 0x09, 0x19, 0x01, 0x29, 0x0E, 0x15, 0x00,
      0x25, 0x01, 0x75, 0x01, 0x95, 0x0E, 0x81, 0x02]"

definition make_dualshock4_usb_report_descriptor :: bytes where
  "make_dualshock4_usb_report_descriptor =
     make_playstation_common_gamepad_descriptor_prefix 0x01 @
     [0x06, 0x00, 0xFF, 0x09, 0x20, 0x75, 0x06, 0x95, 0x01, 0x15, 0x00, 0x25, 0x7F, 0x81,
      0x02, 0x05, 0x01, 0x09, 0x33, 0x09, 0x34, 0x15, 0x00, 0x26, 0xFF, 0x00, 0x75, 0x08,
      0x95, 0x02, 0x81, 0x02, 0x06, 0x00, 0xFF, 0x09, 0x21, 0x95, 0x36, 0x81, 0x02, 0x85,
      0x05, 0x09, 0x22, 0x95, 0x1F, 0x91, 0x02, 0x85, 0x04, 0x09, 0x23, 0x95, 0x24, 0xB1,
      0x02, 0x85, 0x02, 0x09, 0x24, 0x95, 0x24, 0xB1, 0x02, 0x85, 0x08, 0x09, 0x25, 0x95,
      0x03, 0xB1, 0x02, 0x85, 0x10, 0x09, 0x26, 0x95, 0x04, 0xB1, 0x02, 0x85, 0x11, 0x09,
      0x27, 0x95, 0x02, 0xB1, 0x02, 0x85, 0x12, 0x06, 0x02, 0xFF, 0x09, 0x21, 0x95, 0x0F,
      0xB1, 0x02, 0x85, 0x13, 0x09, 0x22, 0x95, 0x16, 0xB1, 0x02, 0x85, 0x14, 0x06, 0x05,
      0xFF, 0x09, 0x20, 0x95, 0x10, 0xB1, 0x02, 0x85, 0x15, 0x09, 0x21, 0x95, 0x2C, 0xB1,
      0x02, 0x06, 0x80, 0xFF, 0x85, 0x80, 0x09, 0x20, 0x95, 0x06, 0xB1, 0x02, 0x85, 0x81,
      0x09, 0x21, 0x95, 0x06, 0xB1, 0x02, 0x85, 0x82, 0x09, 0x22, 0x95, 0x05, 0xB1, 0x02,
      0x85, 0x83, 0x09, 0x23, 0x95, 0x01, 0xB1, 0x02, 0x85, 0x84, 0x09, 0x24, 0x95, 0x04,
      0xB1, 0x02, 0x85, 0x85, 0x09, 0x25, 0x95, 0x06, 0xB1, 0x02, 0x85, 0x86, 0x09, 0x26,
      0x95, 0x06, 0xB1, 0x02, 0x85, 0x87, 0x09, 0x27, 0x95, 0x23, 0xB1, 0x02, 0x85, 0x88,
      0x09, 0x28, 0x95, 0x22, 0xB1, 0x02, 0x85, 0x89, 0x09, 0x29, 0x95, 0x02, 0xB1, 0x02,
      0x85, 0x90, 0x09, 0x30, 0x95, 0x05, 0xB1, 0x02, 0x85, 0x91, 0x09, 0x31, 0x95, 0x03,
      0xB1, 0x02, 0x85, 0x92, 0x09, 0x32, 0x95, 0x03, 0xB1, 0x02, 0x85, 0x93, 0x09, 0x33,
      0x95, 0x0C, 0xB1, 0x02, 0x85, 0xA0, 0x09, 0x40, 0x95, 0x06, 0xB1, 0x02, 0x85, 0xA1,
      0x09, 0x41, 0x95, 0x01, 0xB1, 0x02, 0x85, 0xA2, 0x09, 0x42, 0x95, 0x01, 0xB1, 0x02,
      0x85, 0xA3, 0x09, 0x43, 0x95, 0x30, 0xB1, 0x02, 0x85, 0xA4, 0x09, 0x44, 0x95, 0x0D,
      0xB1, 0x02, 0x85, 0xA5, 0x09, 0x45, 0x95, 0x15, 0xB1, 0x02, 0x85, 0xA6, 0x09, 0x46,
      0x95, 0x15, 0xB1, 0x02, 0x85, 0xF0, 0x09, 0x47, 0x95, 0x3F, 0xB1, 0x02, 0x85, 0xF1,
      0x09, 0x48, 0x95, 0x3F, 0xB1, 0x02, 0x85, 0xF2, 0x09, 0x49, 0x95, 0x0F, 0xB1, 0x02,
      0x85, 0xA7, 0x09, 0x4A, 0x95, 0x01, 0xB1, 0x02, 0x85, 0xA8, 0x09, 0x4B, 0x95, 0x01,
      0xB1, 0x02, 0x85, 0xA9, 0x09, 0x4C, 0x95, 0x08, 0xB1, 0x02, 0x85, 0xAA, 0x09, 0x4E,
      0x95, 0x01, 0xB1, 0x02, 0x85, 0xAB, 0x09, 0x4F, 0x95, 0x39, 0xB1, 0x02, 0x85, 0xAC,
      0x09, 0x50, 0x95, 0x39, 0xB1, 0x02, 0x85, 0xAD, 0x09, 0x51, 0x95, 0x0B, 0xB1, 0x02,
      0x85, 0xAE, 0x09, 0x52, 0x95, 0x01, 0xB1, 0x02, 0x85, 0xAF, 0x09, 0x53, 0x95, 0x02,
      0xB1, 0x02, 0x85, 0xB0, 0x09, 0x54, 0x95, 0x3F, 0xB1, 0x02, 0xC0]"

definition make_dualshock4_bluetooth_report_descriptor :: bytes where
  "make_dualshock4_bluetooth_report_descriptor =
     [0x05, 0x01, 0x09, 0x05, 0xA1, 0x01, 0x85, 0x11, 0x06, 0x00, 0xFF, 0x09, 0x20, 0x15,
      0x00, 0x26, 0xFF, 0x00, 0x75, 0x08, 0x95, 0x02, 0x81, 0x02, 0x05, 0x01, 0x09, 0x30,
      0x09, 0x31, 0x09, 0x32, 0x09, 0x35, 0x75, 0x08, 0x95, 0x04, 0x81, 0x02, 0x09, 0x39,
      0x15, 0x00, 0x25, 0x07, 0x35, 0x00, 0x46, 0x3B, 0x01, 0x65, 0x14, 0x75, 0x04, 0x95,
      0x01, 0x81, 0x42, 0x65, 0x00, 0x05, 0x09, 0x19, 0x01, 0x29, 0x0E, 0x15, 0x00, 0x25,
      0x01, 0x75, 0x01, 0x95, 0x0E, 0x81, 0x02, 0x06, 0x00, 0xFF, 0x09, 0x21, 0x75, 0x06,
      0x95, 0x01, 0x81, 0x02, 0x05, 0x01, 0x09, 0x33, 0x09, 0x34, 0x75, 0x08, 0x95, 0x02,
      0x81, 0x02, 0x06, 0x00, 0xFF, 0x09, 0x22, 0x95, 0x42, 0x81, 0x02, 0x85, 0x11, 0x09,
      0x23, 0x95, 0x4D, 0x91, 0x02, 0x85, 0x05, 0x09, 0x24, 0x95, 0x28, 0xB1, 0x02, 0x85,
      0x12, 0x09, 0x25, 0x95, 0x0F, 0xB1, 0x02, 0x85, 0xA3, 0x09, 0x26, 0x95, 0x30, 0xB1,
      0x02, 0xC0]"

definition make_dualsense_usb_report_descriptor :: bytes where
  "make_dualsense_usb_report_descriptor =
     [0x05, 0x01, 0x09, 0x05, 0xA1, 0x01, 0x85, 0x01, 0x09, 0x30, 0x09, 0x31, 0x09, 0x32,
      0x09, 0x35, 0x09, 0x33, 0x09, 0x34, 0x15, 0x00, 0x26, 0xFF, 0x00, 0x75, 0x08, 0x95,
      0x06, 0x81, 0x02, 0x06, 0x00, 0xFF, 0x09, 0x20, 0x95, 0x01, 0x81, 0x02, 0x05, 0x01,
      0x09, 0x39, 0x15, 0x00, 0x25, 0x07, 0x35, 0x00, 0x46, 0x3B, 0x01, 0x65, 0x14, 0x75,
      0x04, 0x95, 0x01, 0x81, 0x42, 0x65, 0x00, 0x05, 0x09, 0x19, 0x01, 0x29, 0x0F, 0x15,
      0x00, 0x25, 0x01, 0x75, 0x01, 0x95, 0x0F, 0x81, 0x02, 0x06, 0x00, 0xFF, 0x09, 0x21,
      0x95, 0x0D, 0x81, 0x02, 0x06, 0x00, 0xFF, 0x09, 0x22, 0x15, 0x00, 0x26, 0xFF, 0x00,
      0x75, 0x08, 0x95, 0x34, 0x81, 0x02, 0x85, 0x02, 0x09, 0x23, 0x95, 0x2F, 0x91, 0x02,
      0x85, 0x05, 0x09, 0x33, 0x95, 0x28, 0xB1, 0x02, 0x85, 0x08, 0x09, 0x34, 0x95, 0x2F,
      0xB1, 0x02, 0x85, 0x09, 0x09, 0x24, 0x95, 0x13, 0xB1, 0x02, 0x85, 0x0A, 0x09, 0x25,
      0x95, 0x1A, 0xB1, 0x02, 0x85, 0x20, 0x09, 0x26, 0x95, 0x3F, 0xB1, 0x02, 0x85, 0x21,
      0x09, 0x27, 0x95, 0x04, 0xB1, 0x02, 0x85, 0x22, 0x09, 0x40, 0x95, 0x3F, 0xB1, 0x02,
      0x85, 0x80, 0x09, 0x28, 0x95, 0x3F, 0xB1, 0x02, 0x85, 0x81, 0x09, 0x29, 0x95, 0x3F,
      0xB1, 0x02, 0x85, 0x82, 0x09, 0x2A, 0x95, 0x09, 0xB1, 0x02, 0x85, 0x83, 0x09, 0x2B,
      0x95, 0x3F, 0xB1, 0x02, 0x85, 0x84, 0x09, 0x2C, 0x95, 0x3F, 0xB1, 0x02, 0x85, 0x85,
      0x09, 0x2D, 0x95, 0x02, 0xB1, 0x02, 0x85, 0xA0, 0x09, 0x2E, 0x95, 0x01, 0xB1, 0x02,
      0x85, 0xE0, 0x09, 0x2F, 0x95, 0x3F, 0xB1, 0x02, 0x85, 0xF0, 0x09, 0x30, 0x95, 0x3F,
      0xB1, 0x02, 0x85, 0xF1, 0x09, 0x31, 0x95, 0x3F, 0xB1, 0x02, 0x85, 0xF2, 0x09, 0x32,
      0x95, 0x0F, 0xB1, 0x02, 0x85, 0xF4, 0x09, 0x35, 0x95, 0x3F, 0xB1, 0x02, 0x85, 0xF5,
      0x09, 0x36, 0x95, 0x03, 0xB1, 0x02, 0xC0]"

definition make_dualsense_bluetooth_report_descriptor :: bytes where
  "make_dualsense_bluetooth_report_descriptor =
     make_playstation_common_gamepad_descriptor_prefix 0x01 @
     [0x75, 0x06, 0x95, 0x01, 0x81, 0x01, 0x05, 0x01, 0x09, 0x33, 0x09, 0x34, 0x15, 0x00,
      0x26, 0xFF, 0x00, 0x75, 0x08, 0x95, 0x02, 0x81, 0x02, 0x06, 0x00, 0xFF, 0x15, 0x00,
      0x26, 0xFF, 0x00, 0x75, 0x08, 0x95, 0x4D, 0x85, 0x31, 0x09, 0x31, 0x91, 0x02, 0x09,
      0x3B, 0x81, 0x02, 0x85, 0x32, 0x09, 0x32, 0x95, 0x8D, 0x91, 0x02, 0x85, 0x33, 0x09,
      0x33, 0x95, 0xCD, 0x91, 0x02, 0x85, 0x34, 0x09, 0x34, 0x96, 0x0D, 0x01, 0x91, 0x02,
      0x85, 0x35, 0x09, 0x35, 0x96, 0x4D, 0x01, 0x91, 0x02, 0x85, 0x36, 0x09, 0x36, 0x96,
      0x8D, 0x01, 0x91, 0x02, 0x85, 0x37, 0x09, 0x37, 0x96, 0xCD, 0x01, 0x91, 0x02, 0x85,
      0x38, 0x09, 0x38, 0x96, 0x0D, 0x02, 0x91, 0x02, 0x85, 0x39, 0x09, 0x39, 0x96, 0x22,
      0x02, 0x91, 0x02, 0x06, 0x80, 0xFF, 0x85, 0x05, 0x09, 0x33, 0x95, 0x28, 0xB1, 0x02,
      0x85, 0x08, 0x09, 0x34, 0x95, 0x2F, 0xB1, 0x02, 0x85, 0x09, 0x09, 0x24, 0x95, 0x13,
      0xB1, 0x02, 0x85, 0x20, 0x09, 0x26, 0x95, 0x3F, 0xB1, 0x02, 0x85, 0x22, 0x09, 0x40,
      0x95, 0x3F, 0xB1, 0x02, 0x85, 0x80, 0x09, 0x28, 0x95, 0x3F, 0xB1, 0x02, 0x85, 0x81,
      0x09, 0x29, 0x95, 0x3F, 0xB1, 0x02, 0x85, 0x82, 0x09, 0x2A, 0x95, 0x09, 0xB1, 0x02,
      0x85, 0x83, 0x09, 0x2B, 0x95, 0x3F, 0xB1, 0x02, 0x85, 0xF1, 0x09, 0x31, 0x95, 0x3F,
      0xB1, 0x02, 0x85, 0xF2, 0x09, 0x32, 0x95, 0x0F, 0xB1, 0x02, 0x85, 0xF0, 0x09, 0x30,
      0x95, 0x3F, 0xB1, 0x02, 0xC0]"

section \<open>Profiles\<close>

definition make_base_gamepad_profile ::
    "gamepad_profile_kind \<Rightarrow> string \<Rightarrow> string \<Rightarrow> u16 \<Rightarrow> u16 \<Rightarrow> u16 \<Rightarrow>
     gamepad_profile_capabilities \<Rightarrow> device_profile" where
  "make_base_gamepad_profile k n m vid pid ver caps =
     (let profile = default_profile\<lparr>device_type := Dev_gamepad, gamepad_kind := k,
            bus_type := Bus_usb, vendor_id := vid, product_id := pid, version := ver,
            report_id := 1, input_report_size := common_report_size\<rparr>;
          profile = (if cap_rumble caps
            then profile\<lparr>output_report_size := common_output_report_size\<rparr> else profile)
      in profile\<lparr>profile_name := n, manufacturer := m, capabilities := caps\<rparr>)"

definition make_gamepad_profile ::
    "gamepad_profile_kind \<Rightarrow> string \<Rightarrow> string \<Rightarrow> u16 \<Rightarrow> u16 \<Rightarrow> u16 \<Rightarrow>
     gamepad_profile_capabilities \<Rightarrow> device_profile" where
  "make_gamepad_profile k n m vid pid ver caps =
     (let profile = make_base_gamepad_profile k n m vid pid ver caps
      in profile\<lparr>report_descriptor := make_gamepad_report_descriptor (report_id profile)
           (cap_rumble (capabilities profile))\<rparr>)"

definition make_standard_gamepad_profile ::
    "gamepad_profile_kind \<Rightarrow> string \<Rightarrow> string \<Rightarrow> u16 \<Rightarrow> u16 \<Rightarrow> u16 \<Rightarrow>
     gamepad_profile_capabilities \<Rightarrow> device_profile" where
  "make_standard_gamepad_profile k n m vid pid ver caps =
     (let profile = make_base_gamepad_profile k n m vid pid ver caps;
          profile = profile\<lparr>report_descriptor :=
            make_standard_gamepad_report_descriptor (report_id profile)
              (cap_rumble (capabilities profile))\<rparr>
      in if cap_rumble (capabilities profile)
         then profile\<lparr>output_report_size := pid_rumble_output_report_size\<rparr> else profile)"

definition make_xbox_gip_profile ::
    "gamepad_profile_kind \<Rightarrow> string \<Rightarrow> u16 \<Rightarrow> u16 \<Rightarrow> bool \<Rightarrow> device_profile" where
  "make_xbox_gip_profile k n pid ver include_share_button =
     default_profile\<lparr>device_type := Dev_gamepad, gamepad_kind := k, bus_type := Bus_usb,
       vendor_id := 0x045E, product_id := pid, version := ver, report_id := 0,
       input_report_size := xbox_gip_input_report_size,
       output_report_size := pid_rumble_payload_size, profile_name := n,
       manufacturer := ''Microsoft'',
       capabilities := default_capabilities\<lparr>cap_rumble := True, cap_trigger_rumble := True,
         cap_battery := True\<rparr>,
       report_descriptor := make_xbox_gip_report_descriptor include_share_button\<rparr>"

definition make_dualshock4_profile :: "bus_type \<Rightarrow> device_profile" where
  "make_dualshock4_profile bus =
     default_profile\<lparr>device_type := Dev_gamepad, gamepad_kind := Kind_dualshock4, bus_type := bus,
       vendor_id := 0x054C, product_id := 0x05C4, version := 0x0100,
       report_id := (if bus = Bus_bluetooth then 0x11 else 1),
       input_report_size := (if bus = Bus_bluetooth then dualshock4_bluetooth_input_report_size
         else dualshock4_usb_input_report_size),
       output_report_size := (if bus = Bus_bluetooth then dualshock4_bluetooth_output_report_size
         else dualshock4_usb_output_report_size),
       profile_name := ''(libvirtualhid) PS4 Controller'',
       manufacturer := ''Sony Computer Entertainment'',
       capabilities := default_capabilities\<lparr>cap_rumble := True, cap_motion := True,
         cap_touchpad := True, cap_rgb_led := True, cap_battery := True\<rparr>,
       report_descriptor := (if bus = Bus_bluetooth then make_dualshock4_bluetooth_report_descriptor
         else make_dualshock4_usb_report_descriptor)\<rparr>"

definition make_dualsense_profile :: "bus_type \<Rightarrow> device_profile" where
  "make_dualsense_profile bus =
     default_profile\<lparr>device_type := Dev_gamepad, gamepad_kind := Kind_dualsense, bus_type := bus,
       vendor_id := 0x054C, product_id := 0x0CE6, version := 0x8111,
       report_id := (if bus = Bus_bluetooth then 0x31 else 1),
       input_report_size := (if bus = Bus_bluetooth then dualsense_bluetooth_input_report_size
         else dualsense_usb_input_report_size),
       output_report_size := (if bus = Bus_bluetooth then dualsense_bluetooth_output_report_size
         else dualsense_usb_output_report_size),
       profile_name := ''(libvirtualhid) PS5 Controller'',
       manufacturer := ''Sony Interactive Entertainment'',
       capabilities := default_capabilities\<lparr>cap_rumble := True, cap_motion := True,
         cap_touchpad := True, cap_rgb_led := True, cap_battery := True,
         cap_adaptive_triggers := True\<rparr>,
       report_descriptor := (if bus = Bus_bluetooth then make_dualsense_bluetooth_report_descriptor
         else make_dualsense_usb_report_descriptor)\<rparr>"

definition make_switch_pro_profile :: device_profile where
  "make_switch_pro_profile =
     default_profile\<lparr>device_type := Dev_gamepad, gamepad_kind := Kind_switch_pro,
       bus_type := Bus_usb, vendor_id := 0x057E, product_id := 0x2009, version := 0x0210,
       report_id := switch_pro_report_id, input_report_size := switch_pro_input_report_size,
       output_report_size := switch_pro_output_report_size,
       profile_name := ''(libvirtualhid) Nintendo Pro Controller'',
       manufacturer := ''Nintendo Co., Ltd.'',
       capabilities := default_capabilities\<lparr>cap_rumble := True, cap_motion := True,
         cap_rgb_led := True, cap_battery := True, cap_player_leds := True\<rparr>,
       report_descriptor := make_switch_pro_report_descriptor\<rparr>"

definition make_simple_profile :: "device_type \<Rightarrow> string \<Rightarrow> u16 \<Rightarrow> device_profile" where
  "make_simple_profile ty n pid =
     default_profile\<lparr>device_type := ty, bus_type := Bus_usb, vendor_id := 0x1209,
       product_id := pid, version := 0x0001, profile_name := n, manufacturer := ''LizardByte''\<rparr>"

text \<open>The public profiles; \<open>lvh::profiles::keyboard\<close> and the other kinds that are not
  gamepads keep their namespace as a prefix.\<close>

definition generic_gamepad :: device_profile where
  "generic_gamepad = make_standard_gamepad_profile Kind_generic
     ''(libvirtualhid) Generic Controller'' ''LizardByte'' 0x1209 0x0001 0x0001
     (default_capabilities\<lparr>cap_rumble := True\<rparr>)"

definition xbox_360 :: device_profile where
  "xbox_360 = make_gamepad_profile Kind_xbox_360
     ''(libvirtualhid) X-Box 360 Controller'' ''Microsoft'' 0x045E 0x028E 0x0114
     (default_capabilities\<lparr>cap_rumble := True\<rparr>)"

definition xbox_one :: device_profile where
  "xbox_one = make_xbox_gip_profile Kind_xbox_one
     ''(libvirtualhid) X-Box One Controller'' 0x02EA 0x0408 False"

definition xbox_series :: device_profile where
  "xbox_series = make_xbox_gip_profile Kind_xbox_series
     ''(libvirtualhid) X-Box Series Controller'' 0x0B12 0x0500 True"

definition dualshock4_usb :: device_profile where
  "dualshock4_usb = make_dualshock4_profile Bus_usb"

definition dualshock4_bluetooth :: device_profile where
  "dualshock4_bluetooth = make_dualshock4_profile Bus_bluetooth"

definition dualshock4 :: device_profile where
  "dualshock4 = dualshock4_bluetooth"

definition dualsense_usb :: device_profile where
  "dualsense_usb = make_dualsense_profile Bus_usb"

definition dualsense_bluetooth :: device_profile where
  "dualsense_bluetooth =
     (make_dualsense_profile Bus_bluetooth)\<lparr>profile_name := ''(libvirtualhid) PS5 Controller''\<rparr>"

definition dualsense :: device_profile where
  "dualsense = dualsense_bluetooth"

definition switch_pro :: device_profile where
  "switch_pro = make_switch_pro_profile"

definition profiles_keyboard :: device_profile where
  "profiles_keyboard = make_simple_profile Dev_keyboard ''libvirtualhid Keyboard'' 0x0002"

definition profiles_mouse :: device_profile where
  "profiles_mouse = make_simple_profile Dev_mouse ''libvirtualhid Mouse'' 0x0003"

definition profiles_touchscreen :: device_profile where
  "profiles_touchscreen = make_simple_profile Dev_touchscreen ''libvirtualhid Touchscreen'' 0x0004"

definition profiles_trackpad :: device_profile where
  "profiles_trackpad = make_simple_profile Dev_trackpad ''libvirtualhid Trackpad'' 0x0005"

definition profiles_pen_tablet :: device_profile where
  "profiles_pen_tablet = make_simple_profile Dev_pen_tablet ''libvirtualhid Pen Tablet'' 0x0006"

text \<open>A value outside the enumeration gives \<open>std::nullopt\<close>; the datatype has none.\<close>

fun gamepad_profile_lookup :: "gamepad_profile_kind \<Rightarrow> device_profile option" where
  "gamepad_profile_lookup Kind_generic = Some generic_gamepad"
| "gamepad_profile_lookup Kind_xbox_360 = Some xbox_360"
| "gamepad_profile_lookup Kind_xbox_one = Some xbox_one"
| "gamepad_profile_lookup Kind_xbox_series = Some xbox_series"
| "gamepad_profile_lookup Kind_dualshock4 = Some dualshock4"
| "gamepad_profile_lookup Kind_dualsense = Some dualsense"
| "gamepad_profile_lookup Kind_switch_pro = Some switch_pro"

definition built_in_gamepad_profiles :: "device_profile list" where
  "built_in_gamepad_profiles =
     [generic_gamepad, xbox_360, xbox_one, xbox_series, dualshock4, dualsense, switch_pro]"

end
