(* ===== verification/PidDescriptor.thy ===== *)
theory PidDescriptor
  imports Profiles PidFeature
begin

text \<open>
  The report descriptor the Windows backend gives the Generic Controller,
  \<open>make_generic_pid_report_descriptor\<close> of
  \<open>src/src/platform/windows/shared/generic_pid_protocol.hpp\<close>: the built-in descriptor with its
  placeholder rumble block replaced by a DirectInput PID block, and what it declares.
\<close>

section \<open>Hexadecimal text\<close>

definition pid_hex_nibble :: "char \<Rightarrow> u8 option" where
  "pid_hex_nibble c =
     (let d = (of_char c :: nat) in
      if 0x30 \<le> d \<and> d \<le> 0x39 then Some (of_nat (d - 0x30))
      else if 0x41 \<le> d \<and> d \<le> 0x46 then Some (of_nat (d - 0x41 + 10))
      else if 0x61 \<le> d \<and> d \<le> 0x66 then Some (of_nat (d - 0x61 + 10))
      else None)"

text \<open>Characters that are no hexadecimal digit are skipped; \<open>high\<close> is the pending digit.\<close>

fun append_hex_from :: "u8 option \<Rightarrow> bytes \<Rightarrow> string \<Rightarrow> bytes" where
  "append_hex_from high target [] = target"
| "append_hex_from high target (c # cs) =
     (case pid_hex_nibble c of
        None \<Rightarrow> append_hex_from high target cs
      | Some low \<Rightarrow>
          (case high of
             None \<Rightarrow> append_hex_from (Some low) target cs
           | Some h \<Rightarrow> append_hex_from None (target @ [h * 16 + low]) cs))"

definition append_hex :: "bytes \<Rightarrow> string \<Rightarrow> bytes" where
  "append_hex target hex = append_hex_from None target hex"

section \<open>The descriptor\<close>

definition legacy_rumble_prefix :: bytes where
  "legacy_rumble_prefix = [0xA1, 0x02, 0x05, 0x0F, 0x09, 0x97]"

definition gamepad_collection_prefix :: bytes where
  "gamepad_collection_prefix = [0x05, 0x01, 0x09, 0x05, 0xA1, 0x01]"

text \<open>\<open>std::ranges::search\<close>: the bytes before the first occurrence of a pattern.\<close>

fun before_pattern :: "bytes \<Rightarrow> bytes \<Rightarrow> bytes option" where
  "before_pattern pattern [] = (if pattern = [] then Some [] else None)"
| "before_pattern pattern (x # xs) =
     (if take (length pattern) (x # xs) = pattern then Some []
      else map_option (Cons x) (before_pattern pattern xs))"

text \<open>The literal of the source, in pieces of 80 digits.\<close>

definition pid_block_lines :: "string list" where
  "pid_block_lines =
    [''050F0921A1028511092215012528350145287508950191020925A102092609270930093109320933'',
     ''093409400941094209430929250C15013501450C750895019100C009500954095109A7150026FF7F'',
     ''350046FF7F66031055FD75109504910255006600000952150026FF00350046102775089501910209'',
     ''5315012508350145087508950191020955A10205010930093115002501750195029102C0050F0956'',
     ''95019102950591030957A1020B01000A000B02000A0066140055FE150027FF7F0000350047A08C00'',
     ''006600007510950291025500660000C0050F0958A1020B01000A000B02000A0026FD7F7510950291'',
     ''02C0C0095AA102851209221501252835014528750895019102095B095D1600002610273600004610'',
     ''27751095029102095C095E66031055FD27FF7F000047FF7F00007520910245006600005500C0095F'',
     ''A102851309221501252835014528750895019102092315002503350045037504950191020958A102'',
     ''0B01000A000B02000A00750295029102C016F0D826102736F0D8461027096075109501910236F0D8'',
     ''46102709610962950291021600002610273600004610270963096475109502910209651600002610'',
     ''2736000046102795019102C0096EA102851409221501252835014528750895019102097016000026'',
     ''1027360000461027751095019102096F16F0D826102736F0D8461027950175109102097166140055'',
     ''FE1500279F8C00003500479F8C00007510950191020972150027FF7F0000350047FF7F0000660310'',
     ''55FD7520950191026600005500C00973A102851509221501252835014528750895019102097016F0'',
     ''D826102736F0D8461027751095019102C00974A10285160922150125283501452875089501910209'',
     ''75097616F0D826102736F0D8461027751095029102C00968A1028517092215012528350145287508'',
     ''95019102096C1500261027350046102775109501910209691581257F350046FF007508950C920201'',
     ''C00966A10285180501093009311581257F350046FF00750895029102C0050F0977A102851A092215'',
     ''012528350145287508950191020978A1020979097A097B15012503750895019100C0097C150026FF'',
     ''00350046FF009102C00990A102851B09222528150135014528750895019102C00996A102851C0997'',
     ''09980999099A099B099C15012506750895019100C0097DA102851D097E150026FF00350046102775'',
     ''0895019102C0096BA102851E09221501252835014528750895019102096D150026FF00350046FF00'',
     ''750895019102095166031055FD150026FF7F350046FF7F7510950191025500660000C009ABA10285'',
     ''110925A102092609270930093109320933093409400941094209430929250C15013501450C750895'',
     ''01B100C00501093B150026FF01350046FF01750A9501B1027506B101C0'']"

definition pid_block_hex :: string where
  "pid_block_hex = concat pid_block_lines"

definition make_generic_pid_report_descriptor :: "bytes \<Rightarrow> bytes option" where
  "make_generic_pid_report_descriptor source =
     (if length source < length gamepad_collection_prefix + 1
         \<or> take (length gamepad_collection_prefix) source \<noteq> gamepad_collection_prefix
         \<or> last source \<noteq> 0xC0 then Some []
      else (case before_pattern legacy_rumble_prefix source of
          None \<Rightarrow> Some []
        | Some kept \<Rightarrow> do {
            descriptor \<leftarrow> put kept 3 0x04;
            Some (append_hex descriptor pid_block_hex @ [0xC0]) }))"

section \<open>Reading the text\<close>

text \<open>The bytes a text adds, without the buffer they are added to.\<close>

fun hex_bytes :: "u8 option \<Rightarrow> string \<Rightarrow> bytes" where
  "hex_bytes high [] = []"
| "hex_bytes high (c # cs) =
     (case pid_hex_nibble c of
        None \<Rightarrow> hex_bytes high cs
      | Some low \<Rightarrow>
          (case high of
             None \<Rightarrow> hex_bytes (Some low) cs
           | Some h \<Rightarrow> (h * 16 + low) # hex_bytes None cs))"

lemma append_hex_from_bytes: "append_hex_from high target cs = target @ hex_bytes high cs"
  by (induction high target cs rule: append_hex_from.induct)
     (simp_all split: option.split)

lemma append_hex_bytes: "append_hex target cs = target @ hex_bytes None cs"
  by (simp add: append_hex_def append_hex_from_bytes)

fun hex_pending :: "u8 option \<Rightarrow> string \<Rightarrow> u8 option" where
  "hex_pending high [] = high"
| "hex_pending high (c # cs) =
     (case pid_hex_nibble c of
        None \<Rightarrow> hex_pending high cs
      | Some low \<Rightarrow> hex_pending (case high of None \<Rightarrow> Some low | Some h \<Rightarrow> None) cs)"

lemma hex_bytes_append: "hex_bytes high (cs @ ds) = hex_bytes high cs @ hex_bytes (hex_pending high cs) ds"
  by (induction high cs rule: hex_bytes.induct) (simp_all split: option.split)

lemma hex_bytes_concat:
  "list_all (\<lambda>cs. hex_pending None cs = None) css \<Longrightarrow>
   hex_bytes None (concat css) = concat (map (hex_bytes None) css)"
  by (induction css) (simp_all add: hex_bytes_append)

lemma pid_hex_nibble_eval [simp]:
  "pid_hex_nibble (CHR ''0'') = Some 0" "pid_hex_nibble (CHR ''1'') = Some 1"
  "pid_hex_nibble (CHR ''2'') = Some 2" "pid_hex_nibble (CHR ''3'') = Some 3"
  "pid_hex_nibble (CHR ''4'') = Some 4" "pid_hex_nibble (CHR ''5'') = Some 5"
  "pid_hex_nibble (CHR ''6'') = Some 6" "pid_hex_nibble (CHR ''7'') = Some 7"
  "pid_hex_nibble (CHR ''8'') = Some 8" "pid_hex_nibble (CHR ''9'') = Some 9"
  "pid_hex_nibble (CHR ''A'') = Some 10" "pid_hex_nibble (CHR ''B'') = Some 11"
  "pid_hex_nibble (CHR ''C'') = Some 12" "pid_hex_nibble (CHR ''D'') = Some 13"
  "pid_hex_nibble (CHR ''E'') = Some 14" "pid_hex_nibble (CHR ''F'') = Some 15"
  by (simp_all add: pid_hex_nibble_def)

lemma pid_block_bytes:
  "hex_bytes None pid_block_hex =
     [0x05, 0x0F, 0x09, 0x21, 0xA1, 0x02, 0x85, 0x11, 0x09, 0x22, 0x15, 0x01, 0x25, 0x28, 0x35,
      0x01, 0x45, 0x28, 0x75, 0x08, 0x95, 0x01, 0x91, 0x02, 0x09, 0x25, 0xA1, 0x02, 0x09, 0x26,
      0x09, 0x27, 0x09, 0x30, 0x09, 0x31, 0x09, 0x32, 0x09, 0x33, 0x09, 0x34, 0x09, 0x40, 0x09,
      0x41, 0x09, 0x42, 0x09, 0x43, 0x09, 0x29, 0x25, 0x0C, 0x15, 0x01, 0x35, 0x01, 0x45, 0x0C,
      0x75, 0x08, 0x95, 0x01, 0x91, 0x00, 0xC0, 0x09, 0x50, 0x09, 0x54, 0x09, 0x51, 0x09, 0xA7,
      0x15, 0x00, 0x26, 0xFF, 0x7F, 0x35, 0x00, 0x46, 0xFF, 0x7F, 0x66, 0x03, 0x10, 0x55, 0xFD,
      0x75, 0x10, 0x95, 0x04, 0x91, 0x02, 0x55, 0x00, 0x66, 0x00, 0x00, 0x09, 0x52, 0x15, 0x00,
      0x26, 0xFF, 0x00, 0x35, 0x00, 0x46, 0x10, 0x27, 0x75, 0x08, 0x95, 0x01, 0x91, 0x02, 0x09,
      0x53, 0x15, 0x01, 0x25, 0x08, 0x35, 0x01, 0x45, 0x08, 0x75, 0x08, 0x95, 0x01, 0x91, 0x02,
      0x09, 0x55, 0xA1, 0x02, 0x05, 0x01, 0x09, 0x30, 0x09, 0x31, 0x15, 0x00, 0x25, 0x01, 0x75,
      0x01, 0x95, 0x02, 0x91, 0x02, 0xC0, 0x05, 0x0F, 0x09, 0x56, 0x95, 0x01, 0x91, 0x02, 0x95,
      0x05, 0x91, 0x03, 0x09, 0x57, 0xA1, 0x02, 0x0B, 0x01, 0x00, 0x0A, 0x00, 0x0B, 0x02, 0x00,
      0x0A, 0x00, 0x66, 0x14, 0x00, 0x55, 0xFE, 0x15, 0x00, 0x27, 0xFF, 0x7F, 0x00, 0x00, 0x35,
      0x00, 0x47, 0xA0, 0x8C, 0x00, 0x00, 0x66, 0x00, 0x00, 0x75, 0x10, 0x95, 0x02, 0x91, 0x02,
      0x55, 0x00, 0x66, 0x00, 0x00, 0xC0, 0x05, 0x0F, 0x09, 0x58, 0xA1, 0x02, 0x0B, 0x01, 0x00,
      0x0A, 0x00, 0x0B, 0x02, 0x00, 0x0A, 0x00, 0x26, 0xFD, 0x7F, 0x75, 0x10, 0x95, 0x02, 0x91,
      0x02, 0xC0, 0xC0, 0x09, 0x5A, 0xA1, 0x02, 0x85, 0x12, 0x09, 0x22, 0x15, 0x01, 0x25, 0x28,
      0x35, 0x01, 0x45, 0x28, 0x75, 0x08, 0x95, 0x01, 0x91, 0x02, 0x09, 0x5B, 0x09, 0x5D, 0x16,
      0x00, 0x00, 0x26, 0x10, 0x27, 0x36, 0x00, 0x00, 0x46, 0x10, 0x27, 0x75, 0x10, 0x95, 0x02,
      0x91, 0x02, 0x09, 0x5C, 0x09, 0x5E, 0x66, 0x03, 0x10, 0x55, 0xFD, 0x27, 0xFF, 0x7F, 0x00,
      0x00, 0x47, 0xFF, 0x7F, 0x00, 0x00, 0x75, 0x20, 0x91, 0x02, 0x45, 0x00, 0x66, 0x00, 0x00,
      0x55, 0x00, 0xC0, 0x09, 0x5F, 0xA1, 0x02, 0x85, 0x13, 0x09, 0x22, 0x15, 0x01, 0x25, 0x28,
      0x35, 0x01, 0x45, 0x28, 0x75, 0x08, 0x95, 0x01, 0x91, 0x02, 0x09, 0x23, 0x15, 0x00, 0x25,
      0x03, 0x35, 0x00, 0x45, 0x03, 0x75, 0x04, 0x95, 0x01, 0x91, 0x02, 0x09, 0x58, 0xA1, 0x02,
      0x0B, 0x01, 0x00, 0x0A, 0x00, 0x0B, 0x02, 0x00, 0x0A, 0x00, 0x75, 0x02, 0x95, 0x02, 0x91,
      0x02, 0xC0, 0x16, 0xF0, 0xD8, 0x26, 0x10, 0x27, 0x36, 0xF0, 0xD8, 0x46, 0x10, 0x27, 0x09,
      0x60, 0x75, 0x10, 0x95, 0x01, 0x91, 0x02, 0x36, 0xF0, 0xD8, 0x46, 0x10, 0x27, 0x09, 0x61,
      0x09, 0x62, 0x95, 0x02, 0x91, 0x02, 0x16, 0x00, 0x00, 0x26, 0x10, 0x27, 0x36, 0x00, 0x00,
      0x46, 0x10, 0x27, 0x09, 0x63, 0x09, 0x64, 0x75, 0x10, 0x95, 0x02, 0x91, 0x02, 0x09, 0x65,
      0x16, 0x00, 0x00, 0x26, 0x10, 0x27, 0x36, 0x00, 0x00, 0x46, 0x10, 0x27, 0x95, 0x01, 0x91,
      0x02, 0xC0, 0x09, 0x6E, 0xA1, 0x02, 0x85, 0x14, 0x09, 0x22, 0x15, 0x01, 0x25, 0x28, 0x35,
      0x01, 0x45, 0x28, 0x75, 0x08, 0x95, 0x01, 0x91, 0x02, 0x09, 0x70, 0x16, 0x00, 0x00, 0x26,
      0x10, 0x27, 0x36, 0x00, 0x00, 0x46, 0x10, 0x27, 0x75, 0x10, 0x95, 0x01, 0x91, 0x02, 0x09,
      0x6F, 0x16, 0xF0, 0xD8, 0x26, 0x10, 0x27, 0x36, 0xF0, 0xD8, 0x46, 0x10, 0x27, 0x95, 0x01,
      0x75, 0x10, 0x91, 0x02, 0x09, 0x71, 0x66, 0x14, 0x00, 0x55, 0xFE, 0x15, 0x00, 0x27, 0x9F,
      0x8C, 0x00, 0x00, 0x35, 0x00, 0x47, 0x9F, 0x8C, 0x00, 0x00, 0x75, 0x10, 0x95, 0x01, 0x91,
      0x02, 0x09, 0x72, 0x15, 0x00, 0x27, 0xFF, 0x7F, 0x00, 0x00, 0x35, 0x00, 0x47, 0xFF, 0x7F,
      0x00, 0x00, 0x66, 0x03, 0x10, 0x55, 0xFD, 0x75, 0x20, 0x95, 0x01, 0x91, 0x02, 0x66, 0x00,
      0x00, 0x55, 0x00, 0xC0, 0x09, 0x73, 0xA1, 0x02, 0x85, 0x15, 0x09, 0x22, 0x15, 0x01, 0x25,
      0x28, 0x35, 0x01, 0x45, 0x28, 0x75, 0x08, 0x95, 0x01, 0x91, 0x02, 0x09, 0x70, 0x16, 0xF0,
      0xD8, 0x26, 0x10, 0x27, 0x36, 0xF0, 0xD8, 0x46, 0x10, 0x27, 0x75, 0x10, 0x95, 0x01, 0x91,
      0x02, 0xC0, 0x09, 0x74, 0xA1, 0x02, 0x85, 0x16, 0x09, 0x22, 0x15, 0x01, 0x25, 0x28, 0x35,
      0x01, 0x45, 0x28, 0x75, 0x08, 0x95, 0x01, 0x91, 0x02, 0x09, 0x75, 0x09, 0x76, 0x16, 0xF0,
      0xD8, 0x26, 0x10, 0x27, 0x36, 0xF0, 0xD8, 0x46, 0x10, 0x27, 0x75, 0x10, 0x95, 0x02, 0x91,
      0x02, 0xC0, 0x09, 0x68, 0xA1, 0x02, 0x85, 0x17, 0x09, 0x22, 0x15, 0x01, 0x25, 0x28, 0x35,
      0x01, 0x45, 0x28, 0x75, 0x08, 0x95, 0x01, 0x91, 0x02, 0x09, 0x6C, 0x15, 0x00, 0x26, 0x10,
      0x27, 0x35, 0x00, 0x46, 0x10, 0x27, 0x75, 0x10, 0x95, 0x01, 0x91, 0x02, 0x09, 0x69, 0x15,
      0x81, 0x25, 0x7F, 0x35, 0x00, 0x46, 0xFF, 0x00, 0x75, 0x08, 0x95, 0x0C, 0x92, 0x02, 0x01,
      0xC0, 0x09, 0x66, 0xA1, 0x02, 0x85, 0x18, 0x05, 0x01, 0x09, 0x30, 0x09, 0x31, 0x15, 0x81,
      0x25, 0x7F, 0x35, 0x00, 0x46, 0xFF, 0x00, 0x75, 0x08, 0x95, 0x02, 0x91, 0x02, 0xC0, 0x05,
      0x0F, 0x09, 0x77, 0xA1, 0x02, 0x85, 0x1A, 0x09, 0x22, 0x15, 0x01, 0x25, 0x28, 0x35, 0x01,
      0x45, 0x28, 0x75, 0x08, 0x95, 0x01, 0x91, 0x02, 0x09, 0x78, 0xA1, 0x02, 0x09, 0x79, 0x09,
      0x7A, 0x09, 0x7B, 0x15, 0x01, 0x25, 0x03, 0x75, 0x08, 0x95, 0x01, 0x91, 0x00, 0xC0, 0x09,
      0x7C, 0x15, 0x00, 0x26, 0xFF, 0x00, 0x35, 0x00, 0x46, 0xFF, 0x00, 0x91, 0x02, 0xC0, 0x09,
      0x90, 0xA1, 0x02, 0x85, 0x1B, 0x09, 0x22, 0x25, 0x28, 0x15, 0x01, 0x35, 0x01, 0x45, 0x28,
      0x75, 0x08, 0x95, 0x01, 0x91, 0x02, 0xC0, 0x09, 0x96, 0xA1, 0x02, 0x85, 0x1C, 0x09, 0x97,
      0x09, 0x98, 0x09, 0x99, 0x09, 0x9A, 0x09, 0x9B, 0x09, 0x9C, 0x15, 0x01, 0x25, 0x06, 0x75,
      0x08, 0x95, 0x01, 0x91, 0x00, 0xC0, 0x09, 0x7D, 0xA1, 0x02, 0x85, 0x1D, 0x09, 0x7E, 0x15,
      0x00, 0x26, 0xFF, 0x00, 0x35, 0x00, 0x46, 0x10, 0x27, 0x75, 0x08, 0x95, 0x01, 0x91, 0x02,
      0xC0, 0x09, 0x6B, 0xA1, 0x02, 0x85, 0x1E, 0x09, 0x22, 0x15, 0x01, 0x25, 0x28, 0x35, 0x01,
      0x45, 0x28, 0x75, 0x08, 0x95, 0x01, 0x91, 0x02, 0x09, 0x6D, 0x15, 0x00, 0x26, 0xFF, 0x00,
      0x35, 0x00, 0x46, 0xFF, 0x00, 0x75, 0x08, 0x95, 0x01, 0x91, 0x02, 0x09, 0x51, 0x66, 0x03,
      0x10, 0x55, 0xFD, 0x15, 0x00, 0x26, 0xFF, 0x7F, 0x35, 0x00, 0x46, 0xFF, 0x7F, 0x75, 0x10,
      0x95, 0x01, 0x91, 0x02, 0x55, 0x00, 0x66, 0x00, 0x00, 0xC0, 0x09, 0xAB, 0xA1, 0x02, 0x85,
      0x11, 0x09, 0x25, 0xA1, 0x02, 0x09, 0x26, 0x09, 0x27, 0x09, 0x30, 0x09, 0x31, 0x09, 0x32,
      0x09, 0x33, 0x09, 0x34, 0x09, 0x40, 0x09, 0x41, 0x09, 0x42, 0x09, 0x43, 0x09, 0x29, 0x25,
      0x0C, 0x15, 0x01, 0x35, 0x01, 0x45, 0x0C, 0x75, 0x08, 0x95, 0x01, 0xB1, 0x00, 0xC0, 0x05,
      0x01, 0x09, 0x3B, 0x15, 0x00, 0x26, 0xFF, 0x01, 0x35, 0x00, 0x46, 0xFF, 0x01, 0x75, 0x0A,
      0x95, 0x01, 0xB1, 0x02, 0x75, 0x06, 0xB1, 0x01, 0xC0]"
  unfolding pid_block_hex_def
  by (subst hex_bytes_concat) (simp_all add: pid_block_lines_def)

section \<open>The Generic Controller on Windows\<close>

definition generic_pid_output_report_size :: nat where "generic_pid_output_report_size = 22"

definition generic_pid_descriptor :: bytes where
  "generic_pid_descriptor =
     [0x05, 0x01, 0x09, 0x04, 0xA1, 0x01, 0x85, 0x01, 0x05, 0x09, 0x19, 0x01, 0x29, 0x10, 0x15,
      0x00, 0x25, 0x01, 0x75, 0x01, 0x95, 0x10, 0x81, 0x02, 0x05, 0x01, 0x15, 0x00, 0x26, 0xFF,
      0x00, 0x75, 0x08, 0x95, 0x06, 0x09, 0x30, 0x09, 0x31, 0x09, 0x33, 0x09, 0x34, 0x09, 0x32,
      0x09, 0x35, 0x81, 0x02] @
     hex_bytes None pid_block_hex @ [0xC0]"

lemma generic_gamepad_descriptor:
  "report_descriptor generic_gamepad = make_standard_gamepad_report_descriptor 1 True"
  by (simp add: generic_gamepad_def make_standard_gamepad_profile_def Let_def
      make_base_gamepad_profile_def default_capabilities_def)

lemma generic_pid_descriptor_built:
  "make_generic_pid_report_descriptor (report_descriptor generic_gamepad) =
     Some generic_pid_descriptor"
  unfolding make_generic_pid_report_descriptor_def append_hex_bytes generic_gamepad_descriptor
  by (simp add: make_standard_gamepad_report_descriptor_def append_pid_rumble_output_def
      standard_button_count_def common_axis_count_def legacy_rumble_prefix_def
      gamepad_collection_prefix_def generic_pid_descriptor_def)

lemma length_generic_pid_descriptor: "length generic_pid_descriptor = 1079"
  unfolding generic_pid_descriptor_def pid_block_bytes
  by simp

text \<open>The reports the descriptor declares: the input report, the thirteen output reports of
  the PID block, and the feature report that creates an effect.\<close>

definition pid_reports :: "(hid_report \<times> nat \<times> nat) list" where
  "pid_reports =
     [(Input_report, 1, 9), (Output_report, 0x11, 22), (Output_report, 0x12, 14),
      (Output_report, 0x13, 15), (Output_report, 0x14, 12), (Output_report, 0x15, 4),
      (Output_report, 0x16, 6), (Output_report, 0x17, 16), (Output_report, 0x18, 3),
      (Output_report, 0x1A, 4), (Output_report, 0x1B, 2), (Output_report, 0x1C, 2),
      (Output_report, 0x1D, 2), (Output_report, 0x1E, 5), (Feature_report, 0x11, 4)]"

text \<open>A descriptor declares a table of reports and nothing else.\<close>

definition declares_exactly :: "bytes \<Rightarrow> (hid_report \<times> nat \<times> nat) list \<Rightarrow> bool" where
  "declares_exactly d reports \<longleftrightarrow>
     list_all (\<lambda>(k, i, n). report_length k i d = Some n) reports \<and>
     (case descriptor_fields d of None \<Rightarrow> False
      | Some fs \<Rightarrow> list_all (\<lambda>f. list_ex (\<lambda>(k, i, n). hid_kind f = k \<and> hid_id f = i) reports) fs)"

lemma pid_descriptor_fields:
  "case descriptor_fields generic_pid_descriptor of None \<Rightarrow> False
   | Some fs \<Rightarrow>
       list_all (\<lambda>(k, i, n). report_bits k i fs + 8 = 8 * n) pid_reports \<and>
       list_all (\<lambda>f. list_ex (\<lambda>(k, i, n). hid_kind f = k \<and> hid_id f = i) pid_reports) fs"
  unfolding generic_pid_descriptor_def pid_block_bytes append.simps
  by (simp add: hid_eval pid_reports_def cong: hid_run_cong)

lemma pid_reports_exact: "declares_exactly generic_pid_descriptor pid_reports"
proof -
  obtain fs where fs: "descriptor_fields generic_pid_descriptor = Some fs"
    using pid_descriptor_fields by (cases "descriptor_fields generic_pid_descriptor") auto
  then show ?thesis
    using pid_descriptor_fields
    by (auto simp: declares_exactly_def pid_reports_def intro!: report_length_fields [THEN trans])
qed

text \<open>Whatever descriptor it is given, the rewriting stays inside it: a descriptor of another
  layout gives the empty one, and an accepted one keeps the bytes before the rumble block
  except for the usage of the collection.\<close>

lemma before_pattern_Some:
  "before_pattern pattern xs = Some ys \<Longrightarrow> \<exists>zs. xs = ys @ pattern @ zs"
proof (induction xs arbitrary: ys)
  case (Cons x xs)
  show ?case
  proof (cases "take (length pattern) (x # xs) = pattern")
    case True
    then have "x # xs = pattern @ drop (length pattern) (x # xs)"
      by (metis append_take_drop_id)
    with True Cons.prems show ?thesis
      by auto
  next
    case False
    with Cons show ?thesis
      by auto
  qed
qed (auto split: if_splits)

lemma pid_descriptor_cases:
  obtains (refused) "make_generic_pid_report_descriptor source = Some []"
  | (rewritten) kept where "3 < length kept" "take (length kept) source = kept"
      "make_generic_pid_report_descriptor source =
         Some (append_hex (kept[3 := 0x04]) pid_block_hex @ [0xC0])"
proof (cases "length source < length gamepad_collection_prefix + 1
    \<or> take (length gamepad_collection_prefix) source \<noteq> gamepad_collection_prefix
    \<or> last source \<noteq> 0xC0 \<or> before_pattern legacy_rumble_prefix source = None")
  case True
  then have "make_generic_pid_report_descriptor source = Some []"
    unfolding make_generic_pid_report_descriptor_def by auto
  then show ?thesis
    by (rule refused)
next
  case False
  then obtain kept where kept: "before_pattern legacy_rumble_prefix source = Some kept"
    by auto
  then obtain zs where zs: "source = kept @ legacy_rumble_prefix @ zs"
    using before_pattern_Some by blast
  have "take 6 source = [0x05, 0x01, 0x09, 0x05, 0xA1, 0x01]"
    using False by (simp add: gamepad_collection_prefix_def numeral_eq_Suc)
  then have long: "3 < length kept"
    by (cases kept; cases "tl kept"; cases "tl (tl kept)"; cases "tl (tl (tl kept))")
       (auto simp: zs legacy_rumble_prefix_def)
  moreover have "take (length kept) source = kept"
    by (simp add: zs)
  moreover have "make_generic_pid_report_descriptor source =
      Some (append_hex (kept[3 := 0x04]) pid_block_hex @ [0xC0])"
    using False long kept unfolding make_generic_pid_report_descriptor_def by simp
  ultimately show ?thesis
    by (rule rewritten)
qed

section \<open>Properties\<close>

text \<open>C14: The descriptor the Generic Controller gets on Windows declares its
  input report, the thirteen PID output reports and the report that creates an effect, and
  nothing else; every output report fits the output size of the device, and the driver's
  answer to the create report has the declared length.\<close>

lemma pid_descriptor_declares:
  "make_generic_pid_report_descriptor (report_descriptor generic_gamepad) =
     Some generic_pid_descriptor \<and>
   declares_exactly generic_pid_descriptor pid_reports \<and>
   list_all (\<lambda>(k, i, n). n \<le> generic_pid_output_report_size) pid_reports \<and>
   map_option length (get_feature_report 0x11 s) =
     report_length Feature_report 0x11 generic_pid_descriptor"
proof -
  have "report_length Feature_report 0x11 generic_pid_descriptor = Some 4"
    using pid_reports_exact by (simp add: declares_exactly_def pid_reports_def)
  then have "map_option length (get_feature_report 0x11 s) =
      report_length Feature_report 0x11 generic_pid_descriptor"
    by (simp add: get_feature_report_def generic_pid_create_new_effect_report_id_def)
  moreover have "list_all (\<lambda>(k, i, n). n \<le> generic_pid_output_report_size) pid_reports"
    by (simp add: pid_reports_def generic_pid_output_report_size_def)
  ultimately show ?thesis
    using generic_pid_descriptor_built pid_reports_exact by blast
qed

text \<open>The other three feature reports of the PID handshake, which the driver
  answers, are not declared by that descriptor.\<close>

lemma pid_handshake_undeclared:
  "list_all (\<lambda>i. get_feature_report i s \<noteq> None \<and>
      report_length Feature_report (unat i) generic_pid_descriptor = None)
    [generic_pid_block_load_report_id, generic_pid_pool_report_id, generic_pid_state_report_id]"
proof -
  obtain fs where fs: "descriptor_fields generic_pid_descriptor = Some fs"
      "list_all (\<lambda>f. list_ex (\<lambda>(k, i, n). hid_kind f = k \<and> hid_id f = i) pid_reports) fs"
    using pid_descriptor_fields by (cases "descriptor_fields generic_pid_descriptor") auto
  have none: "report_bits Feature_report i fs = 0" if "i \<noteq> 0x11" for i :: nat
    using fs(2) that
    by (intro report_bits_none) (auto simp: pid_reports_def elim!: list.pred_mono_strong)
  show ?thesis
    using none [of "0x12"] none [of "0x13"] none [of "0x14"]
    by (simp add: report_length_def fs(1) get_feature_report_def Let_def
        generic_pid_block_load_report_id_def generic_pid_pool_report_id_def
        generic_pid_state_report_id_def generic_pid_create_new_effect_report_id_def)
qed

end
