(* ===== verification/WindowsProtocol.thy ===== *)
theory WindowsProtocol
  imports PidDescriptor VhfQueue Normalize Events
begin

text \<open>
  The control protocol between the Windows backend and its drivers,
  \<open>src/src/platform/windows/shared/lvh_windows_protocol.h\<close> and \<open>xbox_360_protocol.hpp\<close>, and
  the client's helpers of \<open>src/src/platform/windows/control_protocol.hpp\<close>. The packed
  structures are records; an array of the source is a list whose length is the array's.
\<close>

section \<open>Constants\<close>

definition LVH_WINDOWS_CONTROL_PROTOCOL_VERSION :: u32 where
  "LVH_WINDOWS_CONTROL_PROTOCOL_VERSION = 5"

definition LVH_WINDOWS_MAX_REPORT_DESCRIPTOR_SIZE :: nat where
  "LVH_WINDOWS_MAX_REPORT_DESCRIPTOR_SIZE = 2048"

definition LVH_WINDOWS_MAX_INPUT_REPORT_SIZE :: nat where "LVH_WINDOWS_MAX_INPUT_REPORT_SIZE = 256"
definition LVH_WINDOWS_MAX_OUTPUT_REPORT_SIZE :: nat where "LVH_WINDOWS_MAX_OUTPUT_REPORT_SIZE = 256"
definition LVH_WINDOWS_MAX_DEVICE_NAME_SIZE :: nat where "LVH_WINDOWS_MAX_DEVICE_NAME_SIZE = 128"
definition LVH_WINDOWS_MAX_MANUFACTURER_SIZE :: nat where "LVH_WINDOWS_MAX_MANUFACTURER_SIZE = 128"
definition LVH_WINDOWS_MAX_STABLE_ID_SIZE :: nat where "LVH_WINDOWS_MAX_STABLE_ID_SIZE = 128"
definition LVH_WINDOWS_SESSION_TOKEN_SIZE :: nat where "LVH_WINDOWS_SESSION_TOKEN_SIZE = 32"

definition lvh_windows_ctl_code :: "u32 \<Rightarrow> u32 \<Rightarrow> u32 \<Rightarrow> u32 \<Rightarrow> u32" where
  "lvh_windows_ctl_code device function_code method access =
     push_bit 16 device OR push_bit 14 access OR push_bit 2 function_code OR method"

definition LVH_WINDOWS_IOCTL_CREATE_DEVICE :: u32 where
  "LVH_WINDOWS_IOCTL_CREATE_DEVICE = lvh_windows_ctl_code 0x8000 0x800 0 (1 OR 2)"

definition LVH_WINDOWS_IOCTL_DESTROY_DEVICE :: u32 where
  "LVH_WINDOWS_IOCTL_DESTROY_DEVICE = lvh_windows_ctl_code 0x8000 0x801 0 (1 OR 2)"

definition LVH_WINDOWS_IOCTL_SUBMIT_INPUT_REPORT :: u32 where
  "LVH_WINDOWS_IOCTL_SUBMIT_INPUT_REPORT = lvh_windows_ctl_code 0x8000 0x802 0 (1 OR 2)"

definition LVH_WINDOWS_IOCTL_READ_OUTPUT_REPORT :: u32 where
  "LVH_WINDOWS_IOCTL_READ_OUTPUT_REPORT = lvh_windows_ctl_code 0x8000 0x803 0 1"

definition LVH_WINDOWS_IOCTL_RESET_DEVICES :: u32 where
  "LVH_WINDOWS_IOCTL_RESET_DEVICES = lvh_windows_ctl_code 0x8000 0x804 0 (1 OR 2)"

definition LVH_WINDOWS_BUS_UNKNOWN :: u32 where "LVH_WINDOWS_BUS_UNKNOWN = 0"
definition LVH_WINDOWS_BUS_USB :: u32 where "LVH_WINDOWS_BUS_USB = 1"
definition LVH_WINDOWS_DEVICE_KEYBOARD :: u32 where "LVH_WINDOWS_DEVICE_KEYBOARD = 3"
definition LVH_WINDOWS_GAMEPAD_XBOX_360 :: u32 where "LVH_WINDOWS_GAMEPAD_XBOX_360 = 1"

definition LVH_WINDOWS_KEYBOARD_INPUT_REPORT_SIZE :: nat where
  "LVH_WINDOWS_KEYBOARD_INPUT_REPORT_SIZE = 18"

definition LVH_WINDOWS_KEYBOARD_OUTPUT_REPORT_SIZE :: nat where
  "LVH_WINDOWS_KEYBOARD_OUTPUT_REPORT_SIZE = 1"

definition xbox_series_windows_product_id :: u16 where "xbox_series_windows_product_id = 0x0B12"

definition xbox_series_windows_device_version :: u16 where
  "xbox_series_windows_device_version = 0x0509"

definition xbox_series_windows_input_report_size :: nat where
  "xbox_series_windows_input_report_size = 17"

definition xbox_series_windows_output_report_size :: nat where
  "xbox_series_windows_output_report_size = 8"

lemmas protocol_constants =
  LVH_WINDOWS_CONTROL_PROTOCOL_VERSION_def LVH_WINDOWS_MAX_REPORT_DESCRIPTOR_SIZE_def
  LVH_WINDOWS_MAX_INPUT_REPORT_SIZE_def LVH_WINDOWS_MAX_OUTPUT_REPORT_SIZE_def
  LVH_WINDOWS_MAX_DEVICE_NAME_SIZE_def LVH_WINDOWS_MAX_MANUFACTURER_SIZE_def
  LVH_WINDOWS_MAX_STABLE_ID_SIZE_def LVH_WINDOWS_SESSION_TOKEN_SIZE_def
  LVH_WINDOWS_BUS_UNKNOWN_def LVH_WINDOWS_BUS_USB_def LVH_WINDOWS_BUS_BLUETOOTH_def
  LVH_WINDOWS_DEVICE_KEYBOARD_def LVH_WINDOWS_GAMEPAD_XBOX_360_def
  LVH_WINDOWS_KEYBOARD_INPUT_REPORT_SIZE_def LVH_WINDOWS_KEYBOARD_OUTPUT_REPORT_SIZE_def
  xbox_series_windows_input_report_size_def xbox_series_windows_output_report_size_def
  lvh_constants

section \<open>Messages\<close>

type_synonym session_token = bytes

definition empty_session_token :: session_token where
  "empty_session_token = replicate LVH_WINDOWS_SESSION_TOKEN_SIZE 0"

record device_hardware_ids =
  hw_vendor_id :: u16
  hw_product_id :: u16
  hw_device_version :: u16
  hw_report_id :: u8
  hw_reserved :: bytes

record device_report_sizes =
  rs_input_report_size :: u32
  rs_output_report_size :: u32
  rs_report_descriptor_size :: u32
  rs_name_size :: u32
  rs_manufacturer_size :: u32
  rs_stable_id_size :: u32

record create_device_request =
  cr_version :: u32
  cr_size :: u32
  cr_client_device_id :: u64
  cr_device_type :: u32
  cr_bus_type :: u32
  cr_gamepad_kind :: u32
  cr_flags :: u32
  cr_hardware_ids :: device_hardware_ids
  cr_report_sizes :: device_report_sizes
  cr_report_descriptor :: bytes
  cr_name :: string
  cr_manufacturer :: string
  cr_stable_id :: string

text \<open>\<open>sizeof\<close> of the packed structure.\<close>

definition create_device_request_size :: u32 where
  "create_device_request_size = 4 + 4 + 8 + 4 * 4 + (3 * 2 + 1 + 7) + 6 * 4 + 2048 + 3 * 128"

record destroy_device_request =
  dr_version :: u32
  dr_size :: u32
  dr_driver_device_id :: u64
  dr_session_token :: session_token

definition destroy_device_request_size :: u32 where
  "destroy_device_request_size = 4 + 4 + 8 + 32"

record reset_devices_request =
  rr_version :: u32
  rr_size :: u32

record submit_input_report_request =
  ir_version :: u32
  ir_size :: u32
  ir_driver_device_id :: u64
  ir_session_token :: session_token
  ir_report_size :: u32
  ir_report :: bytes

definition submit_input_report_request_size :: u32 where
  "submit_input_report_request_size = 4 + 4 + 8 + 32 + 4 + 4 + 256"

record xbox360_input_state =
  xs_buttons :: u16
  xs_left_trigger :: u8
  xs_right_trigger :: u8
  xs_left_thumb_x :: u16
  xs_left_thumb_y :: u16
  xs_right_thumb_x :: u16
  xs_right_thumb_y :: u16

record xbox360_submit_input_request =
  xr_version :: u32
  xr_size :: u32
  xr_driver_device_id :: u64
  xr_session_token :: session_token
  xr_state :: xbox360_input_state

definition xbox360_submit_input_request_size :: u32 where
  "xbox360_submit_input_request_size = 4 + 4 + 8 + 32 + (2 + 1 + 1 + 4 * 2)"

section \<open>Client helpers\<close>

definition gamepad_flags :: "gamepad_profile_capabilities \<Rightarrow> u32" where
  "gamepad_flags caps =
     (let flags = 0;
          flags = (if cap_rumble caps then flags OR 0x01 else flags);
          flags = (if cap_motion caps then flags OR 0x02 else flags);
          flags = (if cap_touchpad caps then flags OR 0x04 else flags);
          flags = (if cap_rgb_led caps then flags OR 0x08 else flags);
          flags = (if cap_battery caps then flags OR 0x10 else flags)
      in (if cap_adaptive_triggers caps then flags OR 0x20 else flags))"

fun protocol_bus_type :: "bus_type \<Rightarrow> u32" where
  "protocol_bus_type Bus_usb = LVH_WINDOWS_BUS_USB"
| "protocol_bus_type Bus_bluetooth = LVH_WINDOWS_BUS_BLUETOOTH"
| "protocol_bus_type Bus_unknown = LVH_WINDOWS_BUS_UNKNOWN"

fun protocol_device_type :: "device_type \<Rightarrow> u32" where
  "protocol_device_type Dev_gamepad = LVH_WINDOWS_DEVICE_GAMEPAD"
| "protocol_device_type Dev_keyboard = LVH_WINDOWS_DEVICE_KEYBOARD"
| "protocol_device_type Dev_mouse = LVH_WINDOWS_DEVICE_MOUSE"
| "protocol_device_type Dev_touchscreen = 0"
| "protocol_device_type Dev_trackpad = 0"
| "protocol_device_type Dev_pen_tablet = 0"

fun protocol_gamepad_kind :: "gamepad_profile_kind \<Rightarrow> u32" where
  "protocol_gamepad_kind Kind_generic = LVH_WINDOWS_GAMEPAD_GENERIC"
| "protocol_gamepad_kind Kind_xbox_360 = LVH_WINDOWS_GAMEPAD_XBOX_360"
| "protocol_gamepad_kind Kind_xbox_one = LVH_WINDOWS_GAMEPAD_XBOX_ONE"
| "protocol_gamepad_kind Kind_xbox_series = LVH_WINDOWS_GAMEPAD_XBOX_SERIES"
| "protocol_gamepad_kind Kind_dualshock4 = LVH_WINDOWS_GAMEPAD_DUALSHOCK4"
| "protocol_gamepad_kind Kind_dualsense = LVH_WINDOWS_GAMEPAD_DUALSENSE"
| "protocol_gamepad_kind Kind_switch_pro = LVH_WINDOWS_GAMEPAD_SWITCH_PRO"

definition adopt_reports :: "device_profile \<Rightarrow> device_profile \<Rightarrow> device_profile" where
  "adopt_reports usb requested = requested\<lparr>bus_type := bus_type usb, report_id := report_id usb,
     input_report_size := input_report_size usb, output_report_size := output_report_size usb,
     report_descriptor := report_descriptor usb\<rparr>"

definition effective_vhf_gamepad_profile :: "device_profile \<Rightarrow> device_profile" where
  "effective_vhf_gamepad_profile requested =
     (if bus_type requested \<noteq> Bus_bluetooth then requested
      else case gamepad_kind requested of
          Kind_dualshock4 \<Rightarrow> adopt_reports dualshock4_usb requested
        | Kind_dualsense \<Rightarrow> adopt_reports dualsense_usb requested
        | _ \<Rightarrow> requested)"

text \<open>A string or a byte vector copied into a zeroed array of \<open>n\<close> elements, with the
  number of elements copied. A string keeps its terminator.\<close>

definition copy_string :: "nat \<Rightarrow> string \<Rightarrow> string \<times> u32" where
  "copy_string n source =
     (let copied = min (length source) (n - 1)
      in (take copied source @ replicate (n - copied) (CHR 0x00), word_of_nat copied))"

definition copy_bytes :: "nat \<Rightarrow> bytes \<Rightarrow> bytes \<times> u32" where
  "copy_bytes n source =
     (let copied = min (length source) n
      in (take copied source @ replicate (n - copied) 0, word_of_nat copied))"

section \<open>Requests\<close>

text \<open>The descriptor and the output size of a request, first part of the source's
  \<open>make_create_device_request\<close>.\<close>

definition request_descriptor :: "device_profile \<Rightarrow> (bytes \<times> nat) option" where
  "request_descriptor p =
     (if device_type p = Dev_gamepad \<and> gamepad_kind p = Kind_generic \<and> cap_rumble (capabilities p)
      then do {
        pid_descriptor \<leftarrow> make_generic_pid_report_descriptor (report_descriptor p);
        (if pid_descriptor \<noteq> [] then Some (pid_descriptor, generic_pid_output_report_size)
         else Some (report_descriptor p, output_report_size p)) }
      else Some (report_descriptor p, output_report_size p))"

definition make_create_device_request ::
    "u64 \<Rightarrow> device_profile \<Rightarrow> string \<Rightarrow> create_device_request option" where
  "make_create_device_request device_id p stable_id = do {
     (descriptor, output_size) \<leftarrow> request_descriptor p;
     let series = (device_type p = Dev_gamepad \<and> gamepad_kind p = Kind_xbox_series);
     let input_size = (if series then xbox_series_windows_input_report_size else input_report_size p);
     let output_size = (if series then xbox_series_windows_output_report_size else output_size);
     let (target, descriptor_size) =
       copy_bytes LVH_WINDOWS_MAX_REPORT_DESCRIPTOR_SIZE descriptor;
     let (name, name_size) = copy_string LVH_WINDOWS_MAX_DEVICE_NAME_SIZE (profile_name p);
     let (maker, maker_size) = copy_string LVH_WINDOWS_MAX_MANUFACTURER_SIZE (manufacturer p);
     let (sid, sid_size) = copy_string LVH_WINDOWS_MAX_STABLE_ID_SIZE stable_id;
     Some \<lparr>cr_version = LVH_WINDOWS_CONTROL_PROTOCOL_VERSION,
       cr_size = create_device_request_size,
       cr_client_device_id = device_id,
       cr_device_type = protocol_device_type (device_type p),
       cr_bus_type = protocol_bus_type (bus_type p),
       cr_gamepad_kind = protocol_gamepad_kind (gamepad_kind p),
       cr_flags = (if device_type p = Dev_gamepad then gamepad_flags (capabilities p) else 0),
       cr_hardware_ids = \<lparr>hw_vendor_id = vendor_id p,
         hw_product_id = (if series then xbox_series_windows_product_id else product_id p),
         hw_device_version = (if series then xbox_series_windows_device_version else version p),
         hw_report_id = report_id p, hw_reserved = replicate 7 0\<rparr>,
       cr_report_sizes = \<lparr>
         rs_input_report_size = word_of_nat (min input_size LVH_WINDOWS_MAX_INPUT_REPORT_SIZE),
         rs_output_report_size = word_of_nat (min output_size LVH_WINDOWS_MAX_OUTPUT_REPORT_SIZE),
         rs_report_descriptor_size = descriptor_size, rs_name_size = name_size,
         rs_manufacturer_size = maker_size, rs_stable_id_size = sid_size\<rparr>,
       cr_report_descriptor = target, cr_name = name, cr_manufacturer = maker,
       cr_stable_id = sid\<rparr> }"

definition make_destroy_device_request :: "u64 \<Rightarrow> session_token \<Rightarrow> destroy_device_request" where
  "make_destroy_device_request driver_device_id token =
     \<lparr>dr_version = LVH_WINDOWS_CONTROL_PROTOCOL_VERSION, dr_size = destroy_device_request_size,
      dr_driver_device_id = driver_device_id, dr_session_token = token\<rparr>"

definition make_reset_devices_request :: reset_devices_request where
  "make_reset_devices_request =
     \<lparr>rr_version = LVH_WINDOWS_CONTROL_PROTOCOL_VERSION, rr_size = 8\<rparr>"

definition make_submit_input_report_request ::
    "u64 \<Rightarrow> session_token \<Rightarrow> bytes \<Rightarrow> submit_input_report_request" where
  "make_submit_input_report_request driver_device_id token report =
     (let (target, copied) = copy_bytes LVH_WINDOWS_MAX_INPUT_REPORT_SIZE report
      in \<lparr>ir_version = LVH_WINDOWS_CONTROL_PROTOCOL_VERSION,
          ir_size = submit_input_report_request_size, ir_driver_device_id = driver_device_id,
          ir_session_token = token, ir_report_size = copied, ir_report = target\<rparr>)"

definition xbox_360_button_map :: "(gamepad_button \<times> u16) list" where
  "xbox_360_button_map =
     [(Btn_dpad_up, 0x0001), (Btn_dpad_down, 0x0002), (Btn_dpad_left, 0x0004),
      (Btn_dpad_right, 0x0008), (Btn_start, 0x0010), (Btn_back, 0x0020),
      (Btn_left_stick, 0x0040), (Btn_right_stick, 0x0080), (Btn_left_shoulder, 0x0100),
      (Btn_right_shoulder, 0x0200), (Btn_guide, 0x0400), (Btn_a, 0x1000), (Btn_b, 0x2000),
      (Btn_x, 0x4000), (Btn_y, 0x8000)]"

definition xbox_360_button_bits :: "button_set \<Rightarrow> u16" where
  "xbox_360_button_bits bs =
     foldl (\<lambda>result (button, flag). if buttons_test bs button then result OR flag else result)
       0 xbox_360_button_map"

definition make_xbox_360_submit_input_request ::
    "(flt \<Rightarrow> int) \<Rightarrow> u64 \<Rightarrow> session_token \<Rightarrow> gamepad_state \<Rightarrow> xbox360_submit_input_request" where
  "make_xbox_360_submit_input_request e driver_device_id token state =
     (let normalized = normalize_state state
      in \<lparr>xr_version = 1, xr_size = xbox360_submit_input_request_size,
          xr_driver_device_id = driver_device_id, xr_session_token = token,
          xr_state = \<lparr>xs_buttons = xbox_360_button_bits (buttons normalized),
            xs_left_trigger = normalize_trigger e (left_trigger normalized),
            xs_right_trigger = normalize_trigger e (right_trigger normalized),
            xs_left_thumb_x = normalize_axis e (sx (left_stick normalized)),
            xs_left_thumb_y = normalize_axis e (sy (left_stick normalized)),
            xs_right_thumb_x = normalize_axis e (sx (right_stick normalized)),
            xs_right_thumb_y = normalize_axis e (sy (right_stick normalized))\<rparr>\<rparr>)"

end
