(* ===== verification/PlayStationFeature.thy ===== *)
theory PlayStationFeature
  imports WindowsProtocol
begin

text \<open>
  The feature reports the Windows driver answers for PlayStation controllers,
  \<open>src/src/platform/windows/shared/playstation_feature_protocol.hpp\<close> with the payloads of
  \<open>src/src/shared/playstation_feature_reports.hpp\<close>: calibration, firmware, and the pairing
  report that carries the controller's Bluetooth address, which the client may choose
  through the stable identifier. Over Bluetooth every report ends in a checksum.
\<close>

section \<open>Payloads\<close>

definition dualshock4_usb_calibration_report :: u8 where "dualshock4_usb_calibration_report = 0x02"
definition dualshock4_bluetooth_calibration_report :: u8 where
  "dualshock4_bluetooth_calibration_report = 0x05"
definition dualshock4_pairing_report :: u8 where "dualshock4_pairing_report = 0x12"
definition dualshock4_firmware_report :: u8 where "dualshock4_firmware_report = 0xA3"
definition playstation_feature_crc_seed :: u8 where "playstation_feature_crc_seed = 0xA3"
definition dualsense_calibration_report :: u8 where "dualsense_calibration_report = 0x05"
definition dualsense_pairing_report :: u8 where "dualsense_pairing_report = 0x09"
definition dualsense_firmware_report :: u8 where "dualsense_firmware_report = 0x20"

lemmas feature_report_ids = dualshock4_usb_calibration_report_def
  dualshock4_bluetooth_calibration_report_def dualshock4_pairing_report_def
  dualshock4_firmware_report_def dualsense_calibration_report_def dualsense_pairing_report_def
  dualsense_firmware_report_def

definition dualshock4_usb_calibration_info :: bytes where
  "dualshock4_usb_calibration_info =
     [0x02, 0x00, 0x00, 0x00, 0x00, 0x00, 0x00, 0x10, 0x27, 0xF0, 0xD8, 0x10, 0x27, 0xF0,
      0xD8, 0x10, 0x27, 0xF0, 0xD8, 0xF4, 0x01, 0xF4, 0x01, 0x10, 0x27, 0xF0, 0xD8, 0x10,
      0x27, 0xF0, 0xD8, 0x10, 0x27, 0xF0, 0xD8, 0x00, 0x00]"

definition dualshock4_bluetooth_calibration_info :: bytes where
  "dualshock4_bluetooth_calibration_info =
     [0x05, 0x00, 0x00, 0x00, 0x00, 0x00, 0x00, 0x10, 0x27, 0xF0, 0xD8, 0x10, 0x27, 0xF0,
      0xD8, 0x10, 0x27, 0xF0, 0xD8, 0xF4, 0x01, 0xF4, 0x01, 0x10, 0x27, 0xF0, 0xD8, 0x10,
      0x27, 0xF0, 0xD8, 0x10, 0x27, 0xF0, 0xD8, 0x00, 0x00, 0x00, 0x00, 0x00, 0x00]"

definition dualshock4_firmware_info :: bytes where
  "dualshock4_firmware_info =
     [0xA3, 0x41, 0x75, 0x67, 0x20, 0x20, 0x33, 0x20, 0x32, 0x30, 0x31, 0x33, 0x00, 0x00,
      0x00, 0x00, 0x00, 0x30, 0x37, 0x3A, 0x30, 0x31, 0x3A, 0x31, 0x32, 0x00, 0x00, 0x00,
      0x00, 0x00, 0x00, 0x00, 0x00, 0x00, 0x01, 0x00, 0x31, 0x03, 0x00, 0x00, 0x00, 0x49,
      0x00, 0x05, 0x00, 0x00, 0x80, 0x03, 0x00]"

definition dualshock4_pairing_info :: bytes where
  "dualshock4_pairing_info =
     [0x12, 0x00, 0x00, 0x00, 0x00, 0x00, 0x00, 0x00, 0x00, 0x00, 0x00, 0x00, 0x00, 0x00,
      0x00, 0x00]"

definition dualsense_calibration_info :: bytes where
  "dualsense_calibration_info =
     [0x05, 0x00, 0x00, 0x00, 0x00, 0x00, 0x00, 0x10, 0x27, 0xF0, 0xD8, 0x10, 0x27, 0xF0,
      0xD8, 0x10, 0x27, 0xF0, 0xD8, 0xF4, 0x01, 0xF4, 0x01, 0x10, 0x27, 0xF0, 0xD8, 0x10,
      0x27, 0xF0, 0xD8, 0x10, 0x27, 0xF0, 0xD8, 0x0B, 0x00, 0x00, 0x00, 0x00, 0x00]"

definition dualsense_firmware_info :: bytes where
  "dualsense_firmware_info =
     [0x20, 0x4A, 0x75, 0x6C, 0x20, 0x20, 0x34, 0x20, 0x32, 0x30, 0x32, 0x35, 0x31, 0x30,
      0x3A, 0x31, 0x30, 0x3A, 0x33, 0x32, 0x03, 0x00, 0x04, 0x00, 0x10, 0x13, 0x00, 0x00,
      0x2A, 0x00, 0x10, 0x01, 0x01, 0xC8, 0x00, 0x00, 0x00, 0x00, 0x00, 0x00, 0x00, 0x00,
      0x00, 0x00, 0x30, 0x06, 0x00, 0x00, 0x3C, 0x00, 0x01, 0x00, 0x0A, 0x00, 0x02, 0x00,
      0x06, 0x00, 0x00, 0x00, 0x00, 0x00, 0x00, 0x00]"

definition dualsense_pairing_info :: bytes where
  "dualsense_pairing_info =
     [0x09, 0x74, 0xE7, 0xD6, 0x3A, 0x53, 0x35, 0x08, 0x25, 0x00, 0x1E, 0x00, 0xEE, 0x74,
      0xD0, 0xBC, 0x00, 0x00, 0x00, 0x00]"

section \<open>Checksum\<close>

text \<open>The bit loop with its mask \<open>0U - (crc & 1U)\<close>.\<close>

definition feature_crc_bit :: "u32 \<Rightarrow> u32" where
  "feature_crc_bit crc = (let m = 0 - (crc AND 1) in drop_bit 1 crc XOR (0xEDB88320 AND m))"

definition feature_crc32 :: "bytes \<Rightarrow> u32 \<Rightarrow> u32" where
  "feature_crc32 buffer seed =
     foldl (\<lambda>crc byte. (feature_crc_bit ^^ 8) (crc XOR ucast byte)) (seed XOR 0xFFFFFFFF) buffer
       XOR 0xFFFFFFFF"

definition set_bluetooth_crc :: "bytes \<Rightarrow> bytes option" where
  "set_bluetooth_crc report =
     (if length report < 4 then Some report
      else let crc_offset = length report - 4;
               seed = feature_crc32 [playstation_feature_crc_seed] 0
           in write_u32 report crc_offset (feature_crc32 (take crc_offset report) seed))"

section \<open>Addresses\<close>

text \<open>\<open>std::from_chars\<close> in base 16 on two characters succeeds and reads both exactly when
  both are hexadecimal digits.\<close>

definition hex_digit :: "char \<Rightarrow> u8 option" where
  "hex_digit c =
     (let n = of_char c :: nat in
      if 48 \<le> n \<and> n \<le> 57 then Some (word_of_nat (n - 48))
      else if 97 \<le> n \<and> n \<le> 102 then Some (word_of_nat (n - 87))
      else if 65 \<le> n \<and> n \<le> 70 then Some (word_of_nat (n - 55))
      else None)"

definition from_two_chars :: "char \<Rightarrow> char \<Rightarrow> u8 option" where
  "from_two_chars a b = do { high \<leftarrow> hex_digit a; low \<leftarrow> hex_digit b; Some (16 * high + low) }"

text \<open>The loop for the next \<open>n\<close> bytes of the address.\<close>

fun parse_mac_bytes :: "nat \<Rightarrow> string \<Rightarrow> bytes option" where
  "parse_mac_bytes 0 str = Some []"
| "parse_mac_bytes (Suc n) (a # b # str) = do {
     byte \<leftarrow> from_two_chars a b;
     str \<leftarrow> (if n = 0 then Some str
            else case str of [] \<Rightarrow> None
              | c # str \<Rightarrow> if c = CHR '':'' then Some str else None);
     rest \<leftarrow> parse_mac_bytes n str;
     Some (byte # rest) }"
| "parse_mac_bytes (Suc n) _ = None"

definition parse_mac_address :: "string \<Rightarrow> bytes option" where
  "parse_mac_address str = parse_mac_bytes 6 str"

definition generated_mac_address :: "u64 \<Rightarrow> bytes" where
  "generated_mac_address i =
     [0x02, 0x00, ucast (drop_bit 24 i AND 0xFF), ucast (drop_bit 16 i AND 0xFF),
      ucast (drop_bit 8 i AND 0xFF), ucast (i AND 0xFF)]"

definition request_mac_address :: "create_device_request \<Rightarrow> bytes" where
  "request_mac_address r =
     (let n = min (unat (rs_stable_id_size (cr_report_sizes r))) (length (cr_stable_id r))
      in case parse_mac_address (take n (cr_stable_id r)) of
           Some mac \<Rightarrow> mac
         | None \<Rightarrow> generated_mac_address (cr_client_device_id r))"

definition set_pairing_mac :: "bytes \<Rightarrow> create_device_request \<Rightarrow> bytes option" where
  "set_pairing_mac report r = splice report 1 (rev (request_mac_address r))"

section \<open>Reports\<close>

definition is_playstation_gamepad :: "u32 \<Rightarrow> bool" where
  "is_playstation_gamepad k \<longleftrightarrow>
     k = LVH_WINDOWS_GAMEPAD_DUALSHOCK4 \<or> k = LVH_WINDOWS_GAMEPAD_DUALSENSE"

text \<open>The report before the checksum; the inner \<open>None\<close> is \<open>std::nullopt\<close>.\<close>

definition playstation_feature_payload :: "create_device_request \<Rightarrow> u8 \<Rightarrow> bytes option option" where
  "playstation_feature_payload r n =
     (if cr_gamepad_kind r = LVH_WINDOWS_GAMEPAD_DUALSHOCK4 then
        if n = dualshock4_usb_calibration_report then Some (Some dualshock4_usb_calibration_info)
        else if n = dualshock4_bluetooth_calibration_report then
          if cr_bus_type r \<noteq> LVH_WINDOWS_BUS_BLUETOOTH then Some None
          else Some (Some dualshock4_bluetooth_calibration_info)
        else if n = dualshock4_pairing_report then
          map_option Some (set_pairing_mac dualshock4_pairing_info r)
        else if n = dualshock4_firmware_report then Some (Some dualshock4_firmware_info)
        else Some None
      else if cr_gamepad_kind r = LVH_WINDOWS_GAMEPAD_DUALSENSE then
        if n = dualsense_calibration_report then Some (Some dualsense_calibration_info)
        else if n = dualsense_pairing_report then
          map_option Some (set_pairing_mac dualsense_pairing_info r)
        else if n = dualsense_firmware_report then Some (Some dualsense_firmware_info)
        else Some None
      else Some None)"

definition make_playstation_feature_report :: "create_device_request \<Rightarrow> u8 \<Rightarrow> bytes option option" where
  "make_playstation_feature_report r n = do {
     payload \<leftarrow> playstation_feature_payload r n;
     (case payload of None \<Rightarrow> Some None
      | Some report \<Rightarrow>
          if cr_bus_type r = LVH_WINDOWS_BUS_BLUETOOTH
          then map_option Some (set_bluetooth_crc report) else Some (Some report)) }"

section \<open>The checksum is that of the input reports\<close>

lemma feature_crc_bit_eq: "feature_crc_bit = crc_bit"
  by (intro ext) (simp add: feature_crc_bit_def crc_bit_def)

lemma feature_crc32_eq: "feature_crc32 = crc32"
proof -
  have "(\<lambda>crc byte. (feature_crc_bit ^^ 8) (crc XOR ucast byte)) = crc_byte"
    by (intro ext) (simp add: feature_crc_bit_eq crc_byte_def)
  then show ?thesis
    by (intro ext) (simp add: feature_crc32_def crc32_def)
qed

lemma set_bluetooth_crc_eq:
  "set_bluetooth_crc report = write_playstation_crc report playstation_feature_crc_seed"
  by (simp add: set_bluetooth_crc_def write_playstation_crc_def playstation_crc_seed_def feature_crc32_eq)

section \<open>Addresses as text\<close>

text \<open>How a client writes an address: two hexadecimal digits a byte, separated by colons.\<close>

definition digit_char :: "bool \<Rightarrow> nat \<Rightarrow> char" where
  "digit_char upper n = char_of (if n < 10 then 48 + n else if upper then 55 + n else 87 + n)"

fun mac_text :: "bool \<Rightarrow> bytes \<Rightarrow> string" where
  "mac_text upper [] = []"
| "mac_text upper (b # bs) =
     digit_char upper (unat b div 16) # digit_char upper (unat b mod 16) #
       (if bs = [] then [] else CHR '':'' # mac_text upper bs)"

lemma hex_digit_char: "n < 16 \<Longrightarrow> hex_digit (digit_char upper n) = Some (word_of_nat n)"
  by (auto simp: hex_digit_def digit_char_def Let_def)

lemma from_two_digits:
  "from_two_chars (digit_char upper (unat b div 16)) (digit_char upper (unat b mod 16)) = Some b"
proof -
  have "unat b < 256"
    using unsigned_less [of b] by simp
  then have "unat b div 16 < 16"
    by simp
  moreover have "16 * word_of_nat (unat b div 16) + word_of_nat (unat b mod 16) =
      (word_of_nat (16 * (unat b div 16) + unat b mod 16) :: u8)"
    by (simp only: of_nat_add of_nat_mult of_nat_numeral)
  then have "16 * word_of_nat (unat b div 16) + word_of_nat (unat b mod 16) = b"
    unfolding mult_div_mod_eq by simp
  ultimately show ?thesis
    by (simp add: from_two_chars_def hex_digit_char)
qed

lemma parse_mac_text:
  "bs \<noteq> [] \<Longrightarrow> parse_mac_bytes (length bs) (mac_text upper bs @ rest) = Some bs"
proof (induction bs)
  case (Cons b bs)
  then show ?case
    by (cases bs) (simp_all add: from_two_digits)
qed simp

lemma length_mac_text: "bs \<noteq> [] \<Longrightarrow> length (mac_text upper bs) = 3 * length bs - 1"
proof (induction bs)
  case (Cons b bs)
  then show ?case
    by (cases bs) simp_all
qed simp

lemma length_parse_mac_bytes: "parse_mac_bytes n str = Some m \<Longrightarrow> length m = n"
  by (induction n str arbitrary: m rule: parse_mac_bytes.induct) (auto split: bind_splits if_splits list.splits)

lemma length_request_mac_address [simp]: "length (request_mac_address r) = 6"
  by (auto simp: request_mac_address_def parse_mac_address_def generated_mac_address_def Let_def
      split: option.splits dest: length_parse_mac_bytes)

lemma length_payloads:
  "length dualshock4_usb_calibration_info = 37" "length dualshock4_bluetooth_calibration_info = 41"
  "length dualshock4_firmware_info = 49" "length dualshock4_pairing_info = 16"
  "length dualsense_calibration_info = 41" "length dualsense_firmware_info = 64"
  "length dualsense_pairing_info = 20"
  by (simp_all add: dualshock4_usb_calibration_info_def dualshock4_bluetooth_calibration_info_def
      dualshock4_firmware_info_def dualshock4_pairing_info_def dualsense_calibration_info_def
      dualsense_firmware_info_def dualsense_pairing_info_def)

lemma set_pairing_mac_ok:
  "7 \<le> length report \<Longrightarrow> set_pairing_mac report r =
     Some (take 1 report @ rev (request_mac_address r) @ drop 7 report)"
  by (simp add: set_pairing_mac_def)

section \<open>What is answered\<close>

lemma payload_cases:
  "\<exists>p. playstation_feature_payload r n = Some p \<and>
    (case p of None \<Rightarrow> True | Some report \<Rightarrow> 7 \<le> length report)"
  by (auto simp: playstation_feature_payload_def set_pairing_mac_ok length_payloads)

lemma feature_report_cases:
  obtains "make_playstation_feature_report r n = Some None" "playstation_feature_payload r n = Some None"
  | payload report where "playstation_feature_payload r n = Some (Some payload)"
    "make_playstation_feature_report r n = Some (Some report)" "length report = length payload"
    "\<forall>j. j + 4 < length payload \<longrightarrow> report ! j = payload ! j"
    "cr_bus_type r = LVH_WINDOWS_BUS_BLUETOOTH \<longrightarrow>
       playstation_crc_valid report playstation_feature_crc_seed"
    "cr_bus_type r \<noteq> LVH_WINDOWS_BUS_BLUETOOTH \<longrightarrow> report = payload"
proof -
  obtain p where p: "playstation_feature_payload r n = Some p"
      "case p of None \<Rightarrow> True | Some report \<Rightarrow> 7 \<le> length report"
    using payload_cases by blast
  show thesis
  proof (cases p)
    case None
    with p that(1) show ?thesis
      by (simp add: make_playstation_feature_report_def)
  next
    case (Some payload)
    then have long: "4 \<le> length payload"
      using p(2) by simp
    show ?thesis
    proof (cases "cr_bus_type r = LVH_WINDOWS_BUS_BLUETOOTH")
      case True
      obtain report where w: "write_playstation_crc payload playstation_feature_crc_seed = Some report"
        using keeps_obtain [OF keeps_write_playstation_crc [OF refl]] by blast
      then show ?thesis
        using write_playstation_crc_frame [OF w] write_playstation_crc_valid [OF w long] p(1) True Some
        by (intro that(2) [of payload report])
          (simp_all add: make_playstation_feature_report_def set_bluetooth_crc_eq)
    next
      case False
      then show ?thesis
        using p(1) Some by (intro that(2) [of payload payload]) (simp_all add: make_playstation_feature_report_def)
    qed
  qed
qed

text \<open>The fields of a client's request that the feature reports depend on.\<close>

lemma request_identity:
  assumes "make_create_device_request i p sid = Some r"
  shows "cr_gamepad_kind r = protocol_gamepad_kind (gamepad_kind p)"
    and "cr_bus_type r = protocol_bus_type (bus_type p)" and "cr_client_device_id r = i"
    and "length sid < LVH_WINDOWS_MAX_STABLE_ID_SIZE \<Longrightarrow> request_mac_address r =
      (case parse_mac_address sid of Some mac \<Rightarrow> mac | None \<Rightarrow> generated_mac_address i)"
  using assms
  by (auto simp: make_create_device_request_def copy_string_def request_mac_address_def Let_def
      protocol_constants unat_of_nat cong: option.case_cong split: bind_splits prod.splits)

section \<open>Properties\<close>

text \<open>C9: A client that names its device by a Bluetooth address, in upper or lower
  case and with anything behind it, gets a controller with that address: the pairing report
  carries it in reverse order, and over Bluetooth the report ends in a valid checksum.\<close>

theorem pairing_report_address:
  assumes "length mac = 6" and "length behind \<le> 110"
    and "gamepad_kind p = Kind_dualshock4 \<and> n = dualshock4_pairing_report \<or>
         gamepad_kind p = Kind_dualsense \<and> n = dualsense_pairing_report"
    and "make_create_device_request i p (mac_text upper mac @ behind) = Some r"
  shows "\<exists>report. make_playstation_feature_report r n = Some (Some report) \<and>
    report ! 0 = n \<and> take 6 (drop 1 report) = rev mac \<and>
    (if bus_type p = Bus_bluetooth then playstation_crc_valid report playstation_feature_crc_seed
     else length report = (if gamepad_kind p = Kind_dualshock4 then 16 else 20))"
proof -
  have mac: "mac \<noteq> []"
    using assms(1) by auto
  have "parse_mac_address (mac_text upper mac @ behind) = Some mac"
    using parse_mac_text [OF mac, of upper behind] assms(1) by (simp add: parse_mac_address_def)
  moreover have "length (mac_text upper mac @ behind) < LVH_WINDOWS_MAX_STABLE_ID_SIZE"
    using length_mac_text [OF mac] assms(1,2) by (simp add: protocol_constants)
  ultimately have address: "request_mac_address r = mac"
    using request_identity(4) [OF assms(4)] by simp
  have kinds: "cr_gamepad_kind r = protocol_gamepad_kind (gamepad_kind p)"
      "cr_bus_type r = protocol_bus_type (bus_type p)"
    using request_identity [OF assms(4)] by simp_all
  define payload where "payload = (if gamepad_kind p = Kind_dualshock4
    then take 1 dualshock4_pairing_info @ rev mac @ drop 7 dualshock4_pairing_info
    else take 1 dualsense_pairing_info @ rev mac @ drop 7 dualsense_pairing_info)"
  have p: "playstation_feature_payload r n = Some (Some payload)"
    using assms(3)
    by (auto simp: playstation_feature_payload_def kinds payload_def set_pairing_mac_ok length_payloads
        address protocol_constants feature_report_ids)
  have l: "length payload = (if gamepad_kind p = Kind_dualshock4 then 16 else 20)"
      "payload ! 0 = n" "take 6 (drop 1 payload) = rev mac"
    using assms(1,3)
    by (auto simp: payload_def length_payloads dualshock4_pairing_info_def dualsense_pairing_info_def
        feature_report_ids)
  show ?thesis
  proof (cases rule: feature_report_cases [of r n])
    case 1
    then show ?thesis
      using p by simp
  next
    case (2 payload' report)
    then have eq: "payload' = payload"
      using p by simp
    have "report ! 0 = n"
      using 2(4) l eq by (auto split: if_splits)
    moreover have "take 6 (drop 1 report) = rev mac"
      using 2(3,4) l eq by (auto simp: list_eq_iff_nth_eq split: if_splits)
    ultimately show ?thesis
      using 2 l eq kinds by (auto simp: protocol_constants split: bus_type.splits)
  qed
qed

definition pairing_example :: device_profile where
  "pairing_example = default_profile\<lparr>gamepad_kind := Kind_dualshock4, bus_type := Bus_bluetooth\<rparr>"

theorem pairing_report_address_witness:
  "\<exists>r report. make_create_device_request 1 pairing_example ''0A:1B:00:FF:10:9C'' = Some r \<and>
     make_playstation_feature_report r 0x12 = Some (Some report) \<and>
     take 6 (drop 1 report) = [0x9C, 0x10, 0xFF, 0x00, 0x1B, 0x0A]"
proof -
  let ?mac = "[0x0A, 0x1B, 0x00, 0xFF, 0x10, 0x9C] :: bytes"
  have chars: "mac_text True ?mac = ''0A:1B:00:FF:10:9C''"
    by code_simp
  have "make_create_device_request 1 pairing_example (mac_text True ?mac) \<noteq> None"
    by (simp add: make_create_device_request_def request_descriptor_def pairing_example_def Let_def
        case_prod_unfold)
  then obtain r where r: "make_create_device_request 1 pairing_example (mac_text True ?mac) = Some r"
    by blast
  have "\<exists>report. make_playstation_feature_report r 0x12 = Some (Some report) \<and>
      report ! 0 = 0x12 \<and> take 6 (drop 1 report) = rev ?mac \<and>
      (if bus_type pairing_example = Bus_bluetooth
       then playstation_crc_valid report playstation_feature_crc_seed
       else length report = (if gamepad_kind pairing_example = Kind_dualshock4 then 16 else 20))"
    using r by (intro pairing_report_address [where behind = "[]" and upper = True])
      (simp_all add: pairing_example_def feature_report_ids)
  with r [unfolded chars] show ?thesis
    by auto
qed

end
