(* ===== verification/WindowsProfiles.thy ===== *)
theory WindowsProfiles
  imports WindowsProtocol
begin

text \<open>
  The device profiles the Windows backend creates its driver devices with: the keyboard and
  mouse descriptors of \<open>keyboard_protocol.hpp\<close> and \<open>mouse_protocol.hpp\<close>, and the profile
  functions of \<open>src/src/platform/windows/windows_backend.cpp\<close>.
\<close>

definition keyboard_report_descriptor :: bytes where
  "keyboard_report_descriptor =
     [0x05, 0x01, 0x09, 0x06, 0xA1, 0x01, 0x05, 0x07, 0x19, 0xE0, 0x29, 0xE7, 0x15, 0x00,
      0x25, 0x01, 0x75, 0x01, 0x95, 0x08, 0x81, 0x02, 0x95, 0x01, 0x75, 0x08, 0x81, 0x03,
      0x95, 0x05, 0x75, 0x01, 0x05, 0x08, 0x19, 0x01, 0x29, 0x05, 0x91, 0x02, 0x95, 0x01,
      0x75, 0x03, 0x91, 0x03, 0x05, 0x07, 0x15, 0x00, 0x26, 0x81, 0x00, 0x19, 0x00, 0x2A,
      0x81, 0x00, 0x75, 0x08, 0x95, 0x10, 0x81, 0x00, 0xC0]"

definition mouse_report_descriptor :: bytes where
  "mouse_report_descriptor =
     [0x05, 0x01, 0x09, 0x02, 0xA1, 0x01, 0x09, 0x01, 0xA1, 0x00, 0x05, 0x09, 0x19, 0x01,
      0x29, 0x05, 0x15, 0x00, 0x25, 0x01, 0x75, 0x01, 0x95, 0x05, 0x81, 0x02, 0x75, 0x03,
      0x95, 0x01, 0x81, 0x03, 0x05, 0x01, 0x09, 0x30, 0x09, 0x31, 0x16, 0x00, 0x80, 0x26,
      0xFF, 0x7F, 0x75, 0x10, 0x95, 0x02, 0x81, 0x06, 0x09, 0x38, 0x15, 0x81, 0x25, 0x7F,
      0x75, 0x08, 0x95, 0x01, 0x81, 0x06, 0x05, 0x0C, 0x0A, 0x38, 0x02, 0x15, 0x81, 0x25,
      0x7F, 0x75, 0x08, 0x95, 0x01, 0x81, 0x06, 0xC0, 0xC0]"

definition make_hid_keyboard_profile :: "device_profile \<Rightarrow> device_profile" where
  "make_hid_keyboard_profile requested =
     requested\<lparr>device_type := Dev_keyboard, gamepad_kind := Kind_generic, report_id := 0,
       report_descriptor := keyboard_report_descriptor,
       input_report_size := LVH_WINDOWS_KEYBOARD_INPUT_REPORT_SIZE,
       output_report_size := LVH_WINDOWS_KEYBOARD_OUTPUT_REPORT_SIZE,
       capabilities := default_capabilities\<rparr>"

definition make_hid_mouse_profile :: "device_profile \<Rightarrow> device_profile" where
  "make_hid_mouse_profile requested =
     requested\<lparr>device_type := Dev_mouse, gamepad_kind := Kind_generic, report_id := 0,
       report_descriptor := mouse_report_descriptor,
       input_report_size := LVH_WINDOWS_MOUSE_INPUT_REPORT_SIZE,
       output_report_size := 0, capabilities := default_capabilities\<rparr>"

definition validate_windows_gamepad_profile :: "device_profile \<Rightarrow> operation_status" where
  "validate_windows_gamepad_profile p =
     (if LVH_WINDOWS_MAX_REPORT_DESCRIPTOR_SIZE < length (report_descriptor p)
      then failure Err_invalid_argument
        ''Windows gamepad HID descriptor exceeds control protocol limit''
      else if LVH_WINDOWS_MAX_INPUT_REPORT_SIZE < input_report_size p
      then failure Err_invalid_argument
        ''Windows gamepad input report exceeds control protocol limit''
      else if LVH_WINDOWS_MAX_OUTPUT_REPORT_SIZE < output_report_size p
      then failure Err_invalid_argument
        ''Windows gamepad output report exceeds control protocol limit''
      else success)"

section \<open>What the driver descriptors declare\<close>

lemma keyboard_descriptor_reports:
  "report_length Input_report 0 keyboard_report_descriptor =
     Some LVH_WINDOWS_KEYBOARD_INPUT_REPORT_SIZE"
  "report_length Output_report 0 keyboard_report_descriptor =
     Some LVH_WINDOWS_KEYBOARD_OUTPUT_REPORT_SIZE"
  by (simp_all add: keyboard_report_descriptor_def report_length_def hid_eval protocol_constants
      cong: hid_run_cong)

lemma mouse_descriptor_reports:
  "report_length Input_report 0 mouse_report_descriptor = Some LVH_WINDOWS_MOUSE_INPUT_REPORT_SIZE"
  "report_length Output_report 0 mouse_report_descriptor = None"
  by (simp_all add: mouse_report_descriptor_def report_length_def hid_eval protocol_constants
      cong: hid_run_cong)

end
