(* ===== verification/BrokerValidation.thy ===== *)
theory BrokerValidation
  imports WindowsProfiles
begin

text \<open>
  The broker's checks of untrusted messages,
  \<open>src/src/platform/windows/broker/broker_request_validation.hpp\<close> with the messages of
  \<open>lvh_windows_broker_protocol.h\<close>, and their agreement with the requests the client builds:
  the broker accepts a device request of the client exactly when the device is well formed
  and its texts hold no NUL.
\<close>

section \<open>Messages\<close>

definition LVH_WINDOWS_BROKER_PROTOCOL_VERSION :: u32 where
  "LVH_WINDOWS_BROKER_PROTOCOL_VERSION = 5"

definition LVH_WINDOWS_BROKER_MAX_LICENSE_KEY_SIZE :: nat where
  "LVH_WINDOWS_BROKER_MAX_LICENSE_KEY_SIZE = 128"

definition LVH_WINDOWS_BROKER_MAX_INSTANCE_NAME_SIZE :: nat where
  "LVH_WINDOWS_BROKER_MAX_INSTANCE_NAME_SIZE = 128"

datatype broker_request_type =
    Broker_status | Broker_create_device | Broker_destroy_device | Broker_activate_license
  | Broker_validate_license | Broker_deactivate_license

fun broker_request_code :: "broker_request_type \<Rightarrow> u32" where
  "broker_request_code Broker_status = 1"
| "broker_request_code Broker_create_device = 2"
| "broker_request_code Broker_destroy_device = 3"
| "broker_request_code Broker_activate_license = 4"
| "broker_request_code Broker_validate_license = 5"
| "broker_request_code Broker_deactivate_license = 6"

record broker_request_header =
  bh_version :: u32
  bh_size :: u32
  bh_type :: u32
  bh_reserved :: u32

record broker_create_device_request =
  bc_header :: broker_request_header
  bc_client_control_handle :: u64
  bc_device :: create_device_request

record broker_destroy_device_request =
  bd_header :: broker_request_header
  bd_device :: destroy_device_request

record broker_license_request =
  bl_header :: broker_request_header
  bl_license_key :: string
  bl_instance_name :: string

text \<open>\<open>sizeof\<close> of the messages; the one with a 64-bit handle is padded to a multiple of 8.\<close>

definition broker_status_request_size :: u32 where "broker_status_request_size = 16"

definition broker_create_device_request_size :: u32 where
  "broker_create_device_request_size = 16 + 8 + create_device_request_size + 2"

definition broker_destroy_device_request_size :: u32 where
  "broker_destroy_device_request_size = 16 + destroy_device_request_size"

definition broker_license_request_size :: u32 where "broker_license_request_size = 16 + 128 + 128"

section \<open>Arrays\<close>

abbreviation NUL :: char where "NUL \<equiv> CHR 0x00"

definition all_zero :: "'a::zero list \<Rightarrow> bool" where
  "all_zero values \<longleftrightarrow> list_all (\<lambda>v. v = 0) values"

lemma all_zero_replicate [simp]: "all_zero (replicate n (0 :: 'a::zero))"
  by (simp add: all_zero_def list_all_iff)

definition all_nul :: "string \<Rightarrow> bool" where
  "all_nul values \<longleftrightarrow> list_all (\<lambda>c. c = NUL) values"

definition valid_c_string :: "string \<Rightarrow> bool \<Rightarrow> bool" where
  "valid_c_string value allow_empty =
     (case dropWhile (\<lambda>c. c \<noteq> NUL) value of
        [] \<Rightarrow> False
      | terminator # rest \<Rightarrow>
          (allow_empty \<or> takeWhile (\<lambda>c. c \<noteq> NUL) value \<noteq> []) \<and> all_nul rest)"

definition valid_sized_c_string :: "string \<Rightarrow> u32 \<Rightarrow> bool" where
  "valid_sized_c_string value n =
     (if length value \<le> unat n \<or> value ! unat n \<noteq> NUL then False
      else list_all (\<lambda>c. c \<noteq> NUL) (take (unat n) value) \<and> all_nul (drop (unat n) value))"

section \<open>Requests\<close>

definition known_gamepad_flags :: u32 where
  "known_gamepad_flags = 0x01 OR 0x02 OR 0x04 OR 0x08 OR 0x10 OR 0x20"

definition valid_header :: "broker_request_header \<Rightarrow> broker_request_type \<Rightarrow> u32 \<Rightarrow> bool" where
  "valid_header header expected_type expected_size \<longleftrightarrow>
     bh_version header = LVH_WINDOWS_BROKER_PROTOCOL_VERSION \<and> bh_size header = expected_size \<and>
     bh_type header = broker_request_code expected_type \<and> bh_reserved header = 0"

definition valid_device_request :: "create_device_request \<Rightarrow> bool" where
  "valid_device_request request =
     (let sizes = cr_report_sizes request;
          device = cr_device_type request;
          descriptor = cr_report_descriptor request;
          known_device = (device = LVH_WINDOWS_DEVICE_GAMEPAD
            \<or> device = LVH_WINDOWS_DEVICE_KEYBOARD \<or> device = LVH_WINDOWS_DEVICE_MOUSE);
          known_bus = (cr_bus_type request = LVH_WINDOWS_BUS_UNKNOWN
            \<or> cr_bus_type request = LVH_WINDOWS_BUS_USB
            \<or> cr_bus_type request = LVH_WINDOWS_BUS_BLUETOOTH);
          known_profile = (cr_gamepad_kind request \<le> LVH_WINDOWS_GAMEPAD_DUALSHOCK4);
          valid_driver_descriptor = (device = LVH_WINDOWS_DEVICE_GAMEPAD
            \<or> device = LVH_WINDOWS_DEVICE_KEYBOARD
              \<and> unat (rs_report_descriptor_size sizes) = length keyboard_report_descriptor
              \<and> take (length keyboard_report_descriptor) descriptor = keyboard_report_descriptor
            \<or> device = LVH_WINDOWS_DEVICE_MOUSE
              \<and> unat (rs_report_descriptor_size sizes) = length mouse_report_descriptor
              \<and> take (length mouse_report_descriptor) descriptor = mouse_report_descriptor);
          valid_device_fields = (device = LVH_WINDOWS_DEVICE_GAMEPAD
            \<or> cr_gamepad_kind request = LVH_WINDOWS_GAMEPAD_GENERIC
              \<and> cr_flags request = 0
              \<and> hw_report_id (cr_hardware_ids request) = 0
              \<and> (device = LVH_WINDOWS_DEVICE_KEYBOARD
                  \<and> unat (rs_input_report_size sizes) = LVH_WINDOWS_KEYBOARD_INPUT_REPORT_SIZE
                  \<and> unat (rs_output_report_size sizes) = LVH_WINDOWS_KEYBOARD_OUTPUT_REPORT_SIZE
                \<or> device = LVH_WINDOWS_DEVICE_MOUSE
                  \<and> unat (rs_input_report_size sizes) = LVH_WINDOWS_MOUSE_INPUT_REPORT_SIZE
                  \<and> rs_output_report_size sizes = 0))
      in cr_version request = LVH_WINDOWS_CONTROL_PROTOCOL_VERSION
         \<and> cr_size request = create_device_request_size
         \<and> cr_client_device_id request \<noteq> 0
         \<and> known_device \<and> known_bus \<and> known_profile
         \<and> valid_device_fields \<and> valid_driver_descriptor
         \<and> cr_flags request AND NOT known_gamepad_flags = 0
         \<and> all_zero (hw_reserved (cr_hardware_ids request))
         \<and> 0 < rs_input_report_size sizes
         \<and> unat (rs_input_report_size sizes) \<le> LVH_WINDOWS_MAX_INPUT_REPORT_SIZE
         \<and> unat (rs_output_report_size sizes) \<le> LVH_WINDOWS_MAX_OUTPUT_REPORT_SIZE
         \<and> 0 < rs_report_descriptor_size sizes
         \<and> unat (rs_report_descriptor_size sizes) \<le> LVH_WINDOWS_MAX_REPORT_DESCRIPTOR_SIZE
         \<and> valid_sized_c_string (cr_name request) (rs_name_size sizes)
         \<and> valid_sized_c_string (cr_manufacturer request) (rs_manufacturer_size sizes)
         \<and> valid_sized_c_string (cr_stable_id request) (rs_stable_id_size sizes)
         \<and> all_zero (drop (unat (rs_report_descriptor_size sizes)) descriptor))"

definition valid_destroy_request :: "destroy_device_request \<Rightarrow> bool" where
  "valid_destroy_request request \<longleftrightarrow>
     dr_version request = LVH_WINDOWS_CONTROL_PROTOCOL_VERSION
     \<and> dr_size request = destroy_device_request_size
     \<and> dr_driver_device_id request \<noteq> 0
     \<and> \<not> all_zero (dr_session_token request)"

definition valid_status_request :: "broker_request_header \<Rightarrow> bool" where
  "valid_status_request header = valid_header header Broker_status broker_status_request_size"

definition valid_create_device_request :: "broker_create_device_request \<Rightarrow> bool" where
  "valid_create_device_request request \<longleftrightarrow>
     valid_header (bc_header request) Broker_create_device broker_create_device_request_size
     \<and> bc_client_control_handle request \<noteq> 0 \<and> valid_device_request (bc_device request)"

definition valid_destroy_device_request :: "broker_destroy_device_request \<Rightarrow> bool" where
  "valid_destroy_device_request request \<longleftrightarrow>
     valid_header (bd_header request) Broker_destroy_device broker_destroy_device_request_size
     \<and> valid_destroy_request (bd_device request)"

definition valid_license_request ::
    "broker_license_request \<Rightarrow> broker_request_type \<Rightarrow> bool" where
  "valid_license_request request expected_type =
     (if \<not> valid_header (bl_header request) expected_type broker_license_request_size then False
      else case expected_type of
          Broker_activate_license \<Rightarrow>
            valid_c_string (bl_license_key request) False \<and>
            valid_c_string (bl_instance_name request) True
        | Broker_validate_license \<Rightarrow>
            all_nul (bl_license_key request) \<and> all_nul (bl_instance_name request)
        | Broker_deactivate_license \<Rightarrow>
            all_nul (bl_license_key request) \<and> all_nul (bl_instance_name request)
        | _ \<Rightarrow> False)"

section \<open>Copies\<close>

lemma unat_word_of_nat32: "k < 2 ^ 32 \<Longrightarrow> unat (word_of_nat k :: u32) = k"
  by (simp add: unat_of_nat)

lemma copied_string_valid:
  assumes "copy_string n s = (t, k)" "0 < n" "n < 2 ^ 32"
  shows "valid_sized_c_string t k \<longleftrightarrow> NUL \<notin> set (take (n - 1) s)"
proof -
  let ?c = "min (length s) (n - 1)"
  have k: "unat k = ?c"
    using assms by (auto simp: copy_string_def Let_def unat_word_of_nat32)
  have t: "t = take ?c s @ replicate (n - ?c) NUL"
    using assms(1) by (auto simp: copy_string_def Let_def)
  have "take ?c s = take (n - 1) s"
    by (simp add: min_def)
  with k t assms(2) show ?thesis
    by (auto simp: valid_sized_c_string_def all_nul_def list_all_iff nth_append min_def
        dest: in_set_takeD)
qed

lemma copied_bytes:
  assumes "copy_bytes n s = (t, k)" "n < 2 ^ 32"
  shows "unat k = min (length s) n" "take (unat k) t = take n s" "all_zero (drop (unat k) t)"
    "length t = n"
proof -
  show k: "unat k = min (length s) n"
    using assms by (auto simp: copy_bytes_def Let_def unat_word_of_nat32)
  show "take (unat k) t = take n s" "all_zero (drop (unat k) t)" "length t = n"
    using assms(1) unfolding k
    by (auto simp: copy_bytes_def Let_def all_zero_def list_all_iff min_def)
qed

section \<open>The client's requests\<close>

lemma request_descriptor_cases:
  obtains d n where "request_descriptor p = Some (d, n)" "d = [] \<longleftrightarrow> report_descriptor p = []"
proof (cases rule: pid_descriptor_cases [of "report_descriptor p"])
  case refused
  then have "request_descriptor p = Some (report_descriptor p, output_report_size p)"
    by (simp add: request_descriptor_def)
  then show ?thesis
    using that by blast
next
  case (rewritten kept)
  then have "report_descriptor p \<noteq> []"
    by auto
  with rewritten show ?thesis
    using that
    by (cases "device_type p = Dev_gamepad \<and> gamepad_kind p = Kind_generic \<and>
          cap_rumble (capabilities p)")
       (auto simp: request_descriptor_def)
qed

lemma gamepad_flags_known: "gamepad_flags c AND NOT known_gamepad_flags = 0"
  by (simp add: gamepad_flags_def known_gamepad_flags_def Let_def)

lemma gamepad_flags_none [simp]: "gamepad_flags default_capabilities = 0"
  by (simp add: gamepad_flags_def default_capabilities_def Let_def)

lemma protocol_values [simp]:
  "protocol_bus_type b = LVH_WINDOWS_BUS_UNKNOWN \<or> protocol_bus_type b = LVH_WINDOWS_BUS_USB
     \<or> protocol_bus_type b = LVH_WINDOWS_BUS_BLUETOOTH"
  "protocol_gamepad_kind k \<le> LVH_WINDOWS_GAMEPAD_DUALSHOCK4"
  by (cases b; simp) (cases k; simp add: protocol_constants)

text \<open>The texts of a request, as far as they fit.\<close>

definition texts_without_nul :: "device_profile \<Rightarrow> string \<Rightarrow> bool" where
  "texts_without_nul p stable_id \<longleftrightarrow>
     list_all (\<lambda>t. NUL \<notin> set (take 127 t)) [profile_name p, manufacturer p, stable_id]"

text \<open>A request, field by field, behind its descriptor.\<close>

lemma create_request_cases:
  obtains d n r where "request_descriptor p = Some (d, n)"
    "make_create_device_request i p sid = Some r"
    "cr_version r = LVH_WINDOWS_CONTROL_PROTOCOL_VERSION" "cr_size r = create_device_request_size"
    "cr_client_device_id r = i" "cr_device_type r = protocol_device_type (device_type p)"
    "cr_bus_type r = protocol_bus_type (bus_type p)"
    "cr_gamepad_kind r = protocol_gamepad_kind (gamepad_kind p)"
    "cr_flags r = (if device_type p = Dev_gamepad then gamepad_flags (capabilities p) else 0)"
    "hw_report_id (cr_hardware_ids r) = report_id p"
    "hw_reserved (cr_hardware_ids r) = replicate 7 0"
    "unat (rs_input_report_size (cr_report_sizes r)) = min 256
       (if device_type p = Dev_gamepad \<and> gamepad_kind p = Kind_xbox_series then 17
        else input_report_size p)"
    "unat (rs_output_report_size (cr_report_sizes r)) = min 256
       (if device_type p = Dev_gamepad \<and> gamepad_kind p = Kind_xbox_series then 8 else n)"
    "copy_bytes 2048 d = (cr_report_descriptor r, rs_report_descriptor_size (cr_report_sizes r))"
    "valid_sized_c_string (cr_name r) (rs_name_size (cr_report_sizes r))
       \<and> valid_sized_c_string (cr_manufacturer r) (rs_manufacturer_size (cr_report_sizes r))
       \<and> valid_sized_c_string (cr_stable_id r) (rs_stable_id_size (cr_report_sizes r))
     \<longleftrightarrow> texts_without_nul p sid"
proof -
  obtain d n where d: "request_descriptor p = Some (d, n)"
    by (rule request_descriptor_cases)
  obtain target copied where t: "copy_bytes 2048 d = (target, copied)"
    by fastforce
  obtain name k1 where n: "copy_string 128 (profile_name p) = (name, k1)"
    by fastforce
  obtain maker k2 where m: "copy_string 128 (manufacturer p) = (maker, k2)"
    by fastforce
  obtain stable k3 where s: "copy_string 128 sid = (stable, k3)"
    by fastforce
  let ?series = "device_type p = Dev_gamepad \<and> gamepad_kind p = Kind_xbox_series"
  let ?r = "\<lparr>cr_version = LVH_WINDOWS_CONTROL_PROTOCOL_VERSION, cr_size = create_device_request_size,
     cr_client_device_id = i, cr_device_type = protocol_device_type (device_type p),
     cr_bus_type = protocol_bus_type (bus_type p),
     cr_gamepad_kind = protocol_gamepad_kind (gamepad_kind p),
     cr_flags = (if device_type p = Dev_gamepad then gamepad_flags (capabilities p) else 0),
     cr_hardware_ids = \<lparr>hw_vendor_id = vendor_id p,
       hw_product_id = (if ?series then xbox_series_windows_product_id else product_id p),
       hw_device_version = (if ?series then xbox_series_windows_device_version else version p),
       hw_report_id = report_id p, hw_reserved = replicate 7 0\<rparr>,
     cr_report_sizes = \<lparr>
       rs_input_report_size = word_of_nat (min (if ?series then 17 else input_report_size p) 256),
       rs_output_report_size = word_of_nat (min (if ?series then 8 else n) 256),
       rs_report_descriptor_size = copied, rs_name_size = k1, rs_manufacturer_size = k2,
       rs_stable_id_size = k3\<rparr>,
     cr_report_descriptor = target, cr_name = name, cr_manufacturer = maker, cr_stable_id = stable\<rparr>"
  have r: "make_create_device_request i p sid = Some ?r"
    unfolding make_create_device_request_def Let_def
    by (simp only: d protocol_constants t n m s bind.bind_lunit prod.case)
  have small: "unat (word_of_nat (min k 256) :: u32) = min 256 k" for k
    by (subst unat_word_of_nat32) auto
  have texts: "valid_sized_c_string name k1 \<and> valid_sized_c_string maker k2 \<and>
      valid_sized_c_string stable k3 \<longleftrightarrow> texts_without_nul p sid"
    using copied_string_valid [OF n] copied_string_valid [OF m] copied_string_valid [OF s]
    by (simp add: texts_without_nul_def)
  show thesis
    by (rule that [OF d r]) (simp_all only: create_device_request.simps device_hardware_ids.simps
      device_report_sizes.simps small t texts)
qed

text \<open>What the checks come to, for the three device kinds the driver hosts.\<close>

definition acceptable :: "u64 \<Rightarrow> device_profile \<Rightarrow> string \<Rightarrow> bool" where
  "acceptable device_id p stable_id \<longleftrightarrow>
     device_id \<noteq> 0 \<and> texts_without_nul p stable_id \<and>
     (case device_type p of
        Dev_gamepad \<Rightarrow> report_descriptor p \<noteq> [] \<and>
          (gamepad_kind p = Kind_xbox_series \<or> 0 < input_report_size p)
      | Dev_keyboard \<Rightarrow> gamepad_kind p = Kind_generic \<and> report_id p = 0 \<and>
          report_descriptor p = keyboard_report_descriptor \<and>
          input_report_size p = LVH_WINDOWS_KEYBOARD_INPUT_REPORT_SIZE \<and>
          output_report_size p = LVH_WINDOWS_KEYBOARD_OUTPUT_REPORT_SIZE
      | Dev_mouse \<Rightarrow> gamepad_kind p = Kind_generic \<and> report_id p = 0 \<and>
          report_descriptor p = mouse_report_descriptor \<and>
          input_report_size p = LVH_WINDOWS_MOUSE_INPUT_REPORT_SIZE \<and> output_report_size p = 0
      | _ \<Rightarrow> False)"

lemma protocol_device_simps [simp]:
  "protocol_device_type t = LVH_WINDOWS_DEVICE_GAMEPAD \<longleftrightarrow> t = Dev_gamepad"
  "protocol_device_type t = LVH_WINDOWS_DEVICE_KEYBOARD \<longleftrightarrow> t = Dev_keyboard"
  "protocol_device_type t = LVH_WINDOWS_DEVICE_MOUSE \<longleftrightarrow> t = Dev_mouse"
  by (cases t; simp add: protocol_constants)+

lemma device_codes_distinct [simp]:
  "LVH_WINDOWS_DEVICE_GAMEPAD \<noteq> 0" "LVH_WINDOWS_DEVICE_KEYBOARD \<noteq> 0"
  "LVH_WINDOWS_DEVICE_MOUSE \<noteq> 0" "LVH_WINDOWS_DEVICE_KEYBOARD \<noteq> LVH_WINDOWS_DEVICE_GAMEPAD"
  "LVH_WINDOWS_DEVICE_MOUSE \<noteq> LVH_WINDOWS_DEVICE_GAMEPAD"
  "LVH_WINDOWS_DEVICE_MOUSE \<noteq> LVH_WINDOWS_DEVICE_KEYBOARD"
  "LVH_WINDOWS_DEVICE_KEYBOARD \<noteq> LVH_WINDOWS_DEVICE_MOUSE"
  "0 < LVH_WINDOWS_KEYBOARD_INPUT_REPORT_SIZE" "0 < LVH_WINDOWS_MOUSE_INPUT_REPORT_SIZE"
  by (simp_all add: protocol_constants)

lemma protocol_generic [simp]:
  "protocol_gamepad_kind k = LVH_WINDOWS_GAMEPAD_GENERIC \<longleftrightarrow> k = Kind_generic"
  by (cases k; simp add: protocol_constants)

lemma driver_descriptor_lengths [simp]:
  "length keyboard_report_descriptor = 65" "length mouse_report_descriptor = 79"
  by (simp_all add: keyboard_report_descriptor_def mouse_report_descriptor_def)

lemma driver_descriptors_nonempty [simp]:
  "keyboard_report_descriptor \<noteq> []" "mouse_report_descriptor \<noteq> []"
  "[] \<noteq> keyboard_report_descriptor" "[] \<noteq> mouse_report_descriptor"
  by (simp_all add: keyboard_report_descriptor_def mouse_report_descriptor_def)

text \<open>A copied descriptor equals a short literal one exactly when the source does.\<close>

lemma copied_descriptor_is:
  assumes "copy_bytes 2048 d = (t, k)" "length x < 2048"
  shows "unat k = length x \<and> take (length x) t = x \<longleftrightarrow> d = x"
proof -
  have k: "unat k = min (length d) 2048" "take (unat k) t = take 2048 d"
    using copied_bytes [OF assms(1)] by simp_all
  show ?thesis
  proof
    assume x: "unat k = length x \<and> take (length x) t = x"
    then have "length d \<le> 2048"
      using k(1) assms(2) by linarith
    then show "d = x"
      using x k(2) by simp
  next
    assume "d = x"
    then show "unat k = length x \<and> take (length x) t = x"
      using k assms(2) by simp
  qed
qed

lemma client_request_accepted:
  "case make_create_device_request i p sid of None \<Rightarrow> False
   | Some r \<Rightarrow> valid_device_request r = acceptable i p sid"
proof (cases rule: create_request_cases [of p i sid])
  case (1 d n r)
  let ?k = "rs_report_descriptor_size (cr_report_sizes r)" and ?t = "cr_report_descriptor r"
  have copied: "unat ?k = min (length d) 2048" "all_zero (drop (unat ?k) ?t)"
    using copied_bytes [OF 1(14)] by simp_all
  have "d = [] \<longleftrightarrow> report_descriptor p = []"
    using request_descriptor_cases [of p] 1(1) by (metis option.inject prod.inject)
  then have empty: "0 < ?k \<longleftrightarrow> report_descriptor p \<noteq> []"
    using copied(1) by (simp add: word_less_nat_alt)
  have plain: "d = report_descriptor p" "n = output_report_size p" if "device_type p \<noteq> Dev_gamepad"
    using 1(1) that by (simp_all add: request_descriptor_def)
  have sizes: "0 < rs_input_report_size (cr_report_sizes r) \<longleftrightarrow>
      (device_type p = Dev_gamepad \<and> gamepad_kind p = Kind_xbox_series) \<or> 0 < input_report_size p"
    using 1(12) by (auto simp: word_less_nat_alt)
  have sized: "unat (rs_input_report_size (cr_report_sizes r)) \<le> 256"
      "unat (rs_output_report_size (cr_report_sizes r)) \<le> 256" "unat ?k \<le> 2048"
    using 1(12,13) copied(1) by simp_all
  note fields = 1(3-11) sized copied(2) empty sizes gamepad_flags_known all_zero_replicate
  have "valid_device_request r = acceptable i p sid"
  proof (cases "device_type p")
    case Dev_gamepad
    then show ?thesis
      using 1(15) unfolding valid_device_request_def acceptable_def Let_def
      by (simp add: fields LVH_WINDOWS_MAX_INPUT_REPORT_SIZE_def
          LVH_WINDOWS_MAX_OUTPUT_REPORT_SIZE_def LVH_WINDOWS_MAX_REPORT_DESCRIPTOR_SIZE_def) auto
  next
    case Dev_keyboard
    then have eqs: "unat (rs_input_report_size (cr_report_sizes r)) =
          LVH_WINDOWS_KEYBOARD_INPUT_REPORT_SIZE \<longleftrightarrow>
          input_report_size p = LVH_WINDOWS_KEYBOARD_INPUT_REPORT_SIZE"
        "unat (rs_output_report_size (cr_report_sizes r)) =
          LVH_WINDOWS_KEYBOARD_OUTPUT_REPORT_SIZE \<longleftrightarrow>
          output_report_size p = LVH_WINDOWS_KEYBOARD_OUTPUT_REPORT_SIZE"
      using 1(12,13) plain by (auto simp: protocol_constants)
    have held: "unat ?k = length keyboard_report_descriptor \<and>
        take (length keyboard_report_descriptor) ?t = keyboard_report_descriptor \<longleftrightarrow>
        report_descriptor p = keyboard_report_descriptor"
      using copied_descriptor_is [OF 1(14), of keyboard_report_descriptor] plain Dev_keyboard by simp
    from Dev_keyboard show ?thesis
      using 1(15) held unfolding valid_device_request_def acceptable_def Let_def
      by (simp add: fields eqs LVH_WINDOWS_MAX_INPUT_REPORT_SIZE_def
          LVH_WINDOWS_MAX_OUTPUT_REPORT_SIZE_def LVH_WINDOWS_MAX_REPORT_DESCRIPTOR_SIZE_def) auto
  next
    case Dev_mouse
    then have eqs: "unat (rs_input_report_size (cr_report_sizes r)) =
          LVH_WINDOWS_MOUSE_INPUT_REPORT_SIZE \<longleftrightarrow>
          input_report_size p = LVH_WINDOWS_MOUSE_INPUT_REPORT_SIZE"
        "rs_output_report_size (cr_report_sizes r) = 0 \<longleftrightarrow> output_report_size p = 0"
      using 1(12,13) plain by (auto simp: protocol_constants word_unat_eq_iff)
    have held: "unat ?k = length mouse_report_descriptor \<and>
        take (length mouse_report_descriptor) ?t = mouse_report_descriptor \<longleftrightarrow>
        report_descriptor p = mouse_report_descriptor"
      using copied_descriptor_is [OF 1(14), of mouse_report_descriptor] plain Dev_mouse by simp
    from Dev_mouse show ?thesis
      using 1(15) held unfolding valid_device_request_def acceptable_def Let_def
      by (simp add: fields eqs LVH_WINDOWS_MAX_INPUT_REPORT_SIZE_def
          LVH_WINDOWS_MAX_OUTPUT_REPORT_SIZE_def LVH_WINDOWS_MAX_REPORT_DESCRIPTOR_SIZE_def) auto
  qed (simp_all add: valid_device_request_def acceptable_def Let_def fields)
  with 1(2) show ?thesis
    by simp
qed

lemma create_request_copied:
  "case make_create_device_request i p sid of None \<Rightarrow> False
   | Some r \<Rightarrow> unat (rs_report_descriptor_size (cr_report_sizes r)) =
       (case request_descriptor p of None \<Rightarrow> 0 | Some (d, n) \<Rightarrow> min (length d) 2048)"
proof (cases rule: create_request_cases [of p i sid])
  case (1 d n r)
  then show ?thesis
    using copied_bytes(1) [OF 1(14)] by simp
qed

section \<open>Properties\<close>

text \<open>C15: The broker accepts the request a client builds for a device exactly when
  the device is acceptable: a nonzero id, no NUL in the texts it carries, a gamepad with a
  descriptor and an input report, or the driver's own keyboard or mouse. Touch devices, which
  the driver does not host, are refused.\<close>

lemma client_request_valid:
  "case make_create_device_request i p sid of None \<Rightarrow> False
   | Some r \<Rightarrow> valid_device_request r = acceptable i p sid"
  by (rule client_request_accepted)

text \<open>A profile of an acceptable size, whose rewritten descriptor is too long.\<close>

definition oversized_pid_profile :: device_profile where
  "oversized_pid_profile = default_profile\<lparr>report_descriptor :=
     [0x05, 0x01, 0x09, 0x05, 0xA1, 0x01] @ replicate 1500 0x64 @ legacy_rumble_prefix @ [0xC0],
     input_report_size := 9, capabilities := default_capabilities\<lparr>cap_rumble := True\<rparr>\<rparr>"

lemma before_pattern_append:
  "list_all (\<lambda>x. x \<noteq> hd pattern) xs \<Longrightarrow> pattern \<noteq> [] \<Longrightarrow>
   before_pattern pattern (xs @ pattern @ ys) = Some xs"
proof (induction xs)
  case Nil
  then show ?case
    by (cases pattern) auto
next
  case (Cons x xs)
  then show ?case
    by (cases pattern) auto
qed

text \<open>The size check of the Windows backend looks at the descriptor before the
  PID block is put in: a profile that passes it can get a descriptor longer than the protocol
  carries, which is cut off without an error and accepted by the broker.\<close>

lemma pid_descriptor_truncated:
  "status_ok (validate_windows_gamepad_profile oversized_pid_profile) \<and>
   (case (request_descriptor oversized_pid_profile,
          make_create_device_request 1 oversized_pid_profile []) of
      (Some (d, n), Some r) \<Rightarrow> valid_device_request r \<and>
        2048 < length d \<and> unat (rs_report_descriptor_size (cr_report_sizes r)) = 2048
    | _ \<Rightarrow> False)"
proof -
  let ?pad = "replicate 1500 (0x64 :: u8)"
  let ?source = "[0x05, 0x01, 0x09, 0x05, 0xA1, 0x01] @ ?pad @ legacy_rumble_prefix @ [0xC0]"
  let ?kept = "[0x05, 0x01, 0x09, 0x05, 0xA1, 0x01] @ ?pad"
  define d where "d = append_hex (?kept[3 := 0x04]) pid_block_hex @ [0xC0]"
  have "before_pattern legacy_rumble_prefix (?pad @ legacy_rumble_prefix @ [0xC0]) = Some ?pad"
    by (rule before_pattern_append) (simp_all add: legacy_rumble_prefix_def list_all_iff)
  then have "before_pattern legacy_rumble_prefix ?source = Some ?kept"
    by (simp add: legacy_rumble_prefix_def)
  then have "make_generic_pid_report_descriptor ?source = Some d"
    by (simp add: make_generic_pid_report_descriptor_def gamepad_collection_prefix_def d_def)
  then have "request_descriptor oversized_pid_profile = Some (d, generic_pid_output_report_size)"
    by (simp add: request_descriptor_def oversized_pid_profile_def default_profile_def d_def)
  moreover have "length d = 2536"
    by (simp add: d_def append_hex_bytes pid_block_bytes)
  moreover have "status_ok (validate_windows_gamepad_profile oversized_pid_profile)"
    by (simp add: validate_windows_gamepad_profile_def oversized_pid_profile_def default_profile_def
        legacy_rumble_prefix_def protocol_constants)
  moreover have "acceptable 1 oversized_pid_profile []"
    by (simp add: acceptable_def oversized_pid_profile_def default_profile_def texts_without_nul_def)
  ultimately show ?thesis
    using client_request_accepted [where i = 1 and p = oversized_pid_profile and sid = "[]"]
      create_request_copied [where i = 1 and p = oversized_pid_profile and sid = "[]"]
    by (auto split: option.splits)
qed

end
