(* ===== verification/ProfileFacts.thy ===== *)
theory ProfileFacts
  imports PlayStationFeature Runtime WindowsProfiles BrokerValidation
begin

text \<open>
  What the built-in profiles of \<open>Profiles\<close> promise a host: the reports their descriptors
  declare are the reports the library packs, accepts and answers.
\<close>

section \<open>Declared reports\<close>

text \<open>Each profile with the identifier of the output report its host sends.\<close>

definition declared_profiles :: "(device_profile \<times> nat) list" where
  "declared_profiles =
     [(generic_gamepad, 1), (xbox_360, 1), (xbox_one, 0), (xbox_series, 0), (dualshock4_usb, 0x05),
      (dualshock4_bluetooth, 0x11), (dualsense_usb, 0x02), (dualsense_bluetooth, 0x31),
      (switch_pro, 0x01)]"

lemmas profile_simps = default_profile_def make_base_gamepad_profile_def make_gamepad_profile_def
  make_standard_gamepad_profile_def make_xbox_gip_profile_def make_dualshock4_profile_def
  make_dualsense_profile_def make_switch_pro_profile_def generic_gamepad_def xbox_360_def
  xbox_one_def xbox_series_def dualshock4_usb_def dualshock4_bluetooth_def dualshock4_def
  dualsense_usb_def dualsense_bluetooth_def dualsense_def switch_pro_def

lemmas profile_sizes = common_report_size_def common_output_report_size_def common_button_bytes_def
  common_axis_count_def pid_rumble_payload_size_def pid_rumble_output_report_size_def
  xbox_gip_input_report_size_def switch_pro_report_id_def switch_pro_input_report_size_def
  switch_pro_output_report_size_def dualshock4_usb_input_report_size_def
  dualshock4_usb_output_report_size_def dualshock4_bluetooth_input_report_size_def
  dualshock4_bluetooth_output_report_size_def dualsense_usb_input_report_size_def
  dualsense_usb_output_report_size_def dualsense_bluetooth_input_report_size_def
  dualsense_bluetooth_output_report_size_def

lemmas descriptor_builders = make_dualshock4_usb_report_descriptor_def
  make_dualshock4_bluetooth_report_descriptor_def make_dualsense_usb_report_descriptor_def
  make_dualsense_bluetooth_report_descriptor_def make_playstation_common_gamepad_descriptor_prefix_def
  make_switch_pro_report_descriptor_def

lemma dualshock4_usb_reports:
  "report_length Input_report 1 make_dualshock4_usb_report_descriptor = Some 64"
  "report_length Output_report 5 make_dualshock4_usb_report_descriptor = Some 32"
  "report_length Feature_report 2 make_dualshock4_usb_report_descriptor = Some 37"
  "report_length Feature_report 0x12 make_dualshock4_usb_report_descriptor = Some 16"
  "report_length Feature_report 0xA3 make_dualshock4_usb_report_descriptor = Some 49"
  by (simp_all add: descriptor_builders report_length_def hid_eval cong: hid_run_cong)

lemma dualshock4_bluetooth_reports:
  "report_length Input_report 0x11 make_dualshock4_bluetooth_report_descriptor = Some 78"
  "report_length Output_report 0x11 make_dualshock4_bluetooth_report_descriptor = Some 78"
  "report_length Feature_report 2 make_dualshock4_bluetooth_report_descriptor = None"
  "report_length Feature_report 5 make_dualshock4_bluetooth_report_descriptor = Some 41"
  "report_length Feature_report 0x12 make_dualshock4_bluetooth_report_descriptor = Some 16"
  "report_length Feature_report 0xA3 make_dualshock4_bluetooth_report_descriptor = Some 49"
  by (simp_all add: descriptor_builders report_length_def hid_eval cong: hid_run_cong)

lemma dualsense_usb_reports:
  "report_length Input_report 1 make_dualsense_usb_report_descriptor = Some 64"
  "report_length Output_report 2 make_dualsense_usb_report_descriptor = Some 48"
  "report_length Feature_report 5 make_dualsense_usb_report_descriptor = Some 41"
  "report_length Feature_report 9 make_dualsense_usb_report_descriptor = Some 20"
  "report_length Feature_report 0x20 make_dualsense_usb_report_descriptor = Some 64"
  by (simp_all add: descriptor_builders report_length_def hid_eval cong: hid_run_cong)

lemma dualsense_bluetooth_reports:
  "report_length Input_report 0x31 make_dualsense_bluetooth_report_descriptor = Some 78"
  "report_length Output_report 0x31 make_dualsense_bluetooth_report_descriptor = Some 78"
  "report_length Feature_report 5 make_dualsense_bluetooth_report_descriptor = Some 41"
  "report_length Feature_report 9 make_dualsense_bluetooth_report_descriptor = Some 20"
  "report_length Feature_report 0x20 make_dualsense_bluetooth_report_descriptor = Some 64"
  by (simp_all add: descriptor_builders report_length_def hid_eval cong: hid_run_cong)

lemma standard_reports:
  "report_length Input_report 1 (make_standard_gamepad_report_descriptor 1 True) = Some 9"
  "report_length Output_report 1 (make_standard_gamepad_report_descriptor 1 True) = Some 9"
  by (simp_all add: make_standard_gamepad_report_descriptor_def append_common_gamepad_buttons_def
      append_descriptor_bytes_def append_pid_rumble_output_def standard_button_count_def
      common_axis_count_def Let_def report_length_def hid_eval cong: hid_run_cong)

lemma common_reports:
  "report_length Input_report 1 (make_gamepad_report_descriptor 1 True) = Some 9"
  "report_length Output_report 1 (make_gamepad_report_descriptor 1 True) = Some 5"
  by (simp_all add: make_gamepad_report_descriptor_def append_common_gamepad_buttons_def
      append_descriptor_bytes_def append_pid_rumble_output_def common_button_count_def
      common_axis_count_def Let_def report_length_def hid_eval cong: hid_run_cong)

text \<open>The descriptors written in hexadecimal, as bytes.\<close>

lemma xbox_gip_bytes:
  "make_xbox_gip_report_descriptor False =
     [0x05, 0x01, 0x09, 0x05, 0xA1, 0x01, 0xA1, 0x00, 0x09, 0x30, 0x09, 0x31, 0x15, 0x00,
      0x27, 0xFF, 0xFF, 0x00, 0x00, 0x95, 0x02, 0x75, 0x10, 0x81, 0x02, 0xC0, 0xA1, 0x00,
      0x09, 0x33, 0x09, 0x34, 0x15, 0x00, 0x27, 0xFF, 0xFF, 0x00, 0x00, 0x95, 0x02, 0x75,
      0x10, 0x81, 0x02, 0xC0, 0x05, 0x01, 0x09, 0x32, 0x15, 0x00, 0x26, 0xFF, 0x03, 0x95,
      0x01, 0x75, 0x0A, 0x81, 0x02, 0x15, 0x00, 0x25, 0x00, 0x75, 0x06, 0x95, 0x01, 0x81,
      0x03, 0x05, 0x01, 0x09, 0x35, 0x15, 0x00, 0x26, 0xFF, 0x03, 0x95, 0x01, 0x75, 0x0A,
      0x81, 0x02, 0x15, 0x00, 0x25, 0x00, 0x75, 0x06, 0x95, 0x01, 0x81, 0x03, 0x05, 0x09,
      0x19, 0x01, 0x29, 0x0A, 0x95, 0x0A, 0x75, 0x01, 0x81, 0x02, 0x15, 0x00, 0x25, 0x00,
      0x75, 0x06, 0x95, 0x01, 0x81, 0x03, 0x05, 0x01, 0x09, 0x39, 0x15, 0x01, 0x25, 0x08,
      0x35, 0x00, 0x46, 0x3B, 0x01, 0x66, 0x14, 0x00, 0x75, 0x04, 0x95, 0x01, 0x81, 0x42,
      0x75, 0x04, 0x95, 0x01, 0x15, 0x00, 0x25, 0x00, 0x35, 0x00, 0x45, 0x00, 0x65, 0x00,
      0x81, 0x03, 0xA1, 0x02, 0x05, 0x0F, 0x09, 0x97, 0x15, 0x00, 0x25, 0x01, 0x75, 0x04,
      0x95, 0x01, 0x91, 0x02, 0x15, 0x00, 0x25, 0x00, 0x91, 0x03, 0x09, 0x70, 0x15, 0x00,
      0x25, 0x64, 0x75, 0x08, 0x95, 0x04, 0x91, 0x02, 0x09, 0x50, 0x66, 0x01, 0x10, 0x55,
      0x0E, 0x26, 0xFF, 0x00, 0x95, 0x01, 0x91, 0x02, 0x09, 0xA7, 0x91, 0x02, 0x65, 0x00,
      0x55, 0x00, 0x09, 0x7C, 0x91, 0x02, 0xC0, 0x05, 0x01, 0x09, 0x80, 0xA1, 0x00, 0x09,
      0x85, 0x15, 0x00, 0x25, 0x01, 0x95, 0x01, 0x75, 0x01, 0x81, 0x02, 0x15, 0x00, 0x25,
      0x00, 0x75, 0x07, 0x95, 0x01, 0x81, 0x03, 0xC0, 0x05, 0x06, 0x09, 0x20, 0x15, 0x00,
      0x26, 0xFF, 0x00, 0x75, 0x08, 0x95, 0x01, 0x81, 0x02, 0xC0]"
  "make_xbox_gip_report_descriptor True =
     [0x05, 0x01, 0x09, 0x05, 0xA1, 0x01, 0xA1, 0x00, 0x09, 0x30, 0x09, 0x31, 0x15, 0x00,
      0x27, 0xFF, 0xFF, 0x00, 0x00, 0x95, 0x02, 0x75, 0x10, 0x81, 0x02, 0xC0, 0xA1, 0x00,
      0x09, 0x33, 0x09, 0x34, 0x15, 0x00, 0x27, 0xFF, 0xFF, 0x00, 0x00, 0x95, 0x02, 0x75,
      0x10, 0x81, 0x02, 0xC0, 0x05, 0x01, 0x09, 0x32, 0x15, 0x00, 0x26, 0xFF, 0x03, 0x95,
      0x01, 0x75, 0x0A, 0x81, 0x02, 0x15, 0x00, 0x25, 0x00, 0x75, 0x06, 0x95, 0x01, 0x81,
      0x03, 0x05, 0x01, 0x09, 0x35, 0x15, 0x00, 0x26, 0xFF, 0x03, 0x95, 0x01, 0x75, 0x0A,
      0x81, 0x02, 0x15, 0x00, 0x25, 0x00, 0x75, 0x06, 0x95, 0x01, 0x81, 0x03, 0x05, 0x09,
      0x19, 0x01, 0x29, 0x0C, 0x95, 0x0C, 0x75, 0x01, 0x81, 0x02, 0x15, 0x00, 0x25, 0x00,
      0x75, 0x04, 0x95, 0x01, 0x81, 0x03, 0x05, 0x01, 0x09, 0x39, 0x15, 0x01, 0x25, 0x08,
      0x35, 0x00, 0x46, 0x3B, 0x01, 0x66, 0x14, 0x00, 0x75, 0x04, 0x95, 0x01, 0x81, 0x42,
      0x75, 0x04, 0x95, 0x01, 0x15, 0x00, 0x25, 0x00, 0x35, 0x00, 0x45, 0x00, 0x65, 0x00,
      0x81, 0x03, 0xA1, 0x02, 0x05, 0x0F, 0x09, 0x97, 0x15, 0x00, 0x25, 0x01, 0x75, 0x04,
      0x95, 0x01, 0x91, 0x02, 0x15, 0x00, 0x25, 0x00, 0x91, 0x03, 0x09, 0x70, 0x15, 0x00,
      0x25, 0x64, 0x75, 0x08, 0x95, 0x04, 0x91, 0x02, 0x09, 0x50, 0x66, 0x01, 0x10, 0x55,
      0x0E, 0x26, 0xFF, 0x00, 0x95, 0x01, 0x91, 0x02, 0x09, 0xA7, 0x91, 0x02, 0x65, 0x00,
      0x55, 0x00, 0x09, 0x7C, 0x91, 0x02, 0xC0, 0x05, 0x01, 0x09, 0x80, 0xA1, 0x00, 0x09,
      0x85, 0x15, 0x00, 0x25, 0x01, 0x95, 0x01, 0x75, 0x01, 0x81, 0x02, 0x15, 0x00, 0x25,
      0x00, 0x75, 0x07, 0x95, 0x01, 0x81, 0x03, 0xC0, 0x05, 0x06, 0x09, 0x20, 0x15, 0x00,
      0x26, 0xFF, 0x00, 0x75, 0x08, 0x95, 0x01, 0x81, 0x02, 0xC0]"
  by (simp_all add: make_xbox_gip_report_descriptor_def xbox_one_descriptor_def
      xbox_series_descriptor_def byte_from_hex_def hex_nibble_def)

lemma switch_pro_bytes:
  "make_switch_pro_report_descriptor =
     [0x05, 0x01, 0x15, 0x00, 0x09, 0x04, 0xA1, 0x01, 0x85, 0x30, 0x05, 0x01, 0x05, 0x09,
      0x19, 0x01, 0x29, 0x0A, 0x15, 0x00, 0x25, 0x01, 0x75, 0x01, 0x95, 0x0A, 0x55, 0x00,
      0x65, 0x00, 0x81, 0x02, 0x05, 0x09, 0x19, 0x0B, 0x29, 0x0E, 0x15, 0x00, 0x25, 0x01,
      0x75, 0x01, 0x95, 0x04, 0x81, 0x02, 0x75, 0x01, 0x95, 0x02, 0x81, 0x03, 0x0B, 0x01,
      0x00, 0x01, 0x00, 0xA1, 0x00, 0x0B, 0x30, 0x00, 0x01, 0x00, 0x0B, 0x31, 0x00, 0x01,
      0x00, 0x0B, 0x32, 0x00, 0x01, 0x00, 0x0B, 0x35, 0x00, 0x01, 0x00, 0x15, 0x00, 0x27,
      0xFF, 0xFF, 0x00, 0x00, 0x75, 0x10, 0x95, 0x04, 0x81, 0x02, 0xC0, 0x0B, 0x39, 0x00,
      0x01, 0x00, 0x15, 0x00, 0x25, 0x07, 0x35, 0x00, 0x46, 0x3B, 0x01, 0x65, 0x14, 0x75,
      0x04, 0x95, 0x01, 0x81, 0x02, 0x05, 0x09, 0x19, 0x0F, 0x29, 0x12, 0x15, 0x00, 0x25,
      0x01, 0x75, 0x01, 0x95, 0x04, 0x81, 0x02, 0x75, 0x08, 0x95, 0x34, 0x81, 0x03, 0x06,
      0x00, 0xFF, 0x85, 0x21, 0x09, 0x01, 0x75, 0x08, 0x95, 0x3F, 0x81, 0x03, 0x85, 0x81,
      0x09, 0x02, 0x75, 0x08, 0x95, 0x3F, 0x81, 0x03, 0x85, 0x01, 0x09, 0x03, 0x75, 0x08,
      0x95, 0x3F, 0x91, 0x83, 0x85, 0x10, 0x09, 0x04, 0x75, 0x08, 0x95, 0x3F, 0x91, 0x83,
      0x85, 0x80, 0x09, 0x05, 0x75, 0x08, 0x95, 0x3F, 0x91, 0x83, 0x85, 0x82, 0x09, 0x06,
      0x75, 0x08, 0x95, 0x3F, 0x91, 0x83, 0xC0]"
  by (simp add: make_switch_pro_report_descriptor_def byte_from_hex_def hex_nibble_def)

lemma switch_pro_reports:
  "report_length Input_report 0x30 make_switch_pro_report_descriptor = Some 64"
  "report_length Output_report 1 make_switch_pro_report_descriptor = Some 64"
  by (simp_all add: switch_pro_bytes report_length_def hid_eval cong: hid_run_cong)

lemma xbox_gip_reports:
  "report_length Input_report 0 (make_xbox_gip_report_descriptor False) = Some 17"
  "report_length Output_report 0 (make_xbox_gip_report_descriptor False) = Some 8"
  "report_length Input_report 0 (make_xbox_gip_report_descriptor True) = Some 17"
  "report_length Output_report 0 (make_xbox_gip_report_descriptor True) = Some 8"
  by (simp_all add: xbox_gip_bytes report_length_def hid_eval cong: hid_run_cong)

lemmas declared_reports = dualshock4_usb_reports dualshock4_bluetooth_reports
  dualsense_usb_reports dualsense_bluetooth_reports switch_pro_reports standard_reports
  common_reports xbox_gip_reports

lemma declared_profile_reports:
  "list_all (\<lambda>(p, output_id).
     report_length Input_report (unat (report_id p)) (report_descriptor p) = Some (input_report_size p) \<and>
     report_length Output_report output_id (report_descriptor p) = Some (output_report_size p))
     declared_profiles"
  by (simp add: declared_profiles_def profile_simps profile_sizes default_capabilities_def
      declared_reports declared_reports [unfolded One_nat_def])

lemma declared_profiles_accepted:
  "list_all (\<lambda>(p, output_id). device_type p = Dev_gamepad \<and>
     minimum_report_size p \<le> input_report_size p \<and>
     status_ok (validate_gamepad_options \<lparr>gamepad_profile = p, metadata = m\<rparr>) \<and>
     status_ok (validate_windows_gamepad_profile p)) declared_profiles"
  by (simp add: declared_profiles_def profile_simps profile_sizes default_capabilities_def
      validate_gamepad_options_def validate_windows_gamepad_profile_def minimum_report_size_def
      is_bluetooth_def protocol_constants descriptor_builders switch_pro_bytes xbox_gip_bytes
      make_standard_gamepad_report_descriptor_def make_gamepad_report_descriptor_def
      append_common_gamepad_buttons_def append_descriptor_bytes_def append_pid_rumble_output_def)

lemma declared_pack:
  assumes "(p, output_id) \<in> set declared_profiles"
  shows "\<exists>report c'. pack_input_report e c p s = Some (report, c') \<and> length report = input_report_size p"
proof -
  have "device_type p = Dev_gamepad" "minimum_report_size p \<le> input_report_size p"
    using declared_profiles_accepted [of undefined] assms by (auto simp: list_all_iff)
  from keeps_fst_obtain [OF pack_input_report_keeps [OF this, of e c s]] show ?thesis
    by metis
qed

section \<open>Feature reports\<close>

lemma feature_served:
  assumes "playstation_feature_payload r n = Some (Some payload)" and "4 < length payload"
  shows "\<exists>report. make_playstation_feature_report r n = Some (Some report) \<and>
    length report = length payload \<and> report ! 0 = payload ! 0"
  using assms by (cases rule: feature_report_cases [of r n]) auto

lemma payload_heads:
  "dualshock4_usb_calibration_info ! 0 = 0x02" "dualshock4_bluetooth_calibration_info ! 0 = 0x05"
  "dualshock4_firmware_info ! 0 = 0xA3" "dualshock4_pairing_info ! 0 = 0x12"
  "dualsense_calibration_info ! 0 = 0x05" "dualsense_firmware_info ! 0 = 0x20"
  "dualsense_pairing_info ! 0 = 0x09"
  by (simp_all add: dualshock4_usb_calibration_info_def dualshock4_bluetooth_calibration_info_def
      dualshock4_firmware_info_def dualshock4_pairing_info_def dualsense_calibration_info_def
      dualsense_firmware_info_def dualsense_pairing_info_def)

text \<open>The feature reports a driver of the controller reads, by profile.\<close>

definition feature_profiles :: "(device_profile \<times> u8 list) list" where
  "feature_profiles =
     [(dualshock4_usb, [0x02, 0x12, 0xA3]), (dualshock4_bluetooth, [0x05, 0x12, 0xA3]),
      (dualsense_usb, [0x05, 0x09, 0x20]), (dualsense_bluetooth, [0x05, 0x09, 0x20])]"

definition answers_declared :: "create_device_request \<Rightarrow> bytes \<Rightarrow> u8 \<Rightarrow> bool" where
  "answers_declared r d n \<longleftrightarrow>
     (case make_playstation_feature_report r n of
        Some (Some report) \<Rightarrow> report ! 0 = n \<and>
          report_length Feature_report (unat n) d = Some (length report)
      | _ \<Rightarrow> False)"

lemma answers_declaredI:
  assumes "playstation_feature_payload r n = Some (Some payload)" "4 < length payload"
    "payload ! 0 = n" "report_length Feature_report (unat n) d = Some (length payload)"
  shows "answers_declared r d n"
  using feature_served [OF assms(1,2)] assms(3,4) by (auto simp: answers_declared_def)

lemma feature_profiles_answered:
  assumes "(p, ids) \<in> set feature_profiles"
    and "cr_gamepad_kind r = protocol_gamepad_kind (gamepad_kind p)"
    and "cr_bus_type r = protocol_bus_type (bus_type p)"
  shows "list_all (answers_declared r (report_descriptor p)) ids"
  using assms
  by (auto simp: feature_profiles_def profile_simps declared_reports playstation_feature_payload_def
      protocol_constants feature_report_ids set_pairing_mac_ok length_payloads payload_heads nth_append
      intro!: answers_declaredI)

section \<open>Properties\<close>

text \<open>C7: What a built-in gamepad declares is what the library does: every packed
  input report, of any state, has the length its descriptor declares, the output report of
  the host has the profile's output size, and the profile passes the runtime's and the Windows
  backend's validation.\<close>

theorem profile_reports_declared:
  "list_all (\<lambda>(p, output_id).
     (case pack_input_report e c p s of None \<Rightarrow> False
      | Some (report, c') \<Rightarrow>
          report_length Input_report (unat (report_id p)) (report_descriptor p) = Some (length report)) \<and>
     report_length Output_report output_id (report_descriptor p) = Some (output_report_size p) \<and>
     status_ok (validate_gamepad_options \<lparr>gamepad_profile = p, metadata = m\<rparr>) \<and>
     status_ok (validate_windows_gamepad_profile p)) declared_profiles"
  using declared_profile_reports declared_profiles_accepted [of m] declared_pack [of _ _ e c s]
  by (fastforce simp: list_all_iff)


end
