(* ===== verification/WindowsInput.thy ===== *)
theory WindowsInput
  imports Events
begin

text \<open>
  Input through the Win32 injection functions, the first part of
  \<open>src/src/platform/windows/windows_backend.cpp\<close>: the translation of keyboard and mouse
  events into \<open>INPUT\<close> structures (\<open>WindowsKeyboard\<close>, \<open>WindowsMouse\<close>), and
  \<open>send_input\<close> with its single retry on another desktop.

  The operating system is a record of functions on a state \<open>'w\<close> of its own. Flags and
  virtual-key codes have the values of the Windows SDK.
\<close>

section \<open>The operating system\<close>

record keybdinput =
  wVk :: u16
  wScan :: u16
  ki_flags :: u32

record mouseinput =
  mi_dx :: int
  mi_dy :: int
  mouseData :: u32
  mi_flags :: u32

datatype win32_input = Keyboard_input keybdinput | Mouse_input mouseinput

text \<open>\<open>os_send\<close> is \<open>send_input_function\<close>, which returns the number of inputs
  inserted; \<open>os_sync_desktop\<close> gives a desktop handle; \<open>os_utf16_size\<close> and \<open>os_utf16\<close> are the
  two calls of \<open>MultiByteToWideChar\<close>, the second with the buffer it fills.\<close>

record 'w win32 =
  os_send :: "win32_input list \<Rightarrow> 'w \<Rightarrow> nat \<times> 'w"
  os_last_error :: "'w \<Rightarrow> u32"
  os_error_text :: "u32 \<Rightarrow> string"
  os_sync_desktop :: "'w \<Rightarrow> nat \<times> 'w"
  os_map_key :: "u16 \<Rightarrow> u32"
  os_map_key_ex :: "u16 \<Rightarrow> u32"
  os_utf16_size :: "string \<Rightarrow> 'w \<Rightarrow> int \<times> 'w"
  os_utf16 :: "string \<Rightarrow> nat \<Rightarrow> 'w \<Rightarrow> (u16 list \<times> int) \<times> 'w"
  os_lround :: "flt \<Rightarrow> int"

definition windows_failure :: "'w win32 \<Rightarrow> error_code \<Rightarrow> string \<Rightarrow> u32 \<Rightarrow> operation_status" where
  "windows_failure os c operation e = failure c (operation @ '': '' @ os_error_text os e)"

text \<open>What a thread sees: its last known desktop and the system.\<close>

type_synonym 'w thread = "nat \<times> 'w"

definition submit_with_desktop_retry ::
  "'w win32 \<Rightarrow> ('w \<Rightarrow> bool \<times> 'w) \<Rightarrow> string \<Rightarrow> 'w thread \<Rightarrow> operation_status \<times> 'w thread" where
  "submit_with_desktop_retry os submit operation = (\<lambda>(known, w).
     (let (ok, w) = submit w in
      if ok then (success, known, w)
      else let e = os_last_error os w;
               (desktop, w) = os_sync_desktop os w
           in if desktop = known
              then (windows_failure os Err_backend_failure operation e, known, w)
              else let (ok, w) = submit w in
                   if ok then (success, desktop, w)
                   else (windows_failure os Err_backend_failure operation (os_last_error os w),
                         desktop, w)))"

definition send_input ::
  "'w win32 \<Rightarrow> win32_input list \<Rightarrow> string \<Rightarrow> 'w thread \<Rightarrow> operation_status \<times> 'w thread" where
  "send_input os inputs operation =
     submit_with_desktop_retry os
       (\<lambda>w. let (n, w) = os_send os inputs w in (n = length inputs, w)) operation"

section \<open>Keyboard\<close>

definition KEYEVENTF_EXTENDEDKEY :: u32 where "KEYEVENTF_EXTENDEDKEY = 0x1"
definition KEYEVENTF_KEYUP :: u32 where "KEYEVENTF_KEYUP = 0x2"
definition KEYEVENTF_UNICODE :: u32 where "KEYEVENTF_UNICODE = 0x4"
definition KEYEVENTF_SCANCODE :: u32 where "KEYEVENTF_SCANCODE = 0x8"

lemmas keyeventf = KEYEVENTF_EXTENDEDKEY_def KEYEVENTF_KEYUP_def KEYEVENTF_UNICODE_def
  KEYEVENTF_SCANCODE_def

text \<open>LWIN, RWIN, RMENU, RCONTROL, INSERT, DELETE, HOME, END, PRIOR, NEXT, UP, DOWN, LEFT,
  RIGHT, DIVIDE, APPS.\<close>

definition extended_keys :: "u16 list" where
  "extended_keys = [0x5B, 0x5C, 0xA5, 0xA3, 0x2D, 0x2E, 0x24, 0x23, 0x21, 0x22, 0x26, 0x28,
     0x25, 0x27, 0x6F, 0x5D]"

definition extended_key :: "'w win32 \<Rightarrow> u16 \<Rightarrow> bool" where
  "extended_key os k \<longleftrightarrow>
     (if k \<in> set extended_keys then True else os_map_key_ex os k AND 0xFF00 = 0xE000)"

definition can_map_virtual_key_to_scan_code :: "u16 \<Rightarrow> bool" where
  "can_map_virtual_key_to_scan_code k \<longleftrightarrow> k \<noteq> 0x5B \<and> k \<noteq> 0x5C \<and> k \<noteq> 0x13"

definition windows_us_english_virtual_key_to_scan_code :: bytes where
  "windows_us_english_virtual_key_to_scan_code =
     [0, 0, 0, 70, 0, 0, 0, 0, 14, 15, 0, 0, 76, 28, 0, 0,
      42, 29, 56, 0, 58, 0, 0, 0, 0, 0, 0, 1, 0, 0, 0, 0,
      57, 73, 81, 79, 71, 75, 72, 77, 80, 0, 0, 0, 84, 82, 83, 99,
      11, 2, 3, 4, 5, 6, 7, 8, 9, 10, 0, 0, 0, 0, 0, 0,
      0, 30, 48, 46, 32, 18, 33, 34, 35, 23, 36, 37, 38, 50, 49, 24,
      25, 16, 19, 31, 20, 22, 47, 17, 45, 21, 44, 91, 92, 93, 0, 95,
      82, 79, 80, 81, 75, 76, 77, 71, 72, 73, 55, 78, 0, 74, 83, 53,
      59, 60, 61, 62, 63, 64, 65, 66, 67, 68, 87, 88, 100, 101, 102, 103,
      104, 105, 106, 107, 108, 109, 110, 118, 0, 0, 0, 0, 0, 0, 0, 0,
      69, 70, 0, 0, 0, 0, 0, 0, 0, 0, 0, 0, 0, 0, 0, 0,
      42, 54, 29, 29, 56, 56, 106, 105, 103, 104, 101, 102, 50, 32, 46, 48,
      25, 16, 36, 34, 108, 109, 107, 33, 0, 0, 39, 13, 51, 12, 52, 53,
      41, 115, 126, 0, 0, 0, 0, 0, 0, 0, 0, 0, 0, 0, 0, 0,
      0, 0, 0, 0, 0, 0, 0, 0, 0, 0, 0, 26, 43, 27, 40, 0,
      0, 0, 86, 0, 0, 0, 0, 0, 0, 113, 92, 123, 0, 111, 90, 0,
      0, 91, 0, 95, 0, 94, 0, 0, 0, 93, 0, 98, 0, 0, 0, 0]"

definition windows_us_english_scan_code :: "u16 \<Rightarrow> u16" where
  "windows_us_english_scan_code k =
     ucast (windows_us_english_virtual_key_to_scan_code ! unat (k AND 0xFF))"

definition win32_keyboard_input :: "'w win32 \<Rightarrow> keyboard_event \<Rightarrow> keybdinput" where
  "win32_keyboard_input os ev =
     (let ki = \<lparr>wVk = key_code ev, wScan = 0, ki_flags = 0\<rparr>;
          ki = (if scan_code ev \<noteq> 0
                then ki\<lparr>wVk := 0, wScan := scan_code ev, ki_flags := ki_flags ki OR KEYEVENTF_SCANCODE\<rparr>
                else let ki = (if uses_normalized_key_code ev
                               then ki\<lparr>wScan := windows_us_english_scan_code (key_code ev)\<rparr>
                               else if prefer_native_scan_code ev \<and>
                                       can_map_virtual_key_to_scan_code (key_code ev)
                               then ki\<lparr>wScan := ucast (os_map_key os (key_code ev))\<rparr>
                               else ki)
                     in if wScan ki \<noteq> 0
                        then ki\<lparr>wVk := 0, ki_flags := ki_flags ki OR KEYEVENTF_SCANCODE\<rparr>
                        else ki);
          ki = (if extended ev \<or> extended_key os (key_code ev)
                then ki\<lparr>ki_flags := ki_flags ki OR KEYEVENTF_EXTENDEDKEY\<rparr> else ki)
      in if key_pressed ev then ki else ki\<lparr>ki_flags := ki_flags ki OR KEYEVENTF_KEYUP\<rparr>)"

definition windows_keyboard_submit ::
  "'w win32 \<Rightarrow> bool \<Rightarrow> keyboard_event \<Rightarrow> 'w thread \<Rightarrow> operation_status \<times> 'w thread" where
  "windows_keyboard_submit os is_open ev t =
     (if \<not> is_open then (failure Err_device_closed ''Windows keyboard is closed'', t)
      else send_input os [Keyboard_input (win32_keyboard_input os ev)]
             ''submit Windows keyboard input'' t)"

definition unicode_inputs :: "u16 list \<Rightarrow> win32_input list" where
  "unicode_inputs cs =
     map (\<lambda>c. Keyboard_input \<lparr>wVk = 0, wScan = c, ki_flags = KEYEVENTF_UNICODE\<rparr>) cs @
     map (\<lambda>c. Keyboard_input
       \<lparr>wVk = 0, wScan = c, ki_flags = KEYEVENTF_UNICODE OR KEYEVENTF_KEYUP\<rparr>) cs"

definition windows_keyboard_type_text ::
  "'w win32 \<Rightarrow> bool \<Rightarrow> keyboard_text_event \<Rightarrow> 'w thread \<Rightarrow> operation_status \<times> 'w thread" where
  "windows_keyboard_type_text os is_open txt = (\<lambda>(known, w).
     (let convert = ''convert UTF-8 text for Windows keyboard input'' in
      if \<not> is_open then (failure Err_device_closed ''Windows keyboard is closed'', known, w)
      else if txt = '''' then (success, known, w)
      else let (required, w) = os_utf16_size os txt w in
           if required \<le> 0
           then (windows_failure os Err_invalid_argument convert (os_last_error os w), known, w)
           else let ((wide, converted), w) = os_utf16 os txt (nat required) w in
                if converted \<le> 0
                then (windows_failure os Err_invalid_argument convert (os_last_error os w), known, w)
                else send_input os (unicode_inputs wide) ''submit Windows keyboard text input'' (known, w)))"

section \<open>Mouse\<close>

definition MOUSEEVENTF_MOVE :: u32 where "MOUSEEVENTF_MOVE = 0x1"
definition MOUSEEVENTF_WHEEL :: u32 where "MOUSEEVENTF_WHEEL = 0x800"
definition MOUSEEVENTF_HWHEEL :: u32 where "MOUSEEVENTF_HWHEEL = 0x1000"
definition MOUSEEVENTF_VIRTUALDESK :: u32 where "MOUSEEVENTF_VIRTUALDESK = 0x4000"
definition MOUSEEVENTF_ABSOLUTE :: u32 where "MOUSEEVENTF_ABSOLUTE = 0x8000"

fun mouse_button_flags :: "mouse_button \<Rightarrow> bool \<Rightarrow> u32" where
  "mouse_button_flags Mouse_left p = (if p then 0x2 else 0x4)"
| "mouse_button_flags Mouse_middle p = (if p then 0x20 else 0x40)"
| "mouse_button_flags Mouse_right p = (if p then 0x8 else 0x10)"
| "mouse_button_flags Mouse_side p = (if p then 0x80 else 0x100)"
| "mouse_button_flags Mouse_extra p = (if p then 0x80 else 0x100)"

fun mouse_button_data :: "mouse_button \<Rightarrow> u32" where
  "mouse_button_data Mouse_side = 1"
| "mouse_button_data Mouse_extra = 2"
| "mouse_button_data _ = 0"

definition float_of :: "int \<Rightarrow> flt" where
  "float_of n = flit binary32 n 1"

definition scale_absolute_axis :: "(flt \<Rightarrow> int) \<Rightarrow> flt \<Rightarrow> int \<Rightarrow> int" where
  "scale_absolute_axis u v dimension =
     (if dimension \<le> 1 then 0
      else let clamped = fclamp v (Fin 0) (float_of dimension);
               scaled = fdiv binary32 (fmul binary32 clamped (float_of 65535)) (float_of dimension)
           in lround binary32 u scaled)"

definition scale_absolute_axis_to_viewport ::
  "(flt \<Rightarrow> int) \<Rightarrow> flt \<Rightarrow> int \<Rightarrow> int \<Rightarrow> int \<Rightarrow> int \<Rightarrow> int \<Rightarrow> int" where
  "scale_absolute_axis_to_viewport u v source_dim view_offset view_dim desk_offset desk_dim =
     (if source_dim \<le> 0 \<or> view_dim \<le> 0 \<or> desk_dim \<le> 0 then 0
      else let clamped = fclamp v (Fin 0) (float_of source_dim);
               span = float_of (max (view_dim - 1) 0);
               target = fadd binary32 (float_of (view_offset - desk_offset))
                          (fdiv binary32 (fmul binary32 clamped span) (float_of source_dim))
           in scale_absolute_axis u target desk_dim)"

definition win32_mouse_input ::
  "'w win32 \<Rightarrow> pointer_viewport \<Rightarrow> pointer_viewport \<Rightarrow> mouse_event \<Rightarrow> mouseinput" where
  "win32_mouse_input os desk view ev =
     (let mi = \<lparr>mi_dx = 0, mi_dy = 0, mouseData = 0, mi_flags = 0\<rparr>;
          px = (if has_fractional_absolute_coordinates ev then absolute_x ev else float_of (ev_x ev));
          py = (if has_fractional_absolute_coordinates ev then absolute_y ev else float_of (ev_y ev));
          u = os_lround os
      in case event_kind ev of
        Ev_relative_motion \<Rightarrow>
          mi\<lparr>mi_flags := MOUSEEVENTF_MOVE, mi_dx := ev_x ev, mi_dy := ev_y ev\<rparr>
      | Ev_absolute_motion \<Rightarrow>
          (let mi = mi\<lparr>mi_flags := MOUSEEVENTF_MOVE OR MOUSEEVENTF_ABSOLUTE OR MOUSEEVENTF_VIRTUALDESK\<rparr>
           in if 0 < width view \<and> 0 < height view
              then mi\<lparr>mi_dx := scale_absolute_axis_to_viewport u px (ev_width ev)
                        (offset_x view) (width view) (offset_x desk) (width desk),
                      mi_dy := scale_absolute_axis_to_viewport u py (ev_height ev)
                        (offset_y view) (height view) (offset_y desk) (height desk)\<rparr>
              else mi\<lparr>mi_dx := scale_absolute_axis u px (ev_width ev),
                      mi_dy := scale_absolute_axis u py (ev_height ev)\<rparr>)
      | Ev_button \<Rightarrow>
          mi\<lparr>mi_flags := mouse_button_flags (ev_button ev) (ev_pressed ev),
             mouseData := mouse_button_data (ev_button ev)\<rparr>
      | Ev_vertical_scroll \<Rightarrow>
          mi\<lparr>mi_flags := MOUSEEVENTF_WHEEL, mouseData := word_of_int (high_resolution_scroll ev)\<rparr>
      | Ev_horizontal_scroll \<Rightarrow>
          mi\<lparr>mi_flags := MOUSEEVENTF_HWHEEL, mouseData := word_of_int (high_resolution_scroll ev)\<rparr>)"

definition windows_mouse_submit ::
  "'w win32 \<Rightarrow> pointer_viewport \<Rightarrow> pointer_viewport \<Rightarrow> bool \<Rightarrow> mouse_event
     \<Rightarrow> 'w thread \<Rightarrow> operation_status \<times> 'w thread" where
  "windows_mouse_submit os desk view is_open ev t =
     (if \<not> is_open then (failure Err_device_closed ''Windows mouse is closed'', t)
      else send_input os [Mouse_input (win32_mouse_input os desk view ev)]
             ''submit Windows mouse input'' t)"

end
