(* ===== verification/WindowsHidMouse.thy ===== *)
theory WindowsHidMouse
  imports WindowsInput WindowsProfiles VhfQueue "HOL-Library.Signed_Division"
begin

text \<open>
  The driver-backed mouse, class \<open>WindowsHidMouse\<close> of
  \<open>src/src/platform/windows/windows_backend.cpp\<close>: relative motion and scrolling become
  seven-byte reports of the mouse descriptor, a large motion as many of them, and a part of a
  wheel detent is kept for later. The driver behind it is the queue of \<open>VhfQueue\<close>.

  A report channel is what \<open>submit_device_report\<close> gives the device: a function on the state
  of the outside. The lemmas on the report loops are proved in the locale
  \<open>report_channel\<close>, which says that a channel delivers exactly the reports it accepts.
\<close>

type_synonym 's channel = "bytes \<Rightarrow> 's \<Rightarrow> operation_status \<times> 's"

section \<open>The device\<close>

record hid_mouse =
  hm_open :: bool
  hm_buttons :: u8
  vertical_scroll_remainder :: int
  horizontal_scroll_remainder :: int

definition new_hid_mouse :: hid_mouse where
  "new_hid_mouse = \<lparr>hm_open = True, hm_buttons = 0, vertical_scroll_remainder = 0,
     horizontal_scroll_remainder = 0\<rparr>"

definition mouse_scroll_units_per_detent :: int where "mouse_scroll_units_per_detent = 120"

fun hid_mouse_button_bit :: "mouse_button \<Rightarrow> nat option" where
  "hid_mouse_button_bit Mouse_left = Some 0"
| "hid_mouse_button_bit Mouse_right = Some 1"
| "hid_mouse_button_bit Mouse_middle = Some 2"
| "hid_mouse_button_bit Mouse_side = Some 3"
| "hid_mouse_button_bit Mouse_extra = Some 4"

text \<open>The bytes \<open>emit\<close> packs, by assignments into a zeroed report.\<close>

definition mouse_report :: "u8 \<Rightarrow> int \<Rightarrow> int \<Rightarrow> int \<Rightarrow> int \<Rightarrow> bytes" where
  "mouse_report b x y w p =
     (let x = (word_of_int x :: u16); y = (word_of_int y :: u16);
          r = replicate LVH_WINDOWS_MOUSE_INPUT_REPORT_SIZE 0
      in r[0 := b, 1 := ucast (x AND 0xFF), 2 := ucast (drop_bit 8 x AND 0xFF),
           3 := ucast (y AND 0xFF), 4 := ucast (drop_bit 8 y AND 0xFF),
           5 := word_of_int w, 6 := word_of_int p])"

definition mouse_emit ::
  "'s channel \<Rightarrow> u8 \<Rightarrow> int \<Rightarrow> int \<Rightarrow> int \<Rightarrow> int \<Rightarrow> 's \<Rightarrow> operation_status \<times> 's" where
  "mouse_emit send b x y w p s = send (mouse_report b x y w p) s"

function submit_relative_motion ::
  "'s channel \<Rightarrow> u8 \<Rightarrow> int \<Rightarrow> int \<Rightarrow> 's \<Rightarrow> operation_status \<times> 's" where
  "submit_relative_motion send b x y s =
     (if x = 0 \<and> y = 0 then (success, s)
      else let report_x = clamp_int x (- 32768) 32767;
               report_y = clamp_int y (- 32768) 32767;
               (status, s) = mouse_emit send b report_x report_y 0 0 s
           in if \<not> status_ok status then (status, s)
              else submit_relative_motion send b (x - report_x) (y - report_y) s)"
  by pat_completeness auto

termination
  by (relation "measure (\<lambda>(send, b, x, y, s). nat \<bar>x\<bar> + nat \<bar>y\<bar>)") (auto simp: clamp_int_def)

text \<open>The detent loop of \<open>submit_scroll\<close>.\<close>

function emit_detents ::
  "'s channel \<Rightarrow> u8 \<Rightarrow> bool \<Rightarrow> int \<Rightarrow> 's \<Rightarrow> operation_status \<times> 's" where
  "emit_detents send b vertical detents s =
     (if detents = 0 then (success, s)
      else let report_detents = clamp_int detents (- 127) 127;
               (status, s) = (if vertical then mouse_emit send b 0 0 report_detents 0 s
                              else mouse_emit send b 0 0 0 report_detents s)
           in if \<not> status_ok status then (status, s)
              else emit_detents send b vertical (detents - report_detents) s)"
  by pat_completeness auto

termination
  by (relation "measure (\<lambda>(send, b, v, d, s). nat \<bar>d\<bar>)") (auto simp: clamp_int_def)

declare submit_relative_motion.simps [simp del] emit_detents.simps [simp del]

text \<open>The 64-bit sum does not wrap: the remainder is below one detent. The result holds the
  new remainder.\<close>

definition submit_scroll ::
  "'s channel \<Rightarrow> u8 \<Rightarrow> int \<Rightarrow> int \<Rightarrow> bool \<Rightarrow> 's \<Rightarrow> operation_status \<times> int \<times> 's" where
  "submit_scroll send b remainder units vertical s =
     (let total = remainder + units;
          detents = total sdiv mouse_scroll_units_per_detent;
          (status, s) = emit_detents send b vertical detents s
      in (status, total smod mouse_scroll_units_per_detent, s))"

definition submit_button ::
  "'s channel \<Rightarrow> hid_mouse \<Rightarrow> mouse_event \<Rightarrow> 's \<Rightarrow> operation_status \<times> hid_mouse \<times> 's" where
  "submit_button send m ev s =
     (case hid_mouse_button_bit (ev_button ev) of
        None \<Rightarrow> (success, m, s)
      | Some i \<Rightarrow>
          let mask = push_bit i 1;
              b = (if ev_pressed ev then hm_buttons m OR mask else hm_buttons m AND NOT mask);
              (status, s) = mouse_emit send b 0 0 0 0 s
          in (status, m\<lparr>hm_buttons := b\<rparr>, s))"

definition hid_mouse_submit ::
  "'s channel \<Rightarrow> (mouse_event \<Rightarrow> 's \<Rightarrow> operation_status \<times> 's) \<Rightarrow> hid_mouse \<Rightarrow> mouse_event
     \<Rightarrow> 's \<Rightarrow> operation_status \<times> hid_mouse \<times> 's" where
  "hid_mouse_submit send fallback m ev s =
     (if \<not> hm_open m then (failure Err_device_closed ''Windows HID mouse is closed'', m, s)
      else case event_kind ev of
        Ev_relative_motion \<Rightarrow>
          let (status, s) = submit_relative_motion send (hm_buttons m) (ev_x ev) (ev_y ev) s
          in (status, m, s)
      | Ev_absolute_motion \<Rightarrow> let (status, s) = fallback ev s in (status, m, s)
      | Ev_button \<Rightarrow> submit_button send m ev s
      | Ev_vertical_scroll \<Rightarrow>
          let (status, r, s) = submit_scroll send (hm_buttons m) (vertical_scroll_remainder m)
                                 (high_resolution_scroll ev) True s
          in (status, m\<lparr>vertical_scroll_remainder := r\<rparr>, s)
      | Ev_horizontal_scroll \<Rightarrow>
          let (status, r, s) = submit_scroll send (hm_buttons m) (horizontal_scroll_remainder m)
                                 (high_resolution_scroll ev) False s
          in (status, m\<lparr>horizontal_scroll_remainder := r\<rparr>, s))"

definition hid_mouse_close ::
  "('s \<Rightarrow> operation_status \<times> 's) \<Rightarrow> hid_mouse \<Rightarrow> 's \<Rightarrow> operation_status \<times> hid_mouse \<times> 's" where
  "hid_mouse_close close_device m s =
     (if \<not> hm_open m then (success, m, s)
      else let (status, s) = close_device s in (status, m\<lparr>hm_open := False\<rparr>, s))"

section \<open>What the reports say\<close>

lemma mouse_report_fields:
  assumes "- 32768 \<le> x" "x \<le> 32767" "- 32768 \<le> y" "y \<le> 32767"
    and "- 127 \<le> w" "w \<le> 127" "- 127 \<le> p" "p \<le> 127"
  shows "length (mouse_report b x y w p) = 7" and "mouse_report b x y w p ! 0 = b"
    and "report_field f (mouse_report b x y w p) =
      (case f of Field_x \<Rightarrow> x | Field_y \<Rightarrow> y | Field_wheel \<Rightarrow> w | Field_pan \<Rightarrow> p)"
proof -
  have r: "mouse_report b x y w p =
      (set_mouse_i16 (set_mouse_i16 ((replicate 7 0)[0 := b]) 1 x) 3 y)
        [5 := word_of_int w, 6 := word_of_int p]"
    by (simp add: mouse_report_def set_mouse_i16_def Let_def LVH_WINDOWS_MOUSE_INPUT_REPORT_SIZE_def numeral_eq_Suc)
  show "length (mouse_report b x y w p) = 7"
    by (simp add: r)
  show "mouse_report b x y w p ! 0 = b"
    by (simp add: r set_mouse_i16_def Let_def)
  show "report_field f (mouse_report b x y w p) =
      (case f of Field_x \<Rightarrow> x | Field_y \<Rightarrow> y | Field_wheel \<Rightarrow> w | Field_pan \<Rightarrow> p)"
    using assms by (cases f) (auto simp: r mouse_i16_set mouse_i16_set_other intro!: mouse_i8_word)
qed

definition travel :: "mouse_field \<Rightarrow> bytes list \<Rightarrow> int" where
  "travel f rs = (\<Sum>r\<leftarrow>rs. report_field f r)"

text \<open>A report of the descriptor: five button bits, a wheel and a pan in \<open>- 127\<close> to
  \<open>127\<close>.\<close>

definition mouse_report_ok :: "bytes \<Rightarrow> bool" where
  "mouse_report_ok r \<longleftrightarrow> length r = 7 \<and> r ! 0 < 32 \<and>
     \<bar>report_field Field_wheel r\<bar> \<le> 127 \<and> \<bar>report_field Field_pan r\<bar> \<le> 127"

lemma travel_simps [simp]:
  "travel f [] = 0" "travel f (r # rs) = report_field f r + travel f rs"
  "travel f (rs @ rs') = travel f rs + travel f rs'"
  by (simp_all add: travel_def)

fun field_units :: "mouse_field \<Rightarrow> int" where
  "field_units Field_x = 1"
| "field_units Field_y = 1"
| "field_units Field_wheel = mouse_scroll_units_per_detent"
| "field_units Field_pan = mouse_scroll_units_per_detent"

text \<open>What an event asks for, and what the device still owes.\<close>

definition requested :: "mouse_field \<Rightarrow> mouse_event \<Rightarrow> int" where
  "requested f ev =
     (case (f, event_kind ev) of
        (Field_x, Ev_relative_motion) \<Rightarrow> ev_x ev
      | (Field_y, Ev_relative_motion) \<Rightarrow> ev_y ev
      | (Field_wheel, Ev_vertical_scroll) \<Rightarrow> high_resolution_scroll ev
      | (Field_pan, Ev_horizontal_scroll) \<Rightarrow> high_resolution_scroll ev
      | _ \<Rightarrow> 0)"

fun owed :: "mouse_field \<Rightarrow> hid_mouse \<Rightarrow> int" where
  "owed Field_x m = 0"
| "owed Field_y m = 0"
| "owed Field_wheel m = vertical_scroll_remainder m"
| "owed Field_pan m = horizontal_scroll_remainder m"

definition hid_mouse_ok :: "hid_mouse \<Rightarrow> bool" where
  "hid_mouse_ok m \<longleftrightarrow> hm_buttons m < 32 \<and> \<bar>vertical_scroll_remainder m\<bar> < 120 \<and>
     \<bar>horizontal_scroll_remainder m\<bar> < 120"

lemma owed_less: "hid_mouse_ok m \<Longrightarrow> \<bar>owed f m\<bar> < field_units f"
  by (cases f) (simp_all add: hid_mouse_ok_def mouse_scroll_units_per_detent_def)

lemma button_mask_small:
  assumes "b < (32 :: u8)" and "i < 5"
  shows "b OR push_bit i 1 < 32 \<and> b AND NOT (push_bit i 1) < 32"
proof -
  have small: "w < (32 :: u8) \<longleftrightarrow> take_bit 5 w = w" for w
    by (simp add: word_less_def word_uint_eq_iff unsigned_take_bit_eq take_bit_int_eq_self_iff)
  have "take_bit 5 (push_bit i 1 :: u8) = push_bit i 1"
    using assms(2) take_bit_push_bit [of 5 i "1 :: u8"] by simp
  moreover have "take_bit 5 (b AND c) = take_bit 5 b AND c" for c
    by (rule bit_eqI) (auto simp: bit_simps)
  ultimately show ?thesis
    using assms(1) by (simp add: small take_bit_or)
qed

section \<open>Report channels\<close>

locale report_channel =
  fixes send :: "bytes \<Rightarrow> 's \<Rightarrow> operation_status \<times> 's"
    and sent :: "'s \<Rightarrow> bytes list"
  assumes sends: "send r s = (status, s') \<Longrightarrow>
    sent s' = sent s @ (if status_ok status then [r] else [])"
begin

text \<open>A device operation that may send: it adds conforming reports, and when it succeeds
  they travel the distance \<open>d\<close>.\<close>

definition sends_travel :: "(mouse_field \<Rightarrow> int) \<Rightarrow> 's \<Rightarrow> operation_status \<Rightarrow> 's \<Rightarrow> bool" where
  "sends_travel d s status s' \<longleftrightarrow>
     (\<exists>rs. sent s' = sent s @ rs \<and> list_all mouse_report_ok rs \<and>
        (status_ok status \<longrightarrow> (\<forall>f. travel f rs = d f)))"

lemma sends_travel_none: "(\<And>f. d f = 0) \<Longrightarrow> sends_travel d s status s"
  unfolding sends_travel_def by (intro exI [of _ "[]"]) simp

lemma sends_travel_step:
  assumes "mouse_emit send b x y w p s = (status, s')"
    and "- 32768 \<le> x" "x \<le> 32767" "- 32768 \<le> y" "y \<le> 32767"
    and "- 127 \<le> w" "w \<le> 127" "- 127 \<le> p" "p \<le> 127" and "b < 32"
    and "\<And>f. d f = (case f of Field_x \<Rightarrow> x | Field_y \<Rightarrow> y | Field_wheel \<Rightarrow> w | Field_pan \<Rightarrow> p)"
  shows "sends_travel d s status s'"
proof -
  note fields = mouse_report_fields [where b = b, OF assms(2-9)]
  have "mouse_report_ok (mouse_report b x y w p)"
    using fields(1,2) fields(3) [of Field_wheel] fields(3) [of Field_pan] assms
    by (simp add: mouse_report_ok_def abs_le_iff)
  then show ?thesis
    unfolding sends_travel_def
    using sends [OF assms(1) [unfolded mouse_emit_def]] fields(3) assms(11)
    by (intro exI [of _ "if status_ok status then [mouse_report b x y w p] else []"]) auto
qed

lemma sends_travel_trans:
  assumes "sends_travel d1 s st1 s1" "status_ok st1" "sends_travel d2 s1 st2 s2"
    and "\<And>f. d f = d1 f + d2 f"
  shows "sends_travel d s st2 s2"
proof -
  obtain rs1 rs2 where rs: "sent s1 = sent s @ rs1" "list_all mouse_report_ok rs1"
      "\<forall>f. travel f rs1 = d1 f" "sent s2 = sent s1 @ rs2" "list_all mouse_report_ok rs2"
      "status_ok st2 \<longrightarrow> (\<forall>f. travel f rs2 = d2 f)"
    using assms(1-3) unfolding sends_travel_def by blast
  then show ?thesis
    unfolding sends_travel_def by (intro exI [of _ "rs1 @ rs2"]) (simp add: assms(4))
qed

lemma sends_travel_fail:
  "sends_travel d s st s' \<Longrightarrow> \<not> status_ok st \<Longrightarrow> sends_travel d' s st s'"
  unfolding sends_travel_def by auto

lemma relative_motion_travel:
  assumes "b < 32"
  shows "submit_relative_motion send b x y s = (status, s') \<Longrightarrow>
     sends_travel (\<lambda>f. case f of Field_x \<Rightarrow> x | Field_y \<Rightarrow> y | _ \<Rightarrow> 0) s status s'"
proof (induction "nat \<bar>x\<bar> + nat \<bar>y\<bar>" arbitrary: x y s rule: less_induct)
  case less
  let ?x = "clamp_int x (- 32768) 32767" and ?y = "clamp_int y (- 32768) 32767"
  let ?d = "\<lambda>x y f. case f of Field_x \<Rightarrow> x | Field_y \<Rightarrow> y | _ \<Rightarrow> (0 :: int)"
  show ?case
  proof (cases "x = 0 \<and> y = 0")
    case True
    then show ?thesis
      using less.prems
      by (auto simp: submit_relative_motion.simps intro!: sends_travel_none split: mouse_field.splits)
  next
    case False
    obtain st1 s1 where emit: "mouse_emit send b ?x ?y 0 0 s = (st1, s1)"
      by (cases "mouse_emit send b ?x ?y 0 0 s")
    have step: "sends_travel (?d ?x ?y) s st1 s1"
      by (rule sends_travel_step [OF emit]) (auto simp: clamp_int_def assms split: mouse_field.splits)
    show ?thesis
    proof (cases "status_ok st1")
      case True
      then have "submit_relative_motion send b (x - ?x) (y - ?y) s1 = (status, s')"
        using less.prems False emit by (subst (asm) submit_relative_motion.simps) auto
      moreover have "nat \<bar>x - ?x\<bar> + nat \<bar>y - ?y\<bar> < nat \<bar>x\<bar> + nat \<bar>y\<bar>"
        using False by (auto simp: clamp_int_def)
      ultimately have "sends_travel (?d (x - ?x) (y - ?y)) s1 status s'"
        using less.hyps by blast
      from sends_travel_trans [OF step True this] show ?thesis
        by (simp split: mouse_field.splits)
    next
      case failed: False
      then have "status = st1" "s' = s1"
        using less.prems False emit by (auto simp: submit_relative_motion.simps)
      with step failed show ?thesis
        by (blast intro: sends_travel_fail)
    qed
  qed
qed

lemma detents_travel:
  assumes "b < 32"
  shows "emit_detents send b vertical detents s = (status, s') \<Longrightarrow>
     sends_travel (\<lambda>f. if f = (if vertical then Field_wheel else Field_pan) then detents else 0)
       s status s'"
proof (induction "nat \<bar>detents\<bar>" arbitrary: detents s rule: less_induct)
  case less
  let ?r = "clamp_int detents (- 127) 127"
  let ?d = "\<lambda>n f. if f = (if vertical then Field_wheel else Field_pan) then n else (0 :: int)"
  show ?case
  proof (cases "detents = 0")
    case True
    then show ?thesis
      using less.prems by (auto simp: emit_detents.simps intro!: sends_travel_none)
  next
    case False
    let ?emit = "if vertical then mouse_emit send b 0 0 ?r 0 s else mouse_emit send b 0 0 0 ?r s"
    obtain st1 s1 where emit: "?emit = (st1, s1)"
      by (cases ?emit)
    have step: "sends_travel (?d ?r) s st1 s1"
    proof (cases vertical)
      case True
      with emit have "mouse_emit send b 0 0 ?r 0 s = (st1, s1)"
        by simp
      then show ?thesis
        by (rule sends_travel_step) (auto simp: clamp_int_def assms True split: mouse_field.splits)
    next
      case False
      with emit have "mouse_emit send b 0 0 0 ?r s = (st1, s1)"
        by simp
      then show ?thesis
        by (rule sends_travel_step) (auto simp: clamp_int_def assms False split: mouse_field.splits)
    qed
    show ?thesis
    proof (cases "status_ok st1")
      case True
      then have "emit_detents send b vertical (detents - ?r) s1 = (status, s')"
        using less.prems False emit by (subst (asm) emit_detents.simps) (auto simp: Let_def)
      moreover have "nat \<bar>detents - ?r\<bar> < nat \<bar>detents\<bar>"
        using False by (auto simp: clamp_int_def)
      ultimately have "sends_travel (?d (detents - ?r)) s1 status s'"
        using less.hyps by blast
      from sends_travel_trans [OF step True this] show ?thesis
        by simp
    next
      case failed: False
      then have "status = st1" "s' = s1"
        using less.prems False emit by (auto simp: emit_detents.simps Let_def)
      with step failed show ?thesis
        by (blast intro: sends_travel_fail)
    qed
  qed
qed

lemma scroll_travel:
  assumes "submit_scroll send b r n vertical s = (status, r', s')" and "b < 32"
  shows "\<bar>r'\<bar> < 120 \<and> (\<exists>d. 120 * d + r' = r + n \<and>
    sends_travel (\<lambda>f. if f = (if vertical then Field_wheel else Field_pan) then d else 0) s status s')"
proof -
  let ?d = "(r + n) sdiv mouse_scroll_units_per_detent"
  have r': "r' = (r + n) smod 120"
    using assms(1) by (auto simp: submit_scroll_def Let_def mouse_scroll_units_per_detent_def split: prod.splits)
  have "emit_detents send b vertical ?d s = (status, s')"
    using assms(1) by (auto simp: submit_scroll_def Let_def split: prod.splits)
  then have "sends_travel (\<lambda>f. if f = (if vertical then Field_wheel else Field_pan) then ?d else 0)
      s status s'"
    by (rule detents_travel [OF assms(2)])
  moreover have "\<bar>r'\<bar> < 120"
    using smod_int_range [of 120 "r + n"] by (auto simp: r' abs_less_iff)
  moreover have "120 * ?d + r' = r + n"
    unfolding r' mouse_scroll_units_per_detent_def by (rule mult_sdiv_smod_eq)
  ultimately show ?thesis
    by blast
qed

lemma button_travel:
  assumes "submit_button send m ev s = (status, m', s')" and "hid_mouse_ok m"
  shows "hid_mouse_ok m' \<and> (\<forall>f. owed f m' = owed f m) \<and> sends_travel (\<lambda>f. 0) s status s'"
proof -
  obtain i where i: "hid_mouse_button_bit (ev_button ev) = Some i" "i < 5"
    by (cases "ev_button ev") auto
  let ?b = "if ev_pressed ev then hm_buttons m OR push_bit i 1
            else hm_buttons m AND NOT (push_bit i 1)"
  have emit: "mouse_emit send ?b 0 0 0 0 s = (status, s')" and m': "m' = m\<lparr>hm_buttons := ?b\<rparr>"
    using assms(1) i(1) by (auto simp: submit_button_def Let_def split: prod.splits)
  have "?b < 32"
    using button_mask_small [OF _ i(2)] assms(2) by (simp add: hid_mouse_ok_def)
  then have "sends_travel (\<lambda>f. 0) s status s'"
    by (intro sends_travel_step [OF emit]) (auto split: mouse_field.splits)
  moreover have "owed f m' = owed f m" for f
    by (cases f) (simp_all add: m')
  ultimately show ?thesis
    using \<open>?b < 32\<close> assms(2) by (simp add: m' hid_mouse_ok_def)
qed

text \<open>One event: the reports carry what was asked for, in whole units; the rest is owed.\<close>

lemma hid_mouse_submit_travel:
  assumes run: "hid_mouse_submit send fallback m ev s = (status, m', s')" and ok: "hid_mouse_ok m"
    and fallback: "\<And>ev s st s'. fallback ev s = (st, s') \<Longrightarrow> sent s' = sent s"
  shows "hid_mouse_ok m' \<and> (\<exists>rs. sent s' = sent s @ rs \<and> list_all mouse_report_ok rs \<and>
    (status_ok status \<longrightarrow>
       (\<forall>f. field_units f * travel f rs + owed f m' = owed f m + requested f ev)))"
proof (cases "hm_open m")
  case False
  then show ?thesis
    using run ok by (auto simp: hid_mouse_submit_def)
next
  case True
  have b: "hm_buttons m < 32"
    using ok by (simp add: hid_mouse_ok_def)
  have conclude: ?thesis
    if "sends_travel d s status s'" "hid_mouse_ok m'"
      "\<And>f. field_units f * d f + owed f m' = owed f m + requested f ev" for d
    using that unfolding sends_travel_def by auto
  show ?thesis
  proof (cases "event_kind ev")
    case Ev_relative_motion
    then have "submit_relative_motion send (hm_buttons m) (ev_x ev) (ev_y ev) s = (status, s')"
        "m' = m"
      using run True by (auto simp: hid_mouse_submit_def split: prod.splits)
    note this(2) and relative_motion_travel [OF b this(1)]
    then show ?thesis
      by (rule_tac conclude) (auto simp: ok requested_def Ev_relative_motion split: mouse_field.splits)
  next
    case Ev_absolute_motion
    then have "fallback ev s = (status, s')" and "m' = m"
      using run True by (auto simp: hid_mouse_submit_def split: prod.splits)
    then show ?thesis
      using fallback ok
      by (auto simp: requested_def Ev_absolute_motion intro!: exI [of _ "[]"] split: mouse_field.splits)
  next
    case Ev_button
    then have "submit_button send m ev s = (status, m', s')"
      using run True by (simp add: hid_mouse_submit_def)
    from button_travel [OF this ok] show ?thesis
      by (intro conclude) (auto simp: requested_def Ev_button split: mouse_field.splits)
  next
    case Ev_vertical_scroll
    then obtain r where "submit_scroll send (hm_buttons m) (vertical_scroll_remainder m)
        (high_resolution_scroll ev) True s = (status, r, s')"
      and m': "m' = m\<lparr>vertical_scroll_remainder := r\<rparr>"
      using run True by (auto simp: hid_mouse_submit_def split: prod.splits)
    from scroll_travel [OF this(1) b] obtain d where "\<bar>r\<bar> < 120"
        "120 * d + r = vertical_scroll_remainder m + high_resolution_scroll ev"
        "sends_travel (\<lambda>f. if f = Field_wheel then d else 0) s status s'"
      by auto
    then show ?thesis
      using ok
      by (intro conclude) (auto simp: m' hid_mouse_ok_def requested_def Ev_vertical_scroll
          mouse_scroll_units_per_detent_def split: mouse_field.splits)
  next
    case Ev_horizontal_scroll
    then obtain r where "submit_scroll send (hm_buttons m) (horizontal_scroll_remainder m)
        (high_resolution_scroll ev) False s = (status, r, s')"
      and m': "m' = m\<lparr>horizontal_scroll_remainder := r\<rparr>"
      using run True by (auto simp: hid_mouse_submit_def split: prod.splits)
    from scroll_travel [OF this(1) b] obtain d where "\<bar>r\<bar> < 120"
        "120 * d + r = horizontal_scroll_remainder m + high_resolution_scroll ev"
        "sends_travel (\<lambda>f. if f = Field_pan then d else 0) s status s'"
      by auto
    then show ?thesis
      using ok
      by (intro conclude) (auto simp: m' hid_mouse_ok_def requested_def Ev_horizontal_scroll
          mouse_scroll_units_per_detent_def split: mouse_field.splits)
  qed
qed

end

section \<open>Through the driver\<close>

text \<open>
  The driver's pipe takes a report or refuses it; what it takes is pushed to the queue.
  The history of the queue is the list of its pushes, and of the pops by which the host
  reads it. A call to the device and a read by the host are the steps of a run.
\<close>

definition driver_send ::
  "(bytes \<Rightarrow> 'w \<Rightarrow> operation_status \<times> 'w) \<Rightarrow> (vhf_op list \<times> 'w) channel" where
  "driver_send pipe r = (\<lambda>(ops, w). let (status, w) = pipe r w in
     (status, if status_ok status then ops @ [Push r] else ops, w))"

definition beside_queue ::
  "('e \<Rightarrow> 'w \<Rightarrow> operation_status \<times> 'w) \<Rightarrow> 'e \<Rightarrow> vhf_op list \<times> 'w
     \<Rightarrow> operation_status \<times> vhf_op list \<times> 'w" where
  "beside_queue f ev = (\<lambda>(ops, w). let (status, w) = f ev w in (status, ops, w))"

interpretation driver: report_channel "driver_send pipe" "\<lambda>(ops, w). pushed ops" for pipe
  by unfold_locales (auto simp: driver_send_def split: prod.splits)

datatype mouse_step = Submit_mouse mouse_event | Host_read

fun hid_mouse_run ::
  "(bytes \<Rightarrow> 'w \<Rightarrow> operation_status \<times> 'w) \<Rightarrow> (mouse_event \<Rightarrow> 'w \<Rightarrow> operation_status \<times> 'w)
     \<Rightarrow> mouse_step list \<Rightarrow> hid_mouse \<times> vhf_op list \<times> 'w
     \<Rightarrow> operation_status list \<times> hid_mouse \<times> vhf_op list \<times> 'w" where
  "hid_mouse_run pipe inject [] st = ([], st)"
| "hid_mouse_run pipe inject (Submit_mouse ev # steps) (m, s) =
     (let (status, m, s) = hid_mouse_submit (driver_send pipe) (beside_queue inject) m ev s;
          (statuses, st) = hid_mouse_run pipe inject steps (m, s)
      in (status # statuses, st))"
| "hid_mouse_run pipe inject (Host_read # steps) (m, ops, w) =
     hid_mouse_run pipe inject steps (m, ops @ [Pop], w)"

fun mouse_events :: "mouse_step list \<Rightarrow> mouse_event list" where
  "mouse_events [] = []"
| "mouse_events (Submit_mouse ev # steps) = ev # mouse_events steps"
| "mouse_events (Host_read # steps) = mouse_events steps"

lemma pushed_Pop [simp]: "pushed (ops @ [Pop]) = pushed ops"
  by simp

lemma hid_mouse_run_travel:
  "hid_mouse_run pipe inject steps (m, ops, w) = (statuses, m', ops', w') \<Longrightarrow> hid_mouse_ok m \<Longrightarrow>
   hid_mouse_ok m' \<and> (\<exists>rs. pushed ops' = pushed ops @ rs \<and> list_all mouse_report_ok rs \<and>
     (list_all status_ok statuses \<longrightarrow> (\<forall>f. field_units f * travel f rs + owed f m' =
        owed f m + (\<Sum>ev\<leftarrow>mouse_events steps. requested f ev))))"
proof (induction steps arbitrary: m ops w statuses)
  case Nil
  then show ?case
    by (auto intro!: exI [of _ "[]"])
next
  case (Cons a steps)
  show ?case
  proof (cases a)
    case Host_read
    then show ?thesis
      using Cons.IH [of m "ops @ [Pop]" w statuses] Cons.prems by simp
  next
    case (Submit_mouse ev)
    obtain status m1 ops1 w1 where
      call: "hid_mouse_submit (driver_send pipe) (beside_queue inject) m ev (ops, w) = (status, m1, ops1, w1)"
      by (metis prod_cases4)
    obtain statuses1 where rest: "hid_mouse_run pipe inject steps (m1, ops1, w1) = (statuses1, m', ops', w')"
      and sts: "statuses = status # statuses1"
      using Cons.prems(1) Submit_mouse call by (auto split: prod.splits)
    have "hid_mouse_ok m1 \<and> (\<exists>rs. pushed ops1 = pushed ops @ rs \<and> list_all mouse_report_ok rs \<and>
        (status_ok status \<longrightarrow>
          (\<forall>f. field_units f * travel f rs + owed f m1 = owed f m + requested f ev)))"
      using driver.hid_mouse_submit_travel [OF call Cons.prems(2)]
      by (force simp: beside_queue_def split: prod.splits)
    then obtain rs where first: "hid_mouse_ok m1" "pushed ops1 = pushed ops @ rs"
        "list_all mouse_report_ok rs" "status_ok status \<longrightarrow>
          (\<forall>f. field_units f * travel f rs + owed f m1 = owed f m + requested f ev)"
      by blast
    from Cons.IH [OF rest first(1)] obtain rs1 where later: "hid_mouse_ok m'"
        "pushed ops' = pushed ops1 @ rs1" "list_all mouse_report_ok rs1"
        "list_all status_ok statuses1 \<longrightarrow> (\<forall>f. field_units f * travel f rs1 + owed f m' =
          owed f m1 + (\<Sum>ev\<leftarrow>mouse_events steps. requested f ev))"
      by blast
    have "field_units f * travel f (rs @ rs1) + owed f m' =
        owed f m + (\<Sum>ev\<leftarrow>mouse_events (a # steps). requested f ev)"
      if "list_all status_ok statuses" for f
      using first(4) later(4) that sts Submit_mouse by (simp add: distrib_left) (metis add.assoc)
    then show ?thesis
      using first later by (intro conjI exI [of _ "rs @ rs1"]) auto
  qed
qed

section \<open>Properties\<close>

text \<open>C10: Motion arrives: when every event was taken and the queue was never full,
  the host gets, once it has read the queue empty, exactly the motion of the events, however
  far they go beyond the range of a report. The wheel and the pan turn by whole detents of 120
  units, and less than one detent stays with the device for the next event.\<close>

theorem hid_mouse_motion_arrives:
  assumes "hid_mouse_run pipe inject steps (new_hid_mouse, [], w) = (statuses, m', ops, w')"
    and "list_all status_ok statuses"
    and "vhf_device_type c = LVH_WINDOWS_DEVICE_MOUSE" and "lossless c ops empty_queue"
    and "n = pending_work (snd (vhf_run c ops empty_queue))"
  shows "queue_empty (snd (vhf_run c (ops @ replicate n Pop) empty_queue)) \<and>
    field_units f * travel f (filter (\<lambda>r. length r = 7)
        (fst (vhf_run c (ops @ replicate n Pop) empty_queue))) + owed f m'
      = (\<Sum>ev\<leftarrow>mouse_events steps. requested f ev) \<and>
    \<bar>owed f m'\<bar> < field_units f"
proof -
  have new: "hid_mouse_ok new_hid_mouse" "owed f new_hid_mouse = 0"
    by (simp add: hid_mouse_ok_def new_hid_mouse_def) (cases f; simp add: new_hid_mouse_def)
  obtain rs where rs: "hid_mouse_ok m'" "pushed ops = rs" "list_all mouse_report_ok rs"
      "field_units f * travel f rs + owed f m' = (\<Sum>ev\<leftarrow>mouse_events steps. requested f ev)"
    using hid_mouse_run_travel [OF assms(1) new(1)] assms(2) new(2) by auto
  have "filter (\<lambda>r. length r = 7) (pushed ops) = rs"
    using rs(2,3) by (auto simp: list_all_iff mouse_report_ok_def)
  then show ?thesis
    using mouse_motion_drained [OF assms(3-5), of f] rs(4) owed_less [OF rs(1), of f]
    by (simp add: travel_def)
qed

text \<open>Every report the device sends, whatever the pipe does with it, is a report
  of its descriptor: seven bytes, five button bits, wheel and pan in their range.\<close>

theorem hid_mouse_reports_conform:
  "case hid_mouse_run pipe inject steps (new_hid_mouse, [], w) of
     (statuses, m', ops, w') \<Rightarrow> list_all mouse_report_ok (pushed ops)"
proof (cases "hid_mouse_run pipe inject steps (new_hid_mouse, [], w)")
  case (fields statuses m' ops w')
  have "hid_mouse_ok new_hid_mouse"
    by (simp add: hid_mouse_ok_def new_hid_mouse_def)
  from hid_mouse_run_travel [OF fields this] show ?thesis
    by (auto simp: fields)
qed

definition mouse_example :: "mouse_step list" where
  "mouse_example =
     [Submit_mouse (default_mouse_event\<lparr>ev_x := 40000, ev_y := - 5\<rparr>), Host_read,
      Submit_mouse (default_mouse_event\<lparr>event_kind := Ev_vertical_scroll, high_resolution_scroll := - 250\<rparr>)]"

definition mouse_example_end :: "operation_status list \<times> hid_mouse \<times> vhf_op list \<times> unit" where
  "mouse_example_end = hid_mouse_run (\<lambda>r w. (success, w)) (\<lambda>ev w. (success, w)) mouse_example
     (new_hid_mouse, [], ())"

lemma mouse_example_ok:
  "list_all status_ok (fst mouse_example_end)"
  "lossless mouse_config (fst (snd (snd mouse_example_end))) empty_queue"
  "owed Field_wheel (fst (snd mouse_example_end)) = - 10"
  by code_simp+

theorem hid_mouse_motion_arrives_witness:
  "\<exists>n. travel Field_x (filter (\<lambda>r. length r = 7) (fst (vhf_run mouse_config
       (fst (snd (snd mouse_example_end)) @ replicate n Pop) empty_queue))) = 40000 \<and>
     travel Field_wheel (filter (\<lambda>r. length r = 7) (fst (vhf_run mouse_config
       (fst (snd (snd mouse_example_end)) @ replicate n Pop) empty_queue))) = - 2"
proof -
  obtain statuses m' ops w' where e: "mouse_example_end = (statuses, m', ops, w')"
    by (metis prod_cases4)
  let ?n = "pending_work (snd (vhf_run mouse_config ops empty_queue))"
  have sums: "(\<Sum>ev\<leftarrow>mouse_events mouse_example. requested Field_x ev) = 40000"
    "(\<Sum>ev\<leftarrow>mouse_events mouse_example. requested Field_wheel ev) = - 250"
    by code_simp+
  have "travel Field_x (filter (\<lambda>r. length r = 7)
      (fst (vhf_run mouse_config (ops @ replicate ?n Pop) empty_queue))) = 40000"
    and "120 * travel Field_wheel (filter (\<lambda>r. length r = 7)
      (fst (vhf_run mouse_config (ops @ replicate ?n Pop) empty_queue))) = - 240"
    using hid_mouse_motion_arrives [OF e [unfolded mouse_example_end_def], of mouse_config ?n Field_x]
      hid_mouse_motion_arrives [OF e [unfolded mouse_example_end_def], of mouse_config ?n Field_wheel]
      mouse_example_ok sums mouse_history_ok(1)
    by (simp_all add: e mouse_scroll_units_per_detent_def)
  then show ?thesis
    by (intro exI [of _ ?n]) (simp add: e)
qed

end
