(* ===== verification/WindowsHidKeyboard.thy ===== *)
theory WindowsHidKeyboard
  imports WindowsHidMouse
begin

text \<open>
  The driver-backed keyboard, class \<open>WindowsHidKeyboard\<close> of
  \<open>src/src/platform/windows/windows_backend.cpp\<close>: the translation of Windows scan codes
  and virtual keys into HID usages, the set of pressed keys, and the eighteen-byte report of
  the keyboard descriptor. Keys without a usage go to the injection functions of
  \<open>WindowsInput\<close>.

  The specification is the set of keys held after a history of events, \<open>held\<close>; a report is
  read as the host reads it, \<open>report_keys\<close>.
\<close>

section \<open>Usages\<close>

definition hid_scan_code_is_extended :: "'w win32 \<Rightarrow> u16 \<Rightarrow> u16 \<Rightarrow> bool \<Rightarrow> bool" where
  "hid_scan_code_is_extended os scan key ext \<longleftrightarrow>
     (let prefix = scan AND 0xFF00 in
      ext \<or> prefix = 0xE000 \<or> prefix = 0xE100 \<or> extended_key os key)"

definition hid_modifier_bit_from_scan_code ::
  "'w win32 \<Rightarrow> u16 \<Rightarrow> u16 \<Rightarrow> bool \<Rightarrow> nat option" where
  "hid_modifier_bit_from_scan_code os scan key ext =
     (let is_extended = hid_scan_code_is_extended os scan key ext; c = scan AND 0xFF in
      if c = 0x1D then Some (if is_extended then 4 else 0)
      else if c = 0x2A then Some 1
      else if c = 0x36 then Some 5
      else if c = 0x38 then Some (if is_extended then 6 else 2)
      else if c = 0x5B then Some 3
      else if c = 0x5C then Some 7
      else None)"

definition hid_modifier_bit_from_virtual_key :: "u16 \<Rightarrow> nat option" where
  "hid_modifier_bit_from_virtual_key =
     map_of [(0x11, 0), (0xA2, 0), (0x10, 1), (0xA0, 1), (0x12, 2), (0xA4, 2), (0x5B, 3),
       (0xA3, 4), (0xA1, 5), (0xA5, 6), (0x5C, 7)]"

text \<open>\<open>mapped_hid_usage\<close>: the usage of the first entry with the code.\<close>

definition mapped_hid_usage :: "'a \<Rightarrow> ('a \<times> u8) list \<Rightarrow> u8 option" where
  "mapped_hid_usage c mappings = map_of mappings c"

definition extended_usages :: "(u8 \<times> u8) list" where
  "extended_usages =
     [(0x1C, 0x58), (0x20, 0x7F), (0x2E, 0x81), (0x30, 0x80), (0x35, 0x54),
      (0x37, 0x46), (0x45, 0x48), (0x46, 0x48), (0x47, 0x4A), (0x48, 0x52),
      (0x49, 0x4B), (0x4B, 0x50), (0x4D, 0x4F), (0x4F, 0x4D), (0x50, 0x51),
      (0x51, 0x4E), (0x52, 0x49), (0x53, 0x4C), (0x5D, 0x65), (0x5E, 0x66)]"

definition standard_usages :: "(u8 \<times> u8) list" where
  "standard_usages =
     [(0x01, 0x29), (0x02, 0x1E), (0x03, 0x1F), (0x04, 0x20), (0x05, 0x21),
      (0x06, 0x22), (0x07, 0x23), (0x08, 0x24), (0x09, 0x25), (0x0A, 0x26),
      (0x0B, 0x27), (0x0C, 0x2D), (0x0D, 0x2E), (0x0E, 0x2A), (0x0F, 0x2B),
      (0x10, 0x14), (0x11, 0x1A), (0x12, 0x08), (0x13, 0x15), (0x14, 0x17),
      (0x15, 0x1C), (0x16, 0x18), (0x17, 0x0C), (0x18, 0x12), (0x19, 0x13),
      (0x1A, 0x2F), (0x1B, 0x30), (0x1C, 0x28), (0x1E, 0x04), (0x1F, 0x16),
      (0x20, 0x07), (0x21, 0x09), (0x22, 0x0A), (0x23, 0x0B), (0x24, 0x0D),
      (0x25, 0x0E), (0x26, 0x0F), (0x27, 0x33), (0x28, 0x34), (0x29, 0x35),
      (0x2B, 0x31), (0x2C, 0x1D), (0x2D, 0x1B), (0x2E, 0x06), (0x2F, 0x19),
      (0x30, 0x05), (0x31, 0x11), (0x32, 0x10), (0x33, 0x36), (0x34, 0x37),
      (0x35, 0x38), (0x37, 0x55), (0x39, 0x2C), (0x3A, 0x39), (0x46, 0x47),
      (0x47, 0x5F), (0x48, 0x60), (0x49, 0x61), (0x4A, 0x56), (0x4B, 0x5C),
      (0x4C, 0x5D), (0x4D, 0x5E), (0x4E, 0x57), (0x4F, 0x59), (0x50, 0x5A),
      (0x51, 0x5B), (0x52, 0x62), (0x53, 0x63), (0x56, 0x64), (0x57, 0x44),
      (0x58, 0x45)]"

definition special_usages :: "(u16 \<times> u8) list" where
  "special_usages =
     [(0x30, 0x27), (0x0D, 0x28), (0x1B, 0x29), (0x08, 0x2A), (0x09, 0x2B),
      (0x20, 0x2C), (0xBD, 0x2D), (0xBB, 0x2E), (0xDB, 0x2F), (0xDD, 0x30),
      (0xDC, 0x31), (0xBA, 0x33), (0xDE, 0x34), (0xC0, 0x35), (0xBC, 0x36),
      (0xBE, 0x37), (0xBF, 0x38), (0x14, 0x39), (0x2C, 0x46), (0x91, 0x47),
      (0x13, 0x48), (0x2D, 0x49), (0x24, 0x4A), (0x21, 0x4B), (0x2E, 0x4C),
      (0x23, 0x4D), (0x22, 0x4E), (0x27, 0x4F), (0x25, 0x50), (0x28, 0x51),
      (0x26, 0x52), (0x90, 0x53), (0x6F, 0x54), (0x6A, 0x55), (0x6D, 0x56),
      (0x6B, 0x57), (0x60, 0x62), (0x6E, 0x63), (0xE2, 0x64), (0x5D, 0x65),
      (0x2B, 0x74), (0x2F, 0x75), (0x29, 0x77), (0xAD, 0x7F), (0xAF, 0x80),
      (0xAE, 0x81)]"

definition hid_usage_from_scan_code :: "'w win32 \<Rightarrow> u16 \<Rightarrow> u16 \<Rightarrow> bool \<Rightarrow> u8 option" where
  "hid_usage_from_scan_code os scan key ext =
     (let c = ucast (scan AND 0xFF) :: u8 in
      if hid_scan_code_is_extended os scan key ext then mapped_hid_usage c extended_usages
      else if 0x3B \<le> c \<and> c \<le> 0x44 then Some (0x3A + (c - 0x3B))
      else if c = 0x45 then Some (if key = 0x13 then 0x48 else 0x53)
      else if 0x64 \<le> c \<and> c \<le> 0x6F then Some (0x68 + (c - 0x64))
      else mapped_hid_usage c standard_usages)"

definition hid_usage_from_virtual_key :: "u16 \<Rightarrow> u8 option" where
  "hid_usage_from_virtual_key key =
     (if 0x41 \<le> key \<and> key \<le> 0x5A then Some (ucast (0x04 + (key - 0x41)))
      else if 0x31 \<le> key \<and> key \<le> 0x39 then Some (ucast (0x1E + (key - 0x31)))
      else if 0x70 \<le> key \<and> key \<le> 0x7B then Some (ucast (0x3A + (key - 0x70)))
      else if 0x7C \<le> key \<and> key \<le> 0x87 then Some (ucast (0x68 + (key - 0x7C)))
      else if 0x61 \<le> key \<and> key \<le> 0x69 then Some (ucast (0x59 + (key - 0x61)))
      else mapped_hid_usage key special_usages)"

definition hid_keyboard_scan_code :: "'w win32 \<Rightarrow> keyboard_event \<Rightarrow> u16" where
  "hid_keyboard_scan_code os ev =
     (if scan_code ev \<noteq> 0 then scan_code ev
      else if uses_normalized_key_code ev then windows_us_english_scan_code (key_code ev)
      else if (prefer_native_scan_code ev \<or> extended ev) \<and>
              can_map_virtual_key_to_scan_code (key_code ev)
      then ucast (os_map_key os (key_code ev))
      else 0)"

definition hid_keyboard_modifier_bit :: "'w win32 \<Rightarrow> keyboard_event \<Rightarrow> nat option" where
  "hid_keyboard_modifier_bit os ev =
     (let scan = hid_keyboard_scan_code os ev in
      if scan \<noteq> 0 then hid_modifier_bit_from_scan_code os scan (key_code ev) (extended ev)
      else hid_modifier_bit_from_virtual_key (key_code ev))"

definition hid_keyboard_usage :: "'w win32 \<Rightarrow> keyboard_event \<Rightarrow> u8 option" where
  "hid_keyboard_usage os ev =
     (let scan = hid_keyboard_scan_code os ev in
      if scan \<noteq> 0 then hid_usage_from_scan_code os scan (key_code ev) (extended ev)
      else hid_usage_from_virtual_key (key_code ev))"

section \<open>The device\<close>

text \<open>The pressed usages are a \<open>std::set\<close>, walked in ascending order.\<close>

record hid_keyboard =
  hk_open :: bool
  hk_modifiers :: u8
  pressed_usages :: "u8 set"

definition new_hid_keyboard :: hid_keyboard where
  "new_hid_keyboard = \<lparr>hk_open = True, hk_modifiers = 0, pressed_usages = {}\<rparr>"

definition usage_capacity :: nat where
  "usage_capacity = LVH_WINDOWS_KEYBOARD_INPUT_REPORT_SIZE - 2"

definition keyboard_report :: "u8 \<Rightarrow> u8 set \<Rightarrow> bytes option" where
  "keyboard_report modifiers usages =
     (let r = (replicate LVH_WINDOWS_KEYBOARD_INPUT_REPORT_SIZE 0)[0 := modifiers] in
      if usage_capacity < card usages then Some (take 2 r @ replicate (length r - 2) 0x01)
      else splice r 2 (sorted_list_of_set usages))"

definition keyboard_emit ::
  "'s channel \<Rightarrow> hid_keyboard \<Rightarrow> 's \<Rightarrow> (operation_status \<times> hid_keyboard \<times> 's) option" where
  "keyboard_emit send k s =
     map_option (\<lambda>r. let (status, s) = send r s in (status, k, s))
       (keyboard_report (hk_modifiers k) (pressed_usages k))"

text \<open>A write outside the report would be the value \<open>None\<close>.\<close>

definition hid_keyboard_submit ::
  "'w win32 \<Rightarrow> 's channel \<Rightarrow> (keyboard_event \<Rightarrow> 's \<Rightarrow> operation_status \<times> 's) \<Rightarrow> hid_keyboard
     \<Rightarrow> keyboard_event \<Rightarrow> 's \<Rightarrow> (operation_status \<times> hid_keyboard \<times> 's) option" where
  "hid_keyboard_submit os send fallback k ev s =
     (if \<not> hk_open k
      then Some (failure Err_device_closed ''Windows HID keyboard is closed'', k, s)
      else case hid_keyboard_modifier_bit os ev of
        Some i \<Rightarrow>
          let mask = push_bit i 1;
              m = (if key_pressed ev then hk_modifiers k OR mask else hk_modifiers k AND NOT mask)
          in keyboard_emit send (k\<lparr>hk_modifiers := m\<rparr>) s
      | None \<Rightarrow>
          (case hid_keyboard_usage os ev of
             None \<Rightarrow> let (status, s) = fallback ev s in Some (status, k, s)
           | Some u \<Rightarrow>
               keyboard_emit send
                 (if key_pressed ev then k\<lparr>pressed_usages := insert u (pressed_usages k)\<rparr>
                  else k\<lparr>pressed_usages := pressed_usages k - {u}\<rparr>) s))"

definition hid_keyboard_type_text ::
  "(keyboard_text_event \<Rightarrow> 's \<Rightarrow> operation_status \<times> 's) \<Rightarrow> hid_keyboard
     \<Rightarrow> keyboard_text_event \<Rightarrow> 's \<Rightarrow> operation_status \<times> 's" where
  "hid_keyboard_type_text fallback k t s =
     (if \<not> hk_open k then (failure Err_device_closed ''Windows HID keyboard is closed'', s)
      else fallback t s)"

definition hid_keyboard_close ::
  "('s \<Rightarrow> operation_status \<times> 's) \<Rightarrow> hid_keyboard \<Rightarrow> 's \<Rightarrow> operation_status \<times> hid_keyboard \<times> 's" where
  "hid_keyboard_close close_device k s =
     (if \<not> hk_open k then (success, k, s)
      else let (status, s) = close_device s in (status, k\<lparr>hk_open := False\<rparr>, s))"

section \<open>Held keys\<close>

datatype hid_key = Modifier nat | Usage u8

definition hid_key :: "'w win32 \<Rightarrow> keyboard_event \<Rightarrow> hid_key option" where
  "hid_key os ev =
     (case hid_keyboard_modifier_bit os ev of
        Some i \<Rightarrow> Some (Modifier i)
      | None \<Rightarrow> map_option Usage (hid_keyboard_usage os ev))"

text \<open>The keys held after a history: pressed and not released since.\<close>

fun held_from :: "'w win32 \<Rightarrow> keyboard_event list \<Rightarrow> hid_key set \<Rightarrow> hid_key set" where
  "held_from os [] keys = keys"
| "held_from os (ev # evs) keys =
     held_from os evs
       (case hid_key os ev of None \<Rightarrow> keys
        | Some k \<Rightarrow> if key_pressed ev then insert k keys else keys - {k})"

definition usages_of :: "hid_key set \<Rightarrow> u8 set" where
  "usages_of keys = {u. Usage u \<in> keys}"

text \<open>How a host reads a report: the modifier bits, and the usages, or nothing certain on
  the rollover usage.\<close>

definition report_keys :: "bytes \<Rightarrow> hid_key set \<times> u8 set option" where
  "report_keys r =
     (Modifier ` {i. i < 8 \<and> bit (r ! 0) i},
      if 0x01 \<in> set (drop 2 r) then None else Some (set (drop 2 r) - {0}))"

fun hid_keyboard_run ::
  "'w win32 \<Rightarrow> 's channel \<Rightarrow> (keyboard_event \<Rightarrow> 's \<Rightarrow> operation_status \<times> 's) \<Rightarrow> keyboard_event list
     \<Rightarrow> hid_keyboard \<times> 's \<Rightarrow> (hid_keyboard \<times> 's) option" where
  "hid_keyboard_run os send fallback [] st = Some st"
| "hid_keyboard_run os send fallback (ev # evs) (k, s) =
     do { (status, k, s) \<leftarrow> hid_keyboard_submit os send fallback k ev s;
          hid_keyboard_run os send fallback evs (k, s) }"

section \<open>A keyboard refines its held keys\<close>

fun key_ok :: "hid_key \<Rightarrow> bool" where
  "key_ok (Modifier i) \<longleftrightarrow> i < 8"
| "key_ok (Usage u) \<longleftrightarrow> 0x04 \<le> u \<and> u \<le> 0x81"

lemma mapped_hid_usage_in:
  "mapped_hid_usage c t = Some u \<Longrightarrow> list_all (\<lambda>(c, u). P u) t \<Longrightarrow> P u"
  by (auto simp: mapped_hid_usage_def list_all_iff dest!: map_of_SomeD)

lemma usage_tables_ok:
  "list_all (\<lambda>(c, u). key_ok (Usage u)) extended_usages"
  "list_all (\<lambda>(c, u). key_ok (Usage u)) standard_usages"
  "list_all (\<lambda>(c, u). key_ok (Usage u)) special_usages"
  by code_simp+

lemma usage_offset_ok:
  assumes "lo \<le> c" "c \<le> hi" "0x04 \<le> base" "unat base + (unat hi - unat lo) \<le> 0x81"
  shows "key_ok (Usage (base + (c - lo)))"
proof -
  have "unat (c - lo) = unat c - unat lo"
    using assms(1) by (simp add: unat_sub word_le_nat_alt)
  moreover have "unat lo \<le> unat c" "unat c \<le> unat hi" "4 \<le> unat base"
    using assms(1-3) by (simp_all add: word_le_nat_alt)
  ultimately have "unat (base + (c - lo)) = unat base + (unat c - unat lo)"
      "unat base + (unat c - unat lo) \<le> 0x81" "4 \<le> unat base"
    using assms(4) by (simp_all add: unat_word_ariths)
  then show ?thesis
    by (simp add: word_le_nat_alt)
qed

lemma hid_usage_from_scan_code_ok:
  "hid_usage_from_scan_code os scan key ext = Some u \<Longrightarrow> key_ok (Usage u)"
  using usage_offset_ok [of "0x3B" _ "0x44" "0x3A"] usage_offset_ok [of "0x64" _ "0x6F" "0x68"]
  by (auto simp: hid_usage_from_scan_code_def Let_def simp del: key_ok.simps
      intro: mapped_hid_usage_in [OF _ usage_tables_ok(1)] mapped_hid_usage_in [OF _ usage_tables_ok(2)]
      split: if_splits) (simp_all add: word_le_nat_alt)

lemma ucast_usage_ok:
  "key_ok (Usage (ucast (base + (key - lo)) :: u8))"
  if "lo \<le> key" "key \<le> hi" "0x04 \<le> base" "unat base + (unat hi - unat lo) \<le> 0x81"
  for key :: u16
proof -
  have "unat (key - lo) = unat key - unat lo"
    using that(1) by (simp add: unat_sub word_le_nat_alt)
  moreover have "unat lo \<le> unat key" "unat key \<le> unat hi" "4 \<le> unat base"
    using that(1-3) by (simp_all add: word_le_nat_alt)
  ultimately have "unat (base + (key - lo)) = unat base + (unat key - unat lo)"
      "unat base + (unat key - unat lo) \<le> 0x81" "4 \<le> unat base"
    using that(4) by (simp_all add: unat_word_ariths)
  then show ?thesis
    by (simp add: word_le_nat_alt unsigned_ucast_eq take_bit_eq_mod)
qed

lemma hid_usage_from_virtual_key_ok:
  "hid_usage_from_virtual_key key = Some u \<Longrightarrow> key_ok (Usage u)"
  using ucast_usage_ok [of "0x41" key "0x5A" "0x04"] ucast_usage_ok [of "0x31" key "0x39" "0x1E"]
    ucast_usage_ok [of "0x70" key "0x7B" "0x3A"] ucast_usage_ok [of "0x7C" key "0x87" "0x68"]
    ucast_usage_ok [of "0x61" key "0x69" "0x59"]
  by (auto simp: hid_usage_from_virtual_key_def simp del: key_ok.simps
      intro: mapped_hid_usage_in [OF _ usage_tables_ok(3)] split: if_splits)

lemma modifier_bits_ok:
  "hid_modifier_bit_from_scan_code os scan key ext = Some i \<Longrightarrow> i < 8"
  "hid_modifier_bit_from_virtual_key key = Some i \<Longrightarrow> i < 8"
  by (auto simp: hid_modifier_bit_from_scan_code_def hid_modifier_bit_from_virtual_key_def Let_def
      split: if_splits dest!: map_of_SomeD)

lemma hid_key_ok: "hid_key os ev = Some key \<Longrightarrow> key_ok key"
  by (auto simp: hid_key_def hid_keyboard_modifier_bit_def hid_keyboard_usage_def Let_def
      dest: modifier_bits_ok hid_usage_from_scan_code_ok hid_usage_from_virtual_key_ok
      split: option.splits if_splits)

definition shows_keys :: "bytes \<Rightarrow> hid_key set \<Rightarrow> bool" where
  "shows_keys r keys \<longleftrightarrow>
     length r = LVH_WINDOWS_KEYBOARD_INPUT_REPORT_SIZE \<and> r ! 1 = 0 \<and>
     list_all (\<lambda>u. u \<le> 0x81) (drop 2 r) \<and>
     report_keys r = (keys \<inter> range Modifier,
       if 16 < card (usages_of keys) then None else Some (usages_of keys))"

definition keyboard_holds :: "hid_keyboard \<Rightarrow> hid_key set \<Rightarrow> bool" where
  "keyboard_holds k keys \<longleftrightarrow> hk_open k \<and> pressed_usages k = usages_of keys \<and>
     (\<forall>i. bit (hk_modifiers k) i \<longleftrightarrow> Modifier i \<in> keys) \<and> (\<forall>key\<in>keys. key_ok key)"

lemma keyboard_report_shows:
  assumes "keyboard_holds k keys"
  shows "\<exists>r. keyboard_report (hk_modifiers k) (pressed_usages k) = Some r \<and> shows_keys r keys"
proof -
  let ?m = "hk_modifiers k" and ?us = "usages_of keys"
  have us: "4 \<le> u \<and> u \<le> 0x81" if "u \<in> ?us" for u
    using assms that by (auto simp: keyboard_holds_def usages_of_def)
  have mods: "Modifier ` {i. i < 8 \<and> bit ?m i} = keys \<inter> range Modifier"
    using assms by (auto simp: keyboard_holds_def)
  have sizes: "LVH_WINDOWS_KEYBOARD_INPUT_REPORT_SIZE = 18" "usage_capacity = 16"
    by (simp_all add: usage_capacity_def protocol_constants)
  show ?thesis
  proof (cases "16 < card ?us")
    case True
    then have "keyboard_report ?m (pressed_usages k) = Some ([?m, 0] @ replicate 16 0x01)"
      using assms by (simp add: keyboard_report_def sizes keyboard_holds_def numeral_eq_Suc)
    then show ?thesis
      using True mods by (auto simp: shows_keys_def report_keys_def sizes list_all_iff)
  next
    case False
    let ?l = "sorted_list_of_set ?us"
    have "keyboard_report ?m (pressed_usages k) =
        Some ([?m, 0] @ ?l @ replicate (16 - length ?l) 0)"
    proof -
      have "(replicate 18 0)[0 := ?m] = [?m, 0] @ replicate 16 0"
        by (simp add: numeral_eq_Suc)
      then show ?thesis
        using False assms by (simp add: keyboard_report_def sizes keyboard_holds_def)
    qed
    moreover have "0x01 \<notin> set ?l" "set ?l - {0} = ?us" "list_all (\<lambda>u. u \<le> 0x81) ?l"
      using us us [of 0] us [of 1] by (auto simp: list_all_iff word_le_nat_alt)
    ultimately show ?thesis
      using False mods by (auto simp: shows_keys_def report_keys_def sizes list_all_iff)
  qed
qed

lemma keyboard_emit_shows:
  assumes "keyboard_holds k keys"
  shows "case keyboard_emit send k s of None \<Rightarrow> False
    | Some (status, k', s') \<Rightarrow> k' = k \<and> (\<exists>r. (status, s') = send r s \<and> shows_keys r keys)"
proof -
  obtain r where r: "keyboard_report (hk_modifiers k) (pressed_usages k) = Some r" "shows_keys r keys"
    using keyboard_report_shows [OF assms] by blast
  obtain st s' where "send r s = (st, s')"
    by fastforce
  with r show ?thesis
    by (auto simp: keyboard_emit_def intro!: exI [of _ r])
qed

lemma keyboard_holds_modifier:
  assumes "keyboard_holds k keys" "i < 8"
  shows "keyboard_holds (k\<lparr>hk_modifiers := hk_modifiers k OR push_bit i 1\<rparr>) (insert (Modifier i) keys)"
    and "keyboard_holds (k\<lparr>hk_modifiers := hk_modifiers k AND NOT (push_bit i 1)\<rparr>) (keys - {Modifier i})"
  using assms by (auto simp: keyboard_holds_def usages_of_def bit_simps)

lemma keyboard_holds_usage:
  assumes "keyboard_holds k keys" "key_ok (Usage u)"
  shows "keyboard_holds (k\<lparr>pressed_usages := insert u (pressed_usages k)\<rparr>) (insert (Usage u) keys)"
    and "keyboard_holds (k\<lparr>pressed_usages := pressed_usages k - {u}\<rparr>) (keys - {Usage u})"
  using assms by (auto simp: keyboard_holds_def usages_of_def)

lemma hid_keyboard_step:
  assumes "keyboard_holds k keys"
  shows "case hid_keyboard_submit os send fallback k ev s of
      None \<Rightarrow> False
    | Some (status, k', s') \<Rightarrow>
        keyboard_holds k' (held_from os [ev] keys) \<and>
        (if hid_key os ev = None then (status, s') = fallback ev s
         else \<exists>r. (status, s') = send r s \<and> shows_keys r (held_from os [ev] keys))"
proof -
  have "hk_open k"
    using assms by (simp add: keyboard_holds_def)
  show ?thesis
  proof (cases "hid_key os ev")
    case None
    then show ?thesis
      using assms \<open>hk_open k\<close>
      by (auto simp: hid_keyboard_submit_def hid_key_def split: option.splits prod.splits)
  next
    case (Some key)
    define k1 where "k1 = (case key of
        Modifier i \<Rightarrow> k\<lparr>hk_modifiers := (if key_pressed ev then hk_modifiers k OR push_bit i 1
          else hk_modifiers k AND NOT (push_bit i 1))\<rparr>
      | Usage u \<Rightarrow> if key_pressed ev then k\<lparr>pressed_usages := insert u (pressed_usages k)\<rparr>
          else k\<lparr>pressed_usages := pressed_usages k - {u}\<rparr>)"
    have "hid_keyboard_submit os send fallback k ev s = keyboard_emit send k1 s"
      using Some \<open>hk_open k\<close>
      by (auto simp: hid_keyboard_submit_def hid_key_def k1_def Let_def split: option.splits)
    moreover have held: "keyboard_holds k1 (held_from os [ev] keys)"
      using keyboard_holds_modifier [OF assms] keyboard_holds_usage [OF assms] hid_key_ok [OF Some] Some
      by (cases key) (auto simp: k1_def)
    ultimately show ?thesis
      using keyboard_emit_shows [OF held, where send = send and s = s] Some
      by (auto split: option.splits)
  qed
qed

lemma held_from_append: "held_from os (evs @ evs') keys = held_from os evs' (held_from os evs keys)"
  by (induction evs arbitrary: keys) auto

lemma hid_keyboard_run_holds:
  "keyboard_holds k keys \<Longrightarrow>
   \<exists>k' s'. hid_keyboard_run os send fallback evs (k, s) = Some (k', s') \<and>
     keyboard_holds k' (held_from os evs keys)"
proof (induction evs arbitrary: k keys s)
  case Nil
  then show ?case by simp
next
  case (Cons ev evs)
  obtain status k1 s1 where "hid_keyboard_submit os send fallback k ev s = Some (status, k1, s1)"
      "keyboard_holds k1 (held_from os [ev] keys)"
    using hid_keyboard_step [where os = os and send = send and fallback = fallback and ev = ev and s = s,
      OF Cons.prems] by (auto split: option.splits)
  then show ?case
    using Cons.IH [of k1 "held_from os [ev] keys" s1] by simp
qed

section \<open>Properties\<close>

text \<open>C11: A keyboard shows the keys that are held: after any events, an event of a key
  with a usage sends one report, in which the host reads exactly the modifiers and usages held
  now, or the rollover usage when more than sixteen are; every report keeps to the
  descriptor's usage range. An event of any other key goes to the injection functions.\<close>

theorem hid_keyboard_shows_held:
  "case hid_keyboard_run os send fallback evs (new_hid_keyboard, s0) of
     None \<Rightarrow> False
   | Some (k, s) \<Rightarrow>
       (case hid_keyboard_submit os send fallback k ev s of
          None \<Rightarrow> False
        | Some (status, k', s') \<Rightarrow>
            if hid_key os ev = None then (status, s') = fallback ev s
            else \<exists>r. (status, s') = send r s \<and> shows_keys r (held_from os (evs @ [ev]) {}))"
proof -
  have "keyboard_holds new_hid_keyboard {}"
    by (simp add: keyboard_holds_def new_hid_keyboard_def usages_of_def)
  then obtain k s where "hid_keyboard_run os send fallback evs (new_hid_keyboard, s0) = Some (k, s)"
      "keyboard_holds k (held_from os evs {})"
    using hid_keyboard_run_holds [where s = s0] by blast
  then show ?thesis
    using hid_keyboard_step [where os = os and send = send and fallback = fallback and ev = ev
        and s = s and k = k and keys = "held_from os evs {}"]
    by (auto simp: held_from_append split: option.splits)
qed

text \<open>
  The two translations of a key agree. A key given by its virtual-key code alone is looked up
  in the table of virtual keys; a normalised event goes through the scan code of the US
  layout first. Windows reports the prefix \<open>E0\<close> for the browser, volume and media keys,
  \<open>0xA6\<close> to \<open>0xB7\<close>, and for no other key that has a usage and is not in \<open>extended_keys\<close>.
\<close>

definition virtual_hid_key :: "u16 \<Rightarrow> hid_key option" where
  "virtual_hid_key key =
     (case hid_modifier_bit_from_virtual_key key of
        Some i \<Rightarrow> Some (Modifier i)
      | None \<Rightarrow> map_option Usage (hid_usage_from_virtual_key key))"

definition virtual_keys :: "u16 list" where
  "virtual_keys =
     map word_of_nat ([0x41..<0x5B] @ [0x31..<0x3A] @ [0x70..<0x7C] @ [0x7C..<0x88] @ [0x61..<0x6A]) @
     map fst special_usages @
     [0x11, 0xA2, 0x10, 0xA0, 0x12, 0xA4, 0x5B, 0xA3, 0xA1, 0xA5, 0x5C]"

definition us_prefixes :: "'w win32 \<Rightarrow> bool" where
  "us_prefixes os \<longleftrightarrow>
     list_all (\<lambda>k. if k \<in> set extended_keys then True
       else (os_map_key_ex os k AND 0xFF00 = 0xE000) = (0xA6 \<le> k \<and> k \<le> 0xB7)) virtual_keys"

text \<open>Print Screen, Help and F24 have scan codes the table of scan codes lacks.\<close>

definition without_scan_usage :: "u16 list" where
  "without_scan_usage = [0x2C, 0x2F, 0x87]"

definition prefix_os :: "bool \<Rightarrow> unit win32" where
  "prefix_os e =
     \<lparr>os_send = (\<lambda>xs w. (0, w)), os_last_error = (\<lambda>w. 0), os_error_text = (\<lambda>e. []),
      os_sync_desktop = (\<lambda>w. (0, w)), os_map_key = (\<lambda>k. 0),
      os_map_key_ex = (\<lambda>k. if e then 0xE000 else 0), os_utf16_size = (\<lambda>t w. (0, w)),
      os_utf16 = (\<lambda>t n w. (([], 0), w)), os_lround = (\<lambda>x. 0)\<rparr>"

definition normalized_event :: "u16 \<Rightarrow> keyboard_event" where
  "normalized_event key = default_keyboard_event\<lparr>key_code := key, uses_normalized_key_code := True\<rparr>"

definition layout_agrees :: "u16 \<Rightarrow> bool" where
  "layout_agrees k \<longleftrightarrow>
     hid_key (prefix_os (0xA6 \<le> k \<and> k \<le> 0xB7)) (normalized_event k) =
       (if k \<in> set without_scan_usage then None else virtual_hid_key k)"

lemma layout_agrees_table: "list_all layout_agrees virtual_keys"
proof -
  have "list_all layout_agrees (take 40 virtual_keys)"
    by code_simp
  moreover have "list_all layout_agrees (take 40 (drop 40 virtual_keys))"
    by code_simp
  moreover have "list_all layout_agrees (drop 40 (drop 40 virtual_keys))"
    by code_simp
  ultimately show ?thesis
    by (metis append_take_drop_id list_all_append)
qed

lemma word_range_in:
  fixes k :: u16
  assumes "word_of_nat lo \<le> k" "k \<le> word_of_nat hi" "lo < 2 ^ 16" "hi < 2 ^ 16"
  shows "k \<in> word_of_nat ` {lo..<Suc hi}"
proof -
  have "lo \<le> unat k" "unat k \<le> hi"
    using assms by (simp_all add: word_le_nat_alt unat_of_nat)
  then show ?thesis
    by (intro image_eqI [of _ _ "unat k"]) auto
qed

lemma set_virtual_keys:
  "set virtual_keys = word_of_nat ` {0x41..<0x5B} \<union> word_of_nat ` {0x31..<0x3A} \<union>
     word_of_nat ` {0x70..<0x7C} \<union> word_of_nat ` {0x7C..<0x88} \<union> word_of_nat ` {0x61..<0x6A} \<union>
     fst ` set special_usages \<union> {0x11, 0xA2, 0x10, 0xA0, 0x12, 0xA4, 0x5B, 0xA3, 0xA1, 0xA5, 0x5C}"
  by (simp only: virtual_keys_def set_append set_map set_upt image_Un Un_assoc list.set)

lemma virtual_keys_complete: "virtual_hid_key k = Some x \<Longrightarrow> k \<in> set virtual_keys"
proof -
  assume "virtual_hid_key k = Some x"
  then consider "hid_modifier_bit_from_virtual_key k \<noteq> None" | u where "hid_usage_from_virtual_key k = Some u"
    by (auto simp: virtual_hid_key_def split: option.splits)
  then show ?thesis
  proof cases
    case 1
    then show ?thesis
      by (auto simp: hid_modifier_bit_from_virtual_key_def set_virtual_keys split: if_splits)
  next
    case 2
    have "fst (k, u) \<in> fst ` set special_usages" if "mapped_hid_usage k special_usages = Some u"
      using that by (intro imageI) (auto simp: mapped_hid_usage_def dest: map_of_SomeD)
    then show ?thesis
      using 2 word_range_in [of "0x41" k "0x5A"] word_range_in [of "0x31" k "0x39"]
        word_range_in [of "0x70" k "0x7B"] word_range_in [of "0x7C" k "0x87"]
        word_range_in [of "0x61" k "0x69"]
      by (simp add: hid_usage_from_virtual_key_def set_virtual_keys split: if_splits)
  qed
qed

lemma hid_key_prefix:
  assumes "extended_key os (key_code ev) = extended_key os' (key_code ev)"
    and "uses_normalized_key_code ev"
  shows "hid_key os ev = hid_key os' ev"
proof -
  have "hid_scan_code_is_extended os scan (key_code ev) e =
      hid_scan_code_is_extended os' scan (key_code ev) e" for scan e
    using assms(1) by (simp add: hid_scan_code_is_extended_def)
  moreover have "hid_keyboard_scan_code os ev = hid_keyboard_scan_code os' ev"
    using assms(2) by (simp add: hid_keyboard_scan_code_def)
  moreover from calculation(1)
  have "hid_modifier_bit_from_scan_code os scan (key_code ev) e =
      hid_modifier_bit_from_scan_code os' scan (key_code ev) e"
    and "hid_usage_from_scan_code os scan (key_code ev) e =
      hid_usage_from_scan_code os' scan (key_code ev) e" for scan e
    by (simp_all add: hid_modifier_bit_from_scan_code_def hid_usage_from_scan_code_def)
  ultimately show ?thesis
    by (simp add: hid_key_def hid_keyboard_modifier_bit_def hid_keyboard_usage_def
        cong: option.case_cong if_cong)
qed


definition us_windows :: "unit win32" where
  "us_windows = prefix_os False\<lparr>os_map_key_ex := (\<lambda>k. if 0xA6 \<le> k \<and> k \<le> 0xB7 then 0xE000 else 0)\<rparr>"


end
