(* ===== verification/LinuxEvdev.thy ===== *)
theory LinuxEvdev
  imports Events
begin

text \<open>
  Writing input events to a Linux uinput device, class \<open>UinputDevice\<close> of
  \<open>src/src/platform/linux/uhid_backend.cpp\<close>. An operation of a device is a sequence of writes
  that stops at the first one that fails: an action on the device's state and the outside,
  and \<open>perform\<close> of a list of them. The event codes of \<open>linux/input-event-codes.h\<close>
  are constructors.

  The locale \<open>evdev_channel\<close> says that a channel delivers exactly the events it accepts;
  inside it an action is described by the events it delivers when it succeeds.
\<close>

section \<open>Events\<close>

datatype abs_code =
    ABS_X | ABS_Y | ABS_Z | ABS_RX | ABS_RY | ABS_RZ | ABS_HAT0X | ABS_HAT0Y
  | ABS_PRESSURE | ABS_DISTANCE | ABS_TILT_X | ABS_TILT_Y
  | ABS_MT_SLOT | ABS_MT_TRACKING_ID | ABS_MT_POSITION_X | ABS_MT_POSITION_Y
  | ABS_MT_PRESSURE | ABS_MT_ORIENTATION

datatype rel_code = REL_X | REL_Y | REL_WHEEL | REL_HWHEEL | REL_WHEEL_HI_RES | REL_HWHEEL_HI_RES

text \<open>A keyboard key is its number in the kernel's header.\<close>

datatype evdev_key =
    BTN_LEFT | BTN_MIDDLE | BTN_RIGHT | BTN_SIDE | BTN_EXTRA | BTN_TOUCH | BTN_STYLUS | BTN_STYLUS2
  | BTN_STYLUS3 | BTN_TOOL_FINGER | BTN_TOOL_DOUBLETAP | BTN_TOOL_TRIPLETAP | BTN_TOOL_QUADTAP
  | BTN_TOOL_QUINTTAP | BTN_TOOL_PEN | BTN_TOOL_RUBBER | BTN_TOOL_BRUSH | BTN_TOOL_PENCIL
  | BTN_TOOL_AIRBRUSH | BTN_SOUTH | BTN_EAST | BTN_NORTH | BTN_WEST | BTN_C | BTN_Z | BTN_TL | BTN_TR
  | BTN_TL2 | BTN_TR2 | BTN_SELECT | BTN_START | BTN_MODE | BTN_THUMBL | BTN_THUMBR | KEY nat

abbreviation KEY_RECORD :: evdev_key where "KEY_RECORD \<equiv> KEY 167"

datatype input_event =
    EV_ABS abs_code int
  | EV_REL rel_code int
  | EV_KEY evdev_key int
  | EV_SYN

section \<open>Writes\<close>

text \<open>The system: \<open>write\<close> of one event, the \<open>ioctl\<close> that destroys a device and \<open>close\<close>, each
  with its result, \<open>libevdev_uinput_destroy\<close>, and the text of \<open>errno\<close>.\<close>

record 'w uinput_os =
  ui_write :: "input_event \<Rightarrow> 'w \<Rightarrow> int \<times> 'w"
  ui_dev_destroy :: "'w \<Rightarrow> int \<times> 'w"
  ui_close :: "'w \<Rightarrow> int \<times> 'w"
  ui_libevdev_destroy :: "'w \<Rightarrow> 'w"
  ui_errno_text :: "'w \<Rightarrow> string"

definition system_error_status :: "error_code \<Rightarrow> string \<Rightarrow> string \<Rightarrow> operation_status" where
  "system_error_status err operation errno_text = failure err (operation @ '': '' @ errno_text)"

definition sizeof_input_event :: int where "sizeof_input_event = 24"

text \<open>\<open>fd_open\<close> is \<open>0 <= fd_\<close>.\<close>

definition emit_event_locked ::
  "'w uinput_os \<Rightarrow> bool \<Rightarrow> input_event \<Rightarrow> 'w \<Rightarrow> operation_status \<times> 'w" where
  "emit_event_locked os fd_open ev w =
     (if \<not> fd_open then (failure Err_device_closed ''uinput device is closed'', w)
      else let (result, w) = ui_write os ev w in
        if result < 0
        then (system_error_status Err_backend_failure ''failed to write uinput event'' (ui_errno_text os w), w)
        else if result \<noteq> sizeof_input_event
        then (failure Err_backend_failure ''short write while sending uinput event'', w)
        else (success, w))"

text \<open>The handle of a device: \<open>open_\<close>, whether \<open>fd_\<close> is a descriptor and whether
  \<open>uinput_device_\<close> is set.\<close>

record uinput_handle =
  uh_open :: bool
  uh_fd :: bool
  uh_device :: bool

definition close_uinput ::
  "'w uinput_os \<Rightarrow> string \<Rightarrow> uinput_handle \<times> 'w \<Rightarrow> operation_status \<times> uinput_handle \<times> 'w" where
  "close_uinput os description = (\<lambda>(h, w).
     if \<not> uh_open h then (success, h, w)
     else if \<not> uh_fd h then (success, h\<lparr>uh_open := False\<rparr>, w)
     else
       let (status, w) =
         (if uh_device h then (success, ui_libevdev_destroy os w)
          else let (result, w) = ui_dev_destroy os w in
            (if result < 0
             then system_error_status Err_backend_failure (''failed to destroy '' @ description) (ui_errno_text os w)
             else success, w));
           (result, w) = ui_close os w;
           status = (if result \<noteq> 0 \<and> status_ok status
             then system_error_status Err_backend_failure ''failed to close /dev/uinput'' (ui_errno_text os w)
             else status)
       in (status, h\<lparr>uh_open := False, uh_fd := False, uh_device := False\<rparr>, w))"

section \<open>Actions\<close>

type_synonym 's action = "'s \<Rightarrow> operation_status \<times> 's"

fun perform :: "'s action list \<Rightarrow> 's action" where
  "perform [] s = (success, s)"
| "perform (a # actions) s =
     (let (status, s) = a s in if status_ok status then perform actions s else (status, s))"

definition out :: "('e \<Rightarrow> 'w action) \<Rightarrow> 'e \<Rightarrow> ('d \<times> 'w) action" where
  "out emit ev = (\<lambda>(d, w). let (status, w) = emit ev w in (status, d, w))"

definition update_device :: "('d \<Rightarrow> 'd) \<Rightarrow> ('d \<times> 'w) action" where
  "update_device f = (\<lambda>(d, w). (success, f d, w))"

text \<open>A part that depends on the device.\<close>

definition on_device :: "('d \<Rightarrow> ('d \<times> 'w) action list) \<Rightarrow> ('d \<times> 'w) action" where
  "on_device f = (\<lambda>(d, w). perform (f d) (d, w))"

section \<open>Channels\<close>

locale evdev_channel =
  fixes emit :: "'e \<Rightarrow> 'w \<Rightarrow> operation_status \<times> 'w"
    and sent :: "'w \<Rightarrow> 'e list"
  assumes emits: "emit ev w = (status, w') \<Longrightarrow>
    sent w' = sent w @ (if status_ok status then [ev] else [])"

text \<open>A channel that takes every event: there an action moves the device from \<open>d\<close> to \<open>d'\<close>
  and delivers the events \<open>evs\<close>.\<close>

locale accepting_channel = evdev_channel +
  assumes accepts: "status_ok (fst (emit ev w))"
begin

definition runs :: "('d \<times> 'b) action \<Rightarrow> 'd \<Rightarrow> 'd \<Rightarrow> 'a list \<Rightarrow> bool" where
  "runs a d d' evs \<longleftrightarrow> (\<forall>w. \<exists>status w'. a (d, w) = (status, d', w') \<and> status_ok status \<and>
     sent w' = sent w @ evs)"

lemma runsE:
  assumes "runs a d d' evs"
  obtains status w' where "a (d, w) = (status, d', w')" "status_ok status" "sent w' = sent w @ evs"
  using assms unfolding runs_def by blast

lemma runs_eq: "runs a d d1 evs1 \<Longrightarrow> d1 = d' \<Longrightarrow> evs1 = evs \<Longrightarrow> runs a d d' evs"
  by simp

lemma runs_out: "runs (out emit ev) d d [ev]"
  unfolding runs_def
proof
  fix w
  obtain status w' where "emit ev w = (status, w')" by (cases "emit ev w")
  with accepts [of ev w] emits [OF this]
  show "\<exists>status w'. out emit ev (d, w) = (status, d, w') \<and> status_ok status \<and> sent w' = sent w @ [ev]"
    by (simp add: out_def)
qed

lemma runs_update: "runs (update_device f) d (f d) []"
  by (simp add: runs_def update_device_def status_ok_success)

lemma runs_Nil: "runs (perform []) d d []"
  by (simp add: runs_def status_ok_success)

lemma runs_Cons:
  assumes "runs a d d1 evs1" "runs (perform actions) d1 d2 evs2"
  shows "runs (perform (a # actions)) d d2 (evs1 @ evs2)"
  unfolding runs_def
proof
  fix w
  obtain st1 w1 where 1: "a (d, w) = (st1, d1, w1)" "status_ok st1" "sent w1 = sent w @ evs1"
    by (rule runsE [OF assms(1)])
  obtain st2 w2 where "perform actions (d1, w1) = (st2, d2, w2)" "status_ok st2"
      "sent w2 = sent w1 @ evs2"
    by (rule runsE [OF assms(2)])
  with 1 show "\<exists>status w'. perform (a # actions) (d, w) = (status, d2, w') \<and> status_ok status \<and>
      sent w' = sent w @ evs1 @ evs2"
    by simp
qed

lemma runs_out_Cons:
  "runs (perform actions) d d' evs \<Longrightarrow> runs (perform (out emit ev # actions)) d d' (ev # evs)"
  using runs_Cons [OF runs_out] by (simp only: append_Cons append_Nil)

lemma runs_update_Cons:
  "runs (perform actions) (f d) d' evs \<Longrightarrow> runs (perform (update_device f # actions)) d d' evs"
  using runs_Cons [OF runs_update] by (simp only: append_Nil)

lemma runs_single: "runs a d d' evs \<Longrightarrow> runs (perform [a]) d d' evs"
  using runs_Cons [OF _ runs_Nil] by (simp only: append_Nil2)

lemma runs_on_device: "runs (perform (f d)) d d' evs \<Longrightarrow> runs (on_device f) d d' evs"
  by (simp add: runs_def on_device_def)

lemma runs_outs: "runs (perform (map (out emit) evs)) d d evs"
proof (induction evs)
  case Nil
  show ?case by (simp only: list.map runs_Nil)
next
  case (Cons ev evs)
  from runs_out_Cons [OF Cons.IH, of ev] show ?case
    by (simp only: list.map)
qed

end

text \<open>A channel whose accepted events are kept in a list, and the one of an open device.\<close>

definition logged_by :: "('e \<Rightarrow> 'w action) \<Rightarrow> 'e \<Rightarrow> ('e list \<times> 'w) action" where
  "logged_by emit ev = (\<lambda>(evs, w).
     let (status, w) = emit ev w in (status, if status_ok status then evs @ [ev] else evs, w))"

abbreviation logged_write ::
  "'w uinput_os \<Rightarrow> input_event \<Rightarrow> (input_event list \<times> 'w) action" where
  "logged_write os \<equiv> logged_by (emit_event_locked os True)"

interpretation logged: evdev_channel "logged_by emit" fst for emit
  by unfold_locales (auto simp: logged_by_def split: prod.splits)

text \<open>A system that takes every write and is otherwise as before.\<close>

definition accepting :: "'w uinput_os \<Rightarrow> 'w uinput_os" where
  "accepting os = os\<lparr>ui_write := (\<lambda>ev w. (sizeof_input_event, snd (ui_write os ev w)))\<rparr>"

lemma accepting_ok: "status_ok (fst (emit_event_locked (accepting os) True ev w))"
  by (simp add: emit_event_locked_def accepting_def sizeof_input_event_def status_ok_success split_def Let_def)

interpretation accepted: accepting_channel "logged_write (accepting os)" fst for os
  by unfold_locales (auto simp: logged_by_def accepting_ok split_def Let_def)

text \<open>A system whose write number \<open>m\<close> fails.\<close>

definition failing_write :: "nat \<Rightarrow> nat uinput_os" where
  "failing_write m =
     \<lparr>ui_write = (\<lambda>ev n. (if n = m then - 1 else sizeof_input_event, Suc n)),
      ui_dev_destroy = (\<lambda>n. (0, n)), ui_close = (\<lambda>n. (0, n)), ui_libevdev_destroy = (\<lambda>n. n),
      ui_errno_text = (\<lambda>n. ''Resource temporarily unavailable'')\<rparr>"

section \<open>What an action sends\<close>

text \<open>On any channel, whether its writes fail or not: from a device that satisfies \<open>I\<close>, every
  event that an action sends satisfies \<open>P\<close>, and the device satisfies \<open>I\<close> afterwards.\<close>

context evdev_channel begin

definition sends :: "('d \<Rightarrow> bool) \<Rightarrow> ('e \<Rightarrow> bool) \<Rightarrow> ('d \<times> 'w) action \<Rightarrow> bool" where
  "sends I P a \<longleftrightarrow> (\<forall>d w. I d \<longrightarrow> I (fst (snd (a (d, w)))) \<and>
     (\<exists>evs. sent (snd (snd (a (d, w)))) = sent w @ evs \<and> list_all P evs))"

lemma sendsE:
  assumes "sends I P a" "I d"
  obtains status d' w' evs where "a (d, w) = (status, d', w')" "I d'" "sent w' = sent w @ evs"
    "list_all P evs"
  using assms unfolding sends_def by (metis prod.collapse)

lemma sends_via:
  assumes "\<And>d w. I d \<Longrightarrow> \<exists>b d'. a (d, w) = b (d', w) \<and> I d' \<and> sends I P b"
  shows "sends I P a"
  unfolding sends_def
proof (intro allI impI)
  fix d w
  assume "I d"
  then obtain b d' where b: "a (d, w) = b (d', w)" "I d'" "sends I P b"
    using assms by blast
  show "I (fst (snd (a (d, w)))) \<and> (\<exists>evs. sent (snd (snd (a (d, w)))) = sent w @ evs \<and> list_all P evs)"
    unfolding b(1) by (rule sendsE [OF b(3,2), of w]) auto
qed

lemma sends_Pair: "sends I P (Pair status)"
  by (simp add: sends_def)

lemma sends_guard:
  assumes "sends I P b" "\<And>d w. a (d, w) = b (d, w) \<or> snd (a (d, w)) = (d, w)"
  shows "sends I P a"
  unfolding sends_def
proof (intro allI impI)
  fix d w
  assume "I d"
  from assms(2) [of d w]
  show "I (fst (snd (a (d, w)))) \<and> (\<exists>evs. sent (snd (snd (a (d, w)))) = sent w @ evs \<and> list_all P evs)"
  proof
    assume a: "a (d, w) = b (d, w)"
    show ?thesis
      unfolding a by (rule sendsE [OF assms(1) \<open>I d\<close>, of w]) auto
  qed (use \<open>I d\<close> in simp)
qed

lemma sends_out: "P ev \<Longrightarrow> sends I P (out emit ev)"
  unfolding sends_def
proof (intro allI impI)
  fix d w
  assume "P ev" "I d"
  obtain status w' where "emit ev w = (status, w')" by (cases "emit ev w")
  with emits [OF this] \<open>P ev\<close> \<open>I d\<close>
  show "I (fst (snd (out emit ev (d, w)))) \<and>
      (\<exists>evs. sent (snd (snd (out emit ev (d, w)))) = sent w @ evs \<and> list_all P evs)"
    by (simp add: out_def)
qed

lemma sends_update: "(\<And>d. I d \<Longrightarrow> I (f d)) \<Longrightarrow> sends I P (update_device f)"
  by (simp add: sends_def update_device_def)

lemma sends_perform: "list_all (sends I P) actions \<Longrightarrow> sends I P (perform actions)"
proof (induction actions)
  case Nil
  show ?case by (simp add: sends_def)
next
  case (Cons a actions)
  show ?case
    unfolding sends_def
  proof (intro allI impI)
    fix d w
    assume "I d"
    with Cons.prems obtain status d1 w1 evs1 where 1: "a (d, w) = (status, d1, w1)" "I d1"
        "sent w1 = sent w @ evs1" "list_all P evs1"
      by (metis list.pred_inject(2) sendsE)
    obtain status' d2 w2 evs2 where 2: "perform actions (d1, w1) = (status', d2, w2)" "I d2"
        "sent w2 = sent w1 @ evs2" "list_all P evs2"
      using Cons 1(2) by (metis list.pred_inject(2) sendsE)
    show "I (fst (snd (perform (a # actions) (d, w)))) \<and>
        (\<exists>evs. sent (snd (snd (perform (a # actions) (d, w)))) = sent w @ evs \<and> list_all P evs)"
    proof (cases "status_ok status")
      case True
      with 1 2 show ?thesis by (auto intro: exI [of _ "evs1 @ evs2"])
    next
      case False
      with 1 show ?thesis by (auto intro: exI [of _ evs1])
    qed
  qed
qed

lemma sends_on_device:
  assumes "\<And>d. I d \<Longrightarrow> list_all (sends I P) (f d)"
  shows "sends I P (on_device f)"
proof (rule sends_via)
  show "\<exists>b d'. on_device f (d, w) = b (d', w) \<and> I d' \<and> sends I P b" if "I d" for d w
    using sends_perform [OF assms [OF that]] that
    by (intro exI [of _ "perform (f d)"] exI [of _ d]) (simp add: on_device_def)
qed

lemma sends_outs: "list_all P evs \<Longrightarrow> list_all (sends I P) (map (out emit) evs)"
  by (auto simp: list_all_iff intro: sends_out)

text \<open>Any sequence of calls.\<close>

lemma sends_run:
  assumes "I d" "list_all (\<lambda>call. sends I P (step call)) calls"
  shows "\<exists>evs. sent (snd (foldl (\<lambda>s call. snd (step call s)) (d, w) calls)) = sent w @ evs \<and> list_all P evs"
  using assms
proof (induction calls arbitrary: d w)
  case (Cons call calls)
  obtain status d1 w1 evs1 where 1: "step call (d, w) = (status, d1, w1)" "I d1"
      "sent w1 = sent w @ evs1" "list_all P evs1"
    using Cons.prems by (metis list.pred_inject(2) sendsE)
  then obtain evs2 where
    "sent (snd (foldl (\<lambda>s call. snd (step call s)) (d1, w1) calls)) = sent w1 @ evs2" "list_all P evs2"
    using Cons by fastforce
  with 1 show ?case
    by (intro exI [of _ "evs1 @ evs2"]) simp
qed simp

end

section \<open>Channels of input events\<close>

locale input_channel = evdev_channel emit sent
  for emit :: "input_event \<Rightarrow> 'w action" and sent :: "'w \<Rightarrow> input_event list"

locale accepting_input_channel = accepting_channel emit sent
  for emit :: "input_event \<Rightarrow> 'w action" and sent :: "'w \<Rightarrow> input_event list"

interpretation input: input_channel "logged_write os" fst for os
  by unfold_locales

interpretation accepted_input: accepting_input_channel "logged_write (accepting os)" fst for os
  by unfold_locales

section \<open>Coordinates\<close>

definition scale_normalized_axis :: "(flt \<Rightarrow> int) \<Rightarrow> flt \<Rightarrow> int \<Rightarrow> int" where
  "scale_normalized_axis u v maximum =
     lround binary32 u (fmul binary32 (fclamp v (Fin 0) (flit binary32 1 1)) (flit binary32 maximum 1))"

definition clamp_degrees :: "int \<Rightarrow> int" where
  "clamp_degrees v = (if v < - 90 then - 90 else if 90 < v then 90 else v)"

end
