(* ===== verification/LinuxConfig.thy ===== *)
theory LinuxConfig
  imports LinuxEvdev Normalize
begin

text \<open>
  What a uinput device declares to the kernel, the \<open>configure_evdev_*\<close> functions of
  \<open>src/src/platform/linux/uhid_backend.cpp\<close>. A configuration is a sequence of libevdev calls
  that stops at the first one that fails; here it is the list of these calls and \<open>enable_all\<close>,
  which performs them. \<open>declared\<close> says that an event is of a declared code and its value in the
  declared range: the kernel drops an event of a code that is not declared.
\<close>

section \<open>libevdev\<close>

datatype evdev_type = Type_KEY | Type_REL | Type_ABS | Type_FF

datatype ff_code = FF_RUMBLE | FF_CONSTANT | FF_PERIODIC | FF_SINE | FF_RAMP | FF_GAIN

datatype evdev_code = Abs abs_code | Rel rel_code | Key evdev_key | Ff ff_code

datatype input_property = INPUT_PROP_POINTER | INPUT_PROP_DIRECT | INPUT_PROP_BUTTONPAD

record input_absinfo =
  ai_minimum :: int
  ai_maximum :: int
  ai_fuzz :: int
  ai_flat :: int
  ai_resolution :: int

definition make_absinfo :: "int \<Rightarrow> int \<Rightarrow> int \<Rightarrow> int \<Rightarrow> int \<Rightarrow> input_absinfo" where
  "make_absinfo minimum maximum fuzz flat resolution =
     \<lparr>ai_minimum = minimum, ai_maximum = maximum, ai_fuzz = fuzz, ai_flat = flat,
      ai_resolution = resolution\<rparr>"

abbreviation absinfo :: "int \<Rightarrow> int \<Rightarrow> input_absinfo option" where
  "absinfo minimum maximum \<equiv> Some (make_absinfo minimum maximum 0 0 0)"

text \<open>The library's calls on a device under construction, of type \<open>'l\<close>, the message of an error
  number and the decimal number of a code.\<close>

record 'l libevdev_ops =
  le_enable_type :: "evdev_type \<Rightarrow> 'l \<Rightarrow> int \<times> 'l"
  le_enable_code :: "evdev_code \<Rightarrow> input_absinfo option \<Rightarrow> 'l \<Rightarrow> int \<times> 'l"
  le_enable_property :: "input_property \<Rightarrow> 'l \<Rightarrow> int \<times> 'l"
  le_errno_message :: "int \<Rightarrow> string"
  le_code_number :: "evdev_code \<Rightarrow> string"

definition libevdev_status :: "'l libevdev_ops \<Rightarrow> int \<Rightarrow> string \<Rightarrow> operation_status" where
  "libevdev_status ops result operation =
     (if 0 \<le> result then success
      else failure Err_backend_failure (operation @ '': '' @ le_errno_message ops (- result)))"

datatype enable =
    Enable_type evdev_type string
  | Enable_code evdev_code string "input_absinfo option"
  | Enable_property input_property string

fun enable_evdev :: "'l libevdev_ops \<Rightarrow> enable \<Rightarrow> 'l action" where
  "enable_evdev ops (Enable_type t description) l =
     (let (result, l) = le_enable_type ops t l
      in (libevdev_status ops result (''failed to enable '' @ description), l))"
| "enable_evdev ops (Enable_code c description info) l =
     (let (result, l) = le_enable_code ops c info l
      in (libevdev_status ops result
            (''failed to enable '' @ description @ '' '' @ le_code_number ops c), l))"
| "enable_evdev ops (Enable_property p description) l =
     (let (result, l) = le_enable_property ops p l
      in (libevdev_status ops result (''failed to enable '' @ description @ '' property''), l))"

definition enable_all :: "'l libevdev_ops \<Rightarrow> enable list \<Rightarrow> 'l action" where
  "enable_all ops calls = perform (map (enable_evdev ops) calls)"

section \<open>Configurations\<close>

datatype uinput_mouse_device_kind = Mouse_relative | Mouse_absolute

definition absolute_axis_max :: int where "absolute_axis_max = 65535"
definition touch_max_contacts :: nat where "touch_max_contacts = 16"
definition touch_axis_max_x :: int where "touch_axis_max_x = 19200"
definition touch_axis_max_y :: int where "touch_axis_max_y = 10800"
definition touch_pressure_max :: int where "touch_pressure_max = 253"
definition tablet_pressure_max :: int where "tablet_pressure_max = 4096"
definition tablet_distance_max :: int where "tablet_distance_max = 1024"
definition tablet_resolution :: int where "tablet_resolution = 28"
definition xbox_trigger_max :: int where "xbox_trigger_max = 255"

text \<open>\<open>named\<close> says which key codes libevdev names with the prefix \<open>KEY_\<close>; \<open>KEY_MAX\<close> is 0x2ff.\<close>

definition configure_evdev_keyboard :: "(nat \<Rightarrow> bool) \<Rightarrow> enable list" where
  "configure_evdev_keyboard named =
     Enable_type Type_KEY ''keyboard key events'' #
     map (\<lambda>n. Enable_code (Key (KEY n)) ''keyboard key'' None) (filter named [1..<767])"

definition configure_evdev_mouse :: "uinput_mouse_device_kind \<Rightarrow> enable list" where
  "configure_evdev_mouse mouse_kind =
     Enable_type Type_KEY ''mouse button events'' #
     map (\<lambda>b. Enable_code (Key b) ''mouse button'' None)
       [BTN_LEFT, BTN_RIGHT, BTN_MIDDLE, BTN_SIDE, BTN_EXTRA] @
     Enable_type Type_REL ''relative mouse events'' #
     (if mouse_kind = Mouse_absolute then
        [Enable_property INPUT_PROP_DIRECT ''direct input'',
         Enable_type Type_ABS ''absolute mouse events'',
         Enable_code (Abs ABS_X) ''absolute mouse axis'' (absinfo 0 absolute_axis_max),
         Enable_code (Abs ABS_Y) ''absolute mouse axis'' (absinfo 0 absolute_axis_max)]
      else map (\<lambda>r. Enable_code (Rel r) ''relative mouse axis'' None) [REL_X, REL_Y]) @
     [Enable_code (Rel REL_WHEEL) ''vertical scroll'' None,
      Enable_code (Rel REL_WHEEL_HI_RES) ''high-resolution vertical scroll'' None,
      Enable_code (Rel REL_HWHEEL) ''horizontal scroll'' None,
      Enable_code (Rel REL_HWHEEL_HI_RES) ''high-resolution horizontal scroll'' None]"

definition configure_evdev_touch_axes :: "enable list" where
  "configure_evdev_touch_axes =
     [Enable_type Type_KEY ''touch key events'',
      Enable_type Type_ABS ''touch absolute events'',
      Enable_code (Abs ABS_MT_SLOT) ''touch absolute axis'' (absinfo 0 (int touch_max_contacts - 1)),
      Enable_code (Abs ABS_X) ''touch absolute axis'' (absinfo 0 touch_axis_max_x),
      Enable_code (Abs ABS_Y) ''touch absolute axis'' (absinfo 0 touch_axis_max_y),
      Enable_code (Abs ABS_MT_POSITION_X) ''touch absolute axis'' (absinfo 0 touch_axis_max_x),
      Enable_code (Abs ABS_MT_POSITION_Y) ''touch absolute axis'' (absinfo 0 touch_axis_max_y),
      Enable_code (Abs ABS_MT_TRACKING_ID) ''touch absolute axis'' (absinfo 0 65535),
      Enable_code (Abs ABS_PRESSURE) ''touch absolute axis'' (absinfo 0 touch_pressure_max),
      Enable_code (Abs ABS_MT_PRESSURE) ''touch absolute axis'' (absinfo 0 touch_pressure_max),
      Enable_code (Abs ABS_MT_ORIENTATION) ''touch absolute axis'' (absinfo (- 90) 90),
      Enable_code (Key BTN_TOUCH) ''touch button'' None]"

definition configure_evdev_touchscreen :: "enable list" where
  "configure_evdev_touchscreen =
     configure_evdev_touch_axes @ [Enable_property INPUT_PROP_DIRECT ''direct touch'']"

definition configure_evdev_trackpad :: "enable list" where
  "configure_evdev_trackpad =
     configure_evdev_touch_axes @
     map (\<lambda>b. Enable_code (Key b) ''trackpad button'' None)
       [BTN_LEFT, BTN_TOOL_FINGER, BTN_TOOL_DOUBLETAP, BTN_TOOL_TRIPLETAP, BTN_TOOL_QUADTAP,
        BTN_TOOL_QUINTTAP] @
     [Enable_property INPUT_PROP_POINTER ''pointer'',
      Enable_property INPUT_PROP_BUTTONPAD ''buttonpad'']"

definition configure_evdev_pen_tablet :: "enable list" where
  "configure_evdev_pen_tablet =
     Enable_type Type_KEY ''pen tablet key events'' #
     Enable_type Type_ABS ''pen tablet absolute events'' #
     map (\<lambda>b. Enable_code (Key b) ''pen tablet button'' None)
       [BTN_TOUCH, BTN_STYLUS, BTN_STYLUS2, BTN_TOOL_PEN, BTN_TOOL_RUBBER, BTN_TOOL_BRUSH,
        BTN_TOOL_PENCIL, BTN_TOOL_AIRBRUSH, BTN_STYLUS3] @
     [Enable_code (Abs ABS_X) ''pen tablet absolute axis''
        (Some (make_absinfo 0 touch_axis_max_x 1 0 tablet_resolution)),
      Enable_code (Abs ABS_Y) ''pen tablet absolute axis''
        (Some (make_absinfo 0 touch_axis_max_y 1 0 tablet_resolution)),
      Enable_code (Abs ABS_PRESSURE) ''pen tablet absolute axis'' (absinfo 0 tablet_pressure_max),
      Enable_code (Abs ABS_DISTANCE) ''pen tablet absolute axis'' (absinfo 0 tablet_distance_max),
      Enable_code (Abs ABS_TILT_X) ''pen tablet absolute axis''
        (Some (make_absinfo (- 90) 90 0 0 tablet_resolution)),
      Enable_code (Abs ABS_TILT_Y) ''pen tablet absolute axis''
        (Some (make_absinfo (- 90) 90 0 0 tablet_resolution)),
      Enable_property INPUT_PROP_POINTER ''tablet pointer'',
      Enable_property INPUT_PROP_DIRECT ''tablet direct'']"

text \<open>The Linux build: the Switch Pro and PlayStation profiles do not go through uinput.\<close>

definition uses_uinput_gamepad_profile :: "gamepad_profile_kind \<Rightarrow> bool" where
  "uses_uinput_gamepad_profile profile_kind =
     (profile_kind \<in> {Kind_generic, Kind_xbox_360, Kind_xbox_one, Kind_xbox_series})"

definition uinput_misc1_button :: "gamepad_profile_kind \<Rightarrow> evdev_key option" where
  "uinput_misc1_button profile_kind = (case profile_kind of
     Kind_generic \<Rightarrow> Some KEY_RECORD
   | Kind_xbox_series \<Rightarrow> Some KEY_RECORD
   | Kind_switch_pro \<Rightarrow> Some BTN_Z
   | _ \<Rightarrow> None)"

definition uses_sparse_uinput_button_slots :: "gamepad_profile_kind \<Rightarrow> bool" where
  "uses_sparse_uinput_button_slots profile_kind =
     (profile_kind = Kind_xbox_360 \<or> profile_kind = Kind_xbox_one \<or> profile_kind = Kind_xbox_series)"

definition configure_evdev_gamepad_event_types :: "bool \<Rightarrow> enable list" where
  "configure_evdev_gamepad_event_types supports_rumble =
     Enable_type Type_KEY ''gamepad button events'' #
     Enable_type Type_ABS ''gamepad absolute events'' #
     (if supports_rumble then [Enable_type Type_FF ''gamepad force-feedback events''] else [])"

definition configure_evdev_gamepad_buttons :: "gamepad_profile_kind \<Rightarrow> enable list" where
  "configure_evdev_gamepad_buttons profile_kind =
     map (\<lambda>b. Enable_code (Key b) ''gamepad button'' None)
       [BTN_SOUTH, BTN_EAST, BTN_NORTH, BTN_WEST, BTN_TL, BTN_TR, BTN_SELECT, BTN_START, BTN_MODE,
        BTN_THUMBL, BTN_THUMBR] @
     (if uses_sparse_uinput_button_slots profile_kind
      then map (\<lambda>b. Enable_code (Key b) ''reserved gamepad button slot'' None)
        [BTN_C, BTN_Z, BTN_TL2, BTN_TR2]
      else []) @
     (if profile_kind = Kind_switch_pro
      then map (\<lambda>b. Enable_code (Key b) ''gamepad trigger button'' None) [BTN_TL2, BTN_TR2]
      else []) @
     (case uinput_misc1_button profile_kind of
        Some b \<Rightarrow> [Enable_code (Key b) ''gamepad auxiliary button'' None]
      | None \<Rightarrow> [])"

definition configure_evdev_gamepad_axes :: "gamepad_profile_kind \<Rightarrow> enable list" where
  "configure_evdev_gamepad_axes profile_kind =
     map (\<lambda>a. Enable_code (Abs a) ''gamepad directional axis'' (absinfo (- 1) 1)) [ABS_HAT0X, ABS_HAT0Y] @
     map (\<lambda>a. Enable_code (Abs a) ''gamepad stick axis'' (Some (make_absinfo (- 32768) 32767 16 128 0)))
       [ABS_X, ABS_Y, ABS_RX, ABS_RY] @
     (if profile_kind = Kind_switch_pro then []
      else map (\<lambda>a. Enable_code (Abs a) ''gamepad trigger axis'' (absinfo 0 xbox_trigger_max))
        [ABS_Z, ABS_RZ])"

definition configure_evdev_gamepad_force_feedback :: "bool \<Rightarrow> enable list" where
  "configure_evdev_gamepad_force_feedback supports_rumble =
     (if supports_rumble
      then map (\<lambda>f. Enable_code (Ff f) ''gamepad force-feedback effect'' None)
          [FF_RUMBLE, FF_CONSTANT, FF_PERIODIC, FF_SINE, FF_RAMP] @
        [Enable_code (Ff FF_GAIN) ''gamepad force-feedback gain'' None]
      else [])"

definition configure_evdev_gamepad :: "device_profile \<Rightarrow> enable list" where
  "configure_evdev_gamepad profile =
     (let supports_rumble = cap_rumble (capabilities profile) in
      configure_evdev_gamepad_event_types supports_rumble @
      configure_evdev_gamepad_buttons (gamepad_kind profile) @
      configure_evdev_gamepad_axes (gamepad_kind profile) @
      configure_evdev_gamepad_force_feedback supports_rumble)"

definition configure_evdev_device ::
  "'l libevdev_ops \<Rightarrow> (nat \<Rightarrow> bool) \<Rightarrow> device_profile \<Rightarrow> uinput_mouse_device_kind \<Rightarrow> 'l action" where
  "configure_evdev_device ops named profile mouse_kind l = (case device_type profile of
     Dev_keyboard \<Rightarrow> enable_all ops (configure_evdev_keyboard named) l
   | Dev_mouse \<Rightarrow> enable_all ops (configure_evdev_mouse mouse_kind) l
   | Dev_touchscreen \<Rightarrow> enable_all ops configure_evdev_touchscreen l
   | Dev_trackpad \<Rightarrow> enable_all ops configure_evdev_trackpad l
   | Dev_pen_tablet \<Rightarrow> enable_all ops configure_evdev_pen_tablet l
   | Dev_gamepad \<Rightarrow>
       if uses_uinput_gamepad_profile (gamepad_kind profile)
       then enable_all ops (configure_evdev_gamepad profile) l
       else (failure Err_unsupported_profile ''gamepad profile is not supported through uinput'', l))"

section \<open>Declared events\<close>

text \<open>A tracking identifier of \<open>-1\<close> ends a contact and needs no declaration.\<close>

fun declares :: "enable \<Rightarrow> input_event \<Rightarrow> bool" where
  "declares (Enable_code (Abs a) description (Some info)) (EV_ABS a' v) =
     (a = a' \<and> (ai_minimum info \<le> v \<and> v \<le> ai_maximum info \<or> a = ABS_MT_TRACKING_ID \<and> v = - 1))"
| "declares (Enable_code (Rel r) description None) (EV_REL r' v) = (r = r')"
| "declares (Enable_code (Key k) description None) (EV_KEY k' v) = (k = k' \<and> (v = 0 \<or> v = 1))"
| "declares _ _ = False"

definition enabled_type :: "enable list \<Rightarrow> evdev_type \<Rightarrow> bool" where
  "enabled_type calls t =
     list_ex (\<lambda>e. case e of Enable_type t' description \<Rightarrow> t' = t | _ \<Rightarrow> False) calls"

definition declared :: "enable list \<Rightarrow> input_event \<Rightarrow> bool" where
  "declared calls ev = (case ev of
     EV_ABS a v \<Rightarrow> enabled_type calls Type_ABS \<and> list_ex (\<lambda>e. declares e ev) calls
   | EV_REL r v \<Rightarrow> enabled_type calls Type_REL \<and> list_ex (\<lambda>e. declares e ev) calls
   | EV_KEY k v \<Rightarrow> enabled_type calls Type_KEY \<and> list_ex (\<lambda>e. declares e ev) calls
   | EV_SYN \<Rightarrow> True)"

lemma declared_append: "declared calls ev \<Longrightarrow> declared (calls @ calls') ev"
  by (auto simp: declared_def enabled_type_def split: input_event.splits)

lemma declared_SYN [simp]: "declared calls EV_SYN"
  by (simp add: declared_def)

lemma touch_axes_declared:
  "0 \<le> v \<Longrightarrow> v \<le> 15 \<Longrightarrow> declared configure_evdev_touch_axes (EV_ABS ABS_MT_SLOT v)"
  "- 1 \<le> v \<Longrightarrow> v \<le> 65535 \<Longrightarrow> declared configure_evdev_touch_axes (EV_ABS ABS_MT_TRACKING_ID v)"
  "0 \<le> v \<Longrightarrow> v \<le> 19200 \<Longrightarrow> declared configure_evdev_touch_axes (EV_ABS ABS_X v)"
  "0 \<le> v \<Longrightarrow> v \<le> 10800 \<Longrightarrow> declared configure_evdev_touch_axes (EV_ABS ABS_Y v)"
  "0 \<le> v \<Longrightarrow> v \<le> 19200 \<Longrightarrow> declared configure_evdev_touch_axes (EV_ABS ABS_MT_POSITION_X v)"
  "0 \<le> v \<Longrightarrow> v \<le> 10800 \<Longrightarrow> declared configure_evdev_touch_axes (EV_ABS ABS_MT_POSITION_Y v)"
  "0 \<le> v \<Longrightarrow> v \<le> 253 \<Longrightarrow> declared configure_evdev_touch_axes (EV_ABS ABS_PRESSURE v)"
  "0 \<le> v \<Longrightarrow> v \<le> 253 \<Longrightarrow> declared configure_evdev_touch_axes (EV_ABS ABS_MT_PRESSURE v)"
  "- 90 \<le> v \<Longrightarrow> v \<le> 90 \<Longrightarrow> declared configure_evdev_touch_axes (EV_ABS ABS_MT_ORIENTATION v)"
  "v = 0 \<or> v = 1 \<Longrightarrow> declared configure_evdev_touch_axes (EV_KEY BTN_TOUCH v)"
  by (auto simp: declared_def enabled_type_def configure_evdev_touch_axes_def make_absinfo_def
      touch_max_contacts_def touch_axis_max_x_def touch_axis_max_y_def touch_pressure_max_def)

section \<open>Scaled coordinates\<close>

lemma flit_nat: "0 \<le> m \<Longrightarrow> m \<le> 65535 \<Longrightarrow> flit binary32 m 1 = Fin (m * 2 ^ 149)"
  using fround_exact [of m binary32 1 149] by (simp add: flit_def)

lemma unit_times: "0 \<le> m \<Longrightarrow> m \<le> 65535 \<Longrightarrow>
    fmul binary32 (Fin (2 ^ 149)) (Fin (m * 2 ^ 149)) = Fin (m * 2 ^ 149)"
  using fround_exact [of m binary32 "2 ^ 149" 149] by (simp add: mult.commute mult.left_commute)

lemma scale_normalized_axis_bounds:
  assumes "v \<noteq> NaN" and m: "0 \<le> m" "m \<le> 65535"
  shows "0 \<le> scale_normalized_axis u v m \<and> scale_normalized_axis u v m \<le> m"
proof -
  have one: "flit binary32 1 1 = Fin (2 ^ 149)"
    using flit_nat [of 1] by simp
  obtain k where k: "fclamp v (Fin 0) (Fin (2 ^ 149)) = Fin k" "0 \<le> k" "k \<le> 2 ^ 149"
    using fclamp_fin [of 0 "2 ^ 149" v] assms(1) by auto
  let ?c = "m * 2 ^ 149"
  have zero: "fmul binary32 (Fin 0) (Fin ?c) = Fin 0"
    using fround_exact [of 0 binary32 "2 ^ 149" 0] by simp
  have "lround binary32 u (Fin 0) \<le> lround binary32 u (fmul binary32 (Fin k) (Fin ?c))"
    using fmul_mono [of 0 k ?c binary32] fmul_mono [of k "2 ^ 149" ?c binary32] k(2,3) m
    unfolding zero unit_times [OF m] by (intro lround_mono) (auto simp del: fmul.simps)
  moreover have "lround binary32 u (fmul binary32 (Fin k) (Fin ?c)) \<le> lround binary32 u (Fin ?c)"
    using fmul_mono [of 0 k ?c binary32] fmul_mono [of k "2 ^ 149" ?c binary32] k(2,3) m
    unfolding zero unit_times [OF m] by (intro lround_mono) (auto simp del: fmul.simps)
  ultimately show ?thesis
    unfolding scale_normalized_axis_def one k(1) flit_nat [OF m] by (simp add: round_away_def [of 0] del: fmul.simps)
qed

text \<open>\<open>static_cast<float>(std::numbers::pi)\<close> is 13176795 / 2 ^ 22.\<close>

definition tablet_tilt_units :: "(flt \<Rightarrow> int) \<Rightarrow> flt \<Rightarrow> int" where
  "tablet_tilt_units u degrees =
     (let radians = fdiv binary32
        (fmul binary32 (fclamp degrees (flit binary32 (- 90) 1) (flit binary32 90 1))
           (flit binary32 13176795 4194304)) (flit binary32 180 1)
      in lround binary32 u (fmul binary32 radians (flit binary32 tablet_resolution 1)))"

lemma tilt_constants:
  "flit binary32 (- 90) 1 = Fin (- (90 * 2 ^ 149))" "flit binary32 90 1 = Fin (90 * 2 ^ 149)"
  "flit binary32 13176795 4194304 = Fin (13176795 * 2 ^ 127)" "flit binary32 180 1 = Fin (180 * 2 ^ 149)"
  "flit binary32 tablet_resolution 1 = Fin (28 * 2 ^ 149)"
  by code_simp+

lemma tilt_ends:
  "fmul binary32 (Fin (90 * 2 ^ 149)) (Fin (13176795 * 2 ^ 127)) = Fin (4632467 * 2 ^ 135)"
  "fmul binary32 (Fin (- (90 * 2 ^ 149))) (Fin (13176795 * 2 ^ 127)) = Fin (- (4632467 * 2 ^ 135))"
  "fdiv binary32 (Fin (4632467 * 2 ^ 135)) (Fin (180 * 2 ^ 149)) = Fin (13176795 * 2 ^ 126)"
  "fdiv binary32 (Fin (- (4632467 * 2 ^ 135))) (Fin (180 * 2 ^ 149)) = Fin (- (13176795 * 2 ^ 126))"
  "fmul binary32 (Fin (13176795 * 2 ^ 126)) (Fin (28 * 2 ^ 149)) = Fin (360303 * 2 ^ 136)"
  "fmul binary32 (Fin (- (13176795 * 2 ^ 126))) (Fin (28 * 2 ^ 149)) = Fin (- (360303 * 2 ^ 136))"
  "lround binary32 u (Fin (360303 * 2 ^ 136)) = 44" "lround binary32 u (Fin (- (360303 * 2 ^ 136))) = - 44"
  by code_simp+

lemma tablet_tilt_units_bounds:
  assumes "v \<noteq> NaN"
  shows "- 44 \<le> tablet_tilt_units u v \<and> tablet_tilt_units u v \<le> 44"
proof -
  obtain k where k: "fclamp v (Fin (- (90 * 2 ^ 149))) (Fin (90 * 2 ^ 149)) = Fin k"
      "- (90 * 2 ^ 149) \<le> k" "k \<le> 90 * 2 ^ 149"
    using fclamp_fin [of "- (90 * 2 ^ 149)" "90 * 2 ^ 149" v] assms by auto
  obtain a where a: "fmul binary32 (Fin k) (Fin (13176795 * 2 ^ 127)) = Fin a"
      "- (4632467 * 2 ^ 135) \<le> a" "a \<le> 4632467 * 2 ^ 135"
    using fmul_mono [OF k(2), of "13176795 * 2 ^ 127" binary32]
      fmul_mono [OF k(3), of "13176795 * 2 ^ 127" binary32]
    unfolding tilt_ends by (auto elim: fle_between simp del: fmul.simps)
  obtain b where b: "fdiv binary32 (Fin a) (Fin (180 * 2 ^ 149)) = Fin b"
      "- (13176795 * 2 ^ 126) \<le> b" "b \<le> 13176795 * 2 ^ 126"
    using fdiv_mono [OF a(2), of "180 * 2 ^ 149" binary32] fdiv_mono [OF a(3), of "180 * 2 ^ 149" binary32]
    unfolding tilt_ends by (auto elim: fle_between simp del: fdiv.simps)
  obtain c where c: "fmul binary32 (Fin b) (Fin (28 * 2 ^ 149)) = Fin c"
      "- (360303 * 2 ^ 136) \<le> c" "c \<le> 360303 * 2 ^ 136"
    using fmul_mono [OF b(2), of "28 * 2 ^ 149" binary32] fmul_mono [OF b(3), of "28 * 2 ^ 149" binary32]
    unfolding tilt_ends by (auto elim: fle_between simp del: fmul.simps)
  have "tablet_tilt_units u v = lround binary32 u (Fin c)"
    unfolding tablet_tilt_units_def tilt_constants k(1) a(1) b(1) c(1) Let_def ..
  then show ?thesis
    using lround_Fin_mono [OF c(2), of binary32 u] lround_Fin_mono [OF c(3), of binary32 u]
    unfolding tilt_ends by simp
qed

end
