(* ===== verification/LinuxText.thy ===== *)
theory LinuxText
  imports LinuxConfig "HOL-Library.Char_ord"
begin

text \<open>
  The Linux keyboard, class \<open>UinputKeyboard\<close> of \<open>src/src/platform/linux/uhid_backend.cpp\<close>, and
  text typed through it. \<open>decode_utf8\<close> is the loop over the bytes of the text; every code point
  is typed as the desktop's Unicode entry, Ctrl+Shift+U, its hexadecimal digits and Enter.
  \<open>utf8_encode\<close> is the reference encoding and \<open>unicode_entry\<close> the desktop's side of the entry;
  the lemmas give the round trip through both.
\<close>

section \<open>Key codes\<close>

text \<open>The numbers of \<open>linux/input-event-codes.h\<close>.\<close>

definition special_keys :: "(u16 \<times> nat) list" where
  "special_keys =
     [(0x08, 14), (0x09, 15), (0x0D, 28), (0x10, 42), (0xA0, 42), (0x11, 29), (0xA2, 29), (0x12, 56),
      (0xA4, 56), (0x14, 58), (0x1B, 1), (0x20, 57), (0x21, 104), (0x22, 109), (0x23, 107), (0x24, 102),
      (0x25, 105), (0x26, 103), (0x27, 106), (0x28, 108), (0x2C, 99), (0x2D, 110), (0x2E, 111),
      (0x5B, 125), (0x5C, 126), (0x5D, 127), (0x6A, 55), (0x6B, 78), (0x6D, 74), (0x6E, 83), (0x6F, 98),
      (0x90, 69), (0x91, 70), (0xA1, 54), (0xA3, 97), (0xA5, 100), (0xBA, 39), (0xBB, 13), (0xBC, 51),
      (0xBD, 12), (0xBE, 52), (0xBF, 53), (0xC0, 41), (0xDB, 26), (0xDC, 43), (0xDD, 27), (0xDE, 40),
      (0xE2, 86)]"

definition digit_keys :: "nat list" where
  "digit_keys = [11, 2, 3, 4, 5, 6, 7, 8, 9, 10]"

definition letter_keys :: "nat list" where
  "letter_keys =
     [30, 48, 46, 32, 18, 33, 34, 35, 23, 36, 37, 38, 50, 49, 24, 25, 16, 19, 31, 20, 22, 47, 17, 45, 21, 44]"

definition keypad_digit_keys :: "nat list" where
  "keypad_digit_keys = [82, 79, 80, 81, 75, 76, 77, 71, 72, 73]"

definition function_keys :: "nat list" where
  "function_keys =
     [59, 60, 61, 62, 63, 64, 65, 66, 67, 68, 87, 88, 183, 184, 185, 186, 187, 188, 189, 190, 191, 192, 193, 194]"

definition key_code_to_linux :: "u16 \<Rightarrow> nat option" where
  "key_code_to_linux key =
     (case map_of special_keys key of
        Some n \<Rightarrow> Some n
      | None \<Rightarrow>
          if 0x30 \<le> key \<and> key \<le> 0x39 then Some (digit_keys ! unat (key - 0x30))
          else if 0x41 \<le> key \<and> key \<le> 0x5A then Some (letter_keys ! unat (key - 0x41))
          else if 0x60 \<le> key \<and> key \<le> 0x69 then Some (keypad_digit_keys ! unat (key - 0x60))
          else if 0x70 \<le> key \<and> key \<le> 0x87 then Some (function_keys ! unat (key - 0x70))
          else None)"

section \<open>Text\<close>

text \<open>The first byte of a sequence: its bits of the code point and the length.\<close>

definition utf8_lead :: "u8 \<Rightarrow> (u32 \<times> nat) option" where
  "utf8_lead b =
     (if b \<le> 0x7F then Some (ucast b, 1)
      else if b AND 0xE0 = 0xC0 then Some (ucast (b AND 0x1F), 2)
      else if b AND 0xF0 = 0xE0 then Some (ucast (b AND 0x0F), 3)
      else if b AND 0xF8 = 0xF0 then Some (ucast (b AND 0x07), 4)
      else None)"

fun utf8_continue :: "u32 \<Rightarrow> u8 list \<Rightarrow> u32 option" where
  "utf8_continue codepoint [] = Some codepoint"
| "utf8_continue codepoint (b # bs) =
     (if b AND 0xC0 \<noteq> 0x80 then None
      else utf8_continue (push_bit 6 codepoint OR ucast (b AND 0x3F)) bs)"

text \<open>The loop, on the bytes that are left: an invalid byte is skipped, a sequence that the
  text cuts short ends the loop.\<close>

lemma utf8_lead_length: "utf8_lead b = Some (codepoint, n) \<Longrightarrow> 1 \<le> n \<and> n \<le> 4"
  by (auto simp: utf8_lead_def split: if_splits)

function decode_utf8 :: "u8 list \<Rightarrow> u32 list" where
  "decode_utf8 text =
     (case text of
        [] \<Rightarrow> []
      | b # rest \<Rightarrow>
          (case utf8_lead b of
             None \<Rightarrow> decode_utf8 rest
           | Some (codepoint, n) \<Rightarrow>
               if length text < n then []
               else case utf8_continue codepoint (take (n - 1) rest) of
                 None \<Rightarrow> decode_utf8 rest
               | Some codepoint \<Rightarrow> codepoint # decode_utf8 (drop (n - 1) rest)))"
  by pat_completeness auto
termination
  by (relation "measure length") auto

declare decode_utf8.simps [simp del]

text \<open>The loop as the code writes it, over the index \<open>i\<close>.\<close>

partial_function (option) decode_utf8_loop :: "u8 list \<Rightarrow> nat \<Rightarrow> u32 list \<Rightarrow> u32 list option" where
  "decode_utf8_loop text i codepoints =
     (if \<not> i < length text then Some codepoints
      else case utf8_lead (text ! i) of
        None \<Rightarrow> decode_utf8_loop text (i + 1) codepoints
      | Some (codepoint, n) \<Rightarrow>
          if i + n > length text then Some codepoints
          else case utf8_continue codepoint (take (n - 1) (drop (i + 1) text)) of
            None \<Rightarrow> decode_utf8_loop text (i + 1) codepoints
          | Some codepoint \<Rightarrow> decode_utf8_loop text (i + n) (codepoints @ [codepoint]))"

text \<open>The hexadecimal digits of a number, without leading zeros, and their characters.\<close>

function hex_digits :: "nat \<Rightarrow> nat list" where
  "hex_digits n = (if n < 16 then [n] else hex_digits (n div 16) @ [n mod 16])"
  by pat_completeness auto
termination
  by (relation "measure id") auto

declare hex_digits.simps [simp del]

definition hex_char :: "nat \<Rightarrow> char" where
  "hex_char d = char_of (if d < 10 then 48 + d else 55 + d)"

definition uppercase_hex :: "u32 \<Rightarrow> string" where
  "uppercase_hex codepoint = map hex_char (hex_digits (unat codepoint))"

definition hex_digit_key_code :: "char \<Rightarrow> u16" where
  "hex_digit_key_code digit =
     (let v = of_char digit :: nat in
      if 48 \<le> v \<and> v \<le> 57 then word_of_nat (0x30 + (v - 48)) else word_of_nat (0x41 + (v - 65)))"

definition key_event :: "u16 \<Rightarrow> bool \<Rightarrow> keyboard_event" where
  "key_event key is_pressed = default_keyboard_event\<lparr>key_code := key, key_pressed := is_pressed\<rparr>"

definition unicode_hex_prefix :: "keyboard_event list" where
  "unicode_hex_prefix =
     [key_event 0xA2 True, key_event 0xA0 True, key_event 0x55 True, key_event 0x55 False,
      key_event 0xA0 False, key_event 0xA2 False]"

definition unicode_hex_suffix :: "keyboard_event list" where
  "unicode_hex_suffix = [key_event 0x0D True, key_event 0x0D False]"

definition digit_events :: "char \<Rightarrow> keyboard_event list" where
  "digit_events digit =
     [key_event (hex_digit_key_code digit) True, key_event (hex_digit_key_code digit) False]"

definition codepoint_events :: "u32 \<Rightarrow> keyboard_event list" where
  "codepoint_events codepoint =
     unicode_hex_prefix @ concat (map digit_events (uppercase_hex codepoint)) @ unicode_hex_suffix"

text \<open>Every event is submitted until one fails.\<close>

definition type_text_with_unicode_hex ::
  "(keyboard_event \<Rightarrow> 's action) \<Rightarrow> u8 list \<Rightarrow> 's action" where
  "type_text_with_unicode_hex submit text =
     perform (map submit (concat (map codepoint_events (decode_utf8 text))))"

section \<open>The keyboard\<close>

text \<open>The device is its \<open>open_\<close> flag.\<close>

definition emit_keyboard_event ::
  "(input_event \<Rightarrow> 'w action) \<Rightarrow> keyboard_event \<Rightarrow> (bool \<times> 'w) action" where
  "emit_keyboard_event emit ev = (\<lambda>(d, w).
     case key_code_to_linux (key_code ev) of
       None \<Rightarrow> (failure Err_invalid_argument ''keyboard key code is not supported by the Linux backend'', d, w)
     | Some n \<Rightarrow>
         perform [out emit (EV_KEY (KEY n) (if key_pressed ev then 1 else 0)), out emit EV_SYN] (d, w))"

definition uinput_keyboard_submit ::
  "(input_event \<Rightarrow> 'w action) \<Rightarrow> keyboard_event \<Rightarrow> (bool \<times> 'w) action" where
  "uinput_keyboard_submit emit ev = (\<lambda>(d, w).
     if \<not> d then (failure Err_device_closed ''uinput keyboard is closed'', d, w)
     else emit_keyboard_event emit ev (d, w))"

definition uinput_keyboard_type_text ::
  "(input_event \<Rightarrow> 'w action) \<Rightarrow> u8 list \<Rightarrow> (bool \<times> 'w) action" where
  "uinput_keyboard_type_text emit text = type_text_with_unicode_hex (uinput_keyboard_submit emit) text"

section \<open>UTF-8\<close>

text \<open>The encoding of RFC 3629.\<close>

definition continuation :: "u32 \<Rightarrow> nat \<Rightarrow> u8" where
  "continuation c n = 0x80 OR ucast (drop_bit n c AND 0x3F)"

definition utf8_encode :: "u32 \<Rightarrow> u8 list" where
  "utf8_encode c =
     (if c < 0x80 then [ucast c]
      else if c < 0x800 then [0xC0 OR ucast (drop_bit 6 c), continuation c 0]
      else if c < 0x10000 then [0xE0 OR ucast (drop_bit 12 c), continuation c 6, continuation c 0]
      else [0xF0 OR ucast (drop_bit 18 c), continuation c 12, continuation c 6, continuation c 0])"

lemma u8_patterns:
  "bit (0x80 :: u8) n \<longleftrightarrow> n = 7" "bit (0xC0 :: u8) n \<longleftrightarrow> n = 6 \<or> n = 7"
  "bit (0xE0 :: u8) n \<longleftrightarrow> 5 \<le> n \<and> n \<le> 7" "bit (0xF0 :: u8) n \<longleftrightarrow> 4 \<le> n \<and> n \<le> 7"
  "bit (0xF8 :: u8) n \<longleftrightarrow> 3 \<le> n \<and> n \<le> 7"
  "bit (0x3F :: u8) n \<longleftrightarrow> n < 6" "bit (0x1F :: u8) n \<longleftrightarrow> n < 5" "bit (0x0F :: u8) n \<longleftrightarrow> n < 4"
  "bit (0x07 :: u8) n \<longleftrightarrow> n < 3" "bit (0x3F :: u32) m \<longleftrightarrow> m < 6"
proof -
  have n: "n \<in> {0, 1, 2, 3, 4, 5, 6, 7} \<or> 8 \<le> n" and m: "m \<in> {0, 1, 2, 3, 4, 5} \<or> 6 \<le> m"
    by auto
  have big: "8 \<le> n \<Longrightarrow> \<not> bit (w :: u8) n" for w
    using bit_imp_le_length [of w n] by auto
  have "bit (0x3F :: u32) m \<longleftrightarrow> bit (mask 6 :: u32) m"
    by (simp add: mask_eq_exp_minus_1)
  then show "bit (0x3F :: u32) m \<longleftrightarrow> m < 6"
    by (auto simp: bit_mask_iff)
  from n show "bit (0x80 :: u8) n \<longleftrightarrow> n = 7" "bit (0xC0 :: u8) n \<longleftrightarrow> n = 6 \<or> n = 7"
    "bit (0xE0 :: u8) n \<longleftrightarrow> 5 \<le> n \<and> n \<le> 7" "bit (0xF0 :: u8) n \<longleftrightarrow> 4 \<le> n \<and> n \<le> 7"
    "bit (0xF8 :: u8) n \<longleftrightarrow> 3 \<le> n \<and> n \<le> 7"
    "bit (0x3F :: u8) n \<longleftrightarrow> n < 6" "bit (0x1F :: u8) n \<longleftrightarrow> n < 5" "bit (0x0F :: u8) n \<longleftrightarrow> n < 4"
    "bit (0x07 :: u8) n \<longleftrightarrow> n < 3"
    using big by auto
qed

lemma bit_below:
  assumes "(x :: 'a::len word) < 2 ^ k" "bit x n"
  shows "n < k"
proof (rule ccontr)
  assume "\<not> n < k"
  then obtain m where "n = k + m"
    by (auto simp: not_less le_iff_add)
  moreover have "drop_bit k x = 0"
    using div_word_less [OF assms(1)] by (simp add: drop_bit_eq_div)
  ultimately show False
    using assms(2) bit_drop_bit_eq [of k x] by (metis bit_0_eq bot_apply bot_bool_def comp_apply)
qed

lemma continuation_bits:
  "continuation c n AND 0xC0 = 0x80" "ucast (continuation c n AND 0x3F) = drop_bit n c AND (0x3F :: u32)"
  by (intro bit_word_eqI; auto simp: continuation_def bit_simps u8_patterns simp del: bit_numeral_word_iff)+

lemma split_six: "push_bit 6 (drop_bit (n + 6) c) OR (drop_bit n c AND 0x3F) = drop_bit n (c :: u32)"
  by (rule bit_word_eqI) (auto simp: bit_simps u8_patterns dest: bit_imp_le_length simp del: bit_numeral_word_iff)

lemma lead_bits:
  fixes x :: u32
  shows "x < 0x20 \<Longrightarrow> (0xC0 OR ucast x :: u8) AND 0xE0 = 0xC0 \<and> ucast ((0xC0 OR ucast x :: u8) AND 0x1F) = x"
    "x < 0x10 \<Longrightarrow> (0xE0 OR ucast x :: u8) AND 0xF0 = 0xE0 \<and> ucast ((0xE0 OR ucast x :: u8) AND 0x0F) = x"
    "x < 0x08 \<Longrightarrow> (0xF0 OR ucast x :: u8) AND 0xF8 = 0xF0 \<and> ucast ((0xF0 OR ucast x :: u8) AND 0x07) = x"
proof -
  show "(0xC0 OR ucast x :: u8) AND 0xE0 = 0xC0 \<and> ucast ((0xC0 OR ucast x :: u8) AND 0x1F) = x" if "x < 0x20"
    using bit_below [of x 5] that
    by (intro conjI bit_word_eqI) (fastforce simp: bit_simps u8_patterns simp del: bit_numeral_word_iff)+
  show "(0xE0 OR ucast x :: u8) AND 0xF0 = 0xE0 \<and> ucast ((0xE0 OR ucast x :: u8) AND 0x0F) = x" if "x < 0x10"
    using bit_below [of x 4] that
    by (intro conjI bit_word_eqI) (fastforce simp: bit_simps u8_patterns simp del: bit_numeral_word_iff)+
  show "(0xF0 OR ucast x :: u8) AND 0xF8 = 0xF0 \<and> ucast ((0xF0 OR ucast x :: u8) AND 0x07) = x" if "x < 0x08"
    using bit_below [of x 3] that
    by (intro conjI bit_word_eqI) (fastforce simp: bit_simps u8_patterns simp del: bit_numeral_word_iff)+
qed

lemma masked_bit: "b AND m = v \<Longrightarrow> bit m n \<Longrightarrow> bit b n \<longleftrightarrow> bit v n"
  by (metis bit_and_iff)

lemma utf8_lead_multi:
  "b AND 0xE0 = 0xC0 \<Longrightarrow> utf8_lead b = Some (ucast (b AND 0x1F), 2)"
  "b AND 0xF0 = 0xE0 \<Longrightarrow> utf8_lead b = Some (ucast (b AND 0x0F), 3)"
  "b AND 0xF8 = 0xF0 \<Longrightarrow> utf8_lead b = Some (ucast (b AND 0x07), 4)"
proof -
  have top: "\<not> b \<le> 0x7F" if "bit b 7"
    using bit_below [where x = b and k = 7 and n = 7] that by (auto simp: word_le_nat_alt word_less_nat_alt)
  show "utf8_lead b = Some (ucast (b AND 0x1F), 2)" if "b AND 0xE0 = 0xC0"
    using that top masked_bit [OF that, where n = 7] by (simp add: utf8_lead_def u8_patterns del: bit_numeral_word_iff)
  show "utf8_lead b = Some (ucast (b AND 0x0F), 3)" if "b AND 0xF0 = 0xE0"
    using that top masked_bit [OF that, where n = 7] masked_bit [OF that, where n = 5] masked_bit [where b = b and m = "0xE0" and v = "0xC0" and n = 5]
    by (auto simp: utf8_lead_def u8_patterns simp del: bit_numeral_word_iff)
  show "utf8_lead b = Some (ucast (b AND 0x07), 4)" if "b AND 0xF8 = 0xF0"
    using that top masked_bit [OF that, where n = 7] masked_bit [OF that, where n = 5] masked_bit [OF that, where n = 4]
      masked_bit [where b = b and m = "0xE0" and v = "0xC0" and n = 5] masked_bit [where b = b and m = "0xF0" and v = "0xE0" and n = 4]
    by (auto simp: utf8_lead_def u8_patterns simp del: bit_numeral_word_iff)
qed

lemma utf8_lead_ascii: "(c :: u32) < 0x80 \<Longrightarrow> utf8_lead (ucast c) = Some (c, 1)"
  by (simp add: utf8_lead_def word_le_nat_alt word_less_nat_alt unsigned_ucast_eq word_unat_eq_iff
      unsigned_take_bit_eq take_bit_nat_eq_self)

lemma drop_bit_less:
  "(c :: u32) < 0x800 \<Longrightarrow> drop_bit 6 c < 0x20" "c < 0x10000 \<Longrightarrow> drop_bit 12 c < 0x10"
  "c < 0x200000 \<Longrightarrow> drop_bit 18 c < 0x08"
  by (simp_all add: word_less_nat_alt unsigned_drop_bit_eq drop_bit_eq_div unat_div)

lemma utf8_continue_step:
  "utf8_continue (drop_bit (n + 6) c) (continuation c n # bs) = utf8_continue (drop_bit n c) bs"
  by (simp add: continuation_bits split_six)

lemma utf8_continue_Nil: "utf8_continue c [] = Some c"
  by simp

lemma utf8_continue_steps:
  "utf8_continue (drop_bit 6 c) (continuation c 0 # bs) = utf8_continue c bs"
  "utf8_continue (drop_bit 12 c) (continuation c 6 # bs) = utf8_continue (drop_bit 6 c) bs"
  "utf8_continue (drop_bit 18 c) (continuation c 12 # bs) = utf8_continue (drop_bit 12 c) bs"
  using utf8_continue_step [of 0 c bs] utf8_continue_step [of 6 c bs] utf8_continue_step [of 12 c bs]
  by (simp_all del: utf8_continue.simps)

lemma decode_utf8_Nil: "decode_utf8 [] = []"
  by (subst decode_utf8.simps) simp

lemma decode_utf8_sequence:
  assumes "utf8_lead b = Some (codepoint, Suc (length bs))" "utf8_continue codepoint bs = Some c"
  shows "decode_utf8 (b # bs @ rest) = c # decode_utf8 rest"
  using assms by (subst decode_utf8.simps) simp

lemma decode_utf8_encode:
  assumes "c < 0x200000"
  shows "decode_utf8 (utf8_encode c @ rest) = c # decode_utf8 rest"
proof -
  consider "c < 0x80" | "\<not> c < 0x80" "c < 0x800" | "\<not> c < 0x800" "\<not> c < 0x80" "c < 0x10000"
    | "\<not> c < 0x10000" "\<not> c < 0x800" "\<not> c < 0x80"
    by blast
  then show ?thesis
  proof cases
    case 1
    then show ?thesis
      using decode_utf8_sequence [of "ucast c" c "[]" c rest] by (simp add: utf8_encode_def utf8_lead_ascii)
  next
    case 2
    then show ?thesis
      using decode_utf8_sequence [of "0xC0 OR ucast (drop_bit 6 c)" "drop_bit 6 c" "[continuation c 0]" c rest]
      by (simp add: utf8_encode_def utf8_lead_multi lead_bits drop_bit_less utf8_continue_steps utf8_continue_Nil del: utf8_continue.simps)
  next
    case 3
    then show ?thesis
      using decode_utf8_sequence [of "0xE0 OR ucast (drop_bit 12 c)" "drop_bit 12 c"
          "[continuation c 6, continuation c 0]" c rest]
      by (simp add: utf8_encode_def utf8_lead_multi lead_bits drop_bit_less utf8_continue_steps utf8_continue_Nil del: utf8_continue.simps)
  next
    case 4
    with assms show ?thesis
      using decode_utf8_sequence [of "0xF0 OR ucast (drop_bit 18 c)" "drop_bit 18 c"
          "[continuation c 12, continuation c 6, continuation c 0]" c rest]
      by (simp add: utf8_encode_def utf8_lead_multi lead_bits drop_bit_less utf8_continue_steps utf8_continue_Nil del: utf8_continue.simps)
  qed
qed

text \<open>C37: Every text that is the UTF-8 encoding of a sequence of code points is decoded to those
  code points.\<close>

lemma decode_utf8_roundtrip:
  "list_all (\<lambda>c. c < 0x200000) cps \<Longrightarrow> decode_utf8 (concat (map utf8_encode cps)) = cps"
  by (induction cps) (simp_all add: decode_utf8_encode decode_utf8_Nil)

lemma decode_utf8_roundtrip_witness:
  "decode_utf8 [0x41, 0xC3, 0xA9, 0xE2, 0x82, 0xAC, 0xF0, 0x9F, 0x99, 0x82] = [0x41, 0xE9, 0x20AC, 0x1F642]"
  using decode_utf8_roundtrip [of "[0x41, 0xE9, 0x20AC, 0x1F642]"]
  by (simp add: utf8_encode_def continuation_def)

lemma decode_utf8_length: "length (decode_utf8 text) \<le> length text"
proof (induction "text" rule: decode_utf8.induct)
  case (1 bytes)
  show ?case
  proof (cases bytes)
    case Nil
    then show ?thesis by (simp add: decode_utf8_Nil)
  next
    case (Cons b rest)
    with 1 show ?thesis
      by (subst decode_utf8.simps) (fastforce split: option.split prod.split dest: utf8_lead_length)
  qed
qed

lemma decode_utf8_loop_from:
  "decode_utf8_loop text i cps = Some (cps @ decode_utf8 (drop i text))"
proof (induction "length text - i" arbitrary: i cps rule: less_induct)
  case less
  show ?case
  proof (cases "i < length text")
    case False
    then show ?thesis by (subst decode_utf8_loop.simps) (simp add: decode_utf8_Nil)
  next
    case True
    then have bytes: "drop i text = text ! i # drop (Suc i) text"
      by (simp add: Cons_nth_drop_Suc)
    note next_byte = less [of "i + 1" cps]
    show ?thesis
    proof (cases "utf8_lead (text ! i)")
      case None
      with True next_byte show ?thesis
        by (subst decode_utf8_loop.simps, subst decode_utf8.simps) (simp add: bytes)
    next
      case (Some lead)
      then obtain codepoint n where lead: "utf8_lead (text ! i) = Some (codepoint, n)" "1 \<le> n"
        using utf8_lead_length by (cases lead) blast
      show ?thesis
      proof (cases "utf8_continue codepoint (take (n - 1) (drop (Suc i) text))")
        case None
        with True next_byte lead show ?thesis
          by (subst decode_utf8_loop.simps, subst decode_utf8.simps) (auto simp: bytes)
      next
        case (Some c)
        with True lead less [of "i + n" "cps @ [c]"] show ?thesis
          by (subst decode_utf8_loop.simps, subst decode_utf8.simps) (auto simp: bytes add.commute)
      qed
    qed
  qed
qed

text \<open>A multi-byte lead near the end of the text drops the characters after it; further from the end it
  is skipped alone.\<close>

lemma decode_utf8_cut_short:
  "decode_utf8 [0xE2, 0x41] = []" "decode_utf8 [0xE2, 0x41, 0x42] = [0x41, 0x42]"
  by (simp_all add: decode_utf8.simps utf8_lead_def)

text \<open>C38: The loop that decodes a text ends, with the code points of the reference recursion and at
  most one of them for every byte.\<close>

lemma decode_utf8_loop_ends:
  "\<exists>cps. decode_utf8_loop text 0 [] = Some cps \<and> cps = decode_utf8 text \<and> length cps \<le> length text"
  using decode_utf8_loop_from [of "text" 0 "[]"] decode_utf8_length [of "text"] by simp

section \<open>Typing\<close>

text \<open>The desktop's side: Ctrl+Shift+U starts an entry, the keys of the hexadecimal digits extend its
  number and Enter writes it. It also keeps the keys that are held.\<close>

record entry_reader =
  er_held :: "nat set"
  er_number :: "nat option"
  er_text :: "nat list"

definition entry_digit :: "nat \<Rightarrow> nat option" where
  "entry_digit n = map_of (zip [11, 2, 3, 4, 5, 6, 7, 8, 9, 10, 30, 48, 46, 32, 18, 33] [0..<16]) n"

definition entry_press :: "nat \<Rightarrow> entry_reader \<Rightarrow> entry_reader" where
  "entry_press n r =
     (if n = 22 \<and> {29, 42} \<subseteq> er_held r then r\<lparr>er_number := Some 0\<rparr>
      else case er_number r of
        None \<Rightarrow> r
      | Some v \<Rightarrow>
          if n = 28 then r\<lparr>er_number := None, er_text := er_text r @ [v]\<rparr>
          else case entry_digit n of None \<Rightarrow> r | Some d \<Rightarrow> r\<lparr>er_number := Some (16 * v + d)\<rparr>)"

fun entry_event :: "input_event \<Rightarrow> entry_reader \<Rightarrow> entry_reader" where
  "entry_event (EV_KEY (KEY n) v) r =
     (if v = 0 then r\<lparr>er_held := er_held r - {n}\<rparr>
      else entry_press n (r\<lparr>er_held := insert n (er_held r)\<rparr>))"
| "entry_event ev r = r"

text \<open>The events of a key.\<close>

definition key_inputs :: "keyboard_event \<Rightarrow> input_event list" where
  "key_inputs ev = [EV_KEY (KEY (the (key_code_to_linux (key_code ev)))) (if key_pressed ev then 1 else 0), EV_SYN]"

text \<open>A reader that sees no key held.\<close>

definition held_none :: "nat option \<Rightarrow> nat list \<Rightarrow> entry_reader" where
  "held_none number written = \<lparr>er_held = {}, er_number = number, er_text = written\<rparr>"

abbreviation supported_key :: "keyboard_event \<Rightarrow> bool" where
  "supported_key ev \<equiv> key_code_to_linux (key_code ev) \<noteq> None"

context accepting_input_channel begin

lemma runs_submit_key:
  assumes "supported_key ev"
  shows "runs (uinput_keyboard_submit emit ev) True True (key_inputs ev)"
proof -
  from assms obtain n where n: "key_code_to_linux (key_code ev) = Some n"
    by auto
  have "runs (perform (map (out emit) (key_inputs ev))) True True (key_inputs ev)"
    by (rule runs_outs)
  then show ?thesis
    by (simp add: runs_def uinput_keyboard_submit_def emit_keyboard_event_def n key_inputs_def)
qed

lemma runs_submit_keys:
  "list_all supported_key evs \<Longrightarrow>
    runs (perform (map (uinput_keyboard_submit emit) evs)) True True (concat (map key_inputs evs))"
proof (induction evs)
  case Nil
  show ?case by (simp only: list.map concat.simps runs_Nil)
next
  case (Cons ev evs)
  then show ?case
    using runs_Cons [OF runs_submit_key] by (simp del: perform.simps)
qed

end

lemma all_hex_digits: "(\<forall>d < 16. P d) \<longleftrightarrow> list_all P [0..<16]" for P :: "nat \<Rightarrow> bool"
  by (auto simp: list_all_iff)

lemma digit_keys_entered:
  "d < 16 \<Longrightarrow> \<exists>n. key_code_to_linux (hex_digit_key_code (hex_char d)) = Some n \<and>
    entry_digit n = Some d \<and> n \<noteq> 22 \<and> n \<noteq> 28"
proof -
  have "\<forall>d < 16. \<exists>n. key_code_to_linux (hex_digit_key_code (hex_char d)) = Some n \<and>
    entry_digit n = Some d \<and> n \<noteq> 22 \<and> n \<noteq> 28"
    unfolding all_hex_digits by (simp add: upt_rec hex_char_def hex_digit_key_code_def key_code_to_linux_def special_keys_def digit_keys_def letter_keys_def entry_digit_def)
  then show "d < 16 \<Longrightarrow> \<exists>n. key_code_to_linux (hex_digit_key_code (hex_char d)) = Some n \<and>
    entry_digit n = Some d \<and> n \<noteq> 22 \<and> n \<noteq> 28"
    by blast
qed

lemma hex_digits_small: "list_all (\<lambda>d. d < 16) (hex_digits n)"
  by (induction n rule: hex_digits.induct) (subst hex_digits.simps, simp)

lemma hex_digits_value: "foldl (\<lambda>v d. 16 * v + d) 0 (hex_digits n) = n"
  by (induction n rule: hex_digits.induct) (subst hex_digits.simps, simp)

lemma read_prefix:
  "fold entry_event (concat (map key_inputs unicode_hex_prefix)) (held_none None written) =
     held_none (Some 0) written"
  by (simp add: unicode_hex_prefix_def key_inputs_def key_event_def key_code_to_linux_def special_keys_def
      letter_keys_def entry_press_def entry_digit_def held_none_def default_keyboard_event_def upt_rec)

lemma read_suffix:
  "fold entry_event (concat (map key_inputs unicode_hex_suffix)) (held_none (Some v) written) =
     held_none None (written @ [v])"
  by (simp add: unicode_hex_suffix_def key_inputs_def key_event_def key_code_to_linux_def special_keys_def
      entry_press_def held_none_def)

lemma read_digit:
  assumes "d < 16"
  shows "fold entry_event (concat (map key_inputs (digit_events (hex_char d)))) (held_none (Some v) written) =
     held_none (Some (16 * v + d)) written"
proof -
  from digit_keys_entered [OF assms] obtain n where
    "key_code_to_linux (hex_digit_key_code (hex_char d)) = Some n" "entry_digit n = Some d" "n \<noteq> 22" "n \<noteq> 28"
    by blast
  then show ?thesis
    by (simp add: digit_events_def key_inputs_def key_event_def entry_press_def held_none_def)
qed

lemma read_digits:
  "list_all (\<lambda>d. d < 16) ds \<Longrightarrow>
    fold entry_event (concat (map key_inputs (concat (map (digit_events \<circ> hex_char) ds)))) (held_none (Some v) written) =
      held_none (Some (foldl (\<lambda>v d. 16 * v + d) v ds)) written"
  by (induction ds arbitrary: v) (simp_all add: read_digit)

lemma read_codepoint:
  "fold entry_event (concat (map key_inputs (codepoint_events c))) (held_none None written) =
     held_none None (written @ [unat c])"
  using read_digits [OF hex_digits_small [of "unat c"], of 0 written]
  by (simp add: codepoint_events_def read_prefix read_suffix uppercase_hex_def comp_def hex_digits_value)

lemma read_codepoints:
  "fold entry_event (concat (map key_inputs (concat (map codepoint_events cps)))) (held_none None written) =
     held_none None (written @ map unat cps)"
  by (induction cps arbitrary: written) (simp_all add: read_codepoint)

lemma codepoint_keys_supported: "list_all supported_key (codepoint_events c)"
proof -
  have "list_all supported_key (concat (map (digit_events \<circ> hex_char) ds))" if "list_all (\<lambda>d. d < 16) ds" for ds
    using that by (induction ds) (auto simp: digit_events_def key_event_def dest: digit_keys_entered)
  from this [OF hex_digits_small [of "unat c"]] show ?thesis
    by (simp add: codepoint_events_def unicode_hex_prefix_def unicode_hex_suffix_def uppercase_hex_def comp_def
        key_event_def key_code_to_linux_def special_keys_def)
qed

text \<open>C36: On a device that takes every write, typing a text succeeds, and the desktop's Unicode entry
  reads from the events exactly the code points of the text, in order, with no entry open and no key
  held at the end.\<close>

lemma typed_text_entered:
  "case uinput_keyboard_type_text (logged_write (accepting os)) text (True, [], w) of
     (status, d, evs, w') \<Rightarrow> status_ok status \<and> d \<and>
       fold entry_event evs \<lparr>er_held = {}, er_number = None, er_text = []\<rparr> =
         \<lparr>er_held = {}, er_number = None, er_text = map unat (decode_utf8 text)\<rparr>"
proof -
  let ?keys = "concat (map codepoint_events (decode_utf8 text))"
  have "list_all supported_key ?keys"
    using codepoint_keys_supported unfolding list_all_iff by auto
  note typed = accepted_input.runs_submit_keys [OF this, of os]
  obtain status w' where
    "uinput_keyboard_type_text (logged_write (accepting os)) text (True, [], w) = (status, True, w')"
    "status_ok status" "fst w' = concat (map key_inputs ?keys)"
    by (rule accepted.runsE [OF typed, of "([], w)"])
      (simp add: uinput_keyboard_type_text_def type_text_with_unicode_hex_def)
  then show ?thesis
    using read_codepoints [of "decode_utf8 text" "[]"] by (simp add: held_none_def split_def)
qed

end
