(* ===== verification/LinuxTouch.thy ===== *)
theory LinuxTouch
  imports LinuxConfig
begin

text \<open>
  The Linux touchscreen and trackpad, class \<open>UinputTouchDevice\<close> of
  \<open>src/src/platform/linux/uhid_backend.cpp\<close>: contacts are assigned to slots of the kernel's
  multitouch protocol B, and every operation is written as events. The reference is the
  kernel's side, \<open>kernel_event\<close>: a current slot, and a tracking identifier and a position for
  every slot. The contacts a client holds are compared with the ones the kernel shows.
\<close>

section \<open>The device\<close>

definition touch_tracking_id_count :: u32 where "touch_tracking_id_count = 65536"

text \<open>The map of contact identifiers to slots as an association list without repeated keys.\<close>

record touch_device =
  td_open :: bool
  td_contacts :: "(int \<times> nat) list"
  td_current_slot :: int
  td_next_tracking_id :: u32
  td_new_slot :: bool

definition new_touch_device :: touch_device where
  "new_touch_device = \<lparr>td_open = True, td_contacts = [], td_current_slot = - 1,
     td_next_tracking_id = 0, td_new_slot = False\<rparr>"

definition slot_for_contact :: "int \<Rightarrow> touch_device \<Rightarrow> (nat \<times> touch_device) option" where
  "slot_for_contact i d =
     (case map_of (td_contacts d) i of
        Some slot \<Rightarrow> Some (slot, d\<lparr>td_new_slot := False\<rparr>)
      | None \<Rightarrow>
          (case find (\<lambda>slot. \<not> list_ex (\<lambda>(j, s). s = slot) (td_contacts d)) [0..<touch_max_contacts] of
             None \<Rightarrow> None
           | Some slot \<Rightarrow>
               Some (slot, d\<lparr>td_contacts := (i, slot) # td_contacts d, td_new_slot := True\<rparr>)))"

definition select_slot ::
  "(input_event \<Rightarrow> 'w action) \<Rightarrow> nat \<Rightarrow> (touch_device \<times> 'w) action" where
  "select_slot emit slot = on_device (\<lambda>d.
     if td_current_slot d = int slot then []
     else [update_device (\<lambda>d. d\<lparr>td_current_slot := int slot\<rparr>),
           out emit (EV_ABS ABS_MT_SLOT (int slot))])"

definition tool_button_events :: "nat \<Rightarrow> input_event list" where
  "tool_button_events count =
     [EV_KEY BTN_TOUCH (if count = 0 then 0 else 1),
      EV_KEY BTN_TOOL_FINGER (if count = 1 then 1 else 0),
      EV_KEY BTN_TOOL_DOUBLETAP (if count = 2 then 1 else 0),
      EV_KEY BTN_TOOL_TRIPLETAP (if count = 3 then 1 else 0),
      EV_KEY BTN_TOOL_QUADTAP (if count = 4 then 1 else 0),
      EV_KEY BTN_TOOL_QUINTTAP (if 5 \<le> count then 1 else 0)]"

definition emit_trackpad_tool_buttons ::
  "(input_event \<Rightarrow> 'w action) \<Rightarrow> (touch_device \<times> 'w) action" where
  "emit_trackpad_tool_buttons emit = on_device (\<lambda>d.
     map (out emit) (tool_button_events (length (td_contacts d))))"

text \<open>The part of \<open>place_touch_contact\<close> for a new slot.\<close>

definition begin_contact ::
  "(input_event \<Rightarrow> 'w action) \<Rightarrow> bool \<Rightarrow> (touch_device \<times> 'w) action" where
  "begin_contact emit update_trackpad_buttons = on_device (\<lambda>d.
     if \<not> td_new_slot d then []
     else [update_device (\<lambda>d. d\<lparr>td_next_tracking_id :=
             (td_next_tracking_id d + 1) mod touch_tracking_id_count\<rparr>),
           out emit (EV_ABS ABS_MT_TRACKING_ID (uint (td_next_tracking_id d))),
           update_device (\<lambda>d. d\<lparr>td_new_slot := False\<rparr>),
           if update_trackpad_buttons then emit_trackpad_tool_buttons emit
           else out emit (EV_KEY BTN_TOUCH 1)])"

definition contact_events :: "(flt \<Rightarrow> int) \<Rightarrow> touch_contact \<Rightarrow> input_event list" where
  "contact_events u c =
     (let x = scale_normalized_axis u (touch_x c) touch_axis_max_x;
          y = scale_normalized_axis u (touch_y c) touch_axis_max_y;
          p = scale_normalized_axis u (pressure c) touch_pressure_max
      in [EV_ABS ABS_X x, EV_ABS ABS_MT_POSITION_X x, EV_ABS ABS_Y y, EV_ABS ABS_MT_POSITION_Y y,
          EV_ABS ABS_PRESSURE p, EV_ABS ABS_MT_PRESSURE p,
          EV_ABS ABS_MT_ORIENTATION (clamp_degrees (orientation c)), EV_SYN])"

definition place_touch_contact ::
  "(input_event \<Rightarrow> 'w action) \<Rightarrow> (flt \<Rightarrow> int) \<Rightarrow> touch_contact \<Rightarrow> bool \<Rightarrow> (touch_device \<times> 'w) action" where
  "place_touch_contact emit u c update_trackpad_buttons = (\<lambda>(d, w).
     if \<not> td_open d then (failure Err_device_closed ''uinput touch device is closed'', d, w)
     else if touch_id c < 0
     then (failure Err_invalid_argument ''touch contact id must not be negative'', d, w)
     else case slot_for_contact (touch_id c) d of
       None \<Rightarrow> (failure Err_invalid_argument ''too many active touch contacts'', d, w)
     | Some (slot, d) \<Rightarrow>
         perform (select_slot emit slot # begin_contact emit update_trackpad_buttons #
           map (out emit) (contact_events u c)) (d, w))"

definition release_touch_contact ::
  "(input_event \<Rightarrow> 'w action) \<Rightarrow> int \<Rightarrow> bool \<Rightarrow> (touch_device \<times> 'w) action" where
  "release_touch_contact emit i update_trackpad_buttons = (\<lambda>(d, w).
     if \<not> td_open d then (failure Err_device_closed ''uinput touch device is closed'', d, w)
     else case map_of (td_contacts d) i of
       None \<Rightarrow> (success, d, w)
     | Some slot \<Rightarrow>
         perform
           [select_slot emit slot,
            update_device (\<lambda>d. d\<lparr>td_contacts := filter (\<lambda>(j, s). j \<noteq> i) (td_contacts d)\<rparr>),
            out emit (EV_ABS ABS_MT_TRACKING_ID (- 1)),
            on_device (\<lambda>d.
              if update_trackpad_buttons then [emit_trackpad_tool_buttons emit]
              else if td_contacts d = [] then [out emit (EV_KEY BTN_TOUCH 0)] else []),
            out emit EV_SYN] (d, w))"

definition emit_touch_button ::
  "(input_event \<Rightarrow> 'w action) \<Rightarrow> bool \<Rightarrow> (touch_device \<times> 'w) action" where
  "emit_touch_button emit is_pressed = (\<lambda>(d, w).
     if \<not> td_open d then (failure Err_device_closed ''uinput touch device is closed'', d, w)
     else perform (map (out emit) [EV_KEY BTN_LEFT (if is_pressed then 1 else 0), EV_SYN]) (d, w))"

section \<open>The kernel\<close>

record kernel_touch =
  k_slot :: int
  k_tracking :: "int \<Rightarrow> int"
  k_x :: "int \<Rightarrow> int"
  k_y :: "int \<Rightarrow> int"
  k_keys :: "evdev_key \<Rightarrow> bool"

definition kernel_start :: kernel_touch where
  "kernel_start = \<lparr>k_slot = 0, k_tracking = (\<lambda>s. - 1), k_x = (\<lambda>s. 0), k_y = (\<lambda>s. 0), k_keys = (\<lambda>k. False)\<rparr>"

fun kernel_event :: "kernel_touch \<Rightarrow> input_event \<Rightarrow> kernel_touch" where
  "kernel_event k (EV_ABS ABS_MT_SLOT v) = k\<lparr>k_slot := v\<rparr>"
| "kernel_event k (EV_ABS ABS_MT_TRACKING_ID v) = k\<lparr>k_tracking := (k_tracking k)(k_slot k := v)\<rparr>"
| "kernel_event k (EV_ABS ABS_MT_POSITION_X v) = k\<lparr>k_x := (k_x k)(k_slot k := v)\<rparr>"
| "kernel_event k (EV_ABS ABS_MT_POSITION_Y v) = k\<lparr>k_y := (k_y k)(k_slot k := v)\<rparr>"
| "kernel_event k (EV_KEY key v) = k\<lparr>k_keys := (k_keys k)(key := v \<noteq> 0)\<rparr>"
| "kernel_event k _ = k"

definition kernel_run :: "kernel_touch \<Rightarrow> input_event list \<Rightarrow> kernel_touch" where
  "kernel_run k evs = foldl kernel_event k evs"

section \<open>The contacts a client holds\<close>

datatype touch_call = Place touch_contact | Release int | Click bool

text \<open>The specification: the contacts with their scaled positions. A contact beyond the
  sixteenth is refused.\<close>

definition touch_spec ::
  "(flt \<Rightarrow> int) \<Rightarrow> (int \<rightharpoonup> int \<times> int) \<Rightarrow> touch_call \<Rightarrow> (int \<rightharpoonup> int \<times> int)" where
  "touch_spec u held call = (case call of
     Click is_pressed \<Rightarrow> held
   | Place c \<Rightarrow>
       if 0 \<le> touch_id c \<and> (held (touch_id c) \<noteq> None \<or> card (dom held) < touch_max_contacts)
       then held(touch_id c \<mapsto> (scale_normalized_axis u (touch_x c) touch_axis_max_x,
                                scale_normalized_axis u (touch_y c) touch_axis_max_y))
       else held
   | Release i \<Rightarrow> held(i := None))"

fun touch_step ::
  "(input_event \<Rightarrow> 'w action) \<Rightarrow> (flt \<Rightarrow> int) \<Rightarrow> bool \<Rightarrow> touch_call \<Rightarrow> (touch_device \<times> 'w) action" where
  "touch_step emit u upd (Place c) = place_touch_contact emit u c upd"
| "touch_step emit u upd (Release i) = release_touch_contact emit i upd"
| "touch_step emit u upd (Click is_pressed) = emit_touch_button emit is_pressed"

definition touch_run ::
  "(input_event \<Rightarrow> 'w action) \<Rightarrow> (flt \<Rightarrow> int) \<Rightarrow> bool \<Rightarrow> touch_call list \<Rightarrow> touch_device \<times> 'w \<Rightarrow> touch_device \<times> 'w" where
  "touch_run emit u upd calls s = foldl (\<lambda>s call. snd (touch_step emit u upd call s)) s calls"

text \<open>What the kernel shows of a contact.\<close>

definition shown :: "touch_device \<Rightarrow> kernel_touch \<Rightarrow> int \<rightharpoonup> int \<times> int" where
  "shown d k i =
     (case map_of (td_contacts d) i of
        None \<Rightarrow> None
      | Some s \<Rightarrow> if k_tracking k (int s) = - 1 then None else Some (k_x k (int s), k_y k (int s)))"

section \<open>Operations on an accepting channel\<close>

definition slot_events :: "nat \<Rightarrow> touch_device \<Rightarrow> input_event list" where
  "slot_events slot d = (if td_current_slot d = int slot then [] else [EV_ABS ABS_MT_SLOT (int slot)])"

definition begin_events :: "bool \<Rightarrow> touch_device \<Rightarrow> input_event list" where
  "begin_events upd d =
     (if td_new_slot d
      then EV_ABS ABS_MT_TRACKING_ID (uint (td_next_tracking_id d)) #
        (if upd then tool_button_events (length (td_contacts d)) else [EV_KEY BTN_TOUCH 1])
      else [])"

definition begun :: "touch_device \<Rightarrow> touch_device" where
  "begun d = d\<lparr>td_next_tracking_id :=
     (if td_new_slot d then (td_next_tracking_id d + 1) mod touch_tracking_id_count
      else td_next_tracking_id d), td_new_slot := False\<rparr>"

definition ended :: "int \<Rightarrow> nat \<Rightarrow> touch_device \<Rightarrow> touch_device" where
  "ended i slot d =
     d\<lparr>td_current_slot := int slot, td_contacts := filter (\<lambda>(j, s). j \<noteq> i) (td_contacts d)\<rparr>"

definition end_events :: "bool \<Rightarrow> touch_device \<Rightarrow> input_event list" where
  "end_events upd d =
     (if upd then tool_button_events (length (td_contacts d))
      else if td_contacts d = [] then [EV_KEY BTN_TOUCH 0] else [])"

context accepting_input_channel begin

lemma runs_select_slot:
  "runs (select_slot emit slot) d (d\<lparr>td_current_slot := int slot\<rparr>) (slot_events slot d)"
proof (cases "td_current_slot d = int slot")
  case True
  then have "d = d\<lparr>td_current_slot := int slot\<rparr>"
    by (cases d) simp
  with True show ?thesis
    unfolding select_slot_def slot_events_def
    by (intro runs_on_device) (auto intro: runs_eq [OF runs_Nil] simp del: perform.simps)
next
  case False
  then show ?thesis
    unfolding select_slot_def slot_events_def
    by (intro runs_on_device) (auto intro!: runs_update_Cons runs_out_Cons runs_Nil simp del: perform.simps)
qed

lemma runs_tool_buttons:
  "runs (emit_trackpad_tool_buttons emit) d d (tool_button_events (length (td_contacts d)))"
  unfolding emit_trackpad_tool_buttons_def by (rule runs_on_device) (rule runs_outs)

lemma runs_begin_contact: "runs (begin_contact emit upd) d (begun d) (begin_events upd d)"
proof (cases "td_new_slot d")
  case True
  have "runs (if upd then emit_trackpad_tool_buttons emit else out emit (EV_KEY BTN_TOUCH 1))
      (begun d) (begun d)
      (if upd then tool_button_events (length (td_contacts d)) else [EV_KEY BTN_TOUCH 1])"
    using runs_tool_buttons [of "begun d"] runs_out [of "EV_KEY BTN_TOUCH 1" "begun d"]
    by (cases upd) (simp_all add: begun_def)
  with True show ?thesis
    unfolding begin_contact_def begin_events_def
    by (intro runs_on_device)
      (auto intro!: runs_update_Cons runs_out_Cons runs_single simp: begun_def simp del: perform.simps)
next
  case False
  then have "d = begun d"
    by (cases d) (simp add: begun_def)
  with False show ?thesis
    unfolding begin_contact_def begin_events_def
    by (intro runs_on_device) (auto intro: runs_eq [OF runs_Nil] simp del: perform.simps)
qed

lemma runs_place:
  assumes "td_open d" "0 \<le> touch_id c" "slot_for_contact (touch_id c) d = Some (slot, d1)"
  shows "runs (place_touch_contact emit u c upd) d (begun (d1\<lparr>td_current_slot := int slot\<rparr>))
    (slot_events slot d1 @ begin_events upd d1 @ contact_events u c)"
proof -
  have "begin_events upd (d1\<lparr>td_current_slot := int slot\<rparr>) = begin_events upd d1"
    by (simp add: begin_events_def)
  with runs_Cons [OF runs_select_slot [of slot d1] runs_Cons [OF runs_begin_contact [of upd]
      runs_outs [of "contact_events u c"]]] assms
  show ?thesis
    by (simp add: runs_def place_touch_contact_def del: perform.simps)
qed

lemma runs_release:
  assumes "td_open d" "map_of (td_contacts d) i = Some slot"
  shows "runs (release_touch_contact emit i upd) d (ended i slot d)
    (slot_events slot d @ EV_ABS ABS_MT_TRACKING_ID (- 1) # end_events upd (ended i slot d) @ [EV_SYN])"
proof -
  let ?keys = "on_device (\<lambda>d. if upd then [emit_trackpad_tool_buttons emit]
      else if td_contacts d = [] then [out emit (EV_KEY BTN_TOUCH 0)] else [])"
  have "runs ?keys d d (end_events upd d)" for d
    by (rule runs_on_device)
      (simp add: end_events_def runs_Nil runs_single [OF runs_tool_buttons]
        runs_single [OF runs_out] del: perform.simps)
  then have "runs (perform
      [update_device (\<lambda>d. d\<lparr>td_contacts := filter (\<lambda>(j, s). j \<noteq> i) (td_contacts d)\<rparr>),
       out emit (EV_ABS ABS_MT_TRACKING_ID (- 1)), ?keys, out emit EV_SYN])
      (d\<lparr>td_current_slot := int slot\<rparr>) (ended i slot d)
      (EV_ABS ABS_MT_TRACKING_ID (- 1) # end_events upd (ended i slot d) @ [EV_SYN])"
    by (auto intro!: runs_update_Cons runs_out_Cons runs_Cons runs_single runs_out
        simp: ended_def simp del: perform.simps)
  from runs_Cons [OF runs_select_slot this] show ?thesis
    using assms by (simp add: runs_def release_touch_contact_def del: perform.simps)
qed

lemma runs_click:
  "td_open d \<Longrightarrow> runs (emit_touch_button emit p) d d [EV_KEY BTN_LEFT (if p then 1 else 0), EV_SYN]"
  using runs_outs [of "[EV_KEY BTN_LEFT (if p then 1 else 0), EV_SYN]" d]
  by (simp add: runs_def emit_touch_button_def del: perform.simps)

end

section \<open>What the kernel holds\<close>

lemma kernel_run_simps [simp]:
  "kernel_run k [] = k"
  "kernel_run k (ev # evs) = kernel_run (kernel_event k ev) evs"
  "kernel_run k (evs @ evs') = kernel_run (kernel_run k evs) evs'"
  by (simp_all add: kernel_run_def)

text \<open>The keys for \<open>n\<close> contacts; a touchscreen has only the touch key.\<close>

definition keys_show :: "bool \<Rightarrow> nat \<Rightarrow> (evdev_key \<Rightarrow> bool) \<Rightarrow> bool" where
  "keys_show upd n keys \<longleftrightarrow> keys BTN_TOUCH = (0 < n) \<and>
     (if upd then keys BTN_TOOL_FINGER = (n = 1) \<and> keys BTN_TOOL_DOUBLETAP = (n = 2) \<and>
        keys BTN_TOOL_TRIPLETAP = (n = 3) \<and> keys BTN_TOOL_QUADTAP = (n = 4) \<and>
        keys BTN_TOOL_QUINTTAP = (5 \<le> n) else True)"

lemma tool_buttons_kernel:
  "\<exists>keys. kernel_run k (tool_button_events n) = k\<lparr>k_keys := keys\<rparr> \<and> keys_show upd n keys"
  by (cases k) (auto simp: tool_button_events_def keys_show_def)

lemma contact_events_kernel:
  "kernel_run k (contact_events u c) =
     k\<lparr>k_x := (k_x k)(k_slot k := scale_normalized_axis u (touch_x c) touch_axis_max_x),
       k_y := (k_y k)(k_slot k := scale_normalized_axis u (touch_y c) touch_axis_max_y)\<rparr>"
  by (simp add: contact_events_def Let_def)

lemma slot_events_kernel:
  assumes "td_current_slot d = - 1 \<or> k_slot k = td_current_slot d"
  shows "kernel_run k (slot_events slot d) = k\<lparr>k_slot := int slot\<rparr>"
  using assms by (cases k) (auto simp: slot_events_def)

lemma keys_show_more: "keys_show False n keys \<Longrightarrow> 0 < n \<Longrightarrow> 0 < n' \<Longrightarrow> keys_show False n' keys"
  by (simp add: keys_show_def)

lemma begin_events_kernel:
  assumes "td_new_slot d" "td_contacts d \<noteq> []"
  shows "\<exists>keys. kernel_run k (begin_events upd d) =
      k\<lparr>k_tracking := (k_tracking k)(k_slot k := uint (td_next_tracking_id d)), k_keys := keys\<rparr> \<and>
    keys_show upd (length (td_contacts d)) keys"
  using assms tool_buttons_kernel [where upd = upd and n = "length (td_contacts d)"]
  by (cases upd) (auto simp: begin_events_def keys_show_def)

lemma end_events_kernel:
  assumes "keys_show upd n (k_keys k)" "td_contacts d \<noteq> [] \<Longrightarrow> 0 < n"
  shows "\<exists>keys. kernel_run k (end_events upd d) = k\<lparr>k_keys := keys\<rparr> \<and>
    keys_show upd (length (td_contacts d)) keys"
proof (cases upd)
  case True
  then show ?thesis
    using tool_buttons_kernel [of k "length (td_contacts d)" upd] by (simp add: end_events_def)
next
  case False
  with assms show ?thesis
    by (cases k) (auto simp: end_events_def keys_show_def)
qed

text \<open>The invariant: every contact has a slot of its own, and the kernel's active slots are
  exactly these.\<close>

definition touch_inv ::
  "bool \<Rightarrow> touch_device \<Rightarrow> kernel_touch \<Rightarrow> (int \<rightharpoonup> int \<times> int) \<Rightarrow> bool" where
  "touch_inv upd d k held \<longleftrightarrow>
     td_open d \<and> distinct (map fst (td_contacts d)) \<and> distinct (map snd (td_contacts d)) \<and>
     (td_current_slot d = - 1 \<or> k_slot k = td_current_slot d) \<and>
     snd ` set (td_contacts d) \<subseteq> {0..<touch_max_contacts} \<and>
     {s. k_tracking k s \<noteq> - 1} = int ` snd ` set (td_contacts d) \<and>
     held = (\<lambda>i. map_option (\<lambda>s. (k_x k (int s), k_y k (int s))) (map_of (td_contacts d) i)) \<and>
     keys_show upd (length (td_contacts d)) (k_keys k)"

lemma touch_inv_start: "touch_inv upd new_touch_device kernel_start Map.empty"
  by (auto simp: touch_inv_def new_touch_device_def kernel_start_def keys_show_def)

lemma held_size:
  assumes "touch_inv upd d k held"
  shows "card (dom held) = length (td_contacts d)"
proof -
  have "dom held = fst ` set (td_contacts d)"
    using assms by (auto simp: touch_inv_def dom_def map_of_eq_None_iff)
  with assms show ?thesis
    by (metis card_image distinct_card length_map set_map touch_inv_def)
qed

text \<open>The slot a contact is given.\<close>

lemma used_slots: "list_ex (\<lambda>(j, s). s = slot) xs \<longleftrightarrow> slot \<in> snd ` set xs"
  by (auto simp: list_ex_iff image_iff split: prod.splits) force

lemma slot_for_contact_cases:
  assumes "distinct (map snd (td_contacts d))" "snd ` set (td_contacts d) \<subseteq> {0..<touch_max_contacts}"
  obtains
    (held) slot where "map_of (td_contacts d) i = Some slot"
      "slot_for_contact i d = Some (slot, d\<lparr>td_new_slot := False\<rparr>)"
  | (fresh) slot where "map_of (td_contacts d) i = None" "slot < touch_max_contacts"
      "slot \<notin> snd ` set (td_contacts d)" "length (td_contacts d) < touch_max_contacts"
      "slot_for_contact i d =
        Some (slot, d\<lparr>td_contacts := (i, slot) # td_contacts d, td_new_slot := True\<rparr>)"
  | (full) "map_of (td_contacts d) i = None" "touch_max_contacts \<le> length (td_contacts d)"
      "slot_for_contact i d = None"
proof (cases "map_of (td_contacts d) i")
  case None
  let ?used = "snd ` set (td_contacts d)"
  have len: "card ?used = length (td_contacts d)"
    using assms(1) by (metis distinct_card length_map set_map)
  show ?thesis
  proof (cases "find (\<lambda>slot. \<not> list_ex (\<lambda>(j, s). s = slot) (td_contacts d)) [0..<touch_max_contacts]")
    case find: None
    then have "{0..<touch_max_contacts} \<subseteq> ?used"
      by (auto simp: find_None_iff used_slots)
    then have "touch_max_contacts \<le> card ?used"
      using card_mono [of ?used "{0..<touch_max_contacts}"] by simp
    with find None len show ?thesis
      by (intro full) (simp_all add: slot_for_contact_def)
  next
    case (Some slot)
    then have slot: "slot < touch_max_contacts" "slot \<notin> ?used"
      by (auto simp: find_Some_iff used_slots)
    then have "?used \<subset> {0..<touch_max_contacts}"
      using assms(2) by auto
    then have "card ?used < touch_max_contacts"
      using psubset_card_mono [of "{0..<touch_max_contacts}" ?used] by simp
    with Some None len slot show ?thesis
      by (intro fresh) (simp_all add: slot_for_contact_def)
  qed
next
  case (Some slot)
  then show ?thesis
    by (intro held) (simp_all add: slot_for_contact_def)
qed

section \<open>Every call\<close>

lemma touch_invD:
  assumes "touch_inv upd d k held"
  shows "td_open d" "distinct (map fst (td_contacts d))" "distinct (map snd (td_contacts d))"
    "td_current_slot d = - 1 \<or> k_slot k = td_current_slot d"
    "snd ` set (td_contacts d) \<subseteq> {0..<touch_max_contacts}"
    "{s. k_tracking k s \<noteq> - 1} = int ` snd ` set (td_contacts d)"
    "held i = map_option (\<lambda>s. (k_x k (int s), k_y k (int s))) (map_of (td_contacts d) i)"
    "keys_show upd (length (td_contacts d)) (k_keys k)"
  using assms by (simp_all add: touch_inv_def)

lemma map_of_slot_distinct:
  "distinct (map snd xs) \<Longrightarrow> map_of xs i = Some s \<Longrightarrow> map_of xs j = Some s \<Longrightarrow> i = j"
  by (metis distinct_map inj_onD map_of_SomeD snd_conv prod.inject)

lemma place_held:
  assumes inv: "touch_inv upd d k held" and slot: "map_of (td_contacts d) (touch_id c) = Some slot"
  shows "touch_inv upd (begun (d\<lparr>td_new_slot := False, td_current_slot := int slot\<rparr>))
    (kernel_run k (slot_events slot (d\<lparr>td_new_slot := False\<rparr>) @
       begin_events upd (d\<lparr>td_new_slot := False\<rparr>) @ contact_events u c))
    (held(touch_id c \<mapsto> (scale_normalized_axis u (touch_x c) touch_axis_max_x,
                           scale_normalized_axis u (touch_y c) touch_axis_max_y)))"
    (is "touch_inv upd ?d ?k ?held")
proof -
  note d = touch_invD [OF inv]
  have d': "td_open ?d = td_open d" "td_contacts ?d = td_contacts d" "td_current_slot ?d = int slot"
    by (simp_all add: begun_def)
  have k': "?k = k\<lparr>k_slot := int slot,
      k_x := (k_x k)(int slot := scale_normalized_axis u (touch_x c) touch_axis_max_x),
      k_y := (k_y k)(int slot := scale_normalized_axis u (touch_y c) touch_axis_max_y)\<rparr>"
    using d(4) by (simp add: begin_events_def slot_events_kernel contact_events_kernel)
  have "?held i = map_option (\<lambda>s. (k_x ?k (int s), k_y ?k (int s))) (map_of (td_contacts d) i)" for i
    using slot map_of_slot_distinct [OF d(3) slot, of i] d(7) [of i]
    unfolding k' by (cases "map_of (td_contacts d) i") auto
  with d show ?thesis
    unfolding touch_inv_def d' k' by (simp add: fun_eq_iff)
qed

lemma place_fresh:
  assumes inv: "touch_inv upd d k held" and fresh: "map_of (td_contacts d) (touch_id c) = None"
    and slot: "slot < touch_max_contacts" "slot \<notin> snd ` set (td_contacts d)"
    and d1: "d1 = d\<lparr>td_contacts := (touch_id c, slot) # td_contacts d, td_new_slot := True\<rparr>"
  shows "touch_inv upd (begun (d1\<lparr>td_current_slot := int slot\<rparr>))
    (kernel_run k (slot_events slot d1 @ begin_events upd d1 @ contact_events u c))
    (held(touch_id c \<mapsto> (scale_normalized_axis u (touch_x c) touch_axis_max_x,
                           scale_normalized_axis u (touch_y c) touch_axis_max_y)))"
    (is "touch_inv upd ?d ?k ?held")
proof -
  note d = touch_invD [OF inv]
  have d': "td_open ?d = td_open d" "td_contacts ?d = (touch_id c, slot) # td_contacts d"
      "td_current_slot ?d = int slot"
    by (simp_all add: begun_def d1)
  obtain keys where keys: "kernel_run (k\<lparr>k_slot := int slot\<rparr>) (begin_events upd d1) =
      k\<lparr>k_slot := int slot, k_tracking := (k_tracking k)(int slot := uint (td_next_tracking_id d)),
        k_keys := keys\<rparr>" "keys_show upd (Suc (length (td_contacts d))) keys"
    using begin_events_kernel [of d1 "k\<lparr>k_slot := int slot\<rparr>" upd] by (auto simp: d1)
  have k': "?k = k\<lparr>k_slot := int slot,
      k_tracking := (k_tracking k)(int slot := uint (td_next_tracking_id d)),
      k_x := (k_x k)(int slot := scale_normalized_axis u (touch_x c) touch_axis_max_x),
      k_y := (k_y k)(int slot := scale_normalized_axis u (touch_y c) touch_axis_max_y), k_keys := keys\<rparr>"
    using d(4) slot_events_kernel [of d1 k slot]
    by (simp add: contact_events_kernel keys(1) d1 [THEN arg_cong [where f = td_current_slot]])
  have other: "map_of (td_contacts d) j \<noteq> Some slot" for j
    using slot(2) by (force dest: map_of_SomeD)
  have tid: "uint (td_next_tracking_id d) \<noteq> - 1"
    using uint_ge_0 [of "td_next_tracking_id d"] by linarith
  have "?held i = map_option (\<lambda>s. (k_x ?k (int s), k_y ?k (int s))) (map_of (td_contacts ?d) i)" for i
    using other [of i] d(7) [of i] unfolding k' d' by (cases "map_of (td_contacts d) i") auto
  moreover have "{s. k_tracking ?k s \<noteq> - 1} = int ` snd ` set (td_contacts ?d)"
    using d(6) tid unfolding k' d' by auto
  moreover have "touch_id c \<notin> fst ` set (td_contacts d)"
    using fresh by (simp add: map_of_eq_None_iff)
  ultimately show ?thesis
    unfolding touch_inv_def d' k' using d(1-3,5) slot keys(2) by (simp add: fun_eq_iff)
qed

lemma map_of_filter_other:
  "map_of (filter (\<lambda>(j, s). j \<noteq> i) xs) j = (if j = i then None else map_of xs j)"
  by (induction xs) auto

lemma slots_without:
  assumes "distinct (map fst xs)" "distinct (map snd xs)" "map_of xs i = Some slot"
  shows "snd ` set (filter (\<lambda>(j, s). j \<noteq> i) xs) = snd ` set xs - {slot}"
  using assms
proof (induction xs)
  case (Cons x xs)
  obtain j s where x: "x = (j, s)" by (cases x)
  show ?case
  proof (cases "j = i")
    case True
    with Cons.prems x have "filter (\<lambda>(j, s). j \<noteq> i) xs = xs"
      by (intro filter_True) force
    with True Cons.prems x show ?thesis by auto
  next
    case False
    with Cons.prems x have "map_of xs i = Some slot" by simp
    with Cons x have "s \<noteq> slot" "snd ` set (filter (\<lambda>(j, s). j \<noteq> i) xs) = snd ` set xs - {slot}"
      by (force dest: map_of_SomeD)+
    with False x show ?thesis by auto
  qed
qed simp

lemma release_kept:
  assumes inv: "touch_inv upd d k held" and slot: "map_of (td_contacts d) i = Some slot"
  shows "touch_inv upd (ended i slot d)
    (kernel_run k (slot_events slot d @ EV_ABS ABS_MT_TRACKING_ID (- 1) #
       end_events upd (ended i slot d) @ [EV_SYN])) (held(i := None))"
    (is "touch_inv upd ?d ?k ?held")
proof -
  note d = touch_invD [OF inv]
  have d': "td_open ?d = td_open d" "td_contacts ?d = filter (\<lambda>(j, s). j \<noteq> i) (td_contacts d)"
      "td_current_slot ?d = int slot"
    by (simp_all add: ended_def)
  from slot have "td_contacts d \<noteq> []" by auto
  then obtain keys where keys: "?k = k\<lparr>k_slot := int slot,
      k_tracking := (k_tracking k)(int slot := - 1), k_keys := keys\<rparr>"
      "keys_show upd (length (td_contacts ?d)) keys"
    using end_events_kernel [OF _, of upd "length (td_contacts d)"
        "k\<lparr>k_slot := int slot, k_tracking := (k_tracking k)(int slot := - 1)\<rparr>" ?d] d(4,8)
    by (auto simp: slot_events_kernel)
  have slots: "snd ` set (td_contacts ?d) = snd ` set (td_contacts d) - {slot}"
    unfolding d' by (rule slots_without [OF d(2,3) slot])
  have "?held j = map_option (\<lambda>s. (k_x ?k (int s), k_y ?k (int s))) (map_of (td_contacts ?d) j)" for j
    using d(7) [of j] unfolding keys(1) d' by (simp add: map_of_filter_other)
  moreover have "{s. k_tracking ?k s \<noteq> - 1} = int ` snd ` set (td_contacts ?d)"
  proof -
    have "{s. k_tracking ?k s \<noteq> - 1} = {s. k_tracking k s \<noteq> - 1} - {int slot}"
      unfolding keys(1) by auto
    also have "\<dots> = int ` (snd ` set (td_contacts d) - {slot})"
      unfolding d(6) by (simp add: image_set_diff)
    finally show ?thesis
      unfolding slots .
  qed
  moreover have "distinct (map fst (td_contacts ?d))" "distinct (map snd (td_contacts ?d))"
    using d(2,3) by (simp_all add: d' distinct_map_filter)
  ultimately show ?thesis
    unfolding touch_inv_def keys(1) using d(1,5) keys(2) slots
    by (auto simp: fun_eq_iff d'(1,3))
qed

definition accepts_call :: "(int \<rightharpoonup> int \<times> int) \<Rightarrow> touch_call \<Rightarrow> bool" where
  "accepts_call held call = (case call of
     Place c \<Rightarrow> 0 \<le> touch_id c \<and> (held (touch_id c) \<noteq> None \<or> card (dom held) < touch_max_contacts)
   | _ \<Rightarrow> True)"

context accepting_input_channel begin

lemma touch_step_refines:
  assumes inv: "touch_inv upd d k held"
  obtains status d' w' evs where "touch_step emit u upd call (d, w) = (status, d', w')"
    "sent w' = sent w @ evs" "touch_inv upd d' (kernel_run k evs) (touch_spec u held call)"
    "status_ok status = accepts_call held call"
proof -
  note finish = that and d = touch_invD [OF inv] and size = held_size [OF inv]
  have None_iff: "held i = None \<longleftrightarrow> map_of (td_contacts d) i = None" for i
    using d(7) [of i] by simp
  note spec = touch_spec_def accepts_call_def None_iff size
  have from_runs: thesis
    if "runs (touch_step emit u upd call) d d' evs" "accepts_call held call"
      "touch_inv upd d' (kernel_run k evs) (touch_spec u held call)" for d' evs
    by (rule runsE [OF that(1), of w]) (rule finish, use that(2,3) in auto)
  show thesis
  proof (cases call)
    case (Place c)
    show thesis
    proof (cases "touch_id c < 0")
      case True
      with inv Place show thesis
        by (intro that [of _ d w "[]"]) (auto simp: spec place_touch_contact_def d(1))
    next
      case False
      from d(3,5) show thesis
      proof (cases rule: slot_for_contact_cases [where i = "touch_id c"])
        case (held slot)
        from False show thesis
          using runs_place [OF d(1) _ held(2)] place_held [OF inv held(1)]
          by (intro from_runs) (auto simp: Place spec held(1))
      next
        case (fresh slot)
        from False show thesis
          using runs_place [OF d(1) _ fresh(5)] place_fresh [OF inv fresh(1-3) refl] fresh(4)
          by (intro from_runs) (auto simp: Place spec fresh(1))
      next
        case full
        from False inv full show thesis
          by (intro that [of _ d w "[]"])
            (auto simp: Place spec place_touch_contact_def d(1))
      qed
    qed
  next
    case (Release i)
    show thesis
    proof (cases "map_of (td_contacts d) i")
      case None
      then have "held(i := None) = held" by (simp add: None_iff fun_upd_idem)
      with inv None Release show thesis
        by (intro that [of _ d w "[]"]) (auto simp: spec release_touch_contact_def d(1) status_ok_success)
    next
      case (Some slot)
      then show thesis
        using runs_release [OF d(1) Some] release_kept [OF inv Some]
        by (intro from_runs) (auto simp: Release spec)
    qed
  next
    case (Click p)
    have "touch_inv upd d (kernel_run k [EV_KEY BTN_LEFT (if p then 1 else 0), EV_SYN]) held"
      using inv by (simp add: touch_inv_def keys_show_def)
    then show thesis
      using runs_click [OF d(1), of p] by (intro from_runs) (auto simp: Click spec)
  qed
qed

lemma touch_run_refines:
  assumes "touch_inv upd d k held"
  obtains d' w' evs where "touch_run emit u upd calls (d, w) = (d', w')" "sent w' = sent w @ evs"
    "touch_inv upd d' (kernel_run k evs) (foldl (touch_spec u) held calls)"
  using assms
proof (induction calls arbitrary: d w k held thesis)
  case Nil
  show ?case
    by (rule Nil.prems(1) [of d w "[]"]) (use Nil.prems(2) in \<open>auto simp: touch_run_def\<close>)
next
  case (Cons call calls)
  from Cons.prems(2) obtain status d1 w1 evs1 where 1:
    "touch_step emit u upd call (d, w) = (status, d1, w1)" "sent w1 = sent w @ evs1"
    "touch_inv upd d1 (kernel_run k evs1) (touch_spec u held call)"
    by (rule touch_step_refines)
  from 1(3) obtain d2 w2 evs2 where "touch_run emit u upd calls (d1, w1) = (d2, w2)"
    "sent w2 = sent w1 @ evs2"
    "touch_inv upd d2 (kernel_run (kernel_run k evs1) evs2) (foldl (touch_spec u) (touch_spec u held call) calls)"
    by (rule Cons.IH [rotated])
  with 1 show ?case
    by (intro Cons.prems(1) [of d2 w2 "evs1 @ evs2"]) (auto simp: touch_run_def)
qed

end

lemma shown_held:
  assumes "touch_inv upd d k held"
  shows "shown d k = held"
proof
  fix i
  note d = touch_invD [OF assms]
  have "k_tracking k (int s) \<noteq> - 1" if "map_of (td_contacts d) i = Some s" for s
  proof -
    have "int s \<in> int ` snd ` set (td_contacts d)"
      using map_of_SomeD [OF that] by (intro imageI) force
    then show ?thesis
      unfolding d(6) [symmetric] by simp
  qed
  then show "shown d k i = held i"
    using d(7) [of i] by (auto simp: shown_def split: option.splits)
qed


section \<open>Declared events\<close>

definition touch_configuration :: "bool \<Rightarrow> enable list" where
  "touch_configuration upd = (if upd then configure_evdev_trackpad else configure_evdev_touchscreen)"

text \<open>A touchscreen has no button; a NaN has no place on an axis.\<close>

definition sound_call :: "bool \<Rightarrow> touch_call \<Rightarrow> bool" where
  "sound_call upd call = (case call of
     Place c \<Rightarrow> touch_x c \<noteq> NaN \<and> touch_y c \<noteq> NaN \<and> pressure c \<noteq> NaN
   | Release i \<Rightarrow> True
   | Click is_pressed \<Rightarrow> upd)"

definition slots_ok :: "touch_device \<Rightarrow> bool" where
  "slots_ok d \<longleftrightarrow> list_all (\<lambda>(i, s). s < touch_max_contacts) (td_contacts d) \<and>
     uint (td_next_tracking_id d) < 65536"

lemma touch_declared:
  "declared configure_evdev_touch_axes ev \<Longrightarrow> declared (touch_configuration upd) ev"
  unfolding touch_configuration_def configure_evdev_trackpad_def configure_evdev_touchscreen_def
  by (simp add: declared_append)

lemma touch_button_declared:
  "v = 0 \<or> v = 1 \<Longrightarrow> b \<in> {BTN_LEFT, BTN_TOOL_FINGER, BTN_TOOL_DOUBLETAP, BTN_TOOL_TRIPLETAP,
      BTN_TOOL_QUADTAP, BTN_TOOL_QUINTTAP} \<Longrightarrow> declared (touch_configuration True) (EV_KEY b v)"
  by (auto simp: declared_def enabled_type_def touch_configuration_def configure_evdev_trackpad_def
      configure_evdev_touch_axes_def)

lemma contact_events_declared:
  assumes "touch_x c \<noteq> NaN" "touch_y c \<noteq> NaN" "pressure c \<noteq> NaN"
  shows "list_all (declared (touch_configuration upd)) (contact_events u c)"
  using scale_normalized_axis_bounds [OF assms(1), of 19200 u]
    scale_normalized_axis_bounds [OF assms(2), of 10800 u]
    scale_normalized_axis_bounds [OF assms(3), of 253 u]
  by (auto simp: contact_events_def Let_def touch_axis_max_x_def touch_axis_max_y_def
      touch_pressure_max_def clamp_degrees_def intro!: touch_declared touch_axes_declared)

lemma tool_buttons_declared:
  "list_all (declared (touch_configuration True)) (tool_button_events n)"
  by (simp add: tool_button_events_def touch_button_declared touch_declared touch_axes_declared)

context input_channel begin

lemma sends_select_slot:
  "slot < touch_max_contacts \<Longrightarrow> sends slots_ok (declared (touch_configuration upd)) (select_slot emit slot)"
  unfolding select_slot_def
  by (intro sends_on_device)
    (auto intro!: sends_update sends_out touch_declared touch_axes_declared
      simp: slots_ok_def touch_max_contacts_def)

lemma sends_tool_buttons:
  "sends slots_ok (declared (touch_configuration True)) (emit_trackpad_tool_buttons emit)"
  unfolding emit_trackpad_tool_buttons_def
  by (intro sends_on_device sends_outs tool_buttons_declared)

lemma next_tracking_id: "uint ((t + 1) mod touch_tracking_id_count) < 65536"
  by (simp add: touch_tracking_id_count_def uint_mod)

lemma sends_begin_contact:
  "sends slots_ok (declared (touch_configuration upd)) (begin_contact emit upd)"
  unfolding begin_contact_def
  by (intro sends_on_device)
    (auto intro!: sends_update sends_out touch_declared touch_axes_declared sends_tool_buttons
      simp: slots_ok_def next_tracking_id order_trans [OF _ uint_ge_0])

lemma slot_for_contact_ok:
  assumes "slots_ok d" "slot_for_contact i d = Some (slot, d')"
  shows "slot < touch_max_contacts \<and> slots_ok d'"
  using assms
  by (auto simp: slot_for_contact_def slots_ok_def find_Some_iff list_all_iff split: option.splits
      dest!: map_of_SomeD)

lemma sends_place:
  assumes "sound_call upd (Place c)"
  shows "sends slots_ok (declared (touch_configuration upd)) (place_touch_contact emit u c upd)"
proof (rule sends_via)
  fix d :: touch_device and w
  assume d: "slots_ok d"
  let ?acts = "\<lambda>slot. select_slot emit slot # begin_contact emit upd # map (out emit) (contact_events u c)"
  have acts: "sends slots_ok (declared (touch_configuration upd)) (perform (?acts slot))"
    if "slot < touch_max_contacts" for slot
    using assms that
    by (intro sends_perform)
      (simp add: sends_select_slot sends_begin_contact sends_outs contact_events_declared sound_call_def)
  show "\<exists>b d'. place_touch_contact emit u c upd (d, w) = b (d', w) \<and> slots_ok d' \<and>
      sends slots_ok (declared (touch_configuration upd)) b"
  proof (cases "td_open d \<and> 0 \<le> touch_id c \<and> slot_for_contact (touch_id c) d \<noteq> None")
    case True
    then obtain slot d' where "slot_for_contact (touch_id c) d = Some (slot, d')" by auto
    with True slot_for_contact_ok [OF d this] acts show ?thesis
      by (intro exI [of _ "perform (?acts slot)"] exI [of _ d']) (simp add: place_touch_contact_def)
  next
    case False
    then have "place_touch_contact emit u c upd (d, w) = (fst (place_touch_contact emit u c upd (d, w)), d, w)"
      by (cases "slot_for_contact (touch_id c) d") (auto simp: place_touch_contact_def)
    with d show ?thesis
      by (intro exI [of _ "Pair (fst (place_touch_contact emit u c upd (d, w)))"] exI [of _ d])
        (simp add: sends_Pair)
  qed
qed

lemma sends_release:
  "sends slots_ok (declared (touch_configuration upd)) (release_touch_contact emit i upd)"
proof (rule sends_via)
  fix d :: touch_device and w
  assume d: "slots_ok d"
  let ?acts = "\<lambda>slot. [select_slot emit slot,
      update_device (\<lambda>d. d\<lparr>td_contacts := filter (\<lambda>(j, s). j \<noteq> i) (td_contacts d)\<rparr>),
      out emit (EV_ABS ABS_MT_TRACKING_ID (- 1)),
      on_device (\<lambda>d. if upd then [emit_trackpad_tool_buttons emit]
        else if td_contacts d = [] then [out emit (EV_KEY BTN_TOUCH 0)] else []),
      out emit EV_SYN]"
  have acts: "sends slots_ok (declared (touch_configuration upd)) (perform (?acts slot))"
    if "slot < touch_max_contacts" for slot
    using that
    by (intro sends_perform)
      (auto intro!: sends_select_slot sends_update sends_out sends_on_device sends_tool_buttons
        touch_declared touch_axes_declared simp: slots_ok_def list_all_iff declared_def)
  show "\<exists>b d'. release_touch_contact emit i upd (d, w) = b (d', w) \<and> slots_ok d' \<and>
      sends slots_ok (declared (touch_configuration upd)) b"
  proof (cases "td_open d \<and> map_of (td_contacts d) i \<noteq> None")
    case True
    then obtain slot where slot: "map_of (td_contacts d) i = Some slot" by auto
    with d have "slot < touch_max_contacts"
      by (auto simp: slots_ok_def list_all_iff dest!: map_of_SomeD)
    with True slot d acts show ?thesis
      by (intro exI [of _ "perform (?acts slot)"] exI [of _ d]) (simp add: release_touch_contact_def)
  next
    case False
    then have "release_touch_contact emit i upd (d, w) = (fst (release_touch_contact emit i upd (d, w)), d, w)"
      by (auto simp: release_touch_contact_def)
    with d show ?thesis
      by (intro exI [of _ "Pair (fst (release_touch_contact emit i upd (d, w)))"] exI [of _ d])
        (simp add: sends_Pair)
  qed
qed

lemma sends_click:
  "sends slots_ok (declared (touch_configuration True)) (emit_touch_button emit p)"
proof (rule sends_guard)
  show "sends slots_ok (declared (touch_configuration True))
      (perform (map (out emit) [EV_KEY BTN_LEFT (if p then 1 else 0), EV_SYN]))"
    by (intro sends_perform sends_outs) (simp add: touch_button_declared)
qed (auto simp: emit_touch_button_def simp del: perform.simps)

lemma sends_touch_step:
  "sound_call upd call \<Longrightarrow> sends slots_ok (declared (touch_configuration upd)) (touch_step emit u upd call)"
  by (cases call) (auto simp: sends_place sends_release sends_click sound_call_def)

end



text \<open>the failed write of a contact's tracking identifier is not made good by placing it
  again.\<close>

theorem touch_failed_begin_lost:
  "let emit = logged_write (failing_write 1);
       (status1, s1) = place_touch_contact emit u default_contact upd (new_touch_device, [], 0);
       (status2, d, evs, n) = place_touch_contact emit u default_contact upd s1
   in \<not> status_ok status1 \<and> status_ok status2 \<and> shown d (kernel_run kernel_start evs) 0 = None"
  by (simp add: place_touch_contact_def new_touch_device_def default_contact_def slot_for_contact_def
      touch_max_contacts_def select_slot_def begin_contact_def on_device_def update_device_def out_def
      logged_by_def emit_event_locked_def system_error_status_def failing_write_def sizeof_input_event_def shown_def
      contact_events_def kernel_start_def upt_rec Let_def)

end
