(* ===== verification/LinuxMouse.thy ===== *)
theory LinuxMouse
  imports LinuxConfig "HOL-Library.Signed_Division"
begin

text \<open>
  The Linux mouse, class \<open>UinputMouse\<close> of \<open>src/src/platform/linux/uhid_backend.cpp\<close>: one uinput
  device for relative motion and one for absolute motion. Buttons and scroll go to the device of
  the last motion, releases to the device on which the button was pressed. An event is written to
  one of the two devices, so the channel carries pairs. The lemmas compare the key state and the
  sums of motion that the kernel sees with what the client submitted.
\<close>

section \<open>Coordinates\<close>

definition uinput_scale_absolute_axis :: "int \<Rightarrow> int \<Rightarrow> int" where
  "uinput_scale_absolute_axis v limit =
     (if limit \<le> 0 then 0
      else let clamped = (if v < 0 then 0 else if limit < v then limit else v)
           in clamped * absolute_axis_max div limit)"

definition uinput_scale_absolute_axis_to_viewport ::
  "(flt \<Rightarrow> int) \<Rightarrow> flt \<Rightarrow> int \<Rightarrow> int \<Rightarrow> int \<Rightarrow> int \<Rightarrow> int \<Rightarrow> int" where
  "uinput_scale_absolute_axis_to_viewport u v source_dim view_offset view_dim desk_offset desk_dim =
     (if source_dim \<le> 0 \<or> desk_dim \<le> 0 \<or> view_dim \<le> 0 then 0
      else
        let clamped = fclamp v (Fin 0) (flit binary32 source_dim 1);
            viewport_span = flit binary32 (max (view_dim - 1) 0) 1;
            target = fadd binary32 (flit binary32 (view_offset - desk_offset) 1)
              (fdiv binary32 (fmul binary32 clamped viewport_span) (flit binary32 source_dim 1));
            normalized = fclamp (fdiv binary32 target (flit binary32 desk_dim 1)) (Fin 0) (flit binary32 1 1)
        in lround binary32 u (fmul binary32 normalized (flit binary32 absolute_axis_max 1)))"

section \<open>Scroll\<close>

text \<open>Division and remainder truncate towards zero.\<close>

definition uinput_scroll_units_per_detent :: int where "uinput_scroll_units_per_detent = 120"

definition accumulated_legacy_scroll :: "int \<Rightarrow> int \<Rightarrow> int \<times> int" where
  "accumulated_legacy_scroll remainder amount =
     (let total = remainder + amount
      in (total sdiv uinput_scroll_units_per_detent, total smod uinput_scroll_units_per_detent))"

section \<open>The device\<close>

record uinput_mouse =
  um_relative_open :: bool
  um_absolute_open :: bool
  um_desktop :: pointer_viewport
  um_viewport :: pointer_viewport
  um_last_motion_device :: uinput_mouse_device_kind
  um_relative_buttons_down :: u8
  um_absolute_buttons_down :: u8
  um_vertical_scroll_remainder :: int
  um_horizontal_scroll_remainder :: int

definition new_uinput_mouse :: "pointer_viewport \<Rightarrow> pointer_viewport \<Rightarrow> uinput_mouse" where
  "new_uinput_mouse desk view =
     \<lparr>um_relative_open = True, um_absolute_open = True, um_desktop = desk, um_viewport = view,
      um_last_motion_device = Mouse_relative, um_relative_buttons_down = 0,
      um_absolute_buttons_down = 0, um_vertical_scroll_remainder = 0,
      um_horizontal_scroll_remainder = 0\<rparr>"

definition buttons_down :: "uinput_mouse_device_kind \<Rightarrow> uinput_mouse \<Rightarrow> u8" where
  "buttons_down k d =
     (case k of Mouse_absolute \<Rightarrow> um_absolute_buttons_down d | Mouse_relative \<Rightarrow> um_relative_buttons_down d)"

definition set_buttons_down :: "uinput_mouse_device_kind \<Rightarrow> u8 \<Rightarrow> uinput_mouse \<Rightarrow> uinput_mouse" where
  "set_buttons_down k v d =
     (case k of Mouse_absolute \<Rightarrow> d\<lparr>um_absolute_buttons_down := v\<rparr>
      | Mouse_relative \<Rightarrow> d\<lparr>um_relative_buttons_down := v\<rparr>)"

fun mouse_button_to_linux :: "mouse_button \<Rightarrow> evdev_key" where
  "mouse_button_to_linux Mouse_left = BTN_LEFT"
| "mouse_button_to_linux Mouse_middle = BTN_MIDDLE"
| "mouse_button_to_linux Mouse_right = BTN_RIGHT"
| "mouse_button_to_linux Mouse_side = BTN_SIDE"
| "mouse_button_to_linux Mouse_extra = BTN_EXTRA"

definition uinput_button_mask :: "mouse_button \<Rightarrow> u8" where
  "uinput_button_mask b =
     (let index = mouse_button_underlying b;
          index = (if index > mouse_button_underlying Mouse_extra
                   then mouse_button_underlying Mouse_left else index)
      in push_bit index 1)"

definition button_device :: "mouse_event \<Rightarrow> uinput_mouse \<Rightarrow> uinput_mouse_device_kind" where
  "button_device ev d =
     (let mask = uinput_button_mask (ev_button ev) in
      if \<not> ev_pressed ev \<and> um_relative_buttons_down d AND mask \<noteq> 0 then Mouse_relative
      else if \<not> ev_pressed ev \<and> um_absolute_buttons_down d AND mask \<noteq> 0 then Mouse_absolute
      else um_last_motion_device d)"

section \<open>Operations\<close>

type_synonym mouse_write = "uinput_mouse_device_kind \<times> input_event"

definition uinput_submit_relative_motion ::
  "(mouse_write \<Rightarrow> 'w action) \<Rightarrow> mouse_event \<Rightarrow> (uinput_mouse \<times> 'w) action" where
  "uinput_submit_relative_motion emit ev = perform
     ((if ev_x ev \<noteq> 0 then [out emit (Mouse_relative, EV_REL REL_X (ev_x ev))] else []) @
      (if ev_y ev \<noteq> 0 then [out emit (Mouse_relative, EV_REL REL_Y (ev_y ev))] else []) @
      [out emit (Mouse_relative, EV_SYN),
       update_device (\<lambda>d. d\<lparr>um_last_motion_device := Mouse_relative\<rparr>)])"

definition absolute_position :: "(flt \<Rightarrow> int) \<Rightarrow> mouse_event \<Rightarrow> uinput_mouse \<Rightarrow> int \<times> int" where
  "absolute_position u ev d =
     (let desk = um_desktop d; view = um_viewport d;
          x = (if has_fractional_absolute_coordinates ev then absolute_x ev else flit binary32 (ev_x ev) 1);
          y = (if has_fractional_absolute_coordinates ev then absolute_y ev else flit binary32 (ev_y ev) 1)
      in (if width view > 0
          then uinput_scale_absolute_axis_to_viewport u x (ev_width ev) (offset_x view) (width view)
                 (offset_x desk) (width desk)
          else uinput_scale_absolute_axis (ev_x ev) (ev_width ev),
          if height view > 0
          then uinput_scale_absolute_axis_to_viewport u y (ev_height ev) (offset_y view) (height view)
                 (offset_y desk) (height desk)
          else uinput_scale_absolute_axis (ev_y ev) (ev_height ev)))"

definition uinput_submit_absolute_motion ::
  "(flt \<Rightarrow> int) \<Rightarrow> (mouse_write \<Rightarrow> 'w action) \<Rightarrow> mouse_event \<Rightarrow> (uinput_mouse \<times> 'w) action" where
  "uinput_submit_absolute_motion u emit ev = on_device (\<lambda>d.
     let (x, y) = absolute_position u ev d in
     [out emit (Mouse_absolute, EV_ABS ABS_X x), out emit (Mouse_absolute, EV_ABS ABS_Y y),
      out emit (Mouse_absolute, EV_SYN),
      update_device (\<lambda>d. d\<lparr>um_last_motion_device := Mouse_absolute\<rparr>)])"

definition uinput_submit_button ::
  "(mouse_write \<Rightarrow> 'w action) \<Rightarrow> mouse_event \<Rightarrow> (uinput_mouse \<times> 'w) action" where
  "uinput_submit_button emit ev = on_device (\<lambda>d.
     let target = button_device ev d; mask = uinput_button_mask (ev_button ev) in
     [out emit (target, EV_KEY (mouse_button_to_linux (ev_button ev)) (if ev_pressed ev then 1 else 0)),
      out emit (target, EV_SYN),
      update_device (\<lambda>d. set_buttons_down target
        (if ev_pressed ev then buttons_down target d OR mask else buttons_down target d AND NOT mask) d)])"

definition uinput_submit_scroll ::
  "(mouse_write \<Rightarrow> 'w action) \<Rightarrow> int \<Rightarrow> (uinput_mouse \<Rightarrow> int) \<Rightarrow> (int \<Rightarrow> uinput_mouse \<Rightarrow> uinput_mouse) \<Rightarrow>
   rel_code \<Rightarrow> rel_code \<Rightarrow> (uinput_mouse \<times> 'w) action" where
  "uinput_submit_scroll emit amount remainder set_remainder legacy_code high_resolution_code =
     on_device (\<lambda>d.
       let target = um_last_motion_device d;
           (detents, rest) = accumulated_legacy_scroll (remainder d) amount in
       (if detents \<noteq> 0 then [out emit (target, EV_REL legacy_code detents)] else []) @
       [out emit (target, EV_REL high_resolution_code amount),
        out emit (target, EV_SYN), update_device (set_remainder rest)])"

definition submit_vertical_scroll ::
  "(mouse_write \<Rightarrow> 'w action) \<Rightarrow> int \<Rightarrow> (uinput_mouse \<times> 'w) action" where
  "submit_vertical_scroll emit amount = uinput_submit_scroll emit amount um_vertical_scroll_remainder
     (\<lambda>r d. d\<lparr>um_vertical_scroll_remainder := r\<rparr>) REL_WHEEL REL_WHEEL_HI_RES"

definition submit_horizontal_scroll ::
  "(mouse_write \<Rightarrow> 'w action) \<Rightarrow> int \<Rightarrow> (uinput_mouse \<times> 'w) action" where
  "submit_horizontal_scroll emit amount = uinput_submit_scroll emit amount um_horizontal_scroll_remainder
     (\<lambda>r d. d\<lparr>um_horizontal_scroll_remainder := r\<rparr>) REL_HWHEEL REL_HWHEEL_HI_RES"

definition uinput_mouse_submit ::
  "(flt \<Rightarrow> int) \<Rightarrow> (mouse_write \<Rightarrow> 'w action) \<Rightarrow> mouse_event \<Rightarrow> (uinput_mouse \<times> 'w) action" where
  "uinput_mouse_submit u emit ev = (\<lambda>(d, w).
     if \<not> um_relative_open d \<or> \<not> um_absolute_open d
     then (failure Err_device_closed ''uinput mouse is closed'', d, w)
     else (case event_kind ev of
         Ev_relative_motion \<Rightarrow> uinput_submit_relative_motion emit ev
       | Ev_absolute_motion \<Rightarrow> uinput_submit_absolute_motion u emit ev
       | Ev_button \<Rightarrow> uinput_submit_button emit ev
       | Ev_vertical_scroll \<Rightarrow> submit_vertical_scroll emit (high_resolution_scroll ev)
       | Ev_horizontal_scroll \<Rightarrow> submit_horizontal_scroll emit (high_resolution_scroll ev)) (d, w))"

definition uinput_mouse_run ::
  "(flt \<Rightarrow> int) \<Rightarrow> (mouse_write \<Rightarrow> 'w action) \<Rightarrow> mouse_event list \<Rightarrow> uinput_mouse \<times> 'w \<Rightarrow> uinput_mouse \<times> 'w" where
  "uinput_mouse_run u emit events s = foldl (\<lambda>s ev. snd (uinput_mouse_submit u emit ev s)) s events"

text \<open>The two devices of an open mouse, each with its own descriptor.\<close>

definition write_to_device ::
  "(uinput_mouse_device_kind \<Rightarrow> 'w uinput_os) \<Rightarrow> mouse_write \<Rightarrow> 'w action" where
  "write_to_device os = (\<lambda>(k, ev). emit_event_locked (os k) True ev)"

locale mouse_channel = evdev_channel emit sent
  for emit :: "mouse_write \<Rightarrow> 'w action" and sent :: "'w \<Rightarrow> mouse_write list"

locale accepting_mouse_channel = accepting_channel emit sent
  for emit :: "mouse_write \<Rightarrow> 'w action" and sent :: "'w \<Rightarrow> mouse_write list"

interpretation mouse: mouse_channel "logged_by (write_to_device os)" fst for os
  by unfold_locales

interpretation accepted_mouse: accepting_mouse_channel "logged_by (write_to_device (\<lambda>k. accepting (os k)))" fst
  for os
  by unfold_locales (auto simp: logged_by_def write_to_device_def accepting_ok split_def Let_def)

section \<open>Every event is declared\<close>

definition int32 :: "int \<Rightarrow> bool" where
  "int32 v \<longleftrightarrow> - (2 ^ 31) \<le> v \<and> v < 2 ^ 31"

definition viewport32 :: "pointer_viewport \<Rightarrow> bool" where
  "viewport32 v \<longleftrightarrow> int32 (offset_x v) \<and> int32 (offset_y v) \<and> int32 (width v) \<and> int32 (height v)"

definition sound_mouse_event :: "mouse_event \<Rightarrow> bool" where
  "sound_mouse_event ev \<longleftrightarrow> int32 (ev_width ev) \<and> int32 (ev_height ev) \<and>
     (has_fractional_absolute_coordinates ev \<longrightarrow> absolute_x ev \<noteq> NaN \<and> absolute_y ev \<noteq> NaN)"

lemma flit_finite:
  assumes "- (2 ^ 32) \<le> n" "n \<le> 2 ^ 32"
  obtains k where "flit binary32 n 1 = Fin k"
proof -
  have ends: "flit binary32 (- (2 ^ 32)) 1 = Fin (- (2 ^ 32 * 2 ^ 149))"
      "flit binary32 (2 ^ 32) 1 = Fin (2 ^ 32 * 2 ^ 149)"
    by code_simp+
  have "fle (flit binary32 (- (2 ^ 32)) 1) (flit binary32 n 1)" "fle (flit binary32 n 1) (flit binary32 (2 ^ 32) 1)"
    using assms unfolding flit_def by (intro fround_mono; simp)+
  then show thesis
    unfolding ends by (rule fle_between) (rule that)
qed

lemma flit_positive:
  assumes "1 \<le> n" "n \<le> 2 ^ 32"
  obtains k where "flit binary32 n 1 = Fin k" "0 < k"
proof -
  have one: "flit binary32 1 1 = Fin (2 ^ 149)"
    by code_simp
  obtain k where k: "flit binary32 n 1 = Fin k"
    by (rule flit_finite [of n]) (use assms in auto)
  have "fle (flit binary32 1 1) (flit binary32 n 1)"
    using assms unfolding flit_def by (intro fround_mono; simp)
  then show thesis
    unfolding one k by (intro that [OF k]) simp
qed

lemma fround_number: "fround f p q \<noteq> NaN"
  by (simp add: fround_def Let_def)

lemma fdiv_number: "x \<noteq> NaN \<Longrightarrow> b \<noteq> 0 \<Longrightarrow> fdiv f x (Fin b) \<noteq> NaN"
  by (cases x) (auto simp: fround_number inf_of_def)

lemma fadd_number: "y \<noteq> NaN \<Longrightarrow> fadd f (Fin a) y \<noteq> NaN"
  by (cases y) (auto simp: fround_number)

lemma viewport_axis_bounds:
  assumes v: "v \<noteq> NaN" and range: "int32 source_dim" "int32 view_offset" "int32 desk_offset"
    "int32 view_dim" "int32 desk_dim"
  shows "0 \<le> uinput_scale_absolute_axis_to_viewport u v source_dim view_offset view_dim desk_offset desk_dim \<and>
    uinput_scale_absolute_axis_to_viewport u v source_dim view_offset view_dim desk_offset desk_dim \<le> 65535"
proof (cases "source_dim \<le> 0 \<or> desk_dim \<le> 0 \<or> view_dim \<le> 0")
  case True
  then show ?thesis
    by (auto simp: uinput_scale_absolute_axis_to_viewport_def)
next
  case False
  then obtain s where s: "flit binary32 source_dim 1 = Fin s" "0 < s"
    by (rule_tac flit_positive [of source_dim]) (use range in \<open>auto simp: int32_def\<close>)
  from False obtain d where d: "flit binary32 desk_dim 1 = Fin d" "0 < d"
    by (rule_tac flit_positive [of desk_dim]) (use range in \<open>auto simp: int32_def\<close>)
  from False obtain p where p: "flit binary32 (max (view_dim - 1) 0) 1 = Fin p"
    by (rule_tac flit_finite [of "max (view_dim - 1) 0"]) (use range in \<open>auto simp: int32_def\<close>)
  obtain b where b: "flit binary32 (view_offset - desk_offset) 1 = Fin b"
    by (rule flit_finite [of "view_offset - desk_offset"]) (use range in \<open>auto simp: int32_def\<close>)
  obtain c where c: "fclamp v (Fin 0) (Fin s) = Fin c"
    using fclamp_fin [of 0 s v] s(2) v by auto
  define w where "w = fdiv binary32 (fadd binary32 (Fin b)
    (fdiv binary32 (fmul binary32 (Fin c) (Fin p)) (Fin s))) (Fin d)"
  have "w \<noteq> NaN"
    unfolding w_def using s(2) d(2)
    by (intro fdiv_number fadd_number) (simp_all add: fround_number)
  moreover have "uinput_scale_absolute_axis_to_viewport u v source_dim view_offset view_dim desk_offset desk_dim
      = scale_normalized_axis u w 65535"
    using False by (simp only: uinput_scale_absolute_axis_to_viewport_def scale_normalized_axis_def
        s(1) d(1) p b c w_def Let_def absolute_axis_max_def if_False simp_thms)
  ultimately show ?thesis
    using scale_normalized_axis_bounds [of w 65535 u] by simp
qed

lemma scale_absolute_bounds:
  "0 \<le> uinput_scale_absolute_axis v limit \<and> uinput_scale_absolute_axis v limit \<le> 65535"
proof (cases "limit \<le> 0")
  case False
  let ?c = "if v < 0 then 0 else if limit < v then limit else v"
  have "0 \<le> ?c" "?c \<le> limit" using False by auto
  then have "0 \<le> ?c * 65535 div limit" "?c * 65535 div limit \<le> limit * 65535 div limit"
    using False by (simp add: pos_imp_zdiv_nonneg_iff, intro zdiv_mono1, simp, simp)
  with False show ?thesis
    by (simp add: uinput_scale_absolute_axis_def absolute_axis_max_def Let_def)
qed (simp add: uinput_scale_absolute_axis_def)

lemma absolute_position_bounds:
  assumes "sound_mouse_event ev" "viewport32 (um_desktop d)" "viewport32 (um_viewport d)"
    and "absolute_position u ev d = (x, y)"
  shows "0 \<le> x \<and> x \<le> 65535 \<and> 0 \<le> y \<and> y \<le> 65535"
proof -
  have number: "flit binary32 n 1 \<noteq> NaN" for n
    by (simp add: flit_def fround_number)
  show ?thesis
    using assms number
    by (auto simp: absolute_position_def Let_def sound_mouse_event_def viewport32_def viewport_axis_bounds
        scale_absolute_bounds split: if_splits)
qed

definition declared_write :: "mouse_write \<Rightarrow> bool" where
  "declared_write = (\<lambda>(k, ev). declared (configure_evdev_mouse k) ev)"

lemma mouse_declared:
  "declared_write (Mouse_relative, EV_REL REL_X v)" "declared_write (Mouse_relative, EV_REL REL_Y v)"
  "declared_write (k, EV_SYN)" "declared_write (k, EV_REL REL_WHEEL v)"
  "declared_write (k, EV_REL REL_HWHEEL v)" "declared_write (k, EV_REL REL_WHEEL_HI_RES v)"
  "declared_write (k, EV_REL REL_HWHEEL_HI_RES v)"
  "v = 0 \<or> v = 1 \<Longrightarrow> declared_write (k, EV_KEY (mouse_button_to_linux b) v)"
  "0 \<le> v \<Longrightarrow> v \<le> 65535 \<Longrightarrow> declared_write (Mouse_absolute, EV_ABS ABS_X v)"
  "0 \<le> v \<Longrightarrow> v \<le> 65535 \<Longrightarrow> declared_write (Mouse_absolute, EV_ABS ABS_Y v)"
  by (cases b; auto simp: declared_write_def declared_def enabled_type_def configure_evdev_mouse_def
      make_absinfo_def absolute_axis_max_def)+

definition geometry32 :: "uinput_mouse \<Rightarrow> bool" where
  "geometry32 d \<longleftrightarrow> viewport32 (um_desktop d) \<and> viewport32 (um_viewport d)"

context mouse_channel begin

lemma sends_relative_motion: "sends geometry32 declared_write (uinput_submit_relative_motion emit ev)"
  unfolding uinput_submit_relative_motion_def
  by (intro sends_perform) (auto intro!: sends_out sends_update simp: mouse_declared geometry32_def)

lemma sends_absolute_motion:
  assumes "sound_mouse_event ev"
  shows "sends geometry32 declared_write (uinput_submit_absolute_motion u emit ev)"
  unfolding uinput_submit_absolute_motion_def
proof (rule sends_on_device)
  fix d
  assume "geometry32 d"
  then show "list_all (sends geometry32 declared_write)
     (let (x, y) = absolute_position u ev d in
     [out emit (Mouse_absolute, EV_ABS ABS_X x), out emit (Mouse_absolute, EV_ABS ABS_Y y),
      out emit (Mouse_absolute, EV_SYN),
      update_device (\<lambda>d. d\<lparr>um_last_motion_device := Mouse_absolute\<rparr>)])"
    using absolute_position_bounds [OF assms, of d u]
    by (cases "absolute_position u ev d")
      (auto intro!: sends_out sends_update simp: mouse_declared geometry32_def)
qed

lemma geometry32_set_buttons: "geometry32 (set_buttons_down k v d) = geometry32 d"
  by (cases k) (simp_all add: geometry32_def set_buttons_down_def)

lemma sends_button: "sends geometry32 declared_write (uinput_submit_button emit ev)"
  unfolding uinput_submit_button_def
  by (intro sends_on_device)
    (auto intro!: sends_out sends_update simp: mouse_declared geometry32_set_buttons Let_def)

lemma sends_vertical_scroll: "sends geometry32 declared_write (submit_vertical_scroll emit amount)"
  unfolding submit_vertical_scroll_def uinput_submit_scroll_def
  by (intro sends_on_device)
    (auto intro!: sends_out sends_update simp: mouse_declared geometry32_def Let_def split_def)

lemma sends_horizontal_scroll: "sends geometry32 declared_write (submit_horizontal_scroll emit amount)"
  unfolding submit_horizontal_scroll_def uinput_submit_scroll_def
  by (intro sends_on_device)
    (auto intro!: sends_out sends_update simp: mouse_declared geometry32_def Let_def split_def)

lemma sends_mouse_submit:
  assumes "sound_mouse_event ev"
  shows "sends geometry32 declared_write (uinput_mouse_submit u emit ev)"
proof (rule sends_guard)
  show "sends geometry32 declared_write (case event_kind ev of
         Ev_relative_motion \<Rightarrow> uinput_submit_relative_motion emit ev
       | Ev_absolute_motion \<Rightarrow> uinput_submit_absolute_motion u emit ev
       | Ev_button \<Rightarrow> uinput_submit_button emit ev
       | Ev_vertical_scroll \<Rightarrow> submit_vertical_scroll emit (high_resolution_scroll ev)
       | Ev_horizontal_scroll \<Rightarrow> submit_horizontal_scroll emit (high_resolution_scroll ev))"
    using assms by (cases "event_kind ev")
      (simp_all add: sends_relative_motion sends_absolute_motion sends_button sends_vertical_scroll
        sends_horizontal_scroll)
qed (auto simp: uinput_mouse_submit_def)

end

text \<open>whatever the client submits, every event is one its device declared.\<close>

theorem mouse_events_declared:
  assumes "viewport32 desk" "viewport32 view" "list_all sound_mouse_event events"
  shows "list_all declared_write
    (fst (snd (uinput_mouse_run u (logged_by (write_to_device os)) events (new_uinput_mouse desk view, [], w))))"
proof -
  have "list_all (\<lambda>ev. logged.sends geometry32 declared_write
      (uinput_mouse_submit u (logged_by (write_to_device os)) ev)) events"
    using assms(3) by (auto simp: list_all_iff intro: mouse.sends_mouse_submit)
  then show ?thesis
    using logged.sends_run [of geometry32 "new_uinput_mouse desk view" declared_write
        "uinput_mouse_submit u (logged_by (write_to_device os))" events "([], w)"] assms(1,2)
    by (fastforce simp: uinput_mouse_run_def geometry32_def new_uinput_mouse_def)
qed

theorem mouse_events_declared_witness:
  "let view = \<lparr>offset_x = 10, offset_y = 20, width = 640, height = 480\<rparr>;
       desk = \<lparr>offset_x = 0, offset_y = 0, width = 1920, height = 1080\<rparr>;
       events = [default_mouse_event\<lparr>event_kind := Ev_absolute_motion, ev_x := 5, ev_width := 10\<rparr>,
         default_mouse_event\<lparr>event_kind := Ev_button, ev_pressed := True\<rparr>] in
   viewport32 desk \<and> viewport32 view \<and> list_all sound_mouse_event events \<and>
   list_all declared_write
     (fst (snd (uinput_mouse_run (\<lambda>v. 0) (logged_by (write_to_device (\<lambda>k. failing_write 3))) events
        (new_uinput_mouse desk view, [], 0))))"
  unfolding Let_def
  by (intro conjI mouse_events_declared)
    (simp_all add: viewport32_def int32_def sound_mouse_event_def default_mouse_event_def)

section \<open>What the kernel sees\<close>

text \<open>The key state of a device, and the sum of one relative axis over both devices.\<close>

definition kernel_holds :: "mouse_write list \<Rightarrow> uinput_mouse_device_kind \<Rightarrow> mouse_button \<Rightarrow> bool" where
  "kernel_holds sent_events k b =
     foldl (\<lambda>held (k', ev). case ev of
         EV_KEY key v \<Rightarrow> if k' = k \<and> key = mouse_button_to_linux b then v \<noteq> 0 else held
       | _ \<Rightarrow> held) False sent_events"

definition axis_sum :: "rel_code \<Rightarrow> mouse_write list \<Rightarrow> int" where
  "axis_sum r sent_events =
     sum_list (map (\<lambda>(k, ev). case ev of EV_REL r' v \<Rightarrow> if r' = r then v else 0 | _ \<Rightarrow> 0) sent_events)"

text \<open>What the client submitted.\<close>

definition holds_button :: "mouse_event list \<Rightarrow> mouse_button \<Rightarrow> bool" where
  "holds_button events b =
     foldl (\<lambda>held ev. if event_kind ev = Ev_button \<and> ev_button ev = b then ev_pressed ev else held)
       False events"

text \<open>A button that is held is not pressed again before its release.\<close>

fun alternates :: "mouse_event list \<Rightarrow> mouse_event list \<Rightarrow> bool" where
  "alternates before [] = True"
| "alternates before (ev # events) =
     ((event_kind ev = Ev_button \<and> ev_pressed ev \<longrightarrow> \<not> holds_button before (ev_button ev)) \<and>
      alternates (before @ [ev]) events)"

definition submitted_sum :: "mouse_event_kind \<Rightarrow> (mouse_event \<Rightarrow> int) \<Rightarrow> mouse_event list \<Rightarrow> int" where
  "submitted_sum k f events = sum_list (map f (filter (\<lambda>ev. event_kind ev = k) events))"

lemma kernel_holds_append:
  "kernel_holds (evs @ [(k', ev)]) k b = (case ev of
     EV_KEY key v \<Rightarrow> if k' = k \<and> key = mouse_button_to_linux b then v \<noteq> 0 else kernel_holds evs k b
   | _ \<Rightarrow> kernel_holds evs k b)"
  by (cases ev) (simp_all add: kernel_holds_def)

lemma axis_sum_append [simp]: "axis_sum r (evs @ evs') = axis_sum r evs + axis_sum r evs'"
  by (simp add: axis_sum_def)

lemma button_to_linux_inject: "mouse_button_to_linux b = mouse_button_to_linux c \<longleftrightarrow> b = c"
  by (cases b; cases c) simp_all

text \<open>A call on an open mouse whose writes are accepted: the device afterwards and the events.\<close>

definition scroll_events ::
  "rel_code \<Rightarrow> rel_code \<Rightarrow> int \<Rightarrow> int \<Rightarrow> uinput_mouse_device_kind \<Rightarrow> mouse_write list" where
  "scroll_events legacy_code high_resolution_code amount detents target =
     (if detents \<noteq> 0 then [(target, EV_REL legacy_code detents)] else []) @
     [(target, EV_REL high_resolution_code amount), (target, EV_SYN)]"

definition mouse_delivers ::
  "(flt \<Rightarrow> int) \<Rightarrow> mouse_event \<Rightarrow> uinput_mouse \<Rightarrow> uinput_mouse \<times> mouse_write list" where
  "mouse_delivers u ev d = (case event_kind ev of
     Ev_relative_motion \<Rightarrow>
       (d\<lparr>um_last_motion_device := Mouse_relative\<rparr>,
        (if ev_x ev \<noteq> 0 then [(Mouse_relative, EV_REL REL_X (ev_x ev))] else []) @
        (if ev_y ev \<noteq> 0 then [(Mouse_relative, EV_REL REL_Y (ev_y ev))] else []) @ [(Mouse_relative, EV_SYN)])
   | Ev_absolute_motion \<Rightarrow>
       (d\<lparr>um_last_motion_device := Mouse_absolute\<rparr>,
        [(Mouse_absolute, EV_ABS ABS_X (fst (absolute_position u ev d))),
         (Mouse_absolute, EV_ABS ABS_Y (snd (absolute_position u ev d))), (Mouse_absolute, EV_SYN)])
   | Ev_button \<Rightarrow>
       (let target = button_device ev d; mask = uinput_button_mask (ev_button ev) in
        (set_buttons_down target (if ev_pressed ev then buttons_down target d OR mask
           else buttons_down target d AND NOT mask) d,
         [(target, EV_KEY (mouse_button_to_linux (ev_button ev)) (if ev_pressed ev then 1 else 0)),
          (target, EV_SYN)]))
   | Ev_vertical_scroll \<Rightarrow>
       (let (detents, rest) = accumulated_legacy_scroll (um_vertical_scroll_remainder d) (high_resolution_scroll ev)
        in (d\<lparr>um_vertical_scroll_remainder := rest\<rparr>,
            scroll_events REL_WHEEL REL_WHEEL_HI_RES (high_resolution_scroll ev) detents (um_last_motion_device d)))
   | Ev_horizontal_scroll \<Rightarrow>
       (let (detents, rest) = accumulated_legacy_scroll (um_horizontal_scroll_remainder d) (high_resolution_scroll ev)
        in (d\<lparr>um_horizontal_scroll_remainder := rest\<rparr>,
            scroll_events REL_HWHEEL REL_HWHEEL_HI_RES (high_resolution_scroll ev) detents (um_last_motion_device d))))"

definition mouse_open :: "uinput_mouse \<Rightarrow> bool" where
  "mouse_open d \<longleftrightarrow> um_relative_open d \<and> um_absolute_open d"

lemma mouse_delivers_open: "mouse_open d \<Longrightarrow> mouse_open (fst (mouse_delivers u ev d))"
  by (auto simp: mouse_delivers_def mouse_open_def Let_def set_buttons_down_def split_def
      split: mouse_event_kind.splits uinput_mouse_device_kind.splits)

context accepting_mouse_channel begin

lemma runs_mouse_submit:
  assumes "mouse_open d"
  shows "runs (uinput_mouse_submit u emit ev) d (fst (mouse_delivers u ev d)) (snd (mouse_delivers u ev d))"
proof -
  let ?step = "case event_kind ev of
         Ev_relative_motion \<Rightarrow> uinput_submit_relative_motion emit ev
       | Ev_absolute_motion \<Rightarrow> uinput_submit_absolute_motion u emit ev
       | Ev_button \<Rightarrow> uinput_submit_button emit ev
       | Ev_vertical_scroll \<Rightarrow> submit_vertical_scroll emit (high_resolution_scroll ev)
       | Ev_horizontal_scroll \<Rightarrow> submit_horizontal_scroll emit (high_resolution_scroll ev)"
  note rules = runs_on_device runs_out_Cons runs_update_Cons runs_Nil
  have "runs ?step d (fst (mouse_delivers u ev d)) (snd (mouse_delivers u ev d))"
    by (cases "event_kind ev")
      (auto intro!: rules simp: mouse_delivers_def uinput_submit_relative_motion_def uinput_submit_absolute_motion_def
        uinput_submit_button_def submit_vertical_scroll_def submit_horizontal_scroll_def
        uinput_submit_scroll_def scroll_events_def Let_def split_def simp del: perform.simps)
  with assms show ?thesis
    by (simp add: runs_def uinput_mouse_submit_def mouse_open_def)
qed

end

text \<open>The events of a sequence of calls.\<close>

definition mouse_model ::
  "(flt \<Rightarrow> int) \<Rightarrow> mouse_event list \<Rightarrow> uinput_mouse \<Rightarrow> uinput_mouse \<times> mouse_write list" where
  "mouse_model u events d =
     foldl (\<lambda>(d, evs) ev. let (d', evs') = mouse_delivers u ev d in (d', evs @ evs')) (d, []) events"

lemma mouse_model_simps [simp]:
  "mouse_model u [] d = (d, [])"
  "mouse_model u (events @ [ev]) d =
     (let (d', evs) = mouse_model u events d; (d'', evs') = mouse_delivers u ev d' in (d'', evs @ evs'))"
  by (simp_all add: mouse_model_def split_def Let_def)

lemma mouse_model_open: "mouse_open d \<Longrightarrow> mouse_open (fst (mouse_model u events d))"
  by (induction events rule: rev_induct) (auto simp: split_def Let_def mouse_delivers_open)

context accepting_mouse_channel begin

lemma runs_mouse_model:
  assumes "mouse_open d"
  shows "\<exists>w'. uinput_mouse_run u emit events (d, w) = (fst (mouse_model u events d), w') \<and>
    sent w' = sent w @ snd (mouse_model u events d)"
proof (induction events rule: rev_induct)
  case Nil
  show ?case by (simp add: uinput_mouse_run_def)
next
  case (snoc ev events)
  then obtain w1 where 1: "uinput_mouse_run u emit events (d, w) = (fst (mouse_model u events d), w1)"
      "sent w1 = sent w @ snd (mouse_model u events d)"
    by blast
  obtain status w2 where "uinput_mouse_submit u emit ev (fst (mouse_model u events d), w1) =
      (status, fst (mouse_delivers u ev (fst (mouse_model u events d))), w2)"
      "sent w2 = sent w1 @ snd (mouse_delivers u ev (fst (mouse_model u events d)))"
    by (rule runsE [OF runs_mouse_submit [OF mouse_model_open [OF assms]]])
  with 1 show ?case
    by (simp add: uinput_mouse_run_def split_def Let_def)
qed

end

lemma new_mouse_open: "mouse_open (new_uinput_mouse desk view)"
  by (simp add: mouse_open_def new_uinput_mouse_def)

lemma mouse_run_sent:
  "fst (snd (uinput_mouse_run u (logged_by (write_to_device (\<lambda>k. accepting (os k)))) events
     (new_uinput_mouse desk view, [], w))) = snd (mouse_model u events (new_uinput_mouse desk view))"
  using accepted_mouse.runs_mouse_model [OF new_mouse_open, of u os events desk view "([], w)"] by auto

section \<open>Motion and scroll are conserved\<close>

lemma accumulated_legacy_scroll_sound:
  "accumulated_legacy_scroll remainder amount = (detents, rest) \<Longrightarrow>
     120 * detents + rest = remainder + amount \<and> \<bar>rest\<bar> < 120"
  using sdiv_mult_smod_eq [of "remainder + amount" "120 :: int"]
    smod_int_range [of "120 :: int" "remainder + amount"]
  by (auto simp: accumulated_legacy_scroll_def uinput_scroll_units_per_detent_def Let_def)

definition conserved :: "mouse_event list \<Rightarrow> uinput_mouse \<times> mouse_write list \<Rightarrow> bool" where
  "conserved events = (\<lambda>(d, evs).
     axis_sum REL_X evs = submitted_sum Ev_relative_motion ev_x events \<and>
     axis_sum REL_Y evs = submitted_sum Ev_relative_motion ev_y events \<and>
     axis_sum REL_WHEEL_HI_RES evs = submitted_sum Ev_vertical_scroll high_resolution_scroll events \<and>
     axis_sum REL_HWHEEL_HI_RES evs = submitted_sum Ev_horizontal_scroll high_resolution_scroll events \<and>
     120 * axis_sum REL_WHEEL evs + um_vertical_scroll_remainder d =
       submitted_sum Ev_vertical_scroll high_resolution_scroll events \<and>
     120 * axis_sum REL_HWHEEL evs + um_horizontal_scroll_remainder d =
       submitted_sum Ev_horizontal_scroll high_resolution_scroll events \<and>
     \<bar>um_vertical_scroll_remainder d\<bar> < 120 \<and> \<bar>um_horizontal_scroll_remainder d\<bar> < 120)"

lemma axis_sum_events [simp]:
  "axis_sum r [] = 0"
  "axis_sum r ((k, EV_REL r' v) # evs) = (if r' = r then v else 0) + axis_sum r evs"
  "axis_sum r ((k, EV_ABS a v) # evs) = axis_sum r evs"
  "axis_sum r ((k, EV_KEY key v) # evs) = axis_sum r evs"
  "axis_sum r ((k, EV_SYN) # evs) = axis_sum r evs"
  by (simp_all add: axis_sum_def)

lemma submitted_sum_snoc [simp]:
  "submitted_sum k f (events @ [ev]) = submitted_sum k f events + (if event_kind ev = k then f ev else 0)"
  by (simp add: submitted_sum_def)

lemma set_buttons_remainder [simp]:
  "um_vertical_scroll_remainder (set_buttons_down k v d) = um_vertical_scroll_remainder d"
  "um_horizontal_scroll_remainder (set_buttons_down k v d) = um_horizontal_scroll_remainder d"
  by (cases k; simp add: set_buttons_down_def)+

lemma conserved_step:
  assumes "conserved events (d, evs)"
  shows "conserved (events @ [ev]) (fst (mouse_delivers u ev d), evs @ snd (mouse_delivers u ev d))"
proof (cases "event_kind ev")
  case Ev_vertical_scroll
  obtain detents rest where a: "accumulated_legacy_scroll (um_vertical_scroll_remainder d)
      (high_resolution_scroll ev) = (detents, rest)" by fastforce
  with Ev_vertical_scroll assms accumulated_legacy_scroll_sound [OF a] show ?thesis
    by (auto simp: conserved_def mouse_delivers_def scroll_events_def)
next
  case Ev_horizontal_scroll
  obtain detents rest where a: "accumulated_legacy_scroll (um_horizontal_scroll_remainder d)
      (high_resolution_scroll ev) = (detents, rest)" by fastforce
  with Ev_horizontal_scroll assms accumulated_legacy_scroll_sound [OF a] show ?thesis
    by (auto simp: conserved_def mouse_delivers_def scroll_events_def)
qed (use assms in \<open>auto simp: conserved_def mouse_delivers_def Let_def\<close>)

lemma mouse_model_conserved: "conserved events (mouse_model u events (new_uinput_mouse desk view))"
proof (induction events rule: rev_induct)
  case Nil
  show ?case by (simp add: conserved_def new_uinput_mouse_def submitted_sum_def)
next
  case (snoc ev events)
  then show ?case
    using conserved_step [of events "fst (mouse_model u events (new_uinput_mouse desk view))"
        "snd (mouse_model u events (new_uinput_mouse desk view))" ev u]
    by (simp add: split_def Let_def)
qed


section \<open>Buttons follow the client\<close>

lemma mask_bit:
  fixes m :: u8
  shows "m AND uinput_button_mask b \<noteq> 0 \<longleftrightarrow> bit m (mouse_button_underlying b)"
  by (cases b) (simp_all add: uinput_button_mask_def bit_iff_and_push_bit_not_eq_0)

lemma bit_mask:
  "bit (uinput_button_mask b) (mouse_button_underlying c) \<longleftrightarrow> b = c"
  by (cases b; cases c) (simp_all add: uinput_button_mask_def)

lemma alternates_snoc:
  "alternates before (events @ [ev]) \<longleftrightarrow> alternates before events \<and>
     (event_kind ev = Ev_button \<and> ev_pressed ev \<longrightarrow> \<not> holds_button (before @ events) (ev_button ev))"
  by (induction events arbitrary: before) auto

lemma holds_button_snoc:
  "holds_button (events @ [ev]) b =
     (if event_kind ev = Ev_button \<and> ev_button ev = b then ev_pressed ev else holds_button events b)"
  by (simp add: holds_button_def)

text \<open>The masks are the key states, a held button is held on exactly one device.\<close>

definition buttons_inv :: "mouse_event list \<Rightarrow> uinput_mouse \<times> mouse_write list \<Rightarrow> bool" where
  "buttons_inv events = (\<lambda>(d, evs). \<forall>b.
     (\<forall>k. kernel_holds evs k b = bit (buttons_down k d) (mouse_button_underlying b)) \<and>
     (kernel_holds evs Mouse_relative b \<or> kernel_holds evs Mouse_absolute b) = holds_button events b \<and>
     \<not> (kernel_holds evs Mouse_relative b \<and> kernel_holds evs Mouse_absolute b))"

lemma kernel_holds_syn [simp]: "kernel_holds (evs @ [(t, EV_KEY key v), (t, EV_SYN)]) k b =
    (if t = k \<and> key = mouse_button_to_linux b then v \<noteq> 0 else kernel_holds evs k b)"
  using kernel_holds_append [of "evs @ [(t, EV_KEY key v)]" t EV_SYN k b] kernel_holds_append [of evs t "EV_KEY key v" k b]
  by simp

lemma kernel_holds_other:
  "list_all (\<lambda>(k, ev). case ev of EV_KEY key v \<Rightarrow> False | _ \<Rightarrow> True) evs' \<Longrightarrow>
     kernel_holds (evs @ evs') k b = kernel_holds evs k b"
proof (induction evs' rule: rev_induct)
  case (snoc ev evs')
  then show ?case
    using kernel_holds_append [of "evs @ evs'" "fst ev" "snd ev" k b]
    by (auto split: input_event.splits prod.splits)
qed simp

lemma other_events_keyless:
  "event_kind ev \<noteq> Ev_button \<Longrightarrow>
     list_all (\<lambda>(k, ev). case ev of EV_KEY key v \<Rightarrow> False | _ \<Rightarrow> True) (snd (mouse_delivers u ev d)) \<and>
     buttons_down k (fst (mouse_delivers u ev d)) = buttons_down k d"
  by (cases "event_kind ev"; cases k)
    (auto simp: mouse_delivers_def scroll_events_def buttons_down_def split_def Let_def)

lemma buttons_down_set:
  "buttons_down k (set_buttons_down t v d) = (if k = t then v else buttons_down k d)"
  by (cases k; cases t) (simp_all add: buttons_down_def set_buttons_down_def)

lemma bit_mask_update:
  "bit (if p then m OR uinput_button_mask b else m AND NOT (uinput_button_mask b)) (mouse_button_underlying c) =
     (if b = c then p else bit m (mouse_button_underlying c))"
proof -
  have "mouse_button_underlying c < 8" by (cases c) simp_all
  then show ?thesis
    by (auto simp: bit_or_iff bit_and_iff bit_not_iff bit_mask)
qed

lemma buttons_step:
  assumes inv: "buttons_inv events (d, evs)"
    and free: "event_kind ev = Ev_button \<and> ev_pressed ev \<Longrightarrow> \<not> holds_button events (ev_button ev)"
  shows "buttons_inv (events @ [ev]) (fst (mouse_delivers u ev d), evs @ snd (mouse_delivers u ev d))"
proof (cases "event_kind ev = Ev_button")
  case False
  note keyless = other_events_keyless [OF False, of u d]
  have "buttons_inv (events @ [ev]) (fst (mouse_delivers u ev d), evs @ snd (mouse_delivers u ev d)) =
      buttons_inv events (d, evs)"
    using False by (simp only: buttons_inv_def prod.case kernel_holds_other [OF keyless [THEN conjunct1]]
        keyless [THEN conjunct2] holds_button_snoc simp_thms if_False)
  with inv show ?thesis by simp
next
  case True
  let ?t = "button_device ev d" and ?b = "ev_button ev" and ?p = "ev_pressed ev"
  have d': "fst (mouse_delivers u ev d) = set_buttons_down ?t
      (if ?p then buttons_down ?t d OR uinput_button_mask ?b
       else buttons_down ?t d AND NOT (uinput_button_mask ?b)) d"
    and evs': "snd (mouse_delivers u ev d) =
      [(?t, EV_KEY (mouse_button_to_linux ?b) (if ?p then 1 else 0)), (?t, EV_SYN)]"
    using True by (simp_all add: mouse_delivers_def Let_def)
  have target: "?t = (if \<not> ?p \<and> kernel_holds evs Mouse_relative ?b then Mouse_relative
      else if \<not> ?p \<and> kernel_holds evs Mouse_absolute ?b then Mouse_absolute
      else um_last_motion_device d)"
    using inv by (simp add: button_device_def mask_bit Let_def buttons_inv_def buttons_down_def)
  have holds: "kernel_holds (evs @ snd (mouse_delivers u ev d)) k c =
      (if ?t = k \<and> ?b = c then ?p else kernel_holds evs k c)" for k c
    by (simp add: evs' button_to_linux_inject)
  have "bit (buttons_down k (fst (mouse_delivers u ev d))) (mouse_button_underlying c) =
      kernel_holds (evs @ snd (mouse_delivers u ev d)) k c" for k c
    using inv unfolding holds d' buttons_down_set by (auto simp: bit_mask_update buttons_inv_def)
  moreover have "(kernel_holds (evs @ snd (mouse_delivers u ev d)) Mouse_relative c \<or>
      kernel_holds (evs @ snd (mouse_delivers u ev d)) Mouse_absolute c) = holds_button (events @ [ev]) c \<and>
      \<not> (kernel_holds (evs @ snd (mouse_delivers u ev d)) Mouse_relative c \<and>
      kernel_holds (evs @ snd (mouse_delivers u ev d)) Mouse_absolute c)" for c
  proof (cases "c = ?b")
    case True
    with inv free \<open>event_kind ev = Ev_button\<close> show ?thesis
      unfolding holds holds_button_snoc
      by (cases ?t; auto simp: target buttons_inv_def split: if_splits)
  next
    case False
    with inv show ?thesis
      unfolding holds holds_button_snoc by (auto simp: buttons_inv_def)
  qed
  ultimately show ?thesis
    by (simp add: buttons_inv_def)
qed

lemma mouse_model_buttons:
  "alternates [] events \<Longrightarrow> buttons_inv events (mouse_model u events (new_uinput_mouse desk view))"
proof (induction events rule: rev_induct)
  case Nil
  show ?case
    by (auto simp: buttons_inv_def new_uinput_mouse_def kernel_holds_def holds_button_def buttons_down_def
        split: uinput_mouse_device_kind.splits)
next
  case (snoc ev events)
  then show ?case
    using buttons_step [of events "fst (mouse_model u events (new_uinput_mouse desk view))"
        "snd (mouse_model u events (new_uinput_mouse desk view))" ev u]
    by (simp add: split_def Let_def alternates_snoc)
qed


definition example_mouse_events :: "mouse_event list" where
  "example_mouse_events =
     [default_mouse_event\<lparr>event_kind := Ev_button, ev_pressed := True\<rparr>,
      default_mouse_event\<lparr>event_kind := Ev_absolute_motion, ev_x := 5, ev_width := 10\<rparr>,
      default_mouse_event\<lparr>event_kind := Ev_button, ev_pressed := False\<rparr>,
      default_mouse_event\<lparr>event_kind := Ev_vertical_scroll, high_resolution_scroll := - 250\<rparr>]"


text \<open>The assumption is needed: a button that is pressed again after a motion of the other device
  stays pressed there after the release.\<close>

lemma repeated_press_sticks:
  "let press = default_mouse_event\<lparr>event_kind := Ev_button, ev_pressed := True\<rparr>;
       release = press\<lparr>ev_pressed := False\<rparr>;
       absolute = default_mouse_event\<lparr>event_kind := Ev_absolute_motion\<rparr>;
       events = [press, absolute, press, release];
       evs = snd (mouse_model u events (new_uinput_mouse default_viewport default_viewport))
   in \<not> holds_button events Mouse_left \<and> kernel_holds evs Mouse_absolute Mouse_left"
  by (simp add: Let_def mouse_model_def mouse_delivers_def new_uinput_mouse_def default_mouse_event_def
      holds_button_def kernel_holds_def button_device_def uinput_button_mask_def set_buttons_down_def
      buttons_down_def)

end
