(* ===== verification/LinuxPen.thy ===== *)
theory LinuxPen
  imports LinuxConfig
begin

text \<open>
  The Linux pen tablet, class \<open>UinputPenTablet\<close> of \<open>src/src/platform/linux/uhid_backend.cpp\<close>.
  Every placement writes the tool, the position, the pressure or the distance, and the tilt; a
  change of tool writes the new tool before it withdraws the old one. The lemmas follow the tool in
  proximity through any sequence of calls, and check every event against what
  \<open>configure_evdev_pen_tablet\<close> declares.
\<close>

section \<open>The device\<close>

fun pen_tool_to_linux :: "pen_tool_type \<Rightarrow> evdev_key option" where
  "pen_tool_to_linux Pen_pen = Some BTN_TOOL_PEN"
| "pen_tool_to_linux Pen_eraser = Some BTN_TOOL_RUBBER"
| "pen_tool_to_linux Pen_brush = Some BTN_TOOL_BRUSH"
| "pen_tool_to_linux Pen_pencil = Some BTN_TOOL_PENCIL"
| "pen_tool_to_linux Pen_airbrush = Some BTN_TOOL_AIRBRUSH"
| "pen_tool_to_linux Pen_touch = Some BTN_TOUCH"
| "pen_tool_to_linux Pen_unchanged = None"

fun pen_button_to_linux :: "pen_button \<Rightarrow> evdev_key" where
  "pen_button_to_linux Pen_primary = BTN_STYLUS"
| "pen_button_to_linux Pen_secondary = BTN_STYLUS2"
| "pen_button_to_linux Pen_tertiary = BTN_STYLUS3"

record uinput_pen =
  up_open :: bool
  up_last_tool :: pen_tool_type

definition new_uinput_pen :: uinput_pen where
  "new_uinput_pen = \<lparr>up_open = True, up_last_tool = Pen_unchanged\<rparr>"

definition emit_pen_tool ::
  "(input_event \<Rightarrow> 'w action) \<Rightarrow> pen_tool_type \<Rightarrow> int \<Rightarrow> (uinput_pen \<times> 'w) action" where
  "emit_pen_tool emit t v = perform (case pen_tool_to_linux t of
     None \<Rightarrow> [] | Some key \<Rightarrow> [out emit (EV_KEY key v)])"

definition update_pen_tool ::
  "(input_event \<Rightarrow> 'w action) \<Rightarrow> pen_tool_type \<Rightarrow> (uinput_pen \<times> 'w) action" where
  "update_pen_tool emit t = on_device (\<lambda>d.
     if t = Pen_unchanged \<or> t = up_last_tool d then []
     else [emit_pen_tool emit t 1, emit_pen_tool emit (up_last_tool d) 0,
           update_device (\<lambda>d. d\<lparr>up_last_tool := t\<rparr>)])"

definition pen_position_events :: "(flt \<Rightarrow> int) \<Rightarrow> pen_tool_state \<Rightarrow> input_event list" where
  "pen_position_events u state =
     [EV_ABS ABS_X (scale_normalized_axis u (pen_x state) touch_axis_max_x),
      EV_ABS ABS_Y (scale_normalized_axis u (pen_y state) touch_axis_max_y)]"

definition pen_pressure_events :: "(flt \<Rightarrow> int) \<Rightarrow> flt \<Rightarrow> input_event list" where
  "pen_pressure_events u p =
     (if fless p (Fin 0) then []
      else [EV_ABS ABS_PRESSURE (scale_normalized_axis u p tablet_pressure_max),
            EV_ABS ABS_DISTANCE 0, EV_KEY BTN_TOUCH (if fless (Fin 0) p then 1 else 0)])"

definition pen_distance_events :: "(flt \<Rightarrow> int) \<Rightarrow> flt \<Rightarrow> input_event list" where
  "pen_distance_events u v =
     (if fless v (Fin 0) then []
      else [EV_ABS ABS_DISTANCE (scale_normalized_axis u v tablet_distance_max),
            EV_ABS ABS_PRESSURE 0, EV_KEY BTN_TOUCH 0])"

definition pen_tilt_events :: "(flt \<Rightarrow> int) \<Rightarrow> pen_tool_state \<Rightarrow> input_event list" where
  "pen_tilt_events u state =
     [EV_ABS ABS_TILT_X (tablet_tilt_units u (tilt_x state)),
      EV_ABS ABS_TILT_Y (tablet_tilt_units u (tilt_y state))]"

definition pen_state_events :: "(flt \<Rightarrow> int) \<Rightarrow> pen_tool_state \<Rightarrow> input_event list" where
  "pen_state_events u state =
     pen_position_events u state @ pen_pressure_events u (pen_pressure state) @
     pen_distance_events u (distance state) @ pen_tilt_events u state @ [EV_SYN]"

definition place_tool ::
  "(input_event \<Rightarrow> 'w action) \<Rightarrow> (flt \<Rightarrow> int) \<Rightarrow> pen_tool_state \<Rightarrow> (uinput_pen \<times> 'w) action" where
  "place_tool emit u state = (\<lambda>(d, w).
     if \<not> up_open d then (failure Err_device_closed ''uinput pen tablet is closed'', d, w)
     else perform (update_pen_tool emit (tool state) # map (out emit) (pen_state_events u state)) (d, w))"

definition uinput_pen_button ::
  "(input_event \<Rightarrow> 'w action) \<Rightarrow> pen_button \<Rightarrow> bool \<Rightarrow> (uinput_pen \<times> 'w) action" where
  "uinput_pen_button emit b is_pressed = (\<lambda>(d, w).
     if \<not> up_open d then (failure Err_device_closed ''uinput pen tablet is closed'', d, w)
     else perform (map (out emit) [EV_KEY (pen_button_to_linux b) (if is_pressed then 1 else 0), EV_SYN]) (d, w))"

datatype pen_call = Place_tool pen_tool_state | Pen_button pen_button bool

fun pen_step ::
  "(input_event \<Rightarrow> 'w action) \<Rightarrow> (flt \<Rightarrow> int) \<Rightarrow> pen_call \<Rightarrow> (uinput_pen \<times> 'w) action" where
  "pen_step emit u (Place_tool state) = place_tool emit u state"
| "pen_step emit u (Pen_button b is_pressed) = uinput_pen_button emit b is_pressed"

definition pen_run ::
  "(input_event \<Rightarrow> 'w action) \<Rightarrow> (flt \<Rightarrow> int) \<Rightarrow> pen_call list \<Rightarrow> uinput_pen \<times> 'w \<Rightarrow> uinput_pen \<times> 'w" where
  "pen_run emit u calls s = foldl (\<lambda>s call. snd (pen_step emit u call s)) s calls"

section \<open>Declared events\<close>

definition sound_pen_call :: "pen_call \<Rightarrow> bool" where
  "sound_pen_call call = (case call of
     Place_tool state \<Rightarrow> NaN \<notin> {pen_x state, pen_y state, pen_pressure state, distance state, tilt_x state, tilt_y state}
   | Pen_button b is_pressed \<Rightarrow> True)"

abbreviation pen_declared :: "input_event \<Rightarrow> bool" where
  "pen_declared \<equiv> declared configure_evdev_pen_tablet"

lemma pen_axes_declared:
  "0 \<le> v \<Longrightarrow> v \<le> 19200 \<Longrightarrow> pen_declared (EV_ABS ABS_X v)"
  "0 \<le> v \<Longrightarrow> v \<le> 10800 \<Longrightarrow> pen_declared (EV_ABS ABS_Y v)"
  "0 \<le> v \<Longrightarrow> v \<le> 4096 \<Longrightarrow> pen_declared (EV_ABS ABS_PRESSURE v)"
  "0 \<le> v \<Longrightarrow> v \<le> 1024 \<Longrightarrow> pen_declared (EV_ABS ABS_DISTANCE v)"
  "- 90 \<le> v \<Longrightarrow> v \<le> 90 \<Longrightarrow> pen_declared (EV_ABS ABS_TILT_X v)"
  "- 90 \<le> v \<Longrightarrow> v \<le> 90 \<Longrightarrow> pen_declared (EV_ABS ABS_TILT_Y v)"
  "v = 0 \<or> v = 1 \<Longrightarrow> pen_tool_to_linux t = Some key \<Longrightarrow> pen_declared (EV_KEY key v)"
  "v = 0 \<or> v = 1 \<Longrightarrow> pen_declared (EV_KEY (pen_button_to_linux b) v)"
  "v = 0 \<or> v = 1 \<Longrightarrow> pen_declared (EV_KEY BTN_TOUCH v)"
  by (cases t; cases b; auto simp: declared_def enabled_type_def configure_evdev_pen_tablet_def make_absinfo_def
      touch_axis_max_x_def touch_axis_max_y_def tablet_pressure_max_def tablet_distance_max_def)+

lemma pen_state_events_declared:
  assumes "sound_pen_call (Place_tool state)"
  shows "list_all pen_declared (pen_state_events u state)"
proof -
  have n: "pen_x state \<noteq> NaN" "pen_y state \<noteq> NaN" "pen_pressure state \<noteq> NaN" "distance state \<noteq> NaN"
      "tilt_x state \<noteq> NaN" "tilt_y state \<noteq> NaN"
    using assms by (auto simp: sound_pen_call_def)
  show ?thesis
    using scale_normalized_axis_bounds [OF n(1), of 19200 u] scale_normalized_axis_bounds [OF n(2), of 10800 u]
      scale_normalized_axis_bounds [OF n(3), of 4096 u] scale_normalized_axis_bounds [OF n(4), of 1024 u]
      tablet_tilt_units_bounds [OF n(5), of u] tablet_tilt_units_bounds [OF n(6), of u]
    by (auto simp: pen_state_events_def pen_position_events_def pen_pressure_events_def
        pen_distance_events_def pen_tilt_events_def touch_axis_max_x_def touch_axis_max_y_def
        tablet_pressure_max_def tablet_distance_max_def intro!: pen_axes_declared)
qed

context input_channel begin

lemma sends_pen_tool:
  "v = 0 \<or> v = 1 \<Longrightarrow> sends I pen_declared (emit_pen_tool emit t v)"
  unfolding emit_pen_tool_def
  by (intro sends_perform) (auto intro!: sends_out pen_axes_declared split: option.splits)

lemma sends_place_tool:
  assumes "sound_pen_call (Place_tool state)"
  shows "sends (\<lambda>d. True) pen_declared (place_tool emit u state)"
proof (rule sends_guard)
  show "sends (\<lambda>d. True) pen_declared
      (perform (update_pen_tool emit (tool state) # map (out emit) (pen_state_events u state)))"
    using assms
    by (intro sends_perform)
      (auto simp: update_pen_tool_def sends_outs pen_state_events_declared
        intro!: sends_on_device sends_pen_tool sends_update)
qed (auto simp: place_tool_def simp del: perform.simps)

lemma sends_pen_button: "sends I pen_declared (uinput_pen_button emit b p)"
proof (rule sends_guard)
  show "sends I pen_declared
      (perform (map (out emit) [EV_KEY (pen_button_to_linux b) (if p then 1 else 0), EV_SYN]))"
    by (intro sends_perform sends_outs) (simp add: pen_axes_declared)
qed (auto simp: uinput_pen_button_def simp del: perform.simps)

lemma sends_pen_step: "sound_pen_call call \<Longrightarrow> sends (\<lambda>d. True) pen_declared (pen_step emit u call)"
  by (cases call) (simp_all add: sends_place_tool sends_pen_button)

end

text \<open>every event sent is declared.\<close>

theorem pen_events_declared:
  assumes "list_all sound_pen_call calls"
  shows "list_all pen_declared (fst (snd (pen_run (logged_write os) u calls (new_uinput_pen, [], w))))"
proof -
  have "list_all (\<lambda>call. logged.sends (\<lambda>d. True) pen_declared (pen_step (logged_write os) u call)) calls"
    using assms by (auto simp: list_all_iff intro: input.sends_pen_step)
  then show ?thesis
    using logged.sends_run [of "\<lambda>d. True" new_uinput_pen _ "pen_step (logged_write os) u" calls "([], w)"]
    by (fastforce simp: pen_run_def)
qed

theorem pen_events_declared_witness:
  "let calls = [Place_tool default_pen_tool, Pen_button Pen_tertiary True,
       Place_tool (default_pen_tool\<lparr>tool := Pen_eraser, distance := Fin 0\<rparr>)] in
   list_all sound_pen_call calls \<and>
   list_all pen_declared
     (fst (snd (pen_run (logged_write (failing_write 6)) (\<lambda>v. 0) calls (new_uinput_pen, [], 0))))"
proof -
  have "flit binary32 (- 1) 1 \<noteq> NaN"
    by code_simp
  then show ?thesis
    unfolding Let_def
    by (intro conjI pen_events_declared) (simp_all add: sound_pen_call_def default_pen_tool_def)
qed

section \<open>The tool in proximity\<close>

definition pen_keys :: "(evdev_key \<Rightarrow> bool) \<Rightarrow> input_event list \<Rightarrow> evdev_key \<Rightarrow> bool" where
  "pen_keys = foldl (\<lambda>keys ev. case ev of EV_KEY key v \<Rightarrow> keys(key := v \<noteq> 0) | _ \<Rightarrow> keys)"

text \<open>The tool that the client placed last; \<open>Pen_unchanged\<close> keeps the one before.\<close>

definition placed_tool :: "pen_call list \<Rightarrow> pen_tool_type" where
  "placed_tool calls = foldl (\<lambda>t call. case call of
       Place_tool state \<Rightarrow> if tool state = Pen_unchanged then t else tool state
     | Pen_button b is_pressed \<Rightarrow> t) Pen_unchanged calls"

definition pen_tools :: "pen_tool_type list" where
  "pen_tools = [Pen_pen, Pen_eraser, Pen_brush, Pen_pencil, Pen_airbrush]"

lemma pen_keys_append [simp]:
  "pen_keys keys [] = keys" "pen_keys keys (evs @ evs') = pen_keys (pen_keys keys evs) evs'"
  by (simp_all add: pen_keys_def)

definition tool_events :: "pen_tool_type \<Rightarrow> int \<Rightarrow> input_event list" where
  "tool_events t v = (case pen_tool_to_linux t of None \<Rightarrow> [] | Some key \<Rightarrow> [EV_KEY key v])"

definition change_events :: "pen_tool_type \<Rightarrow> uinput_pen \<Rightarrow> input_event list" where
  "change_events t d =
     (if t = Pen_unchanged \<or> t = up_last_tool d then [] else tool_events t 1 @ tool_events (up_last_tool d) 0)"

definition changed_tool :: "pen_tool_type \<Rightarrow> uinput_pen \<Rightarrow> uinput_pen" where
  "changed_tool t d = (if t = Pen_unchanged then d else d\<lparr>up_last_tool := t\<rparr>)"

context accepting_input_channel begin

lemma runs_pen_tool: "runs (emit_pen_tool emit t v) d d (tool_events t v)"
  by (auto simp: emit_pen_tool_def tool_events_def runs_Nil runs_single [OF runs_out]
      simp del: perform.simps split: option.splits)

lemma runs_update_pen_tool: "runs (update_pen_tool emit t) d (changed_tool t d) (change_events t d)"
proof (cases "t = Pen_unchanged \<or> t = up_last_tool d")
  case True
  then have "d = changed_tool t d"
    by (cases d) (auto simp: changed_tool_def)
  with True show ?thesis
    unfolding update_pen_tool_def change_events_def
    by (intro runs_on_device) (auto intro: runs_eq [OF runs_Nil] simp del: perform.simps)
next
  case False
  then show ?thesis
    unfolding update_pen_tool_def change_events_def changed_tool_def
    by (intro runs_on_device)
      (auto intro!: runs_Cons [OF runs_pen_tool] runs_eq [OF runs_Cons [OF runs_pen_tool
          runs_update_Cons [OF runs_Nil]] refl] simp del: perform.simps)
qed

lemma runs_place_tool:
  assumes "up_open d"
  shows "runs (place_tool emit u state) d (changed_tool (tool state) d)
    (change_events (tool state) d @ pen_state_events u state)"
  using runs_Cons [OF runs_update_pen_tool [of "tool state" d] runs_outs [of "pen_state_events u state"]] assms
  by (simp add: runs_def place_tool_def del: perform.simps)

lemma runs_pen_button:
  "up_open d \<Longrightarrow> runs (uinput_pen_button emit b p) d d
     [EV_KEY (pen_button_to_linux b) (if p then 1 else 0), EV_SYN]"
  using runs_outs [of "[EV_KEY (pen_button_to_linux b) (if p then 1 else 0), EV_SYN]" d]
  by (simp add: runs_def uinput_pen_button_def del: perform.simps)

end

lemma pen_state_keys: "key \<noteq> BTN_TOUCH \<Longrightarrow> pen_keys keys (pen_state_events u state) key = keys key"
  by (simp add: pen_state_events_def pen_position_events_def pen_pressure_events_def
      pen_distance_events_def pen_tilt_events_def pen_keys_def)

lemma tool_keys: "pen_keys keys (tool_events t v) =
    (case pen_tool_to_linux t of None \<Rightarrow> keys | Some key \<Rightarrow> keys(key := v \<noteq> 0))"
  by (simp add: tool_events_def pen_keys_def split: option.splits)

lemma pen_tool_inject:
  "pen_tool_to_linux t = Some key \<Longrightarrow> pen_tool_to_linux t' = Some key \<Longrightarrow> t = t'"
  by (cases t; cases t') auto

definition pen_inv :: "pen_call list \<Rightarrow> uinput_pen \<Rightarrow> input_event list \<Rightarrow> bool" where
  "pen_inv calls d evs \<longleftrightarrow> up_open d \<and> up_last_tool d = placed_tool calls \<and>
     (\<forall>t key. pen_tool_to_linux t = Some key \<longrightarrow> key \<noteq> BTN_TOUCH \<longrightarrow>
        pen_keys (\<lambda>k. False) evs key = (placed_tool calls = t))"

lemma placed_tool_snoc [simp]:
  "placed_tool (calls @ [call]) = (case call of
     Place_tool state \<Rightarrow> if tool state = Pen_unchanged then placed_tool calls else tool state
   | Pen_button b is_pressed \<Rightarrow> placed_tool calls)"
  by (cases call) (simp_all add: placed_tool_def)

lemma change_keys:
  assumes "pen_tool_to_linux x = Some key" "keys key = (up_last_tool d = x)"
  shows "pen_keys keys (change_events t d) key = ((if t = Pen_unchanged then up_last_tool d else t) = x)"
proof -
  have other: "pen_tool_to_linux t' = Some key \<longleftrightarrow> t' = x" for t'
    using pen_tool_inject [OF assms(1), of t'] assms(1) by auto
  show ?thesis
    using assms(2) other [of t] other [of "up_last_tool d"]
    by (auto simp: change_events_def tool_keys split: option.splits)
qed

lemma pen_inv_place:
  assumes "pen_inv calls d evs"
  shows "pen_inv (calls @ [Place_tool state]) (changed_tool (tool state) d)
    (evs @ change_events (tool state) d @ pen_state_events u state)"
  using assms change_keys [where d = d and t = "tool state"]
  by (auto simp: pen_inv_def changed_tool_def pen_state_keys)

lemma pen_inv_button:
  assumes "pen_inv calls d evs"
  shows "pen_inv (calls @ [Pen_button b p]) d
    (evs @ [EV_KEY (pen_button_to_linux b) (if p then 1 else 0), EV_SYN])"
proof -
  have "pen_tool_to_linux t \<noteq> Some (pen_button_to_linux b)" for t
    by (cases t; cases b) simp_all
  with assms show ?thesis
    by (auto simp: pen_inv_def pen_keys_def)
qed

lemma pen_run_snoc: "pen_run emit u (calls @ [call]) s = snd (pen_step emit u call (pen_run emit u calls s))"
  by (simp add: pen_run_def)

context accepting_input_channel begin

lemma pen_run_inv:
  "\<exists>d w' evs. pen_run emit u calls (new_uinput_pen, w) = (d, w') \<and> sent w' = sent w @ evs \<and> pen_inv calls d evs"
proof (induction calls rule: rev_induct)
  case Nil
  show ?case
    by (auto simp: pen_run_def pen_inv_def new_uinput_pen_def placed_tool_def pen_keys_def)
next
  case (snoc call calls)
  then obtain d w1 evs where 1: "pen_run emit u calls (new_uinput_pen, w) = (d, w1)"
      "sent w1 = sent w @ evs" and inv: "pen_inv calls d evs"
    by blast
  from inv have "up_open d" by (simp add: pen_inv_def)
  show ?case
  proof (cases call)
    case (Place_tool state)
    from runsE [OF runs_place_tool [OF \<open>up_open d\<close>], of u state w1] obtain status w2 where
      "place_tool emit u state (d, w1) = (status, changed_tool (tool state) d, w2)"
      "sent w2 = sent w1 @ change_events (tool state) d @ pen_state_events u state"
      by blast
    with 1 pen_inv_place [OF inv, of state u] show ?thesis
      by (auto simp: Place_tool pen_run_snoc)
  next
    case (Pen_button b p)
    from runsE [OF runs_pen_button [OF \<open>up_open d\<close>], of b p w1] obtain status w2 where
      "uinput_pen_button emit b p (d, w1) = (status, d, w2)"
      "sent w2 = sent w1 @ [EV_KEY (pen_button_to_linux b) (if p then 1 else 0), EV_SYN]"
      by blast
    with 1 pen_inv_button [OF inv, of b p] show ?thesis
      by (auto simp: Pen_button pen_run_snoc)
  qed
qed

end

text \<open>the kernel sees exactly the tool that was placed last in proximity, whatever transitions
  the client announces.\<close>

theorem pen_tool_in_proximity:
  "case pen_run (logged_write (accepting os)) u calls (new_uinput_pen, [], w) of
     (d, evs, w') \<Rightarrow>
       list_all (\<lambda>t. case pen_tool_to_linux t of
           None \<Rightarrow> False
         | Some key \<Rightarrow> pen_keys (\<lambda>k. False) evs key = (placed_tool calls = t)) pen_tools"
proof -
  obtain d w' evs where "pen_run (logged_write (accepting os)) u calls (new_uinput_pen, [], w) = (d, w')"
      "fst w' = [] @ evs" "pen_inv calls d evs"
    using accepted_input.pen_run_inv [of os u calls "([], w)"] by auto
  then show ?thesis
    by (auto simp: pen_tools_def pen_inv_def split_def)
qed

end
