(* ===== verification/LinuxGamepad.thy ===== *)
theory LinuxGamepad
  imports LinuxConfig
begin

text \<open>
  The gamepad that Linux programs see through uinput, class \<open>UinputGamepad\<close> of
  \<open>src/src/platform/linux/uhid_backend.cpp\<close>: \<open>submit\<close> normalises the state and writes every
  button and axis. \<open>evdev_keys\<close> and \<open>evdev_axes\<close> are the kernel's copy of the buttons and
  axes; after any calls it is the last state submitted.
\<close>

section \<open>Submitting a state\<close>

record uinput_gamepad =
  ug_open :: bool
  ug_profile_kind :: gamepad_profile_kind

definition button_events ::
  "button_set \<Rightarrow> (gamepad_button \<times> evdev_key) list \<Rightarrow> input_event list" where
  "button_events bs button_map =
     map (\<lambda>(b, key). EV_KEY key (if buttons_test bs b then 1 else 0)) button_map"

definition standard_face_button_map :: "(gamepad_button \<times> evdev_key) list" where
  "standard_face_button_map =
     [(Btn_a, BTN_SOUTH), (Btn_b, BTN_EAST), (Btn_x, BTN_NORTH), (Btn_y, BTN_WEST)]"

definition switch_face_button_map :: "(gamepad_button \<times> evdev_key) list" where
  "switch_face_button_map =
     [(Btn_a, BTN_EAST), (Btn_b, BTN_SOUTH), (Btn_x, BTN_NORTH), (Btn_y, BTN_WEST)]"

definition common_button_map :: "(gamepad_button \<times> evdev_key) list" where
  "common_button_map =
     [(Btn_left_shoulder, BTN_TL), (Btn_right_shoulder, BTN_TR), (Btn_back, BTN_SELECT),
      (Btn_start, BTN_START), (Btn_guide, BTN_MODE), (Btn_left_stick, BTN_THUMBL),
      (Btn_right_stick, BTN_THUMBR)]"

definition button_state_events :: "gamepad_profile_kind \<Rightarrow> button_set \<Rightarrow> input_event list" where
  "button_state_events profile_kind bs =
     button_events bs (if profile_kind = Kind_switch_pro then switch_face_button_map
                       else standard_face_button_map) @
     button_events bs common_button_map @
     (case uinput_misc1_button profile_kind of
        None \<Rightarrow> []
      | Some key \<Rightarrow> [EV_KEY key (if buttons_test bs Btn_misc1 then 1 else 0)])"

definition dpad_axis :: "button_set \<Rightarrow> gamepad_button \<Rightarrow> gamepad_button \<Rightarrow> int" where
  "dpad_axis bs negative positive =
     (if buttons_test bs negative = buttons_test bs positive then 0
      else if buttons_test bs negative then - 1 else 1)"

definition axis_state_events ::
  "(flt \<Rightarrow> int) \<Rightarrow> gamepad_profile_kind \<Rightarrow> gamepad_state \<Rightarrow> input_event list" where
  "axis_state_events u profile_kind state =
     [EV_ABS ABS_HAT0X (dpad_axis (buttons state) Btn_dpad_left Btn_dpad_right),
      EV_ABS ABS_HAT0Y (dpad_axis (buttons state) Btn_dpad_up Btn_dpad_down),
      EV_ABS ABS_X (sint (normalize_axis u (sx (left_stick state)))),
      EV_ABS ABS_Y (sint (normalize_axis u (fneg (sy (left_stick state))))),
      EV_ABS ABS_RX (sint (normalize_axis u (sx (right_stick state)))),
      EV_ABS ABS_RY (sint (normalize_axis u (fneg (sy (right_stick state)))))] @
     (if profile_kind = Kind_switch_pro
      then [EV_KEY BTN_TL2 (if fless (Fin 0) (left_trigger state) then 1 else 0),
            EV_KEY BTN_TR2 (if fless (Fin 0) (right_trigger state) then 1 else 0)]
      else [EV_ABS ABS_Z (uint (normalize_trigger u (left_trigger state))),
            EV_ABS ABS_RZ (uint (normalize_trigger u (right_trigger state)))])"

definition uinput_gamepad_submit ::
  "(input_event \<Rightarrow> 'w action) \<Rightarrow> (flt \<Rightarrow> int) \<Rightarrow> gamepad_state \<Rightarrow> (uinput_gamepad \<times> 'w) action" where
  "uinput_gamepad_submit emit u state = (\<lambda>(d, w).
     if \<not> ug_open d then (failure Err_device_closed ''uinput Xbox gamepad is closed'', d, w)
     else
       let normalized = normalize_state state in
       perform (map (out emit) (button_state_events (ug_profile_kind d) (buttons normalized) @
         axis_state_events u (ug_profile_kind d) normalized @ [EV_SYN])) (d, w))"

definition uinput_gamepad_run ::
  "(input_event \<Rightarrow> 'w action) \<Rightarrow> (flt \<Rightarrow> int) \<Rightarrow> gamepad_state list \<Rightarrow> uinput_gamepad \<times> 'w \<Rightarrow> uinput_gamepad \<times> 'w" where
  "uinput_gamepad_run emit u states s = foldl (\<lambda>s state. snd (uinput_gamepad_submit emit u state s)) s states"

section \<open>Declared events\<close>

lemma axis_range: "- 32768 \<le> sint (normalize_axis u v) \<and> sint (normalize_axis u v) \<le> 32767"
  using axis_i16_bounds clamp_axis_fin [of v] by (auto simp: sint_normalize_axis)

lemma trigger_range: "0 \<le> uint (normalize_trigger u v) \<and> uint (normalize_trigger u v) \<le> 255"
  using trigger_u8.field_bounds [of u v] by (simp add: uint_normalize_trigger)

definition gamepad_declared :: "device_profile \<Rightarrow> input_event \<Rightarrow> bool" where
  "gamepad_declared profile ev = declared (configure_evdev_gamepad profile) ev"

lemmas gamepad_configuration =
  gamepad_declared_def declared_def enabled_type_def configure_evdev_gamepad_def
  configure_evdev_gamepad_event_types_def configure_evdev_gamepad_buttons_def
  configure_evdev_gamepad_axes_def configure_evdev_gamepad_force_feedback_def Let_def

lemma gamepad_buttons_declared:
  assumes "v = 0 \<or> v = 1"
  shows "b \<in> {BTN_SOUTH, BTN_EAST, BTN_NORTH, BTN_WEST, BTN_TL, BTN_TR, BTN_SELECT, BTN_START,
      BTN_MODE, BTN_THUMBL, BTN_THUMBR} \<Longrightarrow> gamepad_declared profile (EV_KEY b v)"
    "uinput_misc1_button (gamepad_kind profile) = Some b \<Longrightarrow> gamepad_declared profile (EV_KEY b v)"
    "gamepad_kind profile = Kind_switch_pro \<Longrightarrow> b = BTN_TL2 \<or> b = BTN_TR2 \<Longrightarrow>
      gamepad_declared profile (EV_KEY b v)"
  using assms by (auto simp: gamepad_configuration)

lemma gamepad_axes_declared:
  "- 1 \<le> v \<Longrightarrow> v \<le> 1 \<Longrightarrow> gamepad_declared profile (EV_ABS ABS_HAT0X v)"
  "- 1 \<le> v \<Longrightarrow> v \<le> 1 \<Longrightarrow> gamepad_declared profile (EV_ABS ABS_HAT0Y v)"
  "- 32768 \<le> v \<Longrightarrow> v \<le> 32767 \<Longrightarrow> gamepad_declared profile (EV_ABS ABS_X v)"
  "- 32768 \<le> v \<Longrightarrow> v \<le> 32767 \<Longrightarrow> gamepad_declared profile (EV_ABS ABS_Y v)"
  "- 32768 \<le> v \<Longrightarrow> v \<le> 32767 \<Longrightarrow> gamepad_declared profile (EV_ABS ABS_RX v)"
  "- 32768 \<le> v \<Longrightarrow> v \<le> 32767 \<Longrightarrow> gamepad_declared profile (EV_ABS ABS_RY v)"
  "0 \<le> v \<Longrightarrow> v \<le> 255 \<Longrightarrow> gamepad_kind profile \<noteq> Kind_switch_pro \<Longrightarrow> gamepad_declared profile (EV_ABS ABS_Z v)"
  "0 \<le> v \<Longrightarrow> v \<le> 255 \<Longrightarrow> gamepad_kind profile \<noteq> Kind_switch_pro \<Longrightarrow> gamepad_declared profile (EV_ABS ABS_RZ v)"
  by (simp_all add: gamepad_configuration make_absinfo_def xbox_trigger_max_def)

lemma gamepad_syn_declared: "gamepad_declared profile EV_SYN"
  by (simp add: gamepad_declared_def)

lemma button_state_declared:
  "list_all (gamepad_declared profile) (button_state_events (gamepad_kind profile) bs)"
  by (simp add: button_state_events_def button_events_def standard_face_button_map_def
      switch_face_button_map_def common_button_map_def gamepad_buttons_declared split: option.splits)

lemma axis_state_declared:
  "list_all (gamepad_declared profile) (axis_state_events u (gamepad_kind profile) state)"
  by (simp add: axis_state_events_def dpad_axis_def gamepad_axes_declared gamepad_buttons_declared
      axis_range trigger_range)

lemma submit_events_declared:
  "list_all (gamepad_declared profile) (button_state_events (gamepad_kind profile) bs @
     axis_state_events u (gamepad_kind profile) state @ [EV_SYN])"
  by (simp add: button_state_declared axis_state_declared gamepad_syn_declared)

context input_channel begin

lemma sends_gamepad_submit:
  "sends (\<lambda>d. ug_profile_kind d = gamepad_kind profile) (gamepad_declared profile)
     (uinput_gamepad_submit emit u state)"
proof (rule sends_via)
  fix d :: uinput_gamepad and w
  assume d: "ug_profile_kind d = gamepad_kind profile"
  let ?evs = "button_state_events (ug_profile_kind d) (buttons (normalize_state state)) @
    axis_state_events u (ug_profile_kind d) (normalize_state state) @ [EV_SYN]"
  show "\<exists>b d'. uinput_gamepad_submit emit u state (d, w) = b (d', w) \<and>
      ug_profile_kind d' = gamepad_kind profile \<and>
      sends (\<lambda>d. ug_profile_kind d = gamepad_kind profile) (gamepad_declared profile) b"
  proof (cases "ug_open d")
    case True
    have "sends (\<lambda>d. ug_profile_kind d = gamepad_kind profile) (gamepad_declared profile)
        (perform (map (out emit) ?evs))"
      unfolding d by (intro sends_perform sends_outs submit_events_declared)
    with True d show ?thesis
      by (intro exI [of _ "perform (map (out emit) ?evs)"] exI [of _ d])
        (simp add: uinput_gamepad_submit_def Let_def)
  next
    case False
    with d show ?thesis
      by (intro exI [of _ "Pair (failure Err_device_closed ''uinput Xbox gamepad is closed'')"] exI [of _ d])
        (simp add: uinput_gamepad_submit_def sends_Pair)
  qed
qed

end

text \<open>every event of every state is declared, for every profile.\<close>

theorem gamepad_events_declared:
  "list_all (gamepad_declared profile)
    (fst (snd (uinput_gamepad_run (logged_write os) u states
       (\<lparr>ug_open = True, ug_profile_kind = gamepad_kind profile\<rparr>, [], w))))"
proof -
  have "list_all (\<lambda>state. logged.sends (\<lambda>d. ug_profile_kind d = gamepad_kind profile)
      (gamepad_declared profile) (uinput_gamepad_submit (logged_write os) u state)) states"
    by (auto simp: list_all_iff intro: input.sends_gamepad_submit)
  from logged.sends_run [OF _ this, of "\<lparr>ug_open = True, ug_profile_kind = gamepad_kind profile\<rparr>" "([], w)"]
  show ?thesis
    by (auto simp: uinput_gamepad_run_def)
qed

section \<open>The kernel's copy of the state\<close>

definition track_keys :: "(evdev_key \<Rightarrow> bool) \<Rightarrow> input_event list \<Rightarrow> evdev_key \<Rightarrow> bool" where
  "track_keys = foldl (\<lambda>keys ev. case ev of EV_KEY key v \<Rightarrow> keys(key := v \<noteq> 0) | _ \<Rightarrow> keys)"

definition track_axes :: "(abs_code \<Rightarrow> int) \<Rightarrow> input_event list \<Rightarrow> abs_code \<Rightarrow> int" where
  "track_axes = foldl (\<lambda>axes ev. case ev of EV_ABS a v \<Rightarrow> axes(a := v) | _ \<Rightarrow> axes)"

definition evdev_keys :: "input_event list \<Rightarrow> evdev_key \<Rightarrow> bool" where
  "evdev_keys evs = track_keys (\<lambda>key. False) evs"

definition evdev_axes :: "input_event list \<Rightarrow> abs_code \<Rightarrow> int" where
  "evdev_axes evs = track_axes (\<lambda>a. 0) evs"

text \<open>The kernel's conventions: the face buttons by position, up and left negative.\<close>

definition shows_state ::
  "(flt \<Rightarrow> int) \<Rightarrow> gamepad_profile_kind \<Rightarrow> gamepad_state \<Rightarrow> (evdev_key \<Rightarrow> bool) \<Rightarrow> (abs_code \<Rightarrow> int) \<Rightarrow> bool" where
  "shows_state u profile_kind state keys axes =
     (let bs = buttons state; stick_x = \<lambda>s. sint (normalize_axis u (sx s));
          stick_y = \<lambda>s. sint (normalize_axis u (fneg (sy s))) in
      list_all (\<lambda>(b, key). keys key = buttons_test bs b) (standard_face_button_map @ common_button_map) \<and>
      (case uinput_misc1_button profile_kind of
         None \<Rightarrow> True | Some key \<Rightarrow> keys key = buttons_test bs Btn_misc1) \<and>
      (axes ABS_HAT0X, axes ABS_HAT0Y) = dpad_vector bs \<and>
      axes ABS_X = stick_x (left_stick state) \<and> axes ABS_Y = stick_y (left_stick state) \<and>
      axes ABS_RX = stick_x (right_stick state) \<and> axes ABS_RY = stick_y (right_stick state) \<and>
      axes ABS_Z = uint (normalize_trigger u (left_trigger state)) \<and>
      axes ABS_RZ = uint (normalize_trigger u (right_trigger state)))"

lemma track_simps [simp]:
  "track_keys keys [] = keys" "track_axes axes [] = axes"
  "track_keys keys (EV_KEY key v # evs) = track_keys (keys(key := v \<noteq> 0)) evs"
  "track_keys keys (EV_ABS a v # evs) = track_keys keys evs"
  "track_keys keys (EV_SYN # evs) = track_keys keys evs"
  "track_axes axes (EV_ABS a v # evs) = track_axes (axes(a := v)) evs"
  "track_axes axes (EV_KEY key v # evs) = track_axes axes evs"
  "track_axes axes (EV_SYN # evs) = track_axes axes evs"
  "track_keys keys (evs @ evs') = track_keys (track_keys keys evs) evs'"
  "track_axes axes (evs @ evs') = track_axes (track_axes axes evs) evs'"
  by (simp_all add: track_keys_def track_axes_def)

lemma track_axes_buttons: "track_axes axes (button_events bs m) = axes"
  by (induction m) (auto simp: button_events_def)

lemma dpad_axes:
  "(dpad_axis bs Btn_dpad_left Btn_dpad_right, dpad_axis bs Btn_dpad_up Btn_dpad_down) = dpad_vector bs"
  by (simp add: dpad_axis_def dpad_vector_def)

definition submit_events :: "(flt \<Rightarrow> int) \<Rightarrow> gamepad_profile_kind \<Rightarrow> gamepad_state \<Rightarrow> input_event list" where
  "submit_events u profile_kind state = button_state_events profile_kind (buttons (normalize_state state)) @
     axis_state_events u profile_kind (normalize_state state) @ [EV_SYN]"

lemma submit_events_show:
  assumes "uses_uinput_gamepad_profile k"
  shows "shows_state u k (normalize_state state) (track_keys keys (submit_events u k state))
    (track_axes axes (submit_events u k state))"
proof -
  have k: "k \<noteq> Kind_switch_pro" and misc1: "uinput_misc1_button k \<in> {None, Some KEY_RECORD}"
    using assms by (auto simp: uses_uinput_gamepad_profile_def uinput_misc1_button_def)
  show ?thesis
    using misc1
    by (auto simp: submit_events_def shows_state_def button_state_events_def k Let_def
        track_axes_buttons axis_state_events_def dpad_axes)
      (simp_all add: button_events_def standard_face_button_map_def common_button_map_def)
qed

context accepting_input_channel begin

lemma runs_gamepad_submit:
  "ug_open d \<Longrightarrow> runs (uinput_gamepad_submit emit u state) d d (submit_events u (ug_profile_kind d) state)"
  using runs_outs [of "submit_events u (ug_profile_kind d) state" d]
  by (simp add: runs_def uinput_gamepad_submit_def submit_events_def Let_def)

lemma gamepad_run_sent:
  assumes "ug_open d"
  shows "\<exists>w'. uinput_gamepad_run emit u states (d, w) = (d, w') \<and>
    sent w' = sent w @ concat (map (submit_events u (ug_profile_kind d)) states)"
proof (induction states arbitrary: w)
  case Nil
  show ?case by (simp add: uinput_gamepad_run_def)
next
  case (Cons state states)
  obtain status w1 where "uinput_gamepad_submit emit u state (d, w) = (status, d, w1)"
      "sent w1 = sent w @ submit_events u (ug_profile_kind d) state"
    by (rule runsE [OF runs_gamepad_submit [OF assms]])
  with Cons.IH [of w1] show ?case
    by (auto simp: uinput_gamepad_run_def)
qed

end


end
