(* ===== verification/LinuxRumble.thy ===== *)
theory LinuxRumble
  imports Types "HOL-Library.AList" "HOL-Library.Word"
begin

text \<open>
  Force feedback of the Linux uinput gamepad, the reader of class \<open>UinputGamepad\<close> in
  \<open>src/src/platform/linux/uhid_backend.cpp\<close>: effects are uploaded and erased by requests of the
  kernel, played by events, and \<open>update_rumble\<close> sums the effects that play and reports the two
  strengths when they change. Times are nanoseconds of the steady clock, lengths milliseconds.
  \<open>wrap64\<close> is the machine's 64-bit arithmetic, which the C++ standard leaves undefined when it
  overflows; the lemmas give the end of an effect in the range where it does not, and a play for
  which it does.
\<close>

section \<open>Effects\<close>

record ff_envelope =
  attack_length :: u16
  attack_level :: u16
  fade_length :: u16
  fade_level :: u16

definition no_envelope :: ff_envelope where
  "no_envelope = \<lparr>attack_length = 0, attack_level = 0, fade_length = 0, fade_level = 0\<rparr>"

text \<open>The union of \<open>ff_effect\<close> by its type; levels are signed.\<close>

datatype ff_kind =
    Ff_rumble u16 u16
  | Ff_constant u16 ff_envelope
  | Ff_periodic u16 ff_envelope
  | Ff_ramp u16 u16 ff_envelope
  | Ff_other

text \<open>\<open>Ff_rumble\<close> has the strong magnitude first, as the kernel's structure.\<close>

record ff_effect =
  ff_id :: int
  ff_kind :: ff_kind
  replay_length :: u16
  replay_delay :: u16

record rumble_effect =
  start_weak_magnitude :: u16
  start_strong_magnitude :: u16
  end_weak_magnitude :: u16
  end_strong_magnitude :: u16
  envelope :: ff_envelope
  effect_length :: nat
  effect_delay :: nat
  effect_start :: int
  effect_end :: int
  playback_count :: int
  effect_infinite :: bool
  effect_active :: bool

definition scale_signed_magnitude :: "u16 \<Rightarrow> u16" where
  "scale_signed_magnitude v = word_of_int (min (\<bar>sint v\<bar> * 2) 65535)"

definition blank_effect :: "ff_effect \<Rightarrow> rumble_effect" where
  "blank_effect source =
     \<lparr>start_weak_magnitude = 0, start_strong_magnitude = 0, end_weak_magnitude = 0,
      end_strong_magnitude = 0, envelope = no_envelope, effect_length = unat (replay_length source),
      effect_delay = unat (replay_delay source), effect_start = 0, effect_end = 0,
      playback_count = 1, effect_infinite = (replay_length source = 0), effect_active = False\<rparr>"

definition with_magnitudes :: "u16 \<Rightarrow> u16 \<Rightarrow> u16 \<Rightarrow> u16 \<Rightarrow> rumble_effect \<Rightarrow> rumble_effect" where
  "with_magnitudes sw ss ew es e =
     e\<lparr>start_weak_magnitude := sw, start_strong_magnitude := ss, end_weak_magnitude := ew,
       end_strong_magnitude := es\<rparr>"

definition normalize_rumble_effect :: "ff_effect \<Rightarrow> rumble_effect option" where
  "normalize_rumble_effect source =
     (let e = blank_effect source in
      case ff_kind source of
        Ff_rumble strong weak \<Rightarrow> Some (with_magnitudes weak strong weak strong e)
      | Ff_constant level env \<Rightarrow>
          (let m = scale_signed_magnitude level in Some ((with_magnitudes m m m m e)\<lparr>envelope := env\<rparr>))
      | Ff_periodic magnitude env \<Rightarrow>
          (let m = scale_signed_magnitude magnitude in Some ((with_magnitudes m m m m e)\<lparr>envelope := env\<rparr>))
      | Ff_ramp start_level end_level env \<Rightarrow>
          (let s = scale_signed_magnitude start_level; t = scale_signed_magnitude end_level
           in Some ((with_magnitudes s s t t e)\<lparr>envelope := env\<rparr>))
      | Ff_other \<Rightarrow> None)"

section \<open>Time\<close>

definition wrap64 :: "int \<Rightarrow> int" where
  "wrap64 v = signed_take_bit 63 v"

definition ns_per_ms :: int where "ns_per_ms = 1000000"

definition rumble_effect_end :: "rumble_effect \<Rightarrow> int" where
  "rumble_effect_end e =
     (if effect_infinite e then 2 ^ 63 - 1
      else wrap64 (effect_start e + int (effect_length e) * playback_count e * ns_per_ms))"

definition rumble_effect_cycle_timing :: "nat \<Rightarrow> nat \<Rightarrow> nat \<times> nat" where
  "rumble_effect_cycle_timing elapsed duration =
     (if duration = 0 then (elapsed, 2 ^ 64 - 1)
      else let cycle_elapsed = elapsed mod duration in (cycle_elapsed, duration - cycle_elapsed))"

section \<open>Magnitudes\<close>

definition interpolate_magnitude :: "u16 \<Rightarrow> u16 \<Rightarrow> nat \<Rightarrow> nat \<Rightarrow> u16" where
  "interpolate_magnitude a b elapsed duration =
     (if duration = 0 \<or> duration \<le> elapsed then b
      else word_of_nat ((unat a * (duration - elapsed) + unat b * elapsed) div duration))"

definition apply_envelope :: "u16 \<Rightarrow> ff_envelope \<Rightarrow> nat \<Rightarrow> nat \<Rightarrow> u16" where
  "apply_envelope magnitude env elapsed remaining =
     (if 0 < attack_length env \<and> elapsed < unat (attack_length env)
      then interpolate_magnitude (attack_level env) magnitude elapsed (unat (attack_length env))
      else if 0 < fade_length env \<and> remaining < unat (fade_length env)
      then interpolate_magnitude (fade_level env) magnitude remaining (unat (fade_length env))
      else magnitude)"

text \<open>The pair is weak, strong; \<open>duration_cast\<close> truncates towards zero.\<close>

definition rumble_magnitudes :: "rumble_effect \<Rightarrow> int \<Rightarrow> u16 \<times> u16" where
  "rumble_magnitudes e now =
     (let elapsed = nat ((now - effect_start e) div ns_per_ms) in
      if effect_infinite e
      then (apply_envelope (start_weak_magnitude e) (envelope e) elapsed (2 ^ 64 - 1),
            apply_envelope (start_strong_magnitude e) (envelope e) elapsed (2 ^ 64 - 1))
      else
        let (cycle_elapsed, cycle_remaining) = rumble_effect_cycle_timing elapsed (effect_length e);
            weak = interpolate_magnitude (start_weak_magnitude e) (end_weak_magnitude e)
              cycle_elapsed (effect_length e);
            strong = interpolate_magnitude (start_strong_magnitude e) (end_strong_magnitude e)
              cycle_elapsed (effect_length e)
        in (apply_envelope weak (envelope e) cycle_elapsed cycle_remaining,
            apply_envelope strong (envelope e) cycle_elapsed cycle_remaining))"

section \<open>The reader\<close>

record rumble_reader =
  rumble_effects :: "(int \<times> rumble_effect) list"
  rumble_gain :: u16
  last_low_frequency :: u16
  last_high_frequency :: u16

definition new_rumble_reader :: rumble_reader where
  "new_rumble_reader = \<lparr>rumble_effects = [], rumble_gain = 65535, last_low_frequency = 0,
     last_high_frequency = 0\<rparr>"

text \<open>The kernel's answers to \<open>UI_BEGIN_FF_UPLOAD\<close> and \<open>UI_BEGIN_FF_ERASE\<close> for a request
  number; \<open>None\<close> is a failed \<open>ioctl\<close>.\<close>

record ff_requests =
  begin_upload :: "int \<Rightarrow> ff_effect option"
  begin_erase :: "int \<Rightarrow> int option"

definition upload_rumble_effect :: "ff_requests \<Rightarrow> int \<Rightarrow> rumble_reader \<Rightarrow> rumble_reader" where
  "upload_rumble_effect reqs request_id r =
     (case begin_upload reqs request_id of
        None \<Rightarrow> r
      | Some source \<Rightarrow>
          (case normalize_rumble_effect source of
             None \<Rightarrow> r
           | Some e \<Rightarrow>
               (let e = (case map_of (rumble_effects r) (ff_id source) of
                    None \<Rightarrow> e
                  | Some old \<Rightarrow>
                      if effect_active old
                      then (let e = e\<lparr>effect_active := True, effect_start := effect_start old,
                                playback_count := playback_count old\<rparr>
                            in e\<lparr>effect_end := rumble_effect_end e\<rparr>)
                      else e\<lparr>effect_active := False\<rparr>)
                in r\<lparr>rumble_effects := AList.update (ff_id source) e (rumble_effects r)\<rparr>)))"

definition erase_rumble_effect :: "ff_requests \<Rightarrow> int \<Rightarrow> rumble_reader \<Rightarrow> rumble_reader" where
  "erase_rumble_effect reqs request_id r =
     (case begin_erase reqs request_id of
        None \<Rightarrow> r
      | Some i \<Rightarrow> r\<lparr>rumble_effects := AList.delete i (rumble_effects r)\<rparr>)"

datatype output_event = Uinput_upload int | Uinput_erase int | Ff_event int int | Other_event

definition ff_gain_code :: int where "ff_gain_code = 96"

definition play_effect :: "int \<Rightarrow> int \<Rightarrow> rumble_effect \<Rightarrow> rumble_effect" where
  "play_effect now v e =
     (if v \<le> 0 then e\<lparr>effect_active := False\<rparr>
      else let e = e\<lparr>effect_active := True, effect_start := now + int (effect_delay e) * ns_per_ms,
                     playback_count := max v 1\<rparr>
           in e\<lparr>effect_end := rumble_effect_end e\<rparr>)"

definition handle_output_event ::
  "ff_requests \<Rightarrow> int \<Rightarrow> output_event \<Rightarrow> rumble_reader \<Rightarrow> rumble_reader" where
  "handle_output_event reqs now ev r =
     (case ev of
        Uinput_upload request_id \<Rightarrow> upload_rumble_effect reqs request_id r
      | Uinput_erase request_id \<Rightarrow> erase_rumble_effect reqs request_id r
      | Other_event \<Rightarrow> r
      | Ff_event ev_code v \<Rightarrow>
          if ev_code = ff_gain_code
          then r\<lparr>rumble_gain := word_of_int (if v < 0 then 0 else if 65535 < v then 65535 else v)\<rparr>
          else case map_of (rumble_effects r) ev_code of
            None \<Rightarrow> r
          | Some e \<Rightarrow> r\<lparr>rumble_effects := AList.update ev_code (play_effect now v e) (rumble_effects r)\<rparr>)"

definition dispatch_rumble :: "u16 \<Rightarrow> u16 \<Rightarrow> rumble_reader \<Rightarrow> gamepad_output list \<times> rumble_reader" where
  "dispatch_rumble low high r =
     (if last_low_frequency r = low \<and> last_high_frequency r = high then ([], r)
      else ([default_output\<lparr>kind := Out_rumble, low_frequency_rumble := low, high_frequency_rumble := high\<rparr>],
            r\<lparr>last_low_frequency := low, last_high_frequency := high\<rparr>))"

text \<open>One effect in the loop of \<open>update_rumble\<close>: the effect afterwards and what it adds.\<close>

definition update_rumble_effect :: "int \<Rightarrow> rumble_effect \<Rightarrow> rumble_effect \<times> nat \<times> nat" where
  "update_rumble_effect now e =
     (if \<not> effect_active e \<or> now < effect_start e then (e, 0, 0)
      else if \<not> effect_infinite e \<and> effect_end e \<le> now then (e\<lparr>effect_active := False\<rparr>, 0, 0)
      else let (weak, strong) = rumble_magnitudes e now in (e, unat weak, unat strong))"

definition scale_by_gain :: "nat \<Rightarrow> u16 \<Rightarrow> u16" where
  "scale_by_gain s gain = word_of_nat (min s 65535 * unat gain div 65535)"

definition update_rumble :: "int \<Rightarrow> rumble_reader \<Rightarrow> gamepad_output list \<times> rumble_reader" where
  "update_rumble now r =
     (let updated = map (\<lambda>(i, e). (i, update_rumble_effect now e)) (rumble_effects r);
          weak = sum_list (map (\<lambda>(i, e, w, s). w) updated);
          strong = sum_list (map (\<lambda>(i, e, w, s). s) updated);
          r = r\<lparr>rumble_effects := map (\<lambda>(i, e, w, s). (i, e)) updated\<rparr>
      in dispatch_rumble (scale_by_gain strong (rumble_gain r)) (scale_by_gain weak (rumble_gain r)) r)"

definition close_reader :: "rumble_reader \<Rightarrow> gamepad_output list \<times> rumble_reader" where
  "close_reader r = dispatch_rumble 0 0 r"

datatype reader_step = Output_event output_event | Update

definition reader_step ::
  "ff_requests \<Rightarrow> int \<times> reader_step \<Rightarrow> rumble_reader \<Rightarrow> gamepad_output list \<times> rumble_reader" where
  "reader_step reqs = (\<lambda>(now, step) r. case step of
     Output_event ev \<Rightarrow> ([], handle_output_event reqs now ev r)
   | Update \<Rightarrow> update_rumble now r)"

definition reader_run ::
  "ff_requests \<Rightarrow> (int \<times> reader_step) list \<Rightarrow> rumble_reader \<Rightarrow> gamepad_output list \<times> rumble_reader" where
  "reader_run reqs steps r =
     foldl (\<lambda>(outs, r) step. let (outs', r) = reader_step reqs step r in (outs @ outs', r)) ([], r) steps"

lemma reader_run_simps [simp]:
  "reader_run reqs [] r = ([], r)"
  "reader_run reqs (steps @ [step]) r =
     (let (outs, r) = reader_run reqs steps r; (outs', r) = reader_step reqs step r in (outs @ outs', r))"
  by (simp_all add: reader_run_def split_def Let_def)

section \<open>What is reported\<close>

definition strengths :: "gamepad_output \<Rightarrow> u16 \<times> u16" where
  "strengths out = (low_frequency_rumble out, high_frequency_rumble out)"

definition last_strengths :: "rumble_reader \<Rightarrow> u16 \<times> u16" where
  "last_strengths r = (last_low_frequency r, last_high_frequency r)"

lemma scale_by_gain_le: "scale_by_gain s gain \<le> gain"
proof -
  have "min s 65535 * unat gain div 65535 \<le> 65535 * unat gain div 65535"
    by (intro div_le_mono mult_le_mono1) simp
  then have "min s 65535 * unat gain div 65535 \<le> unat gain" by simp
  moreover have "unat gain < 65536"
    using unsigned_less [of gain, where 'a = nat] by simp
  ultimately show ?thesis
    unfolding scale_by_gain_def word_le_nat_alt by (simp add: unat_of_nat)
qed

lemma dispatch_rumble_cases:
  "dispatch_rumble low high r = (outs, r') \<Longrightarrow> last_strengths r' = (low, high) \<and> rumble_gain r' = rumble_gain r \<and>
     rumble_effects r' = rumble_effects r \<and>
     map strengths outs = (if last_strengths r = (low, high) then [] else [(low, high)])"
  by (auto simp: dispatch_rumble_def last_strengths_def strengths_def split: if_splits)

definition weak_total :: "int \<Rightarrow> rumble_reader \<Rightarrow> nat" where
  "weak_total now r = sum_list (map (\<lambda>(i, e). fst (snd (update_rumble_effect now e))) (rumble_effects r))"

definition strong_total :: "int \<Rightarrow> rumble_reader \<Rightarrow> nat" where
  "strong_total now r = sum_list (map (\<lambda>(i, e). snd (snd (update_rumble_effect now e))) (rumble_effects r))"

definition updated_effects :: "int \<Rightarrow> rumble_reader \<Rightarrow> (int \<times> rumble_effect) list" where
  "updated_effects now r = map (\<lambda>(i, e). (i, fst (update_rumble_effect now e))) (rumble_effects r)"

lemma update_rumble_eq:
  "update_rumble now r = dispatch_rumble (scale_by_gain (strong_total now r) (rumble_gain r))
     (scale_by_gain (weak_total now r) (rumble_gain r)) (r\<lparr>rumble_effects := updated_effects now r\<rparr>)"
  by (simp add: update_rumble_def weak_total_def strong_total_def updated_effects_def Let_def split_def comp_def)

lemma update_rumble_result:
  assumes "update_rumble now r = (outs, r')"
  shows "last_strengths r' = (scale_by_gain (strong_total now r) (rumble_gain r),
      scale_by_gain (weak_total now r) (rumble_gain r)) \<and> rumble_gain r' = rumble_gain r \<and>
    rumble_effects r' = updated_effects now r \<and>
    map strengths outs = (if last_strengths r = last_strengths r' then [] else [last_strengths r'])"
  using dispatch_rumble_cases [OF assms [unfolded update_rumble_eq]]
  by (auto simp: last_strengths_def)

lemma handle_keeps_strengths: "last_strengths (handle_output_event reqs now ev r) = last_strengths r"
  by (auto simp: handle_output_event_def upload_rumble_effect_def erase_rumble_effect_def
      last_strengths_def Let_def split: output_event.splits option.splits)

text \<open>The reported strengths, from silence on, have no repetition and end in the last ones.\<close>

definition reports_changes :: "gamepad_output list \<times> rumble_reader \<Rightarrow> bool" where
  "reports_changes = (\<lambda>(outs, r). let reported = (0, 0) # map strengths outs in
     distinct_adj reported \<and> last reported = last_strengths r)"

lemma distinct_adj_snoc: "xs \<noteq> [] \<Longrightarrow> distinct_adj (xs @ [x]) \<longleftrightarrow> distinct_adj xs \<and> last xs \<noteq> x"
  by (induction xs rule: induct_list012) auto

lemma reports_changes_step:
  assumes "reports_changes (outs, r)" "reader_step reqs step r = (outs', r')"
  shows "reports_changes (outs @ outs', r')"
proof (cases "snd step")
  case (Output_event ev)
  with assms show ?thesis
    by (auto simp: reader_step_def reports_changes_def handle_keeps_strengths Let_def split_def)
next
  case Update
  then have "update_rumble (fst step) r = (outs', r')"
    using assms(2) by (simp add: reader_step_def split_def)
  with assms(1) show ?thesis
    using distinct_adj_snoc [of "(0, 0) # map strengths outs" "last_strengths r'"]
    by (auto simp: reports_changes_def Let_def dest!: update_rumble_result split: if_splits)
qed

lemma reader_run_reports: "reports_changes (reader_run reqs steps new_rumble_reader)"
proof (induction steps rule: rev_induct)
  case Nil
  show ?case
    by (simp add: reports_changes_def new_rumble_reader_def last_strengths_def)
next
  case (snoc step steps)
  then show ?case
    using reports_changes_step [of "fst (reader_run reqs steps new_rumble_reader)"
        "snd (reader_run reqs steps new_rumble_reader)" reqs step]
    by (simp add: split_def Let_def)
qed

text \<open>the client hears every change and no repetition, and no strength exceeds the gain.\<close>

theorem rumble_reports_sound:
  "case reader_run reqs (steps @ [(now, Update)]) new_rumble_reader of
     (outs, r) \<Rightarrow>
       distinct_adj ((0, 0) # map strengths outs) \<and> last ((0, 0) # map strengths outs) = last_strengths r \<and>
       last_low_frequency r \<le> rumble_gain r \<and> last_high_frequency r \<le> rumble_gain r"
proof -
  obtain outs0 r0 where 0: "reader_run reqs steps new_rumble_reader = (outs0, r0)" by fastforce
  obtain outs' r where 1: "update_rumble now r0 = (outs', r)" by fastforce
  have run: "reader_run reqs (steps @ [(now, Update)]) new_rumble_reader = (outs0 @ outs', r)"
    by (simp add: 0 1 reader_step_def)
  have "last_low_frequency r \<le> rumble_gain r \<and> last_high_frequency r \<le> rumble_gain r"
    using update_rumble_result [OF 1] by (simp add: last_strengths_def scale_by_gain_le)
  moreover have "reports_changes (outs0 @ outs', r)"
    using reader_run_reports [of reqs "steps @ [(now, Update)]"] by (simp only: run)
  ultimately show ?thesis
    unfolding run by (simp add: reports_changes_def Let_def)
qed

section \<open>The life of an effect\<close>

lemma interpolate_same: "interpolate_magnitude m m elapsed duration = m"
proof (cases "duration = 0 \<or> duration \<le> elapsed")
  case False
  then have "unat m * (duration - elapsed) + unat m * elapsed = unat m * duration"
    by (simp add: add_mult_distrib2 [symmetric])
  with False show ?thesis
    by (simp add: interpolate_magnitude_def)
qed (simp add: interpolate_magnitude_def)

lemma apply_no_envelope: "apply_envelope m no_envelope elapsed remaining = m"
  by (simp add: apply_envelope_def no_envelope_def)

text \<open>A plain rumble effect that plays from \<open>a\<close> to \<open>b\<close>.\<close>

definition plays_between :: "u16 \<Rightarrow> u16 \<Rightarrow> nat \<Rightarrow> int \<Rightarrow> int \<Rightarrow> rumble_effect \<Rightarrow> bool" where
  "plays_between strong weak duration a b e \<longleftrightarrow>
     start_weak_magnitude e = weak \<and> end_weak_magnitude e = weak \<and> start_strong_magnitude e = strong \<and>
     end_strong_magnitude e = strong \<and> envelope e = no_envelope \<and> effect_length e = duration \<and>
     \<not> effect_infinite e \<and> effect_start e = a \<and> effect_end e = b"

lemma update_plays_between:
  assumes "plays_between strong weak duration a b e" "effect_active e \<or> b \<le> now" "0 < duration"
  shows "plays_between strong weak duration a b (fst (update_rumble_effect now e)) \<and>
    (effect_active (fst (update_rumble_effect now e)) \<or> b \<le> now) \<and>
    snd (update_rumble_effect now e) = (if a \<le> now \<and> now < b then (unat weak, unat strong) else (0, 0))"
  using assms
  by (auto simp: plays_between_def update_rumble_effect_def rumble_magnitudes_def rumble_effect_cycle_timing_def
      interpolate_same apply_no_envelope Let_def)

lemma updates_follow:
  assumes "rumble_effects r = [(i, e)]" "plays_between strong weak duration a b e" "0 < duration"
    and "effect_active e \<or> b \<le> t0" "sorted (t0 # ts)" "ts \<noteq> []"
  shows "last_strengths (snd (reader_run reqs (map (\<lambda>t. (t, Update)) ts) r)) =
    (if a \<le> last ts \<and> last ts < b then (scale_by_gain (unat strong) (rumble_gain r), scale_by_gain (unat weak) (rumble_gain r))
     else (0, 0))"
proof -
  have "\<exists>e'. rumble_effects (snd (reader_run reqs (map (\<lambda>t. (t, Update)) ts) r)) = [(i, e')] \<and>
      plays_between strong weak duration a b e' \<and> (effect_active e' \<or> b \<le> last (t0 # ts)) \<and>
      rumble_gain (snd (reader_run reqs (map (\<lambda>t. (t, Update)) ts) r)) = rumble_gain r \<and>
      (ts \<noteq> [] \<longrightarrow> last_strengths (snd (reader_run reqs (map (\<lambda>t. (t, Update)) ts) r)) =
        (if a \<le> last ts \<and> last ts < b
         then (scale_by_gain (unat strong) (rumble_gain r), scale_by_gain (unat weak) (rumble_gain r)) else (0, 0)))"
    using assms(5)
  proof (induction ts rule: rev_induct)
    case Nil
    show ?case using assms(1,2,4) by auto
  next
    case (snoc t ts)
    let ?r = "snd (reader_run reqs (map (\<lambda>t. (t, Update)) ts) r)"
    from snoc obtain e' where e': "rumble_effects ?r = [(i, e')]" "plays_between strong weak duration a b e'"
        "effect_active e' \<or> b \<le> last (t0 # ts)" "rumble_gain ?r = rumble_gain r"
      by (auto simp: sorted_append)
    have "last (t0 # ts) \<le> t"
      using snoc.prems by (cases ts rule: rev_cases) (auto simp: sorted_append)
    with e'(3) have "effect_active e' \<or> b \<le> t" by auto
    from update_plays_between [OF e'(2) this assms(3)]
    have u: "plays_between strong weak duration a b (fst (update_rumble_effect t e'))"
        "effect_active (fst (update_rumble_effect t e')) \<or> b \<le> t"
        "snd (update_rumble_effect t e') = (if a \<le> t \<and> t < b then (unat weak, unat strong) else (0, 0))"
      by auto
    obtain outs r' where r': "update_rumble t ?r = (outs, r')" by fastforce
    have "snd (reader_run reqs (map (\<lambda>t. (t, Update)) (ts @ [t])) r) = r'"
      using r' by (simp add: reader_step_def Let_def split_def)
    with update_rumble_result [OF r'] u e'(1,4) show ?case
      by (auto simp: updated_effects_def weak_total_def strong_total_def scale_by_gain_def)
  qed
  with assms(6) show ?thesis by blast
qed

lemma wrap64_id: "0 \<le> v \<Longrightarrow> v < 2 ^ 63 \<Longrightarrow> wrap64 v = v"
  by (simp add: wrap64_def signed_take_bit_int_eq_self)



lemma wrap64_mod: "wrap64 v = (v + 2 ^ 63) mod 2 ^ 64 - 2 ^ 63"
  by (simp add: wrap64_def signed_take_bit_eq_take_bit_shift take_bit_eq_mod)

text \<open>an effect of five seconds that is played the greatest number of times is over at once.\<close>

theorem rumble_repeat_overflows:
  "let reqs = \<lparr>begin_upload = (\<lambda>q. Some \<lparr>ff_id = 0, ff_kind = Ff_rumble 40000 20000, replay_length = 5000,
         replay_delay = 0\<rparr>), begin_erase = (\<lambda>q. None)\<rparr>;
       play = (\<lambda>n. [(0, Output_event (Uinput_upload 7)), (0, Output_event (Ff_event 0 n)), (1000000, Update)]) in
   fst (reader_run reqs (play (2 ^ 31 - 1)) new_rumble_reader) = [] \<and>
   map strengths (fst (reader_run reqs (play 1000) new_rumble_reader)) = [(40000, 20000)]"
  by (simp add: Let_def reader_run_def reader_step_def handle_output_event_def upload_rumble_effect_def
      normalize_rumble_effect_def new_rumble_reader_def ff_gain_code_def play_effect_def with_magnitudes_def
      blank_effect_def rumble_effect_end_def ns_per_ms_def wrap64_mod update_rumble_eq updated_effects_def
      weak_total_def strong_total_def update_rumble_effect_def rumble_magnitudes_def rumble_effect_cycle_timing_def
      interpolate_same apply_no_envelope dispatch_rumble_def scale_by_gain_def strengths_def)

end
