(* ===== verification/LinuxUhidCreate.thy ===== *)
theory LinuxUhidCreate
  imports Devices PlayStationFeature XboxBluetooth
begin

text \<open>
  How a Linux HID gamepad presents itself, the first half of class \<open>UhidGamepad\<close> of
  \<open>src/src/platform/linux/uhid_backend.cpp\<close> and the functions it uses: the profile of the
  transport, names and identifiers, the Bluetooth address a client may choose, and the
  \<open>UHID_CREATE2\<close> request. \<open>extract_hex\<close> is the formatted input of a hexadecimal \<open>unsigned int\<close>
  from a stream.
\<close>

section \<open>The transport\<close>

definition is_playstation_profile :: "gamepad_profile_kind \<Rightarrow> bool" where
  "is_playstation_profile k \<longleftrightarrow> k = Kind_dualshock4 \<or> k = Kind_dualsense"

definition is_xbox_uhid_profile :: "gamepad_profile_kind \<Rightarrow> bool" where
  "is_xbox_uhid_profile k \<longleftrightarrow> k = Kind_xbox_one \<or> k = Kind_xbox_series"

definition prefers_uhid_gamepad_profile :: "gamepad_profile_kind \<Rightarrow> bool" where
  "prefers_uhid_gamepad_profile k \<longleftrightarrow>
     k \<in> {Kind_switch_pro, Kind_dualshock4, Kind_dualsense, Kind_xbox_one, Kind_xbox_series}"

definition xbox_wireless_uinput_product_id :: u16 where "xbox_wireless_uinput_product_id = 0x0B20"
definition xbox_series_uinput_product_id :: u16 where "xbox_series_uinput_product_id = 0x0B13"
definition xbox_bluetooth_version :: u16 where "xbox_bluetooth_version = 0x0513"
definition uhid_xbox_input_report_id :: u8 where "uhid_xbox_input_report_id = 0x01"
definition xbox_bluetooth_input_report_size :: nat where "xbox_bluetooth_input_report_size = 17"
definition xbox_bluetooth_rumble_report_size :: nat where "xbox_bluetooth_rumble_report_size = 9"
definition uhid_xbox_battery_report_id :: u8 where "uhid_xbox_battery_report_id = 0x04"
definition xbox_bluetooth_battery_report_size :: nat where "xbox_bluetooth_battery_report_size = 2"

definition uhid_transport_profile :: "device_profile \<Rightarrow> bool \<Rightarrow> device_profile" where
  "uhid_transport_profile requested include_battery =
     (if is_xbox_uhid_profile (gamepad_kind requested)
      then requested\<lparr>bus_type := Bus_bluetooth,
        product_id := (if gamepad_kind requested = Kind_xbox_series
                       then xbox_series_uinput_product_id else xbox_wireless_uinput_product_id),
        version := xbox_bluetooth_version,
        report_id := uhid_xbox_input_report_id,
        input_report_size := xbox_bluetooth_input_report_size,
        output_report_size := xbox_bluetooth_rumble_report_size,
        report_descriptor := make_xbox_bluetooth_report_descriptor include_battery\<rparr>
      else requested)"

definition make_xbox_bluetooth_battery_report :: "gamepad_battery \<Rightarrow> bytes option" where
  "make_xbox_bluetooth_battery_report b =
     (let percent = min (percentage b) 100;
          level = (if percent \<le> 25 then 0 else if percent \<le> 55 then 1 else if percent \<le> 85 then 2 else 3)
      in do {
        r \<leftarrow> put (replicate xbox_bluetooth_battery_report_size 0) 0 uhid_xbox_battery_report_id;
        put r 1 (0x04 OR level) })"

text \<open>\<open>BUS_USB\<close> and \<open>BUS_BLUETOOTH\<close> of \<open>linux/input.h\<close>.\<close>

definition BUS_USB :: u16 where "BUS_USB = 3"
definition BUS_BLUETOOTH :: u16 where "BUS_BLUETOOTH = 5"

definition to_uhid_bus :: "bus_type \<Rightarrow> u16" where
  "to_uhid_bus b = (if b = Bus_bluetooth then BUS_BLUETOOTH else BUS_USB)"

definition uhid_profile_bus :: "device_profile \<Rightarrow> u16" where
  "uhid_profile_bus p =
     (if gamepad_kind p = Kind_switch_pro \<or> is_xbox_uhid_profile (gamepad_kind p)
      then BUS_BLUETOOTH else to_uhid_bus (bus_type p))"

definition uhid_vendor_id :: "device_profile \<Rightarrow> u32" where
  "uhid_vendor_id p =
     (if is_xbox_uhid_profile (gamepad_kind p) then 0x00010000 OR ucast (vendor_id p)
      else ucast (vendor_id p))"

definition uhid_gamepad_name :: "device_profile \<Rightarrow> string" where
  "uhid_gamepad_name p =
     (if is_playstation_profile (gamepad_kind p) then ''Wireless Controller'' else profile_name p)"

text \<open>\<open>{:04x}\<close> of a 16-bit number.\<close>

definition hex4 :: "u16 \<Rightarrow> string" where
  "hex4 v = map (\<lambda>k. digit_char False (unat v div 16 ^ k mod 16)) [3, 2, 1, 0]"

definition uhid_profile_scoped_id :: "device_profile \<Rightarrow> string \<Rightarrow> string" where
  "uhid_profile_scoped_id p stable_id =
     hex4 (vendor_id p) @ '':'' @ hex4 (product_id p) @ ''/'' @ stable_id"

definition uhid_physical_id :: "device_profile \<Rightarrow> u64 \<Rightarrow> string" where
  "uhid_physical_id p i =
     ''libvirtualhid/uhid/'' @ hex4 (vendor_id p) @ '':'' @ hex4 (product_id p) @ ''/'' @ show_nat (unat i)"

section \<open>Addresses\<close>

definition uhid_generated_mac_address :: "u64 \<Rightarrow> bytes" where
  "uhid_generated_mac_address i =
     [0x02, 0x00, ucast (drop_bit 24 i AND 0xFF), ucast (drop_bit 16 i AND 0xFF),
      ucast (drop_bit 8 i AND 0xFF), ucast (i AND 0xFF)]"

definition is_space :: "char \<Rightarrow> bool" where
  "is_space c \<longleftrightarrow> (let n = of_char c :: nat in n = 32 \<or> 9 \<le> n \<and> n \<le> 13)"

text \<open>The characters the conversion takes: a sign, the prefix, digits. A number that does not fit
  32 bits fails, a negative one is reduced; \<open>None\<close> is a failed stream.\<close>

definition hex_prefix :: "string \<Rightarrow> string" where
  "hex_prefix str = (case str of
     a # b # rest \<Rightarrow> if a = CHR ''0'' \<and> (b = CHR ''x'' \<or> b = CHR ''X'') then rest else str
   | _ \<Rightarrow> str)"

definition extract_hex :: "string \<Rightarrow> (nat \<times> string) option" where
  "extract_hex str =
     (let str = dropWhile is_space str;
          negative = (case str of c # _ \<Rightarrow> c = CHR ''-'' | [] \<Rightarrow> False);
          str = (case str of c # rest \<Rightarrow> if c = CHR ''-'' \<or> c = CHR ''+'' then rest else str | [] \<Rightarrow> []);
          str = hex_prefix str;
          digits = takeWhile (\<lambda>c. hex_digit c \<noteq> None) str;
          v = foldl (\<lambda>v c. 16 * v + (case hex_digit c of Some d \<Rightarrow> unat d | None \<Rightarrow> 0)) 0 digits
      in if digits = [] \<or> 2 ^ 32 \<le> v then None
         else Some (if negative then (2 ^ 32 - v) mod 2 ^ 32 else v,
                    dropWhile (\<lambda>c. hex_digit c \<noteq> None) str))"

text \<open>The loop for the next \<open>n\<close> bytes.\<close>

fun uhid_parse_mac_bytes :: "nat \<Rightarrow> string \<Rightarrow> bytes option" where
  "uhid_parse_mac_bytes 0 str = Some []"
| "uhid_parse_mac_bytes (Suc n) str =
     (case extract_hex str of
        None \<Rightarrow> None
      | Some (v, str) \<Rightarrow>
          if 0xFF < v then None
          else if n = 0 then Some [word_of_nat v]
          else case dropWhile is_space str of
            [] \<Rightarrow> None
          | c # str \<Rightarrow>
              if c \<noteq> CHR '':'' then None
              else map_option (\<lambda>rest. word_of_nat v # rest) (uhid_parse_mac_bytes n str))"

definition uhid_parse_mac_address :: "string \<Rightarrow> bytes option" where
  "uhid_parse_mac_address str = uhid_parse_mac_bytes 6 str"

definition hex2 :: "u8 \<Rightarrow> string" where
  "hex2 b = [digit_char False (unat b div 16), digit_char False (unat b mod 16)]"

definition format_mac_address :: "bytes \<Rightarrow> string" where
  "format_mac_address mac =
     concat (map (\<lambda>i. (if i \<noteq> 0 then '':'' else []) @ hex2 (mac ! i)) [0..<length mac])"

section \<open>The request\<close>

definition UHID_DATA_MAX :: nat where "UHID_DATA_MAX = 4096"
definition HID_MAX_DESCRIPTOR_SIZE :: nat where "HID_MAX_DESCRIPTOR_SIZE = 4096"

record uhid_create2 =
  rq_name :: bytes
  rq_phys :: bytes
  rq_uniq :: bytes
  rq_rd_size :: u16
  rq_bus :: u16
  rq_vendor :: u32
  rq_product :: u32
  rq_version :: u32
  rq_rd_data :: bytes

definition uhid_copy_string :: "bytes \<Rightarrow> string \<Rightarrow> bytes option" where
  "uhid_copy_string destination source =
     (let n = min (length source) (length destination - 1)
      in do { d \<leftarrow> splice destination 0 (map of_char (take n source)); put d n 0 })"

text \<open>What the device keeps of its creation.\<close>

record uhid_identity =
  id_device_name :: string
  id_physical_id :: string
  id_unique_id :: string
  id_mac_address :: bytes

definition uhid_identify :: "u64 \<Rightarrow> create_gamepad_options \<Rightarrow> uhid_identity" where
  "uhid_identify i options =
     (let p = uhid_transport_profile (gamepad_profile options) (has_battery (metadata options));
          given = gamepad_stable_id (metadata options);
          stable_id = (if given = [] then show_nat (unat i) else given);
          mac = (case uhid_parse_mac_address given of
                   Some mac \<Rightarrow> mac | None \<Rightarrow> uhid_generated_mac_address i)
      in \<lparr>id_device_name = uhid_gamepad_name p,
          id_physical_id = uhid_physical_id p i,
          id_unique_id = (if is_playstation_profile (gamepad_kind p) then format_mac_address mac
                          else uhid_profile_scoped_id p stable_id),
          id_mac_address = (if is_playstation_profile (gamepad_kind p) then mac
                            else replicate 6 0)\<rparr>)"

definition uhid_create_request :: "u64 \<Rightarrow> create_gamepad_options \<Rightarrow> uhid_create2 option" where
  "uhid_create_request i options =
     (let p = uhid_transport_profile (gamepad_profile options) (has_battery (metadata options));
          ident = uhid_identify i options
      in do {
        name \<leftarrow> uhid_copy_string (replicate 128 0) (id_device_name ident);
        phys \<leftarrow> uhid_copy_string (replicate 64 0) (id_physical_id ident);
        uniq \<leftarrow> uhid_copy_string (replicate 64 0) (id_unique_id ident);
        rd_data \<leftarrow> splice (replicate HID_MAX_DESCRIPTOR_SIZE 0) 0 (report_descriptor p);
        Some \<lparr>rq_name = name, rq_phys = phys, rq_uniq = uniq,
          rq_rd_size = word_of_nat (length (report_descriptor p)),
          rq_bus = uhid_profile_bus p, rq_vendor = uhid_vendor_id p,
          rq_product = ucast (product_id p), rq_version = ucast (version p),
          rq_rd_data = rd_data\<rparr> })"

section \<open>Addresses agree with the Windows driver\<close>

lemma uhid_generated_mac_address_eq: "uhid_generated_mac_address i = generated_mac_address i"
  by (simp add: uhid_generated_mac_address_def generated_mac_address_def)

lemma format_mac_address_eq: "format_mac_address mac = mac_text False mac"
proof -
  have step: "concat (map (\<lambda>i. '':'' @ hex2 (bs ! i)) [0..<length bs]) =
      (if bs = [] then [] else CHR '':'' # mac_text False bs)" for bs
    by (induction bs) (auto simp: hex2_def upt_conv_Cons map_Suc_upt [symmetric] comp_def simp del: upt_Suc)
  show ?thesis
  proof (cases mac)
    case (Cons b bs)
    have "concat (map (\<lambda>i. (if i \<noteq> 0 then '':'' else []) @ hex2 (mac ! i)) [0..<length mac]) =
        hex2 b @ concat (map (\<lambda>i. '':'' @ hex2 (bs ! i)) [0..<length bs])"
      by (simp add: Cons upt_conv_Cons map_Suc_upt [symmetric] comp_def del: upt_Suc)
    then show ?thesis
      unfolding format_mac_address_def step by (simp add: Cons hex2_def)
  qed (simp add: format_mac_address_def)
qed

lemma unat_lt_u8: "\<not> 255 < unat (b :: u8)"
  using unsigned_less [of b, where 'a = nat] by simp

lemma hex_digit_plain:
  "hex_digit c \<noteq> None \<Longrightarrow> \<not> is_space c \<and> c \<noteq> CHR ''-'' \<and> c \<noteq> CHR ''+'' \<and> c \<noteq> CHR ''x'' \<and> c \<noteq> CHR ''X''"
  by (auto simp: is_space_def hex_digit_def Let_def split: if_splits)

lemma extract_two_digits:
  assumes "rest = [] \<or> hex_digit (hd rest) = None"
  shows "extract_hex (digit_char upper (unat b div 16) # digit_char upper (unat (b :: u8) mod 16) # rest) =
    Some (unat b, rest)"
proof -
  define h l where "h = digit_char upper (unat b div 16)" and "l = digit_char upper (unat b mod 16)"
  have b: "unat b < 256"
    using unsigned_less [of b] by simp
  then have hl: "hex_digit h = Some (word_of_nat (unat b div 16))" "hex_digit l = Some (word_of_nat (unat b mod 16))"
    by (simp_all add: h_def l_def hex_digit_char)
  then have plain: "\<not> is_space h" "h \<noteq> CHR ''-''" "h \<noteq> CHR ''+''" "l \<noteq> CHR ''x''" "l \<noteq> CHR ''X''"
    using hex_digit_plain [of h] hex_digit_plain [of l] by auto
  moreover have "takeWhile (\<lambda>c. \<exists>y. hex_digit c = Some y) rest = []"
      "dropWhile (\<lambda>c. \<exists>y. hex_digit c = Some y) rest = rest"
    using assms by (cases rest; simp)+
  moreover have "unat (word_of_nat (unat b div 16) :: u8) = unat b div 16"
      "unat (word_of_nat (unat b mod 16) :: u8) = unat b mod 16"
    using b by (simp_all add: unsigned_of_nat take_bit_nat_eq_self)
  moreover have "16 * (unat b div 16) + unat b mod 16 = unat b"
    by simp
  ultimately have "extract_hex (h # l # rest) = Some (unat b, rest)"
    using b hl by (simp add: extract_hex_def hex_prefix_def Let_def)
  then show ?thesis
    by (simp add: h_def l_def)
qed

lemma uhid_parse_mac_text:
  assumes "behind = [] \<or> hex_digit (hd behind) = None"
  shows "bs \<noteq> [] \<Longrightarrow> uhid_parse_mac_bytes (length bs) (mac_text upper bs @ behind) = Some bs"
proof (induction bs)
  case (Cons b bs)
  have colon: "hex_digit CHR '':'' = None" "\<not> is_space CHR '':''"
    by (simp_all add: hex_digit_def is_space_def)
  show ?case
  proof (cases bs)
    case Nil
    then show ?thesis
      using extract_two_digits [OF assms, of upper b] by (simp add: unat_lt_u8)
  next
    case (Cons b' bs')
    then show ?thesis
      using extract_two_digits [of "CHR '':'' # mac_text upper bs @ behind" upper b] Cons.IH colon
      by (simp add: unat_lt_u8 del: mac_text.simps(2)) (simp add: mac_text.simps(2) unat_lt_u8)
  qed
qed simp

text \<open>An address, written with two digits a byte in upper or lower case, is read back whatever
  follows it but another digit, and the Windows driver reads the same address from the text.\<close>

lemma uhid_address_roundtrip:
  assumes "length mac = 6" "behind = [] \<or> hex_digit (hd behind) = None"
  shows "uhid_parse_mac_address (mac_text upper mac @ behind) = Some mac \<and>
    uhid_parse_mac_address (format_mac_address mac) = Some mac \<and>
    parse_mac_address (mac_text upper mac @ behind) = Some mac"
proof -
  have "mac \<noteq> []"
    using assms(1) by auto
  then show ?thesis
    using uhid_parse_mac_text [OF assms(2), of mac upper] uhid_parse_mac_text [of "[]" mac False]
      parse_mac_text [of mac upper behind] assms(1)
    by (simp add: uhid_parse_mac_address_def parse_mac_address_def format_mac_address_eq)
qed

lemma uhid_address_roundtrip_witness:
  "uhid_parse_mac_address ''0A:1B:00:FF:10:9C/second'' = Some [0x0A, 0x1B, 0x00, 0xFF, 0x10, 0x9C] \<and>
   parse_mac_address ''0A:1B:00:FF:10:9C/second'' = Some [0x0A, 0x1B, 0x00, 0xFF, 0x10, 0x9C]"
proof -
  let ?mac = "[0x0A, 0x1B, 0x00, 0xFF, 0x10, 0x9C] :: bytes"
  have "mac_text True ?mac @ ''/second'' = ''0A:1B:00:FF:10:9C/second''"
    by code_simp
  then show ?thesis
    using uhid_address_roundtrip [of ?mac "''/second''" True] by (simp add: hex_digit_def)
qed

end
