(* ===== verification/LinuxUhid.thy ===== *)
theory LinuxUhid
  imports LinuxUhidCreate LinuxEvdev SwitchProReply ProfileFacts Parse
begin

text \<open>
  The gamepad that Linux programs see as a HID device, class \<open>UhidGamepad\<close> of
  \<open>src/src/platform/linux/uhid_backend.cpp\<close>: creation, input reports, the requests of the kernel
  and their replies, the periodic report and closing. Events to the kernel are constructors of
  \<open>uhid_event\<close>, those from it of \<open>uhid_request\<close>; a fixed-size array keeps its size. The three
  threads of the class are the operations \<open>uhid_submit\<close>, \<open>uhid_handle_event\<close> and
  \<open>uhid_periodic_report\<close>, which its mutexes keep apart. \<open>None\<close> is an access outside an array.
\<close>

section \<open>Events\<close>

datatype uhid_event =
    Uhid_create2 uhid_create2
  | Uhid_destroy
  | Uhid_input2 u16 bytes
  | Uhid_get_report_reply u32 u16 u16 bytes
  | Uhid_set_report_reply u32 u16

datatype uhid_request =
    Uhid_start
  | Uhid_open
  | Uhid_output bytes u16
  | Uhid_get_report u32 u8
  | Uhid_set_report u32 u8 bytes u16
  | Uhid_other

record 'w uhid_os =
  uo_write :: "uhid_event \<Rightarrow> 'w \<Rightarrow> int \<times> 'w"
  uo_close :: "'w \<Rightarrow> int \<times> 'w"
  uo_errno_text :: "'w \<Rightarrow> string"

definition sizeof_uhid_event :: int where "sizeof_uhid_event = 4376"

record uhid_gamepad =
  hg_open :: bool
  hg_fd :: bool
  hg_running :: bool
  hg_profile :: device_profile
  hg_identity :: uhid_identity
  hg_last_state :: gamepad_state
  hg_supports_battery :: bool
  hg_started :: bool
  hg_reader_exited :: bool
  hg_callback :: bool
  hg_counters :: counters

text \<open>The \<open>write\<close> of an event to an open descriptor; \<open>write_event\<close> asks for the descriptor first.\<close>

definition uhid_emit :: "'w uhid_os \<Rightarrow> uhid_event \<Rightarrow> 'w action" where
  "uhid_emit os ev w =
     (let (result, w) = uo_write os ev w in
      if result < 0
      then (system_error_status Err_backend_failure ''failed to write UHID event'' (uo_errno_text os w), w)
      else if result \<noteq> sizeof_uhid_event
      then (failure Err_backend_failure ''short write while sending UHID event'', w)
      else (success, w))"

definition write_event :: "(uhid_event \<Rightarrow> 'w action) \<Rightarrow> uhid_event \<Rightarrow> (uhid_gamepad \<times> 'w) action" where
  "write_event emit ev = (\<lambda>(d, w).
     if \<not> hg_fd d then (failure Err_device_closed ''UHID file descriptor is closed'', d, w)
     else out emit ev (d, w))"

section \<open>Input reports\<close>

text \<open>\<open>memcpy\<close> into the zeroed array of an event, after the size was checked.\<close>

definition uhid_data :: "bytes \<Rightarrow> bytes" where
  "uhid_data report = report @ replicate (UHID_DATA_MAX - length report) 0"

definition write_input_report ::
  "(uhid_event \<Rightarrow> 'w action) \<Rightarrow> bytes \<Rightarrow> (uhid_gamepad \<times> 'w) action" where
  "write_input_report emit report = (\<lambda>(d, w).
     if \<not> hg_open d then (failure Err_device_closed ''UHID gamepad is closed'', d, w)
     else if UHID_DATA_MAX < length report
     then (failure Err_invalid_argument ''HID input report is too large for UHID'', d, w)
     else write_event emit (Uhid_input2 (word_of_nat (length report)) (uhid_data report)) (d, w))"

definition uhid_transport_report :: "device_profile \<Rightarrow> gamepad_state \<Rightarrow> bytes \<Rightarrow> bytes option" where
  "uhid_transport_report p state report =
     (if is_xbox_uhid_profile (gamepad_kind p)
      then make_xbox_bluetooth_input_report state report (gamepad_kind p = Kind_xbox_series)
      else Some report)"

definition uhid_submit ::
  "(uhid_event \<Rightarrow> 'w action) \<Rightarrow> gamepad_state \<Rightarrow> bytes \<Rightarrow> uhid_gamepad \<times> 'w \<Rightarrow>
     (operation_status \<times> uhid_gamepad \<times> 'w) option" where
  "uhid_submit emit state report = (\<lambda>(d, w). do {
     transport_report \<leftarrow> uhid_transport_report (hg_profile d) state report;
     let (status, d, w) = write_input_report emit transport_report (d, w);
     (status, d, w) \<leftarrow>
       (case battery state of
          Some b \<Rightarrow>
            if status_ok status \<and> hg_supports_battery d \<and> is_xbox_uhid_profile (gamepad_kind (hg_profile d))
            then map_option (\<lambda>r. write_input_report emit r (d, w)) (make_xbox_bluetooth_battery_report b)
            else Some (status, d, w)
        | None \<Rightarrow> Some (status, d, w));
     Some (status, if status_ok status then d\<lparr>hg_last_state := state\<rparr> else d, w) })"

section \<open>Replies\<close>

definition EIO :: u16 where "EIO = 5"
definition EINVAL :: u16 where "EINVAL = 22"

text \<open>A reply under construction is its error, size and data.\<close>

type_synonym report_reply = "u16 \<times> u16 \<times> bytes"

definition copy_get_report_payload :: "bytes \<Rightarrow> report_reply option" where
  "copy_get_report_payload payload =
     (let n = min (length payload) UHID_DATA_MAX
      in map_option (\<lambda>report. (0, word_of_nat n, report))
           (splice (replicate UHID_DATA_MAX 0) 0 (take n payload)))"

definition copy_mac_address :: "bytes \<Rightarrow> report_reply \<Rightarrow> report_reply option" where
  "copy_mac_address mac = (\<lambda>(err, n, report). map_option (\<lambda>report. (err, n, report)) (splice report 1 (rev mac)))"

definition refused_reply :: "u16 \<Rightarrow> report_reply option" where
  "refused_reply err = Some (err, 0, replicate UHID_DATA_MAX 0)"

definition get_report_payload :: "device_profile \<Rightarrow> bytes \<Rightarrow> u8 \<Rightarrow> report_reply option" where
  "get_report_payload p mac n =
     (if gamepad_kind p = Kind_dualshock4 then
        if n = dualshock4_usb_calibration_report then copy_get_report_payload dualshock4_usb_calibration_info
        else if n = dualshock4_bluetooth_calibration_report then
          if bus_type p = Bus_bluetooth then copy_get_report_payload dualshock4_bluetooth_calibration_info
          else refused_reply EINVAL
        else if n = dualshock4_pairing_report then
          copy_get_report_payload dualshock4_pairing_info \<bind> copy_mac_address mac
        else if n = dualshock4_firmware_report then copy_get_report_payload dualshock4_firmware_info
        else refused_reply EINVAL
      else if gamepad_kind p = Kind_dualsense then
        if n = dualsense_calibration_report then copy_get_report_payload dualsense_calibration_info
        else if n = dualsense_pairing_report then
          copy_get_report_payload dualsense_pairing_info \<bind> copy_mac_address mac
        else if n = dualsense_firmware_report then copy_get_report_payload dualsense_firmware_info
        else refused_reply EINVAL
      else refused_reply EIO)"

definition uhid_crc32 :: "bytes \<Rightarrow> u32 \<Rightarrow> u32" where
  "uhid_crc32 buffer seed =
     foldl (\<lambda>crc byte. ((\<lambda>crc. drop_bit 1 crc XOR (0xEDB88320 AND (0 - (crc AND 1)))) ^^ 8) (crc XOR ucast byte))
       (seed XOR 0xFFFFFFFF) buffer XOR 0xFFFFFFFF"

definition uhid_playstation_crc_seed :: "u8 \<Rightarrow> u32" where
  "uhid_playstation_crc_seed seed = uhid_crc32 [seed] 0"

definition get_report_reply :: "device_profile \<Rightarrow> bytes \<Rightarrow> u32 \<Rightarrow> u8 \<Rightarrow> uhid_event option" where
  "get_report_reply p mac request_id n = do {
     (err, sz, report) \<leftarrow> get_report_payload p mac n;
     report \<leftarrow>
       (if bus_type p = Bus_bluetooth \<and> is_playstation_profile (gamepad_kind p) \<and> err = 0 \<and> 4 \<le> sz
        then do {
          covered \<leftarrow> subspan report 0 (unat sz - 4);
          write_u32 report (unat sz - 4)
            (uhid_crc32 covered (uhid_playstation_crc_seed playstation_feature_crc_seed)) }
        else Some report);
     Some (Uhid_get_report_reply request_id err sz report) }"

section \<open>Requests\<close>

text \<open>The result of a handler is what the client's callback is called with, and the state.\<close>

definition call_back ::
  "env \<Rightarrow> bytes \<Rightarrow> uhid_gamepad \<times> 'w \<Rightarrow> (gamepad_output list \<times> uhid_gamepad \<times> 'w) option" where
  "call_back e report = (\<lambda>(d, w).
     if \<not> hg_callback d then Some ([], d, w)
     else map_option (\<lambda>outs. (outs, d, w)) (parse_output_reports e (hg_profile d) report))"

definition send_switch_pro_reply ::
  "(uhid_event \<Rightarrow> 'w action) \<Rightarrow> bytes \<Rightarrow> uhid_gamepad \<times> 'w \<Rightarrow> (uhid_gamepad \<times> 'w) option" where
  "send_switch_pro_reply emit report = (\<lambda>(d, w).
     if gamepad_kind (hg_profile d) \<noteq> Kind_switch_pro then Some (d, w)
     else do {
       (reply, c) \<leftarrow> make_switch_pro_reply report None (hg_counters d);
       let d = d\<lparr>hg_counters := c\<rparr>;
       Some (case reply of None \<Rightarrow> (d, w) | Some r \<Rightarrow> snd (write_input_report emit r (d, w))) })"

definition report_data :: "bytes \<Rightarrow> u16 \<Rightarrow> bytes option" where
  "report_data raw sz = subspan raw 0 (min (unat sz) UHID_DATA_MAX)"

definition dispatch_output_report ::
  "env \<Rightarrow> (uhid_event \<Rightarrow> 'w action) \<Rightarrow> bytes \<Rightarrow> u16 \<Rightarrow> uhid_gamepad \<times> 'w \<Rightarrow>
     (gamepad_output list \<times> uhid_gamepad \<times> 'w) option" where
  "dispatch_output_report e emit raw sz = (\<lambda>(d, w). do {
     report \<leftarrow> report_data raw sz;
     (d, w) \<leftarrow> send_switch_pro_reply emit report (d, w);
     call_back e report (d, w) })"

text \<open>The report's number is put in front of it where the kernel passes it apart.\<close>

definition numbered_report :: "u8 \<Rightarrow> bytes \<Rightarrow> bytes" where
  "numbered_report n report = (if n \<noteq> 0 \<and> (report = [] \<or> hd report \<noteq> n) then n # report else report)"

definition dispatch_set_report ::
  "env \<Rightarrow> u8 \<Rightarrow> bytes \<Rightarrow> u16 \<Rightarrow> uhid_gamepad \<times> 'w \<Rightarrow> (gamepad_output list \<times> uhid_gamepad \<times> 'w) option" where
  "dispatch_set_report e n raw sz = (\<lambda>(d, w). do {
     report \<leftarrow> report_data raw sz;
     call_back e (numbered_report n report) (d, w) })"

definition uhid_handle_event ::
  "env \<Rightarrow> (uhid_event \<Rightarrow> 'w action) \<Rightarrow> uhid_request \<Rightarrow> uhid_gamepad \<times> 'w \<Rightarrow>
     (gamepad_output list \<times> uhid_gamepad \<times> 'w) option" where
  "uhid_handle_event e emit request = (\<lambda>(d, w). case request of
     Uhid_start \<Rightarrow> Some ([], d\<lparr>hg_started := True\<rparr>, w)
   | Uhid_open \<Rightarrow> Some ([], d, w)
   | Uhid_output raw sz \<Rightarrow> dispatch_output_report e emit raw sz (d, w)
   | Uhid_get_report i n \<Rightarrow> do {
       reply \<leftarrow> get_report_reply (hg_profile d) (id_mac_address (hg_identity d)) i n;
       Some ([], snd (write_event emit reply (d, w))) }
   | Uhid_set_report i n raw sz \<Rightarrow> do {
       (outs, s) \<leftarrow> dispatch_set_report e n raw sz (d, w);
       Some (outs, snd (write_event emit (Uhid_set_report_reply i 0) s)) }
   | Uhid_other \<Rightarrow> Some ([], d, w))"

section \<open>The periodic report\<close>

definition playstation_periodic_report_ms :: nat where "playstation_periodic_report_ms = 10"
definition switch_pro_periodic_report_ms :: nat where "switch_pro_periodic_report_ms = 15"

definition periodic_interval_ms :: "device_profile \<Rightarrow> nat" where
  "periodic_interval_ms p =
     (if gamepad_kind p = Kind_switch_pro then switch_pro_periodic_report_ms
      else playstation_periodic_report_ms)"

text \<open>One turn of the loop after its sleep.\<close>

definition uhid_periodic_report ::
  "env \<Rightarrow> (uhid_event \<Rightarrow> 'w action) \<Rightarrow> uhid_gamepad \<times> 'w \<Rightarrow> (uhid_gamepad \<times> 'w) option" where
  "uhid_periodic_report e emit = (\<lambda>(d, w).
     if \<not> hg_running d \<or> \<not> hg_open d then Some (d, w)
     else do {
       (report, c) \<leftarrow> pack_input_report e (hg_counters d) (hg_profile d) (hg_last_state d);
       let d = d\<lparr>hg_counters := c\<rparr>;
       Some (if report = [] then (d, w) else snd (write_input_report emit report (d, w))) })"

section \<open>Creation and closing\<close>

text \<open>\<open>waited\<close> is what the reader thread left when the wait for \<open>UHID_START\<close> was over: whether the
  event came and whether the reader stopped.\<close>

definition wait_for_start :: "bool \<times> bool \<Rightarrow> operation_status" where
  "wait_for_start = (\<lambda>(started, reader_exited).
     if \<not> started \<and> \<not> reader_exited then failure Err_backend_failure ''timed out waiting for UHID_START''
     else if \<not> started then failure Err_backend_failure ''UHID reader stopped before UHID_START''
     else success)"

definition uhid_create ::
  "(uhid_event \<Rightarrow> 'w action) \<Rightarrow> bool \<times> bool \<Rightarrow> u64 \<Rightarrow> create_gamepad_options \<Rightarrow> uhid_gamepad \<times> 'w \<Rightarrow>
     (operation_status \<times> uhid_gamepad \<times> 'w) option" where
  "uhid_create emit waited i options = (\<lambda>(d, w).
     let p = uhid_transport_profile (gamepad_profile options) (has_battery (metadata options)) in
     if HID_MAX_DESCRIPTOR_SIZE < length (report_descriptor p)
     then Some (failure Err_unsupported_profile ''HID report descriptor is too large for UHID'', d, w)
     else do {
       request \<leftarrow> uhid_create_request i options;
       let d = d\<lparr>hg_identity := uhid_identify i options, hg_profile := gamepad_profile options,
         hg_supports_battery := has_battery (metadata options), hg_last_state := default_gamepad_state,
         hg_started := False, hg_reader_exited := False, hg_running := True\<rparr>;
       let (status, d, w) = write_event emit (Uhid_create2 request) (d, w);
       if \<not> status_ok status then Some (status, d\<lparr>hg_running := False\<rparr>, w)
       else let status = wait_for_start waited;
                d = d\<lparr>hg_started := fst waited, hg_reader_exited := snd waited\<rparr>
         in Some (status, if status_ok status then d else d\<lparr>hg_running := False\<rparr>, w) })"

definition uhid_close :: "'w uhid_os \<Rightarrow> uhid_gamepad \<times> 'w \<Rightarrow> operation_status \<times> uhid_gamepad \<times> 'w" where
  "uhid_close os = (\<lambda>(d, w).
     if \<not> hg_open d then (success, d, w)
     else
       let d = d\<lparr>hg_open := False, hg_running := False\<rparr> in
       if \<not> hg_fd d then (success, d, w)
       else
         let (status, d, w) = write_event (uhid_emit os) Uhid_destroy (d, w);
             (result, w) = uo_close os w;
             status = (if result \<noteq> 0 \<and> status_ok status
               then system_error_status Err_backend_failure ''failed to close /dev/uhid'' (uo_errno_text os w)
               else status)
         in (status, d\<lparr>hg_fd := False\<rparr>, w))"

text \<open>The outcome of a poll and read, for the loop of the reader thread.\<close>

datatype read_event_result = Read_event | Read_retry | Read_stop

record poll_outcome =
  po_poll :: int
  po_interrupted :: bool
  po_error :: bool
  po_readable :: bool
  po_read :: int
  po_again :: bool

definition read_event :: "poll_outcome \<Rightarrow> read_event_result" where
  "read_event po =
     (if po_poll po < 0 then (if po_interrupted po then Read_retry else Read_stop)
      else if po_error po then Read_stop
      else if po_poll po = 0 \<or> \<not> po_readable po then Read_retry
      else if po_read po < 0 then (if po_again po then Read_retry else Read_stop)
      else if po_read po = 0 then Read_stop else Read_event)"

end
