(* ===== verification/LinuxUhidFacts.thy ===== *)
theory LinuxUhidFacts
  imports LinuxUhid
begin

text \<open>
  The properties of the Linux HID gamepad: every request of the kernel is answered, a
  PlayStation controller answers its feature reports as the Windows driver does, and every input
  report has the length that the descriptor of \<open>UHID_CREATE2\<close> declares.
\<close>

section \<open>A kernel that takes every event\<close>

definition uhid_accepting :: "'w uhid_os \<Rightarrow> 'w uhid_os" where
  "uhid_accepting os = os\<lparr>uo_write := (\<lambda>ev w. (sizeof_uhid_event, snd (uo_write os ev w)))\<rparr>"

abbreviation uhid_channel :: "'w uhid_os \<Rightarrow> uhid_event \<Rightarrow> (uhid_event list \<times> 'w) action" where
  "uhid_channel os \<equiv> logged_by (uhid_emit (uhid_accepting os))"

lemma uhid_accepting_ok: "status_ok (fst (uhid_emit (uhid_accepting os) ev w))"
  by (simp add: uhid_emit_def uhid_accepting_def sizeof_uhid_event_def status_ok_success split_def Let_def)

interpretation accepted_uhid: accepting_channel "uhid_channel os" fst for os
  by unfold_locales (auto simp: logged_by_def uhid_accepting_ok split_def Let_def)

lemma write_event_accepted:
  assumes "hg_fd d"
  obtains status w' where "write_event (uhid_channel os) ev (d, evs, w) = (status, d, evs @ [ev], w')"
    "status_ok status"
proof -
  obtain status w' where "out (uhid_channel os) ev (d, evs, w) = (status, d, w')" "status_ok status"
      "fst w' = fst (evs, w) @ [ev]"
    by (rule accepted_uhid.runsE [OF accepted_uhid.runs_out, of os ev d "(evs, w)"]) blast
  with assms that show thesis
    by (cases w') (simp add: write_event_def)
qed

lemma write_input_report_accepted:
  assumes "hg_fd d" "hg_open d" "length report \<le> UHID_DATA_MAX"
  obtains status w' where "write_input_report (uhid_channel os) report (d, evs, w) =
      (status, d, evs @ [Uhid_input2 (word_of_nat (length report)) (uhid_data report)], w')"
    "status_ok status"
proof -
  obtain status w' where "write_event (uhid_channel os) (Uhid_input2 (word_of_nat (length report)) (uhid_data report))
      (d, evs, w) = (status, d, evs @ [Uhid_input2 (word_of_nat (length report)) (uhid_data report)], w')"
      "status_ok status"
    by (rule write_event_accepted [OF assms(1)])
  with assms(2,3) that show thesis
    by (simp add: write_input_report_def)
qed

section \<open>Feature reports\<close>

lemma uhid_crc32_eq: "uhid_crc32 = crc32"
proof -
  have "(\<lambda>crc. drop_bit 1 crc XOR (0xEDB88320 AND (0 - (crc AND 1)))) = crc_bit"
    by (simp add: feature_crc_bit_eq [symmetric] feature_crc_bit_def fun_eq_iff)
  then have "(\<lambda>crc byte. ((\<lambda>crc. drop_bit 1 crc XOR (0xEDB88320 AND (0 - (crc AND 1)))) ^^ 8) (crc XOR ucast byte)) = crc_byte"
    by (simp add: crc_byte_def fun_eq_iff)
  then show ?thesis
    by (simp add: uhid_crc32_def crc32_def fun_eq_iff)
qed

lemma copy_payload:
  "length payload \<le> 64 \<Longrightarrow>
    copy_get_report_payload payload = Some (0, word_of_nat (length payload), uhid_data payload)"
  by (simp add: copy_get_report_payload_def splice_def uhid_data_def UHID_DATA_MAX_def Let_def)

lemma copy_mac_payload:
  assumes "length mac = 6" "7 \<le> length payload" "length payload \<le> 64"
  shows "copy_mac_address mac (err, n, uhid_data payload) =
    Some (err, n, uhid_data (take 1 payload @ rev mac @ drop 7 payload))"
  using assms by (simp add: copy_mac_address_def splice_def uhid_data_def)

lemma write_u32_front:
  "off + 4 \<le> length xs \<Longrightarrow> write_u32 (xs @ ys) off v = map_option (\<lambda>r. r @ ys) (write_u32 xs off v)"
  by (simp add: write_u32_ok list_update_append)

definition linux_payload :: "bytes option option \<Rightarrow> report_reply option" where
  "linux_payload payload = (case payload of
     Some (Some payload) \<Rightarrow> Some (0, word_of_nat (length payload), uhid_data payload)
   | Some None \<Rightarrow> refused_reply EINVAL
   | None \<Rightarrow> None)"

lemma linux_payload_simps [simp]:
  "linux_payload (Some (Some payload)) = Some (0, word_of_nat (length payload), uhid_data payload)"
  "linux_payload (Some None) = refused_reply EINVAL"
  by (simp_all add: linux_payload_def)

lemma linux_pairing:
  "copy_mac_address (request_mac_address r) (0, 16, uhid_data dualshock4_pairing_info) =
     linux_payload (map_option Some (set_pairing_mac dualshock4_pairing_info r))"
  "copy_mac_address (request_mac_address r) (0, 20, uhid_data dualsense_pairing_info) =
     linux_payload (map_option Some (set_pairing_mac dualsense_pairing_info r))"
  by (simp_all add: copy_mac_payload set_pairing_mac_ok length_payloads)

lemma request_kinds:
  assumes "cr_gamepad_kind r = protocol_gamepad_kind (gamepad_kind p)"
    and "cr_bus_type r = protocol_bus_type (bus_type p)"
  shows "cr_gamepad_kind r = LVH_WINDOWS_GAMEPAD_DUALSHOCK4 \<longleftrightarrow> gamepad_kind p = Kind_dualshock4"
    and "cr_gamepad_kind r = LVH_WINDOWS_GAMEPAD_DUALSENSE \<longleftrightarrow> gamepad_kind p = Kind_dualsense"
    and "cr_bus_type r = LVH_WINDOWS_BUS_BLUETOOTH \<longleftrightarrow> bus_type p = Bus_bluetooth"
  using assms by (cases "gamepad_kind p"; cases "bus_type p"; simp add: protocol_constants)+

lemma uhid_payload_agrees:
  assumes "cr_gamepad_kind r = protocol_gamepad_kind (gamepad_kind p)"
    and "cr_bus_type r = protocol_bus_type (bus_type p)"
    and "is_playstation_profile (gamepad_kind p)"
  shows "get_report_payload p (request_mac_address r) n = linux_payload (playstation_feature_payload r n)"
proof -
  consider "gamepad_kind p = Kind_dualshock4" | "gamepad_kind p = Kind_dualsense"
    using assms(3) by (auto simp: is_playstation_profile_def)
  then show ?thesis
    by cases (simp_all add: get_report_payload_def playstation_feature_payload_def request_kinds [OF assms(1,2)]
        linux_pairing copy_payload length_payloads)
qed

lemma payload_length:
  "playstation_feature_payload r n = Some (Some payload) \<Longrightarrow> 16 \<le> length payload \<and> length payload \<le> 64"
  by (auto simp: playstation_feature_payload_def set_pairing_mac_ok length_payloads split: if_splits)

lemma get_report_reply_agrees:
  assumes "cr_gamepad_kind r = protocol_gamepad_kind (gamepad_kind p)"
    and "cr_bus_type r = protocol_bus_type (bus_type p)"
    and "is_playstation_profile (gamepad_kind p)"
  shows "case make_playstation_feature_report r n of
      None \<Rightarrow> False
    | Some None \<Rightarrow> get_report_reply p (request_mac_address r) q n =
        Some (Uhid_get_report_reply q EINVAL 0 (uhid_data []))
    | Some (Some report) \<Rightarrow> get_report_reply p (request_mac_address r) q n =
        Some (Uhid_get_report_reply q 0 (word_of_nat (length report)) (uhid_data report))"
proof -
  note agrees = uhid_payload_agrees [OF assms, of n]
  note kinds = request_kinds [OF assms(1,2)]
  obtain payload where payload: "playstation_feature_payload r n = Some payload"
    using payload_cases by blast
  show ?thesis
  proof (cases payload)
    case None
    with payload agrees show ?thesis
      by (simp add: make_playstation_feature_report_def get_report_reply_def refused_reply_def EINVAL_def uhid_data_def)
  next
    case (Some bytes)
    with payload have l: "16 \<le> length bytes" "length bytes \<le> 64"
      using payload_length by blast+
    then have sz: "unat (word_of_nat (length bytes) :: u16) = length bytes" "4 \<le> (word_of_nat (length bytes) :: u16)"
      by (simp_all add: unsigned_of_nat take_bit_nat_eq_self word_le_nat_alt)
    show ?thesis
    proof (cases "bus_type p = Bus_bluetooth")
      case True
      let ?off = "length bytes - 4"
      define crc where "crc = crc32 (take ?off bytes) (crc32 [playstation_feature_crc_seed] 0)"
      have "subspan (uhid_data bytes) 0 ?off = Some (take ?off bytes)"
        using l by (simp add: subspan_def uhid_data_def)
      moreover have "?off + 3 < length bytes"
        using l by simp
      then obtain report where report: "write_u32 bytes ?off crc = Some report" "length report = length bytes"
        using keeps_obtain [OF keeps_write_u32 [OF refl]] by metis
      moreover have "write_u32 (uhid_data bytes) ?off crc = Some (uhid_data report)"
        using l report by (simp add: uhid_data_def write_u32_front)
      ultimately have "get_report_reply p (request_mac_address r) q n =
          Some (Uhid_get_report_reply q 0 (word_of_nat (length report)) (uhid_data report))"
        using payload Some True sz assms(3) agrees
        by (simp add: get_report_reply_def uhid_playstation_crc_seed_def uhid_crc32_eq crc_def)
      moreover have "make_playstation_feature_report r n = Some (Some report)"
        using payload Some True kinds(3) l report
        by (simp add: make_playstation_feature_report_def set_bluetooth_crc_def feature_crc32_eq crc_def)
      ultimately show ?thesis
        by simp
    next
      case False
      with payload Some agrees kinds(3) show ?thesis
        by (simp add: make_playstation_feature_report_def get_report_reply_def)
    qed
  qed
qed

lemma no_address: "uhid_parse_mac_address [] = None" "parse_mac_address [] = None"
proof -
  have "6 = Suc 5"
    by simp
  then show "uhid_parse_mac_address [] = None" "parse_mac_address [] = None"
    unfolding uhid_parse_mac_address_def parse_mac_address_def
    by (simp_all only: uhid_parse_mac_bytes.simps parse_mac_bytes.simps) (simp add: extract_hex_def hex_prefix_def)
qed

lemma addressed:
  assumes "length mac = 6"
  shows "uhid_parse_mac_address (mac_text upper mac) = Some mac"
    "parse_mac_address (mac_text upper mac) = Some mac" "length (mac_text upper mac) = 17"
proof -
  have "mac \<noteq> []"
    using assms by auto
  then show "uhid_parse_mac_address (mac_text upper mac) = Some mac"
    "parse_mac_address (mac_text upper mac) = Some mac" "length (mac_text upper mac) = 17"
    using uhid_parse_mac_text [of "[]" mac upper] parse_mac_text [of mac upper "[]"] length_mac_text [of mac upper] assms
    by (simp_all add: uhid_parse_mac_address_def parse_mac_address_def)
qed


section \<open>Requests\<close>

text \<open>A request of the kernel has arrays of their full size.\<close>

fun whole_request :: "uhid_request \<Rightarrow> bool" where
  "whole_request (Uhid_output raw sz) \<longleftrightarrow> length raw = UHID_DATA_MAX"
| "whole_request (Uhid_set_report i n raw sz) \<longleftrightarrow> length raw = UHID_DATA_MAX"
| "whole_request _ \<longleftrightarrow> True"

definition whole_reply :: "report_reply option \<Rightarrow> bool" where
  "whole_reply reply \<longleftrightarrow>
     (case reply of None \<Rightarrow> False | Some (err, sz, report) \<Rightarrow> length report = UHID_DATA_MAX \<and> unat sz \<le> 64)"

lemma whole_if: "whole_reply a \<Longrightarrow> whole_reply b \<Longrightarrow> whole_reply (if c then a else b)"
  by simp

lemma whole_refused: "whole_reply (refused_reply err)"
  by (simp add: whole_reply_def refused_reply_def)

lemma length_uhid_data: "length payload \<le> UHID_DATA_MAX \<Longrightarrow> length (uhid_data payload) = UHID_DATA_MAX"
  by (simp add: uhid_data_def)

lemma whole_copy: "length payload \<le> 64 \<Longrightarrow> whole_reply (copy_get_report_payload payload)"
  by (simp add: whole_reply_def copy_payload length_uhid_data UHID_DATA_MAX_def unsigned_of_nat take_bit_nat_eq_self)

lemma whole_copy_mac:
  "7 \<le> length payload \<Longrightarrow> length payload \<le> 64 \<Longrightarrow> length mac = 6 \<Longrightarrow>
    whole_reply (copy_get_report_payload payload \<bind> copy_mac_address mac)"
  by (simp add: whole_reply_def copy_payload copy_mac_payload length_uhid_data UHID_DATA_MAX_def unsigned_of_nat
      take_bit_nat_eq_self)

lemma get_report_payload_whole: "length mac = 6 \<Longrightarrow> whole_reply (get_report_payload p mac n)"
  unfolding get_report_payload_def
  by (intro whole_if whole_refused whole_copy whole_copy_mac) (simp_all add: length_payloads)

lemma get_report_reply_id:
  assumes "length mac = 6"
  obtains err sz report where "get_report_reply p mac i n = Some (Uhid_get_report_reply i err sz report)"
    "length report = UHID_DATA_MAX"
proof -
  obtain err sz report where payload: "get_report_payload p mac n = Some (err, sz, report)"
      "length report = UHID_DATA_MAX" "unat sz \<le> 64"
    using get_report_payload_whole [OF assms, of p n] by (auto simp: whole_reply_def split: option.splits)
  define covered where "covered = take (unat sz - 4) report"
  have covered: "subspan report 0 (unat sz - 4) = Some covered"
    using payload(2,3) by (simp add: subspan_def UHID_DATA_MAX_def covered_def)
  have "unat sz - 4 + 3 < UHID_DATA_MAX"
    using payload(3) by (simp add: UHID_DATA_MAX_def)
  from keeps_obtain [OF keeps_write_u32 [OF payload(2) this]] obtain report' where
    "write_u32 report (unat sz - 4) (uhid_crc32 covered (uhid_playstation_crc_seed playstation_feature_crc_seed)) = Some report'"
    "length report' = UHID_DATA_MAX"
    by blast
  with payload covered that show thesis
    by (cases "bus_type p = Bus_bluetooth \<and> is_playstation_profile (gamepad_kind p) \<and> err = 0 \<and> 4 \<le> sz")
      (simp_all add: get_report_reply_def)
qed

text \<open>What the kernel gets for a request: the answer to a read or write of a report, the reply a
  Switch Pro controller gives to an output report.\<close>

definition answers :: "uhid_gamepad \<Rightarrow> uhid_request \<Rightarrow> uhid_event list \<Rightarrow> bool" where
  "answers d request evs \<longleftrightarrow> (case request of
     Uhid_get_report i n \<Rightarrow> (case evs of
         [Uhid_get_report_reply j err sz report] \<Rightarrow> j = i \<and> length report = UHID_DATA_MAX
       | _ \<Rightarrow> False)
   | Uhid_set_report i n raw sz \<Rightarrow> evs = [Uhid_set_report_reply i 0]
   | Uhid_output raw sz \<Rightarrow>
       (if gamepad_kind (hg_profile d) = Kind_switch_pro \<and> answerable (take (unat sz) raw)
        then (case evs of [Uhid_input2 n report] \<Rightarrow> n = 64 \<and> length report = UHID_DATA_MAX | _ \<Rightarrow> False)
        else evs = [])
   | _ \<Rightarrow> evs = [])"

text \<open>What the client is called with: the outputs of the report, which is the request's data, behind
  the report number where the kernel passed it apart.\<close>

definition reported :: "uhid_gamepad \<Rightarrow> uhid_request \<Rightarrow> bytes option" where
  "reported d request = (if \<not> hg_callback d then None else case request of
     Uhid_output raw sz \<Rightarrow> Some (take (unat sz) raw)
   | Uhid_set_report i n raw sz \<Rightarrow> Some (numbered_report n (take (unat sz) raw))
   | _ \<Rightarrow> None)"

lemma report_data_whole:
  "length raw = UHID_DATA_MAX \<Longrightarrow> report_data raw sz = Some (take (unat sz) raw)"
  by (simp add: report_data_def subspan_def min_def)

lemma call_back_reported:
  obtains outs where "call_back e report (d, w) = Some (outs, d, w)"
    "if hg_callback d then outs \<noteq> [] \<and> list_all (\<lambda>out. raw_report out = report) outs else outs = []"
proof (cases "hg_callback d")
  case True
  obtain out outs where "parse_output_reports e (hg_profile d) report = Some (out # outs)" "carries report (out # outs)"
    by (rule parse_output_reports_defined)
  with True that show thesis
    by (simp add: call_back_def carries_def)
qed (use that in \<open>simp add: call_back_def\<close>)

lemma length_uhid_parse_mac: "uhid_parse_mac_bytes n str = Some m \<Longrightarrow> length m = n"
  by (induction n str arbitrary: m rule: uhid_parse_mac_bytes.induct)
    (auto split: option.splits list.splits if_splits)

lemma length_identity_mac [simp]: "length (id_mac_address (uhid_identify i options)) = 6"
  by (auto simp: uhid_identify_def uhid_parse_mac_address_def uhid_generated_mac_address_def Let_def
      split: option.splits dest: length_uhid_parse_mac)

lemma switch_reply_sent:
  assumes "hg_open d" "hg_fd d"
  obtains d' evs w' where "send_switch_pro_reply (uhid_channel os) report (d, [], w) = Some (d', evs, w')"
    "d' = d\<lparr>hg_counters := hg_counters d'\<rparr>"
    "if gamepad_kind (hg_profile d) = Kind_switch_pro \<and> answerable report
     then \<exists>reply. length reply = 64 \<and> evs = [Uhid_input2 64 (uhid_data reply)] else evs = []"
proof (cases "gamepad_kind (hg_profile d) = Kind_switch_pro")
  case True
  obtain reply c where reply: "make_switch_pro_reply report None (hg_counters d) = Some (reply, c)"
      "case reply of None \<Rightarrow> \<not> answerable report | Some r \<Rightarrow> answerable report \<and> length r = 64"
    using switch_reply_total [where out = report and pt = None and c = "hg_counters d"] by (auto split: option.splits)
  show ?thesis
  proof (cases reply)
    case None
    with that [of "d\<lparr>hg_counters := c\<rparr>" "[]" w] reply True show ?thesis
      by (simp add: send_switch_pro_reply_def)
  next
    case (Some r)
    with reply have "length r = 64" "answerable report"
      by simp_all
    moreover have open_now: "hg_fd (d\<lparr>hg_counters := c\<rparr>)" "hg_open (d\<lparr>hg_counters := c\<rparr>)"
        "length r \<le> UHID_DATA_MAX"
      using assms calculation by (simp_all add: UHID_DATA_MAX_def)
    moreover obtain status w' where "write_input_report (uhid_channel os) r (d\<lparr>hg_counters := c\<rparr>, [], w) =
        (status, d\<lparr>hg_counters := c\<rparr>, [Uhid_input2 64 (uhid_data r)], w')"
      by (rule write_input_report_accepted [OF open_now, of os "[]" w]) (simp add: \<open>length r = 64\<close>)
    ultimately show ?thesis
      using that [of "d\<lparr>hg_counters := c\<rparr>" "[Uhid_input2 64 (uhid_data r)]" w'] reply True Some
      by (auto simp: send_switch_pro_reply_def)
  qed
next
  case False
  with that [of d "[]" w] show ?thesis
    by (simp add: send_switch_pro_reply_def)
qed


definition example_uhid_os :: "nat uhid_os" where
  "example_uhid_os = \<lparr>uo_write = (\<lambda>ev n. (- 1, Suc n)), uo_close = (\<lambda>n. (0, n)),
     uo_errno_text = (\<lambda>n. ''Input/output error'')\<rparr>"

definition example_options :: create_gamepad_options where
  "example_options = \<lparr>gamepad_profile = default_profile\<lparr>gamepad_kind := Kind_dualsense\<rparr>,
     metadata = default_metadata\<lparr>gamepad_stable_id := ''0A:1B:00:FF:10:9C''\<rparr>\<rparr>"

definition example_uhid :: uhid_gamepad where
  "example_uhid = \<lparr>hg_open = True, hg_fd = True, hg_running = True, hg_profile = gamepad_profile example_options,
     hg_identity = uhid_identify 7 example_options, hg_last_state = default_gamepad_state,
     hg_supports_battery = False, hg_started = True, hg_reader_exited = False, hg_callback = True,
     hg_counters = example_counters\<rparr>"



section \<open>Input reports\<close>

lemma uhid_copy_string_defined:
  assumes "destination \<noteq> []"
  obtains d where "uhid_copy_string destination source = Some d"
proof -
  have "min (length source) (length destination - 1) < length destination"
    using assms by (cases destination) auto
  then have "keeps (length destination) (uhid_copy_string destination source)"
    unfolding uhid_copy_string_def Let_def by (intro keeps_bind keeps_splice keeps_put) simp_all
  from keeps_obtain [OF this] that show thesis
    by blast
qed

lemma uhid_create_request_descriptor:
  assumes "length (report_descriptor (uhid_transport_profile (gamepad_profile options) (has_battery (metadata options)))) \<le> 4096"
  obtains rq where "uhid_create_request i options = Some rq"
    "take (unat (rq_rd_size rq)) (rq_rd_data rq) =
       report_descriptor (uhid_transport_profile (gamepad_profile options) (has_battery (metadata options)))"
proof -
  let ?ident = "uhid_identify i options"
  obtain name phys uniq where texts: "uhid_copy_string (replicate 128 0) (id_device_name ?ident) = Some name"
    "uhid_copy_string (replicate 64 0) (id_physical_id ?ident) = Some phys"
    "uhid_copy_string (replicate 64 0) (id_unique_id ?ident) = Some uniq"
    by (metis uhid_copy_string_defined replicate_empty zero_neq_numeral)
  let ?desc = "report_descriptor (uhid_transport_profile (gamepad_profile options) (has_battery (metadata options)))"
  obtain rq where "uhid_create_request i options = Some rq" "rq_rd_size rq = word_of_nat (length ?desc)"
      "rq_rd_data rq = ?desc @ replicate (HID_MAX_DESCRIPTOR_SIZE - length ?desc) 0"
    using assms by (simp add: uhid_create_request_def Let_def texts splice_def HID_MAX_DESCRIPTOR_SIZE_def)
  with assms show thesis
    by (intro that [of rq]) (simp_all add: unsigned_of_nat take_bit_nat_eq_self)
qed

lemma declared_profiles_small:
  "list_all (\<lambda>(p, output_id). length (report_descriptor p) \<le> 4096 \<and> input_report_size p \<le> 78) declared_profiles"
  by (simp add: declared_profiles_def profile_simps profile_sizes default_capabilities_def descriptor_builders
      switch_pro_bytes xbox_gip_bytes make_standard_gamepad_report_descriptor_def make_gamepad_report_descriptor_def
      append_common_gamepad_buttons_def append_descriptor_bytes_def append_pid_rumble_output_def)

lemma xbox_packed_size:
  "list_all (\<lambda>(p, output_id). is_xbox_uhid_profile (gamepad_kind p) = (input_report_size p = 17)) declared_profiles"
  by (simp add: declared_profiles_def profile_simps profile_sizes default_capabilities_def is_xbox_uhid_profile_def)

text \<open>The transport report and its declaration.\<close>

lemma transport_report_declared:
  assumes "(p, output_id) \<in> set declared_profiles" "length report = input_report_size p"
  obtains transport where "uhid_transport_report p state report = Some transport" "length transport \<le> 78"
    "report_length Input_report (unat (report_id (uhid_transport_profile p b)))
       (report_descriptor (uhid_transport_profile p b)) = Some (length transport)"
proof (cases "is_xbox_uhid_profile (gamepad_kind p)")
  case True
  then have "17 \<le> length report"
    using xbox_packed_size assms by (fastforce simp: list_all_iff)
  with True that show thesis
    by (simp add: uhid_transport_report_def uhid_transport_profile_def xbox_bluetooth_report_bytes
        uhid_xbox_input_report_id_def xbox_bluetooth_descriptor_lengths
        xbox_bluetooth_descriptor_lengths [simplified One_nat_def])
next
  case False
  have "report_length Input_report (unat (report_id p)) (report_descriptor p) = Some (input_report_size p)"
      "input_report_size p \<le> 78"
    using declared_profile_reports declared_profiles_small assms(1) by (auto simp: list_all_iff)
  with False that assms(2) show thesis
    by (simp add: uhid_transport_report_def uhid_transport_profile_def)
qed

lemma battery_report_bytes:
  "\<exists>v. make_xbox_bluetooth_battery_report b = Some [4, v]"
  by (simp add: make_xbox_bluetooth_battery_report_def xbox_bluetooth_battery_report_size_def
      uhid_xbox_battery_report_id_def eval_nat_numeral Let_def)

text \<open>Events that are input reports of a declared length, by report identifier.\<close>

definition sends_declared :: "bytes \<Rightarrow> u8 list \<Rightarrow> uhid_event list \<Rightarrow> bool" where
  "sends_declared descriptor ids evs \<longleftrightarrow> list_all2 (\<lambda>i ev. case ev of
     Uhid_input2 sz report \<Rightarrow>
       report_length Input_report (unat i) descriptor = Some (unat sz) \<and> length report = UHID_DATA_MAX
   | _ \<Rightarrow> False) ids evs"

definition battery_sent :: "device_profile \<Rightarrow> gamepad_metadata \<Rightarrow> gamepad_state \<Rightarrow> bool" where
  "battery_sent p m state \<longleftrightarrow> has_battery m \<and> battery state \<noteq> None \<and> is_xbox_uhid_profile (gamepad_kind p)"

lemma unat_small16: "n \<le> 4096 \<Longrightarrow> unat (word_of_nat n :: u16) = n"
  by (simp add: unsigned_of_nat take_bit_nat_eq_self)

text \<open>C29: For every built-in gamepad, with or without battery, and every state: the creation request
  is accepted, a submitted state is sent in a report of the length that the request's own
  descriptor declares, an Xbox controller with a battery sends its declared battery report too, and
  the state is kept for the periodic report.\<close>

lemma uhid_reports_declared:
  "list_all (\<lambda>(p, output_id).
     let options = \<lparr>gamepad_profile = p, metadata = m\<rparr>; tp = uhid_transport_profile p (has_battery m) in
     case (uhid_create_request i options, pack_input_report e c p state) of
       (Some rq, Some (report, c')) \<Rightarrow>
         (case uhid_submit (uhid_channel os) state report
             (d\<lparr>hg_open := True, hg_fd := True, hg_profile := p, hg_supports_battery := has_battery m\<rparr>, [], w) of
            None \<Rightarrow> False
          | Some (status, d', evs, w') \<Rightarrow>
              status_ok status \<and> hg_last_state d' = state \<and>
              sends_declared (take (unat (rq_rd_size rq)) (rq_rd_data rq))
                (report_id tp # (if battery_sent p m state then [4] else [])) evs)
     | _ \<Rightarrow> False) declared_profiles"
proof -
  have "let options = \<lparr>gamepad_profile = p, metadata = m\<rparr>; tp = uhid_transport_profile p (has_battery m) in
     case (uhid_create_request i options, pack_input_report e c p state) of
       (Some rq, Some (report, c')) \<Rightarrow>
         (case uhid_submit (uhid_channel os) state report
             (d\<lparr>hg_open := True, hg_fd := True, hg_profile := p, hg_supports_battery := has_battery m\<rparr>, [], w) of
            None \<Rightarrow> False
          | Some (status, d', evs, w') \<Rightarrow>
              status_ok status \<and> hg_last_state d' = state \<and>
              sends_declared (take (unat (rq_rd_size rq)) (rq_rd_data rq))
                (report_id tp # (if battery_sent p m state then [4] else [])) evs)
     | _ \<Rightarrow> False" if p: "(p, output_id) \<in> set declared_profiles" for p output_id
  proof -
    let ?options = "\<lparr>gamepad_profile = p, metadata = m\<rparr>" and ?tp = "uhid_transport_profile p (has_battery m)"
    let ?d = "d\<lparr>hg_open := True, hg_fd := True, hg_profile := p, hg_supports_battery := has_battery m\<rparr>"
    obtain report c' where packed: "pack_input_report e c p state = Some (report, c')" "length report = input_report_size p"
      using declared_pack [OF p] by blast
    obtain transport where transport: "uhid_transport_report p state report = Some transport" "length transport \<le> 78"
      "report_length Input_report (unat (report_id ?tp)) (report_descriptor ?tp) = Some (length transport)"
      by (rule transport_report_declared [OF p packed(2)])
    have "length (report_descriptor ?tp) \<le> 4096"
      using declared_profiles_small p
      by (auto simp: list_all_iff uhid_transport_profile_def make_xbox_bluetooth_report_descriptor_def)
    then obtain rq where rq: "uhid_create_request i ?options = Some rq"
      "take (unat (rq_rd_size rq)) (rq_rd_data rq) = report_descriptor ?tp"
      using uhid_create_request_descriptor [of ?options i] by auto
    have d: "hg_fd ?d" "hg_open ?d" "length transport \<le> UHID_DATA_MAX"
      using transport(2) by (simp_all add: UHID_DATA_MAX_def)
    let ?ev = "Uhid_input2 (word_of_nat (length transport)) (uhid_data transport)"
    obtain status w1 where sent: "write_input_report (uhid_channel os) transport (?d, [], w) = (status, ?d, [?ev], w1)"
      "status_ok status"
      by (rule write_input_report_accepted [OF d, of os "[]" w]) simp
    have first: "sends_declared (report_descriptor ?tp) [report_id ?tp] [?ev]"
      using transport(2,3) by (simp add: sends_declared_def unat_small16 length_uhid_data UHID_DATA_MAX_def)
    show ?thesis
    proof (cases "battery_sent p m state")
      case False
      then have "uhid_submit (uhid_channel os) state report (?d, [], w) =
          Some (status, ?d\<lparr>hg_last_state := state\<rparr>, [?ev], w1)"
        using transport(1) sent by (auto simp: uhid_submit_def battery_sent_def split: option.splits)
      with rq packed sent(2) first False show ?thesis
        by (simp add: Let_def)
    next
      case True
      then obtain b where b: "battery state = Some b" "has_battery m" "is_xbox_uhid_profile (gamepad_kind p)"
        by (auto simp: battery_sent_def)
      obtain v where v: "make_xbox_bluetooth_battery_report b = Some [4, v]"
        using battery_report_bytes by blast
      have small: "length [4, v] \<le> UHID_DATA_MAX"
        by (simp add: UHID_DATA_MAX_def)
      obtain status2 w2 where sent2: "write_input_report (uhid_channel os) [4, v] (?d, [?ev], w1) =
          (status2, ?d, [?ev, Uhid_input2 2 (uhid_data [4, v])], w2)" "status_ok status2"
        by (rule write_input_report_accepted [OF d(1,2) small, of os "[?ev]" w1]) simp
      have "report_descriptor ?tp = make_xbox_bluetooth_report_descriptor True"
        using b by (simp add: uhid_transport_profile_def)
      then have "sends_declared (report_descriptor ?tp) [report_id ?tp, 4] [?ev, Uhid_input2 2 (uhid_data [4, v])]"
        using first by (simp add: sends_declared_def xbox_bluetooth_descriptor_lengths length_uhid_data UHID_DATA_MAX_def)
      moreover have "uhid_submit (uhid_channel os) state report (?d, [], w) =
          Some (status2, ?d\<lparr>hg_last_state := state\<rparr>, [?ev, Uhid_input2 2 (uhid_data [4, v])], w2)"
        using transport(1) sent sent2 b v by (simp add: uhid_submit_def)
      ultimately show ?thesis
        using rq packed sent2(2) True by (simp add: Let_def)
    qed
  qed
  then show ?thesis
    unfolding list_all_iff by blast
qed

end
