(* ===== verification/BrokerLicense.thy ===== *)
theory BrokerLicense
  imports BrokerValidation Devices "HOL-Library.Signed_Division"
begin

text \<open>
  The licence of the Windows broker: the policy of
  \<open>src/src/platform/shared/lvh_broker_license_policy.hpp\<close> with its time limits, the state the
  broker keeps in its protected file and the reading of the licence server's answers,
  \<open>src/src/platform/windows/broker/libvirtualhid_broker.cpp\<close>. Durations and clock readings are
  integers in nanoseconds, calendar times in seconds; a time beyond the range of the 64-bit clock
  does not occur. The JSON library is not part of the sources: its values are the documented ones,
  and its parser is a parameter of the development.
\<close>

section \<open>Policy\<close>

record polar_benefit =
  pb_id :: string
  pb_plan_name :: string
  pb_subscription_backed :: bool

definition polar_organization_id :: string where
  "polar_organization_id = ''3db9f05a-44d7-42f1-ba7c-a0f198235fb7''"

definition allowed_benefits :: "polar_benefit list" where
  "allowed_benefits =
     [\<lparr>pb_id = ''eb316dac-bf6a-4359-95a2-86c299d48ecc'', pb_plan_name = ''Yearly'', pb_subscription_backed = True\<rparr>,
      \<lparr>pb_id = ''157374cb-f526-4154-81ba-9f2c92a053ca'', pb_plan_name = ''Lifetime'', pb_subscription_backed = False\<rparr>]"

definition nanoseconds_per_second :: int where "nanoseconds_per_second = 1000000000"

definition validation_interval :: int where "validation_interval = 24 * 3600 * nanoseconds_per_second"
definition validation_retry_interval :: int where "validation_retry_interval = 60 * nanoseconds_per_second"
definition outage_retention :: int where "outage_retention = 3600 * nanoseconds_per_second"
definition subscription_max_age :: int where "subscription_max_age = validation_interval + outage_retention"
definition unvalidated_active_device_limit :: nat where "unvalidated_active_device_limit = 1"

definition benefit :: "string \<Rightarrow> polar_benefit option" where
  "benefit benefit_id = find (\<lambda>candidate. pb_id candidate = benefit_id) allowed_benefits"

definition plan_name :: "string \<Rightarrow> string" where
  "plan_name benefit_id = (case benefit benefit_id of Some found \<Rightarrow> pb_plan_name found | None \<Rightarrow> [])"

definition subscription_current :: "u64 \<Rightarrow> u64 \<Rightarrow> bool" where
  "subscription_current validated_at effective_timestamp \<longleftrightarrow>
     validated_at \<noteq> 0 \<and> validated_at \<le> effective_timestamp \<and>
     effective_timestamp - validated_at < word_of_int (subscription_max_age div nanoseconds_per_second)"

definition outage_retention_elapsed :: "int \<Rightarrow> bool" where
  "outage_retention_elapsed elapsed \<longleftrightarrow> outage_retention \<le> elapsed"

text \<open>\<open>OutageDeviceSelector\<close>, whose state is the device it retains.\<close>

definition outage_keep :: "u64 \<Rightarrow> u64 option \<Rightarrow> bool \<times> u64 option" where
  "outage_keep device_id retained =
     (let retained = (if retained = None then Some device_id else retained)
      in (retained = Some device_id, retained))"

definition outage_remove :: "u64 \<Rightarrow> u64 option \<Rightarrow> u64 option" where
  "outage_remove device_id retained = (if retained = Some device_id then None else retained)"

definition outage_reset :: "u64 option \<Rightarrow> u64 option" where
  "outage_reset retained = None"

definition evaluation_duration :: int where "evaluation_duration = 5 * 60 * nanoseconds_per_second"

definition evaluation_active :: "int \<Rightarrow> int \<Rightarrow> bool" where
  "evaluation_active started_at now \<longleftrightarrow> started_at \<le> now \<and> now < started_at + evaluation_duration"

definition evaluation_remaining :: "int \<Rightarrow> int \<Rightarrow> int" where
  "evaluation_remaining started_at now =
     (if \<not> evaluation_active started_at now then 0
      else - ((now - (started_at + evaluation_duration)) div nanoseconds_per_second))"

section \<open>Times\<close>

text \<open>\<open>file_time\<close> is the server's time in units of 100 ns since 1601, where the system could convert it.\<close>

definition license_server_time :: "u64 option \<Rightarrow> int option" where
  "license_server_time file_time =
     (case file_time of
        None \<Rightarrow> None
      | Some stamp \<Rightarrow>
          if stamp < 116444736000000000 then None
          else Some (uint ((stamp - 116444736000000000) div 10000000)))"

definition license_calendar_timestamp :: "int \<Rightarrow> u64" where
  "license_calendar_timestamp seconds = (if 0 < seconds then word_of_int seconds else 0)"

definition license_monotonic_calendar_timestamp :: "u64 \<Rightarrow> u64 \<Rightarrow> u64 \<Rightarrow> bool \<Rightarrow> u64 option" where
  "license_monotonic_calendar_timestamp calendar_anchor uptime_anchor current_uptime same_boot_session =
     (if \<not> same_boot_session \<or> calendar_anchor = 0 \<or> current_uptime < uptime_anchor then None
      else let elapsed = (current_uptime - uptime_anchor) div 1000
           in if - 1 - elapsed < calendar_anchor then Some (- 1) else Some (calendar_anchor + elapsed))"

definition unvalidated_device_creation_allowed :: "nat \<Rightarrow> bool" where
  "unvalidated_device_creation_allowed active_licensed_devices \<longleftrightarrow>
     active_licensed_devices < unvalidated_active_device_limit"

definition license_outage_device_should_be_revoked :: "bool \<Rightarrow> bool \<Rightarrow> nat \<Rightarrow> bool" where
  "license_outage_device_should_be_revoked evaluation limit_licensed_devices licensed_devices_kept \<longleftrightarrow>
     limit_licensed_devices \<and> \<not> evaluation \<and> unvalidated_active_device_limit \<le> licensed_devices_kept"

definition broker_device_should_be_revoked :: "bool \<Rightarrow> bool \<Rightarrow> bool \<Rightarrow> bool" where
  "broker_device_should_be_revoked evaluation evaluation_expired revoke_licensed_devices \<longleftrightarrow>
     evaluation_expired \<and> evaluation \<or> revoke_licensed_devices \<and> \<not> evaluation"

section \<open>The state file\<close>

record polar_license_state =
  ls_provider :: string
  ls_license_key :: string
  ls_activation_id :: string
  ls_license_key_id :: string
  ls_license_status :: string
  ls_organization_id :: string
  ls_benefit_id :: string
  ls_customer_email :: string
  ls_activation_limit :: u32
  ls_pending_usage :: u32
  ls_validated_at :: u64
  ls_boot_marker :: string
  ls_validated_uptime_ms :: u64

definition empty_license_state :: polar_license_state where
  "empty_license_state =
     \<lparr>ls_provider = [], ls_license_key = [], ls_activation_id = [], ls_license_key_id = [],
      ls_license_status = [], ls_organization_id = [], ls_benefit_id = [], ls_customer_email = [],
      ls_activation_limit = 0, ls_pending_usage = 0, ls_validated_at = 0, ls_boot_marker = [],
      ls_validated_uptime_ms = 0\<rparr>"

abbreviation newline :: char where "newline \<equiv> CHR 0x0A"

definition state_line :: "string \<Rightarrow> string \<Rightarrow> string" where
  "state_line key val = key @ ''='' @ val @ [newline]"

definition serialize_license_state :: "polar_license_state \<Rightarrow> string" where
  "serialize_license_state st =
     state_line ''provider'' (ls_provider st) @
     state_line ''license_key'' (ls_license_key st) @
     state_line ''activation_id'' (ls_activation_id st) @
     state_line ''license_key_id'' (ls_license_key_id st) @
     state_line ''license_status'' (ls_license_status st) @
     state_line ''organization_id'' (ls_organization_id st) @
     state_line ''benefit_id'' (ls_benefit_id st) @
     state_line ''customer_email'' (ls_customer_email st) @
     state_line ''activation_limit'' (show_nat (unat (ls_activation_limit st))) @
     state_line ''pending_usage'' (show_nat (unat (ls_pending_usage st))) @
     state_line ''validated_at'' (show_nat (unat (ls_validated_at st))) @
     state_line ''boot_marker'' (ls_boot_marker st) @
     state_line ''validated_uptime_ms'' (show_nat (unat (ls_validated_uptime_ms st)))"

text \<open>\<open>std::from_chars\<close> of an unsigned number takes digits only; all of the text must be used.\<close>

definition is_digit :: "char \<Rightarrow> bool" where
  "is_digit c \<longleftrightarrow> (let n = of_char c :: nat in 48 \<le> n \<and> n \<le> 57)"

definition parse_uint64 :: "string \<Rightarrow> u64 option" where
  "parse_uint64 str =
     (let v = foldl (\<lambda>v c. 10 * v + (of_char c - 48)) (0 :: nat) str
      in if str = [] \<or> \<not> list_all is_digit str \<or> 2 ^ 64 \<le> v then None else Some (word_of_nat v))"

definition parse_uint64_or_zero :: "string \<Rightarrow> u64" where
  "parse_uint64_or_zero str = (case parse_uint64 str of Some v \<Rightarrow> v | None \<Rightarrow> 0)"

definition read_license_field :: "string \<Rightarrow> string \<Rightarrow> polar_license_state \<Rightarrow> polar_license_state" where
  "read_license_field key val st =
     (if key = ''provider'' then st\<lparr>ls_provider := val\<rparr>
      else if key = ''license_key'' then st\<lparr>ls_license_key := val\<rparr>
      else if key = ''activation_id'' then st\<lparr>ls_activation_id := val\<rparr>
      else if key = ''license_key_id'' then st\<lparr>ls_license_key_id := val\<rparr>
      else if key = ''license_status'' then st\<lparr>ls_license_status := val\<rparr>
      else if key = ''organization_id'' then st\<lparr>ls_organization_id := val\<rparr>
      else if key = ''benefit_id'' then st\<lparr>ls_benefit_id := val\<rparr>
      else if key = ''customer_email'' then st\<lparr>ls_customer_email := val\<rparr>
      else if key = ''activation_limit'' then st\<lparr>ls_activation_limit := ucast (parse_uint64_or_zero val)\<rparr>
      else if key = ''pending_usage''
        then st\<lparr>ls_pending_usage := ucast (min (parse_uint64_or_zero val) 0xFFFFFFFF)\<rparr>
      else if key = ''validated_at'' then st\<lparr>ls_validated_at := parse_uint64_or_zero val\<rparr>
      else if key = ''boot_marker'' then st\<lparr>ls_boot_marker := val\<rparr>
      else if key = ''validated_uptime_ms''
        then st\<lparr>ls_validated_uptime_ms := parse_uint64_or_zero val\<rparr>
      else st)"

definition read_license_line :: "string \<Rightarrow> polar_license_state \<Rightarrow> polar_license_state" where
  "read_license_line line st =
     (case dropWhile (\<lambda>c. c \<noteq> CHR ''='') line of
        [] \<Rightarrow> st
      | _ # val \<Rightarrow> read_license_field (takeWhile (\<lambda>c. c \<noteq> CHR ''='') line) val st)"

text \<open>The loop over the rest of the text.\<close>

function read_license_lines :: "string \<Rightarrow> polar_license_state \<Rightarrow> polar_license_state" where
  "read_license_lines serialized st =
     (if serialized = [] then st
      else let st = read_license_line (takeWhile (\<lambda>c. c \<noteq> newline) serialized) st
           in case dropWhile (\<lambda>c. c \<noteq> newline) serialized of
                [] \<Rightarrow> st
              | _ # rest \<Rightarrow> read_license_lines rest st)"
  by pat_completeness auto

termination
proof (relation "measure (\<lambda>(serialized, st). length serialized)", goal_cases)
  case (2 serialized st st' c rest)
  then have "length (c # rest) \<le> length serialized"
    by (metis length_dropWhile_le)
  then show ?case
    by simp
qed simp

declare read_license_lines.simps [simp del]

definition deserialize_license_state :: "string \<Rightarrow> polar_license_state" where
  "deserialize_license_state serialized = read_license_lines serialized empty_license_state"

text \<open>\<open>plain\<close> is the decrypted file, where it could be read.\<close>

definition load_license_state :: "string option \<Rightarrow> polar_license_state option" where
  "load_license_state plain =
     (case plain of
        None \<Rightarrow> None
      | Some serialized \<Rightarrow>
          let st = deserialize_license_state serialized
          in if ls_provider st \<noteq> ''polar'' \<or> ls_license_key st = [] \<or> ls_activation_id st = [] then None
             else Some st)"

text \<open>The evaluation's file; times are in nanoseconds.\<close>

definition serialize_evaluation_state :: "int \<Rightarrow> string" where
  "serialize_evaluation_state started_at =
     ''started_at='' @ show_int (started_at sdiv nanoseconds_per_second) @ [newline]"

definition deserialize_evaluation_state :: "string \<Rightarrow> int option" where
  "deserialize_evaluation_state serialized =
     (if take 11 serialized \<noteq> ''started_at='' then None
      else case parse_uint64 (takeWhile (\<lambda>c. c \<noteq> newline) (drop 11 serialized)) of
          None \<Rightarrow> None
        | Some v \<Rightarrow> if 0x7FFFFFFFFFFFFFFF < v then None else Some (uint v * nanoseconds_per_second))"

section \<open>The server's answers\<close>

datatype json =
    Json_null
  | Json_bool bool
  | Json_unsigned u64
  | Json_integer "64 word"
  | Json_float
  | Json_string string
  | Json_array "json list"
  | Json_object "(string \<times> json) list"

fun json_find :: "json \<Rightarrow> string \<Rightarrow> json option" where
  "json_find (Json_object members) key = map_of members key"
| "json_find j key = None"

definition json_string_or_empty :: "json \<Rightarrow> string \<Rightarrow> string" where
  "json_string_or_empty object key =
     (case json_find object key of Some (Json_string v) \<Rightarrow> v | _ \<Rightarrow> [])"

definition json_uint32_or_zero :: "json \<Rightarrow> string \<Rightarrow> u32" where
  "json_uint32_or_zero object key =
     (case json_find object key of
        Some (Json_unsigned v) \<Rightarrow> ucast (min v 0xFFFFFFFF)
      | Some (Json_integer v) \<Rightarrow> if 0 <s v then ucast (min v 0xFFFFFFFF) else 0
      | _ \<Rightarrow> 0)"

definition polar_detail_message :: "json \<Rightarrow> string" where
  "polar_detail_message detail =
     (case detail of
        Json_string v \<Rightarrow> v
      | Json_array entries \<Rightarrow>
          (case find (\<lambda>candidate. json_string_or_empty candidate ''msg'' \<noteq> []) entries of
             None \<Rightarrow> [] | Some entry \<Rightarrow> json_string_or_empty entry ''msg'')
      | _ \<Rightarrow> [])"

definition polar_error_message :: "json \<Rightarrow> string \<Rightarrow> string" where
  "polar_error_message body fallback =
     (let detail = (case json_find body ''detail'' of Some d \<Rightarrow> polar_detail_message d | None \<Rightarrow> []);
          err = json_string_or_empty body ''error''
      in if detail \<noteq> [] then detail else if err = [] then fallback else err)"

definition license_state_from_json :: "json \<Rightarrow> string \<Rightarrow> string \<Rightarrow> polar_license_state" where
  "license_state_from_json body fallback_license_key fallback_activation_id =
     (let key = json_string_or_empty body ''key'';
          activation_id = (case json_find body ''activation'' of
              Some activation \<Rightarrow> json_string_or_empty activation ''id'' | None \<Rightarrow> [])
      in empty_license_state\<lparr>
           ls_provider := ''polar'',
           ls_license_key := (if key = [] then fallback_license_key else key),
           ls_activation_id := (if activation_id = [] then fallback_activation_id else activation_id),
           ls_license_key_id := json_string_or_empty body ''id'',
           ls_license_status := json_string_or_empty body ''status'',
           ls_organization_id := json_string_or_empty body ''organization_id'',
           ls_benefit_id := json_string_or_empty body ''benefit_id'',
           ls_activation_limit := json_uint32_or_zero body ''limit_activations'',
           ls_customer_email := (case json_find body ''customer'' of
              Some customer \<Rightarrow> json_string_or_empty customer ''email'' | None \<Rightarrow> [])\<rparr>)"

section \<open>The file keeps the state\<close>

lemma digit_is_digit: "n < 10 \<Longrightarrow> is_digit (digit n) \<and> of_char (digit n) - 48 = n"
proof -
  have "\<forall>n\<in>{0..<10}. is_digit (digit n) \<and> of_char (digit n) - 48 = n"
    by code_simp
  then show "n < 10 \<Longrightarrow> is_digit (digit n) \<and> of_char (digit n) - 48 = n"
    by simp
qed

lemma parse_show:
  "list_all is_digit (show_nat n) \<and> show_nat n \<noteq> [] \<and>
   foldl (\<lambda>v c. 10 * v + (of_char c - 48)) 0 (show_nat n) = n"
proof (induction n rule: show_nat.induct)
  case (1 n)
  then show ?case
    by (subst (1 2 3) show_nat.simps) (auto simp: digit_is_digit)
qed

lemma parse_uint64_show [simp]: "parse_uint64 (show_nat (unat v)) = Some v"
  using parse_show [of "unat v"] unsigned_less [of v, where 'a = nat]
  by (simp add: parse_uint64_def Let_def)

lemma digit_not_newline: "list_all is_digit str \<Longrightarrow> newline \<notin> set str"
  by (induction str) (auto simp: is_digit_def)

lemma show_nat_no_newline [simp]: "newline \<notin> set (show_nat n)"
  using digit_not_newline parse_show by blast

lemma read_state_line:
  assumes "newline \<notin> set key" "CHR ''='' \<notin> set key" "newline \<notin> set val"
  shows "read_license_lines (state_line key val @ rest) st = read_license_lines rest (read_license_field key val st)"
proof -
  have line: "takeWhile (\<lambda>c. c \<noteq> newline) (state_line key val @ rest) = key @ CHR ''='' # val"
    "dropWhile (\<lambda>c. c \<noteq> newline) (state_line key val @ rest) = newline # rest"
    using assms by (auto simp: state_line_def takeWhile_append dropWhile_append)
  have "read_license_line (key @ CHR ''='' # val) st = read_license_field key val st"
    using assms by (auto simp: read_license_line_def takeWhile_append dropWhile_append)
  moreover have "state_line key val \<noteq> []"
    by (simp add: state_line_def)
  ultimately show ?thesis
    by (subst read_license_lines.simps) (simp add: line Let_def)
qed

definition texts_of :: "polar_license_state \<Rightarrow> string list" where
  "texts_of st = [ls_provider st, ls_license_key st, ls_activation_id st, ls_license_key_id st,
     ls_license_status st, ls_organization_id st, ls_benefit_id st, ls_customer_email st, ls_boot_marker st]"

lemma ucast_ucast_u32 [simp]: "ucast (ucast (v :: u32) :: u64) = v"
  by (rule bit_word_eqI) (simp add: bit_simps)

lemma min_u32 [simp]: "min (ucast (v :: u32)) 0xFFFFFFFF = (ucast v :: u64)"
proof -
  have "uint (ucast v :: u64) = uint v"
    using unsigned_less [of v, where 'a = int] by (simp add: unsigned_ucast_eq take_bit_int_eq_self)
  then have "(ucast v :: u64) \<le> 0xFFFFFFFF"
    using unsigned_less [of v, where 'a = int] by (simp add: word_le_def)
  then show ?thesis
    by (simp add: min_def)
qed

lemma parse_or_zero_show:
  "parse_uint64_or_zero (show_nat (unat (v :: u64))) = v"
  "parse_uint64_or_zero (show_nat (unat (w :: u32))) = ucast w"
proof -
  have "unat w = unat (ucast w :: u64)"
    using unsigned_less [of w, where 'a = nat] by (simp add: unsigned_ucast_eq take_bit_nat_eq_self)
  then show "parse_uint64_or_zero (show_nat (unat w)) = ucast w"
    by (simp only:) (simp add: parse_uint64_or_zero_def)
qed (simp add: parse_uint64_or_zero_def)

text \<open>What the broker writes to its file is what it reads back.\<close>

lemma deserialize_serialize:
  assumes "list_all (\<lambda>t. newline \<notin> set t) (texts_of st)"
  shows "deserialize_license_state (serialize_license_state st) = st"
proof -
  have "read_license_lines [] st' = st'" for st'
    by (subst read_license_lines.simps) simp
  with assms show ?thesis
    using read_state_line [where rest = "[]"]
    by (simp add: deserialize_license_state_def serialize_license_state_def read_state_line texts_of_def
        read_license_field_def parse_or_zero_show empty_license_state_def)
qed

section \<open>How long a licence lasts\<close>

text \<open>The state of a yearly licence was validated at the calendar time \<open>t\<close> and the uptime \<open>u\<close>
  (milliseconds); at the uptime \<open>c\<close> of the same session it is current for less than 25 hours.\<close>

lemma subscription_lasts:
  assumes "0 < t" "t < 2 ^ 63" "u \<le> c"
  shows "\<exists>effective. license_monotonic_calendar_timestamp (license_calendar_timestamp t) u c True = Some effective \<and>
    (subscription_current (license_calendar_timestamp t) effective \<longleftrightarrow> unat (c - u) div 1000 < 25 * 3600)"
proof -
  let ?t = "license_calendar_timestamp t" and ?e = "(c - u) div 1000"
  have t: "unat ?t = nat t" "?t \<noteq> 0"
    using assms(1,2) by (auto simp: license_calendar_timestamp_def unsigned_of_int take_bit_int_eq_self
        word_of_int_eq_0_iff dest: zdvd_imp_le)
  have e: "unat ?e = unat (c - u) div 1000"
    by (simp add: unat_div_distrib)
  then have small: "unat ?e < 2 ^ 63"
    using unsigned_less [of "c - u", where 'a = nat] by simp
  have "unat (- 1 :: u64) = 2 ^ 64 - 1"
    by (simp add: unsigned_minus_1_eq_mask mask_eq_exp_minus_1)
  then have "unat (- 1 - ?e) = 2 ^ 64 - 1 - unat ?e"
    by (simp add: unat_sub)
  then have fits: "\<not> - 1 - ?e < ?t"
    using small t assms by (simp add: word_less_nat_alt)
  have sum: "unat (?t + ?e) = unat ?t + unat ?e"
    using small t assms by (intro unat_add_lem [THEN iffD1]) simp
  have "?t \<le> ?t + ?e"
    by (simp add: word_le_nat_alt sum)
  moreover have "?t + ?e - ?t = ?e"
    by simp
  moreover have "?e < 90000 \<longleftrightarrow> unat (c - u) div 1000 < 25 * 3600"
    by (simp add: word_less_nat_alt e)
  moreover have "license_monotonic_calendar_timestamp ?t u c True = Some (?t + ?e)"
    using t assms(3) fits by (auto simp: license_monotonic_calendar_timestamp_def Let_def dest: leD)
  ultimately show ?thesis
    using t
    by (simp add: subscription_current_def subscription_max_age_def validation_interval_def
        outage_retention_def nanoseconds_per_second_def)
qed

end
