(* ===== verification/BrokerService.thy ===== *)
theory BrokerService
  imports BrokerLicense
begin

text \<open>
  The Windows broker, \<open>BrokerState\<close> with \<open>DriverChannel\<close> and the dispatch of a client's message in
  \<open>src/src/platform/windows/broker/libvirtualhid_broker.cpp\<close>. What the broker asks of the system
  (clocks, processes, the driver's device node, the licence server, its protected files) is the
  record \<open>broker_os\<close> of functions on a state of the system, so that the theorems hold for every
  system; the clocks stand still within one operation that calls nothing else. The two threads
  are the pipe server, which handles one client at a time, and the licence validation, which can
  run between the three stages of a creation.
\<close>

section \<open>Messages\<close>

datatype broker_status =
    St_success | St_invalid_argument | St_unsupported_profile | St_device_not_found
  | St_backend_unavailable | St_backend_failure | St_license_required | St_license_invalid
  | St_activation_limit_reached | St_network_unavailable

datatype broker_license_state = Lic_free | Lic_licensed | Lic_expired | Lic_disabled | Lic_invalid

definition LVH_WINDOWS_BROKER_MAX_MESSAGE_SIZE :: nat where "LVH_WINDOWS_BROKER_MAX_MESSAGE_SIZE = 512"
definition LVH_WINDOWS_BROKER_MAX_PLAN_NAME_SIZE :: nat where "LVH_WINDOWS_BROKER_MAX_PLAN_NAME_SIZE = 128"
definition LVH_WINDOWS_BROKER_MAX_CUSTOMER_EMAIL_SIZE :: nat where
  "LVH_WINDOWS_BROKER_MAX_CUSTOMER_EMAIL_SIZE = 128"
definition LVH_WINDOWS_MAX_DEVICE_PATH_SIZE :: nat where "LVH_WINDOWS_MAX_DEVICE_PATH_SIZE = 260"

definition copy_c_string :: "nat \<Rightarrow> string \<Rightarrow> string" where
  "copy_c_string n val =
     (let count = min (length val) (n - 1) in take count val @ replicate (n - count) NUL)"

definition message_text :: "string \<Rightarrow> string" where
  "message_text val = copy_c_string LVH_WINDOWS_BROKER_MAX_MESSAGE_SIZE val"

text \<open>The C string in an array.\<close>

definition c_str :: "string \<Rightarrow> string" where
  "c_str array = takeWhile (\<lambda>c. c \<noteq> NUL) array"

record license_status =
  li_version :: u32
  li_size :: u32
  li_state :: broker_license_state
  li_active_devices :: u32
  li_free_active_device_limit :: u32
  li_activation_limit :: u32
  li_activation_usage :: u32
  li_plan_name :: string
  li_customer_email :: string
  li_message :: string

definition license_status_size :: u32 where "license_status_size = 7 * 4 + 128 + 128 + 512"

record create_device_response =
  cd_version :: u32
  cd_size :: u32
  cd_status :: u32
  cd_driver_device_id :: u64
  cd_transport_handle :: u64
  cd_session_token :: session_token
  cd_device_path :: string

definition create_device_response_size :: u32 where
  "create_device_response_size = 4 * 4 + 8 + 8 + 32 + 260"

definition empty_create_device_response :: create_device_response where
  "empty_create_device_response =
     \<lparr>cd_version = LVH_WINDOWS_CONTROL_PROTOCOL_VERSION, cd_size = create_device_response_size,
      cd_status = 0, cd_driver_device_id = 0, cd_transport_handle = 0,
      cd_session_token = empty_session_token,
      cd_device_path = replicate LVH_WINDOWS_MAX_DEVICE_PATH_SIZE NUL\<rparr>"

text \<open>The responses have these fields in common; the one of a creation holds the device.\<close>

record broker_response =
  re_version :: u32
  re_size :: u32
  re_status :: broker_status
  re_license :: license_status
  re_message :: string

record broker_create_response = broker_response +
  re_device :: create_device_response

definition broker_response_size :: u32 where "broker_response_size = 4 * 4 + license_status_size + 512"
definition broker_create_response_size :: u32 where
  "broker_create_response_size = 4 * 4 + create_device_response_size + license_status_size + 512"

definition respond :: "broker_status \<Rightarrow> license_status \<Rightarrow> string \<Rightarrow> broker_response" where
  "respond status license msg =
     \<lparr>re_version = LVH_WINDOWS_BROKER_PROTOCOL_VERSION, re_size = broker_response_size,
      re_status = status, re_license = license, re_message = message_text msg\<rparr>"

definition respond_create ::
  "broker_status \<Rightarrow> license_status \<Rightarrow> string \<Rightarrow> create_device_response \<Rightarrow> broker_create_response" where
  "respond_create status license msg device =
     \<lparr>re_version = LVH_WINDOWS_BROKER_PROTOCOL_VERSION, re_size = broker_create_response_size,
      re_status = status, re_license = license, re_message = message_text msg, re_device = device\<rparr>"

section \<open>The system\<close>

type_synonym handle = nat

record polar_api_result =
  pa_transport_ok :: bool
  pa_http_status :: u32
  pa_server_time :: "int option"
  pa_body :: string
  pa_error :: string

text \<open>A function that can fail returns the text of its error. \<open>bo_xbox360_create\<close> is
  \<open>Xbox360SoftwareDevice::create\<close>; it returns the response as far as it was filled, and the
  status and message where there is no device.\<close>

record 'w broker_os =
  bo_license_now :: "'w \<Rightarrow> int"
  bo_uptime_ms :: "'w \<Rightarrow> u64"
  bo_now :: "'w \<Rightarrow> int"
  bo_parse_json :: "string \<Rightarrow> json option"
  bo_post :: "string \<Rightarrow> json \<Rightarrow> 'w \<Rightarrow> polar_api_result \<times> 'w"
  bo_save_license :: "string \<Rightarrow> 'w \<Rightarrow> string option \<times> 'w"
  bo_save_evaluation :: "string \<Rightarrow> 'w \<Rightarrow> string option \<times> 'w"
  bo_delete_license :: "'w \<Rightarrow> 'w"
  bo_computer_name :: "'w \<Rightarrow> string"
  bo_open_process :: "u32 \<Rightarrow> 'w \<Rightarrow> handle option \<times> 'w"
  bo_process_gone :: "handle \<Rightarrow> 'w \<Rightarrow> bool"
  bo_duplicate :: "handle \<Rightarrow> u64 \<Rightarrow> 'w \<Rightarrow> handle option \<times> 'w"
  bo_random_token :: "'w \<Rightarrow> session_token option \<times> 'w"
  bo_xbox360_create :: "create_device_request \<Rightarrow> u64 \<Rightarrow> session_token \<Rightarrow> handle \<Rightarrow> 'w \<Rightarrow>
      (broker_status \<times> string) option \<times> create_device_response \<times> 'w"
  bo_open_driver :: "string \<Rightarrow> 'w \<Rightarrow> bool \<times> 'w"
  bo_driver_error :: "'w \<Rightarrow> string"
  bo_create_event :: "'w \<Rightarrow> string option \<times> 'w"
  bo_ioctl_create :: "handle \<Rightarrow> create_device_request \<Rightarrow> 'w \<Rightarrow> (string + u32 \<times> create_device_response) \<times> 'w"
  bo_ioctl_destroy :: "destroy_device_request \<Rightarrow> 'w \<Rightarrow> string option \<times> 'w"
  bo_ioctl_reset :: "reset_devices_request \<Rightarrow> 'w \<Rightarrow> string option \<times> 'w"

section \<open>The driver's channel\<close>

text \<open>An operation returns a status and a message.\<close>

fun broker_status_from_protocol :: "u32 \<Rightarrow> broker_status" where
  "broker_status_from_protocol status =
     (if status = 0 then St_success
      else if status = 1 then St_invalid_argument
      else if status = 2 then St_unsupported_profile
      else if status = 3 then St_device_not_found
      else St_backend_failure)"

definition activation_failure_status :: "u32 \<Rightarrow> broker_status" where
  "activation_failure_status http_status =
     (if http_status = 403 then St_activation_limit_reached
      else if http_status = 404 \<or> http_status = 422 then St_license_invalid
      else St_backend_failure)"

definition LVH_WINDOWS_CONTROL_DEVICE_PATH :: string where
  "LVH_WINDOWS_CONTROL_DEVICE_PATH = [CHR 0x5C, CHR 0x5C, CHR ''.'', CHR 0x5C] @ ''LibVirtualHid''"

definition LVH_WINDOWS_GLOBAL_CONTROL_DEVICE_PATH :: string where
  "LVH_WINDOWS_GLOBAL_CONTROL_DEVICE_PATH =
     [CHR 0x5C, CHR 0x5C, CHR ''.'', CHR 0x5C] @ ''Global'' @ [CHR 0x5C] @ ''LibVirtualHid''"

text \<open>The channel is the path it was opened at.\<close>

definition driver_open :: "'w broker_os \<Rightarrow> string option \<Rightarrow> 'w \<Rightarrow> bool \<times> string option \<times> 'w" where
  "driver_open os channel w =
     (if channel \<noteq> None then (True, channel, w)
      else let (opened, w) = bo_open_driver os LVH_WINDOWS_CONTROL_DEVICE_PATH w in
           if opened then (True, Some LVH_WINDOWS_CONTROL_DEVICE_PATH, w)
           else let (opened, w) = bo_open_driver os LVH_WINDOWS_GLOBAL_CONTROL_DEVICE_PATH w in
                if opened then (True, Some LVH_WINDOWS_GLOBAL_CONTROL_DEVICE_PATH, w)
                else (False, None, w))"

definition driver_create_device ::
  "'w broker_os \<Rightarrow> string option \<Rightarrow> handle option \<Rightarrow> create_device_request \<Rightarrow> create_device_response \<Rightarrow> 'w \<Rightarrow>
     (broker_status \<times> string) option \<times> create_device_response \<times> 'w" where
  "driver_create_device os channel control request response w =
     (case control of
        None \<Rightarrow> (Some (St_backend_unavailable, ''The requesting client control handle is unavailable.''), response, w)
      | Some control \<Rightarrow>
          let (err, w) = bo_create_event os w in
          case err of
            Some text \<Rightarrow>
              (Some (St_backend_failure, ''Unable to create a Windows driver request event: '' @ text), response, w)
          | None \<Rightarrow>
              let (result, w) = bo_ioctl_create os control request w in
              case result of
                Inl text \<Rightarrow>
                  (Some (St_backend_failure, ''create Windows virtual HID device: '' @ text), response, w)
              | Inr (bytes_returned, response) \<Rightarrow>
                  if bytes_returned < create_device_response_size
                  then (Some (St_backend_failure, ''Windows driver returned a truncated device response''), response, w)
                  else let status = broker_status_from_protocol (cd_status response) in
                    if status \<noteq> St_success
                    then (Some (status, ''Windows driver rejected virtual HID device creation''), response, w)
                    else (None,
                      (if take 1 (cd_device_path response) = [NUL]
                       then response\<lparr>cd_device_path := copy_c_string LVH_WINDOWS_MAX_DEVICE_PATH_SIZE
                         (case channel of Some path \<Rightarrow> path | None \<Rightarrow> [])\<rparr>
                       else response), w))"

definition driver_unavailable :: "'w broker_os \<Rightarrow> 'w \<Rightarrow> broker_status \<times> string" where
  "driver_unavailable os w =
     (St_backend_unavailable, ''Windows UMDF control device is unavailable: '' @ bo_driver_error os w)"

definition driver_destroy_device ::
  "'w broker_os \<Rightarrow> destroy_device_request \<Rightarrow> string option \<Rightarrow> 'w \<Rightarrow>
     (broker_status \<times> string) option \<times> string option \<times> 'w" where
  "driver_destroy_device os request channel w =
     (let (opened, channel, w) = driver_open os channel w in
      if \<not> opened then (Some (driver_unavailable os w), channel, w)
      else let (err, w) = bo_ioctl_destroy os request w in
        (map_option (\<lambda>text. (St_backend_failure, ''destroy Windows virtual HID device: '' @ text)) err, channel, w))"

definition driver_reset_devices ::
  "'w broker_os \<Rightarrow> string option \<Rightarrow> 'w \<Rightarrow> (broker_status \<times> string) option \<times> string option \<times> 'w" where
  "driver_reset_devices os channel w =
     (let (opened, channel, w) = driver_open os channel w in
      if \<not> opened then (Some (driver_unavailable os w), channel, w)
      else let (err, w) = bo_ioctl_reset os make_reset_devices_request w in
        (map_option (\<lambda>text. (St_backend_failure, ''reset Windows virtual HID devices: '' @ text)) err, channel, w))"

section \<open>State\<close>

record device_record =
  dv_session_token :: session_token
  dv_owner_process_id :: u32
  dv_owner_process :: handle
  dv_xbox360 :: bool
  dv_evaluation :: bool

text \<open>\<open>std::map\<close> is a list in the order of its keys.\<close>

fun try_emplace :: "'k::linorder \<Rightarrow> 'v \<Rightarrow> ('k \<times> 'v) list \<Rightarrow> ('k \<times> 'v) list" where
  "try_emplace k v [] = [(k, v)]"
| "try_emplace k v ((k', v') # m) =
     (if k < k' then (k, v) # (k', v') # m
      else if k = k' then (k', v') # m
      else (k', v') # try_emplace k v m)"

definition erase_key :: "'k \<Rightarrow> ('k \<times> 'v) list \<Rightarrow> ('k \<times> 'v) list" where
  "erase_key k m = filter (\<lambda>(k', _). k' \<noteq> k) m"

record broker =
  br_devices :: "(u64 \<times> device_record) list"
  br_driver :: "string option"
  br_next_xbox360_id :: u64
  br_license :: "polar_license_state option"
  br_next_attempt :: "int option"
  br_unavailable_since :: "int option"
  br_evaluation :: "int option"
  br_online_confirmed :: bool
  br_revoke_licensed :: bool
  br_reconciled :: bool
  br_github_actions :: bool
  br_boot_marker :: string

definition license_allowed :: "polar_license_state \<Rightarrow> bool" where
  "license_allowed st \<longleftrightarrow> polar_organization_id \<noteq> [] \<and>
     ls_organization_id st = polar_organization_id \<and> plan_name (ls_benefit_id st) \<noteq> []"

definition license_effective_timestamp :: "'w broker_os \<Rightarrow> broker \<Rightarrow> 'w \<Rightarrow> u64 option" where
  "license_effective_timestamp os b w =
     (case br_license b of
        None \<Rightarrow> None
      | Some st \<Rightarrow> license_monotonic_calendar_timestamp (ls_validated_at st) (ls_validated_uptime_ms st)
          (bo_uptime_ms os w) (br_boot_marker b \<noteq> [] \<and> ls_boot_marker st = br_boot_marker b))"

definition license_authorization_is_current :: "'w broker_os \<Rightarrow> broker \<Rightarrow> 'w \<Rightarrow> bool" where
  "license_authorization_is_current os b w =
     (case br_license b of
        None \<Rightarrow> False
      | Some st \<Rightarrow>
          if ls_license_status st \<noteq> ''granted'' then False
          else case benefit (ls_benefit_id st) of
              None \<Rightarrow> False
            | Some found \<Rightarrow>
                if \<not> pb_subscription_backed found then True
                else case license_effective_timestamp os b w of
                    None \<Rightarrow> False
                  | Some effective \<Rightarrow> subscription_current (ls_validated_at st) effective)"

definition subscription_validation_has_elapsed :: "'w broker_os \<Rightarrow> broker \<Rightarrow> 'w \<Rightarrow> bool" where
  "subscription_validation_has_elapsed os b w =
     (case br_license b of
        None \<Rightarrow> False
      | Some st \<Rightarrow>
          (case benefit (ls_benefit_id st) of
             None \<Rightarrow> False
           | Some found \<Rightarrow>
               (case license_effective_timestamp os b w of
                  None \<Rightarrow> False
                | Some effective \<Rightarrow>
                    pb_subscription_backed found \<and> \<not> subscription_current (ls_validated_at st) effective)))"

definition license_is_active :: "'w broker_os \<Rightarrow> broker \<Rightarrow> 'w \<Rightarrow> bool" where
  "license_is_active os b w =
     (case br_license b of
        None \<Rightarrow> False
      | Some st \<Rightarrow> license_allowed st \<and> license_authorization_is_current os b w)"

definition licensed_devices :: "(u64 \<times> device_record) list \<Rightarrow> (u64 \<times> device_record) list" where
  "licensed_devices devices = filter (\<lambda>(_, dv). \<not> dv_evaluation dv) devices"

definition active_licensed_device_count :: "broker \<Rightarrow> nat" where
  "active_licensed_device_count b = length (licensed_devices (br_devices b))"

definition license_text :: "'w broker_os \<Rightarrow> broker \<Rightarrow> polar_license_state \<Rightarrow> 'w \<Rightarrow> broker_license_state \<times> string" where
  "license_text os b st w =
     (if \<not> license_allowed st
      then (Lic_invalid, ''License organization or benefit is not allowed for this driver.'')
      else if ls_license_status st = ''disabled'' then (Lic_disabled, ''License disabled.'')
      else if ls_license_status st = ''revoked'' then (Lic_invalid, ''License revoked.'')
      else if \<not> license_authorization_is_current os b w
      then (Lic_invalid,
        if license_effective_timestamp os b w = None
        then ''Reconnect to Polar after Windows restarts to validate the license.''
        else ''Reconnect to Polar to validate the yearly subscription.'')
      else if ls_license_status st = ''granted''
      then (Lic_licensed,
        if br_online_confirmed b then ''Licensed.''
        else ''Polar validation unavailable; existing devices are retained for one hour and new creation is limited to one active device.'')
      else (Lic_invalid, ''License is not granted.''))"

definition evaluation_text :: "int \<Rightarrow> string" where
  "evaluation_text remaining = ''GitHub Actions evaluation active for '' @ show_int remaining @ '' more seconds.''"

definition free_license_text :: "'w broker_os \<Rightarrow> broker \<Rightarrow> 'w \<Rightarrow> string \<times> string" where
  "free_license_text os b w =
     (if \<not> br_github_actions b
      then (''Unlicensed'', ''An active license is required to create virtual HID devices.'')
      else (''GitHub Actions Evaluation'',
        case br_evaluation b of
          None \<Rightarrow> ''Five-minute GitHub Actions evaluation starts with the first virtual HID device creation.''
        | Some started_at \<Rightarrow>
            let remaining = evaluation_remaining started_at (bo_now os w) in
            if 0 < remaining then evaluation_text remaining
            else ''GitHub Actions evaluation expired; an active license is required.''))"

definition fill_license_status :: "'w broker_os \<Rightarrow> broker \<Rightarrow> 'w \<Rightarrow> license_status" where
  "fill_license_status os b w =
     (let (state, limit, usage, plan, email, text) =
        (case br_license b of
           None \<Rightarrow>
             let (plan, text) = free_license_text os b w in (Lic_free, 0, 0, plan, [], text)
         | Some st \<Rightarrow>
             let plan = plan_name (ls_benefit_id st);
                 (state, text) = license_text os b st w
             in (state, ls_activation_limit st, if ls_activation_id st = [] then 0 else 1,
                 if plan = [] then ''Licensed'' else plan, ls_customer_email st, text))
      in \<lparr>li_version = LVH_WINDOWS_BROKER_PROTOCOL_VERSION, li_size = license_status_size,
          li_state = state, li_active_devices = word_of_nat (length (br_devices b)),
          li_free_active_device_limit = 0, li_activation_limit = limit, li_activation_usage = usage,
          li_plan_name = copy_c_string LVH_WINDOWS_BROKER_MAX_PLAN_NAME_SIZE plan,
          li_customer_email = copy_c_string LVH_WINDOWS_BROKER_MAX_CUSTOMER_EMAIL_SIZE email,
          li_message = message_text text\<rparr>)"

section \<open>Devices\<close>

definition reconcile_driver_state ::
  "'w broker_os \<Rightarrow> broker \<times> 'w \<Rightarrow> (broker_status \<times> string) option \<times> broker \<times> 'w" where
  "reconcile_driver_state os = (\<lambda>(b, w).
     if br_reconciled b then (None, b, w)
     else let (err, channel, w) = driver_reset_devices os (br_driver b) w;
              b = b\<lparr>br_driver := channel\<rparr>
       in if err \<noteq> None then (err, b, w) else (None, b\<lparr>br_devices := [], br_reconciled := True\<rparr>, w))"

definition destroy_device_transport ::
  "'w broker_os \<Rightarrow> destroy_device_request \<Rightarrow> broker \<times> 'w \<Rightarrow> (broker_status \<times> string) option \<times> broker \<times> 'w" where
  "destroy_device_transport os request = (\<lambda>(b, w).
     if (case map_of (br_devices b) (dr_driver_device_id request) of Some dv \<Rightarrow> dv_xbox360 dv | None \<Rightarrow> False)
     then (None, b, w)
     else let (err, channel, w) = driver_destroy_device os request (br_driver b) w
       in (err, b\<lparr>br_driver := channel\<rparr>, w))"

text \<open>Whether a creation is authorised, with the status and message of its response; the last
  component is the licence it was authorised for.\<close>

record authorization =
  au_status :: broker_status
  au_evaluation :: bool
  au_license :: license_status
  au_message :: string
  au_license_id :: string

definition authorize_device_create ::
  "'w broker_os \<Rightarrow> broker \<times> 'w \<Rightarrow> authorization \<times> broker \<times> 'w" where
  "authorize_device_create os = (\<lambda>(b, w).
     let answer = (\<lambda>status evaluation text id b w.
       (\<lparr>au_status = status, au_evaluation = evaluation, au_license = fill_license_status os b w,
         au_message = text, au_license_id = id\<rparr>, b, w))
     in case br_license b of
       None \<Rightarrow>
         if \<not> br_github_actions b
         then answer St_license_required False ''An active license is required to create virtual HID devices.'' [] b w
         else let now = bo_now os w;
                  (err, started_at, w) =
                    (case br_evaluation b of
                       Some started_at \<Rightarrow> (None, started_at, w)
                     | None \<Rightarrow>
                         let (err, w) = bo_save_evaluation os (serialize_evaluation_state now) w in (err, now, w))
           in case err of
                Some text \<Rightarrow> answer St_backend_failure False text [] b w
              | None \<Rightarrow>
                  let b = b\<lparr>br_evaluation := Some started_at\<rparr> in
                  if \<not> evaluation_active started_at now
                  then answer St_license_required False
                    ''The five-minute GitHub Actions evaluation window has expired.'' [] b w
                  else answer St_success True (evaluation_text (evaluation_remaining started_at now)) [] b w
     | Some st \<Rightarrow>
         if \<not> license_allowed st \<or> \<not> license_authorization_is_current os b w
         then answer St_license_invalid False (c_str (li_message (fill_license_status os b w))) [] b w
         else if br_online_confirmed b
         then answer St_success False ''License validated online.'' (ls_license_key_id st) b w
         else if unvalidated_device_creation_allowed (active_licensed_device_count b)
         then answer St_success False
           ''Polar validation is unavailable; one active device is permitted.'' (ls_license_key_id st) b w
         else answer St_network_unavailable False
           ''Polar validation is unavailable; the one-device fallback is already in use.''
           (ls_license_key_id st) b w)"

text \<open>A creation in three stages: the checks and the authorisation, the device of the system, the
  entry in the table. Every stage ends with the response of a refused request or hands on.\<close>

record pending_create =
  pc_request :: broker_create_device_request
  pc_process_id :: u32
  pc_owner :: handle
  pc_authorization :: authorization

definition create_begin ::
  "'w broker_os \<Rightarrow> broker_create_device_request \<Rightarrow> u32 \<Rightarrow> broker \<times> 'w \<Rightarrow>
     (broker_create_response + pending_create) \<times> broker \<times> 'w" where
  "create_begin os request client_process_id = (\<lambda>(b, w).
     if \<not> valid_create_device_request request
     then (Inl (respond_create St_invalid_argument (fill_license_status os b w)
       ''Invalid broker create request.'' empty_create_device_response), b, w)
     else let (err, b, w) = reconcile_driver_state os (b, w) in
     case err of
       Some (status, text) \<Rightarrow>
         (Inl (respond_create status (fill_license_status os b w) text empty_create_device_response), b, w)
     | None \<Rightarrow>
         let (owner, w) = (if client_process_id = 0 then (None, w) else bo_open_process os client_process_id w) in
         case owner of
           None \<Rightarrow>
             (Inl (respond_create St_backend_failure (fill_license_status os b w)
               ''Unable to open the requesting client process.'' empty_create_device_response), b, w)
         | Some owner \<Rightarrow>
             let (au, b, w) = authorize_device_create os (b, w) in
             if au_status au \<noteq> St_success
             then (Inl (respond_create (au_status au) (au_license au) (au_message au)
               empty_create_device_response), b, w)
             else (Inr \<lparr>pc_request = request, pc_process_id = client_process_id, pc_owner = owner,
               pc_authorization = au\<rparr>, b, w))"

definition is_xbox360_request :: "broker_create_device_request \<Rightarrow> bool" where
  "is_xbox360_request request \<longleftrightarrow>
     cr_device_type (bc_device request) = LVH_WINDOWS_DEVICE_GAMEPAD \<and>
     cr_gamepad_kind (bc_device request) = LVH_WINDOWS_GAMEPAD_XBOX_360"

definition generate_session_token :: "'w broker_os \<Rightarrow> 'w \<Rightarrow> session_token option \<times> 'w" where
  "generate_session_token os w =
     (let (token, w) = bo_random_token os w in
      (case token of Some t \<Rightarrow> if all_zero t then None else Some t | None \<Rightarrow> None, w))"

definition create_transport ::
  "'w broker_os \<Rightarrow> pending_create \<Rightarrow> broker \<times> 'w \<Rightarrow>
     (broker_create_response + create_device_response) \<times> broker \<times> 'w" where
  "create_transport os pc = (\<lambda>(b, w).
     let request = bc_device (pc_request pc);
         refuse = (\<lambda>status text device b w.
           (Inl (respond_create status (fill_license_status os b w) text device), b, w))
     in if is_xbox360_request (pc_request pc) then
          let driver_device_id = br_next_xbox360_id b;
              b = b\<lparr>br_next_xbox360_id := driver_device_id + 1\<rparr>;
              (token, w) = generate_session_token os w
          in case token of
               None \<Rightarrow> refuse St_backend_failure ''Unable to generate an Xbox 360 device session token.''
                 empty_create_device_response b w
             | Some token \<Rightarrow>
                 let (err, device, w) = bo_xbox360_create os request driver_device_id token (pc_owner pc) w in
                 (case err of
                    Some (status, text) \<Rightarrow> refuse status text device b w
                  | None \<Rightarrow> (Inr device, b, w))
        else
          let handle_value = bc_client_control_handle (pc_request pc);
              (control, w) = (if handle_value = 0 then (None, w) else bo_duplicate os (pc_owner pc) handle_value w)
          in if control = None
             then refuse St_invalid_argument ''Unable to duplicate the requesting client control handle.''
               empty_create_device_response b w
             else
               let (err, device, w) =
                 driver_create_device os (br_driver b) control request empty_create_device_response w in
               (case err of
                  Some (status, text) \<Rightarrow> refuse status text device b w
                | None \<Rightarrow> (Inr device, b, w)))"

definition record_gamepad_creation :: "'w broker_os \<Rightarrow> string \<Rightarrow> broker \<times> 'w \<Rightarrow> broker \<times> 'w" where
  "record_gamepad_creation os authorized_license_id = (\<lambda>(b, w).
     case br_license b of
       None \<Rightarrow> (b, w)
     | Some st \<Rightarrow>
         if ls_license_key_id st \<noteq> authorized_license_id \<or> ls_pending_usage st = - 1 then (b, w)
         else let st = st\<lparr>ls_pending_usage := ls_pending_usage st + 1\<rparr>;
                  (ignored, w) = bo_save_license os (serialize_license_state st) w
              in (b\<lparr>br_license := Some st\<rparr>, w))"

definition create_finish ::
  "'w broker_os \<Rightarrow> pending_create \<Rightarrow> create_device_response \<Rightarrow> broker \<times> 'w \<Rightarrow> broker_create_response \<times> broker \<times> 'w" where
  "create_finish os pc device = (\<lambda>(b, w).
     let au = pc_authorization pc;
         b = b\<lparr>br_devices := try_emplace (cd_driver_device_id device)
           \<lparr>dv_session_token = cd_session_token device, dv_owner_process_id = pc_process_id pc,
            dv_owner_process = pc_owner pc, dv_xbox360 = is_xbox360_request (pc_request pc),
            dv_evaluation = au_evaluation au\<rparr> (br_devices b)\<rparr>;
         license = fill_license_status os b w;
         (b, w) = (if \<not> au_evaluation au \<and> cr_device_type (bc_device (pc_request pc)) = LVH_WINDOWS_DEVICE_GAMEPAD
           then record_gamepad_creation os (au_license_id au) (b, w) else (b, w))
     in (respond_create St_success license
          (if au_evaluation au then ''Created virtual HID device using the GitHub Actions evaluation window.''
           else ''Created virtual HID device.'') device, b, w))"

definition handle_create ::
  "'w broker_os \<Rightarrow> broker_create_device_request \<Rightarrow> u32 \<Rightarrow> broker \<times> 'w \<Rightarrow> broker_create_response \<times> broker \<times> 'w" where
  "handle_create os request client_process_id s =
     (case create_begin os request client_process_id s of
        (Inl response, s) \<Rightarrow> (response, s)
      | (Inr pc, s) \<Rightarrow>
          (case create_transport os pc s of
             (Inl response, s) \<Rightarrow> (response, s)
           | (Inr device, s) \<Rightarrow> create_finish os pc device s))"

definition handle_destroy ::
  "'w broker_os \<Rightarrow> broker_destroy_device_request \<Rightarrow> broker \<times> 'w \<Rightarrow> broker_response \<times> broker \<times> 'w" where
  "handle_destroy os request = (\<lambda>(b, w).
     let answer = (\<lambda>status text b w. (respond status (fill_license_status os b w) text, b, w)) in
     if \<not> valid_destroy_device_request request
     then answer St_invalid_argument ''Invalid broker destroy request.'' b w
     else case map_of (br_devices b) (dr_driver_device_id (bd_device request)) of
       None \<Rightarrow> answer St_device_not_found ''Broker does not own this virtual device.'' b w
     | Some dv \<Rightarrow>
         if dv_session_token dv \<noteq> dr_session_token (bd_device request)
         then answer St_invalid_argument ''Invalid virtual device session token.'' b w
         else let (err, b, w) = destroy_device_transport os (bd_device request) (b, w) in
           case err of
             Some (status, text) \<Rightarrow> answer status text b w
           | None \<Rightarrow>
               let b = b\<lparr>br_devices := erase_key (dr_driver_device_id (bd_device request)) (br_devices b)\<rparr>
               in answer St_success ''Destroyed virtual device.'' b w)"

section \<open>Cleaning up\<close>

text \<open>The loop over the table for the devices to be destroyed; \<open>kept\<close> counts the licensed devices
  that stay.\<close>

fun cleanup_candidates ::
  "(handle \<Rightarrow> bool) \<Rightarrow> bool \<Rightarrow> bool \<Rightarrow> bool \<Rightarrow> nat \<Rightarrow> (u64 \<times> device_record) list \<Rightarrow> (u64 \<times> device_record) list" where
  "cleanup_candidates owner_gone evaluation_expired revoke_licensed limit_licensed kept [] = []"
| "cleanup_candidates owner_gone evaluation_expired revoke_licensed limit_licensed kept ((i, dv) # devices) =
     (if owner_gone (dv_owner_process dv)
         \<or> broker_device_should_be_revoked (dv_evaluation dv) evaluation_expired revoke_licensed
         \<or> license_outage_device_should_be_revoked (dv_evaluation dv) limit_licensed kept
      then (i, dv) # cleanup_candidates owner_gone evaluation_expired revoke_licensed limit_licensed kept devices
      else cleanup_candidates owner_gone evaluation_expired revoke_licensed limit_licensed
        (if dv_evaluation dv then kept else kept + 1) devices)"

definition destroy_cleanup_candidate :: "'w broker_os \<Rightarrow> u64 \<times> device_record \<Rightarrow> broker \<times> 'w \<Rightarrow> broker \<times> 'w" where
  "destroy_cleanup_candidate os = (\<lambda>(i, dv) (b, w).
     let (err, b, w) =
       destroy_device_transport os (make_destroy_device_request i (dv_session_token dv)) (b, w)
     in if err \<noteq> None then (b, w)
        else case map_of (br_devices b) i of
          None \<Rightarrow> (b, w)
        | Some found \<Rightarrow>
            if dv_session_token found = dv_session_token dv
            then (b\<lparr>br_devices := erase_key i (br_devices b)\<rparr>, w) else (b, w))"

definition evaluation_has_expired :: "'w broker_os \<Rightarrow> broker \<Rightarrow> 'w \<Rightarrow> bool" where
  "evaluation_has_expired os b w \<longleftrightarrow> br_github_actions b \<and>
     (case br_evaluation b of
        None \<Rightarrow> False
      | Some started_at \<Rightarrow> \<not> license_is_active os b w \<and> \<not> evaluation_active started_at (bo_now os w))"

definition outage_limits_devices :: "'w broker_os \<Rightarrow> broker \<Rightarrow> 'w \<Rightarrow> bool" where
  "outage_limits_devices os b w =
     (case br_unavailable_since b of
        None \<Rightarrow> False
      | Some since \<Rightarrow> outage_retention_elapsed (bo_license_now os w - since))"

definition cleanup_devices :: "'w broker_os \<Rightarrow> broker \<times> 'w \<Rightarrow> broker \<times> 'w" where
  "cleanup_devices os = (\<lambda>(b, w).
     let (err, b, w) = reconcile_driver_state os (b, w) in
     if err \<noteq> None then (b, w)
     else
       let evaluation_expired = evaluation_has_expired os b w;
           b = b\<lparr>br_revoke_licensed := (br_revoke_licensed b \<or> subscription_validation_has_elapsed os b w)\<rparr>;
           candidates = cleanup_candidates (\<lambda>owner. bo_process_gone os owner w) evaluation_expired
             (br_revoke_licensed b) (outage_limits_devices os b w) 0 (br_devices b);
           (b, w) = foldl (\<lambda>s candidate. destroy_cleanup_candidate os candidate s) (b, w) candidates
       in (b\<lparr>br_revoke_licensed := (br_revoke_licensed b \<and> active_licensed_device_count b \<noteq> 0)\<rparr>, w))"

section \<open>The licence\<close>

definition schedule_license_validation :: "int \<Rightarrow> bool \<Rightarrow> broker \<Rightarrow> broker" where
  "schedule_license_validation now immediately b =
     b\<lparr>br_next_attempt :=
       (if br_license b = None then None
        else Some (if immediately then now else now + validation_interval))\<rparr>"

definition schedule_after_license_validation :: "'w broker_os \<Rightarrow> broker_status \<Rightarrow> broker \<times> 'w \<Rightarrow> broker \<times> 'w" where
  "schedule_after_license_validation os status = (\<lambda>(b, w).
     (b\<lparr>br_next_attempt :=
        (if br_license b = None then None
         else Some (bo_license_now os w +
           (if status = St_success then validation_interval else validation_retry_interval)))\<rparr>, w))"

datatype trusted_license_time_result = Time_success | Time_license_invalid | Time_backend_failure

definition accept_trusted_license_time ::
  "'w broker_os \<Rightarrow> broker \<Rightarrow> int option \<Rightarrow> 'w \<Rightarrow> polar_license_state \<Rightarrow>
     trusted_license_time_result \<times> string \<times> polar_license_state" where
  "accept_trusted_license_time os b server_time w st =
     (case server_time of
        None \<Rightarrow> (Time_backend_failure, ''The license service response did not include trusted server time.'', st)
      | Some t \<Rightarrow>
          if benefit (ls_benefit_id st) = None
          then (Time_license_invalid, ''License organization or benefit is not allowed for this driver.'', st)
          else let st = st\<lparr>ls_validated_at := license_calendar_timestamp t,
                     ls_boot_marker := br_boot_marker b, ls_validated_uptime_ms := bo_uptime_ms os w\<rparr>
            in if ls_boot_marker st = []
               then (Time_backend_failure, ''Unable to establish a trusted Windows boot-session clock.'', st)
               else (Time_success, [], st))"

text \<open>The request to the server; the error text of a refusal comes from its body.\<close>

definition post_polar_license_request ::
  "'w broker_os \<Rightarrow> string \<Rightarrow> json \<Rightarrow> 'w \<Rightarrow> polar_api_result \<times> 'w" where
  "post_polar_license_request os path body w =
     (let (r, w) = bo_post os path body w in
      (if pa_transport_ok r \<and> 400 \<le> pa_http_status r
       then r\<lparr>pa_error := (case bo_parse_json os (pa_body r) of
           Some parsed \<Rightarrow> polar_error_message parsed ''The license service returned an error.''
         | None \<Rightarrow> ''The license service returned an error.'')\<rparr>
       else r, w))"

definition polar_validation_body :: "polar_license_state \<Rightarrow> json" where
  "polar_validation_body st = Json_object
     ([(''key'', Json_string (ls_license_key st)),
       (''organization_id'', Json_string polar_organization_id),
       (''activation_id'', Json_string (ls_activation_id st))] @
      (if ls_pending_usage st \<noteq> 0 then [(''increment_usage'', Json_unsigned (ucast (ls_pending_usage st)))] else []))"

definition polar_activation_body :: "string \<Rightarrow> string \<Rightarrow> json" where
  "polar_activation_body license_key instance_name = Json_object
     [(''key'', Json_string license_key), (''organization_id'', Json_string polar_organization_id),
      (''label'', Json_string instance_name)]"

definition polar_deactivation_body :: "polar_license_state \<Rightarrow> json" where
  "polar_deactivation_body st = Json_object
     [(''key'', Json_string (ls_license_key st)), (''organization_id'', Json_string polar_organization_id),
      (''activation_id'', Json_string (ls_activation_id st))]"

definition mark_license_validation_unavailable :: "'w broker_os \<Rightarrow> broker \<times> 'w \<Rightarrow> broker \<times> 'w" where
  "mark_license_validation_unavailable os = (\<lambda>(b, w).
     (if br_license b = None then b
      else b\<lparr>br_online_confirmed := False,
        br_unavailable_since := (case br_unavailable_since b of
          Some since \<Rightarrow> Some since | None \<Rightarrow> Some (bo_license_now os w))\<rparr>, w))"

definition forget_license :: "broker \<Rightarrow> broker" where
  "forget_license b = b\<lparr>br_license := None, br_next_attempt := None, br_online_confirmed := False,
     br_unavailable_since := None, br_revoke_licensed := True\<rparr>"

definition invalidate_license :: "'w broker_os \<Rightarrow> broker \<times> 'w \<Rightarrow> broker \<times> 'w" where
  "invalidate_license os = (\<lambda>(b, w). (forget_license b, bo_delete_license os w))"

text \<open>Validation up to the new state, with what is done about the old one.\<close>

datatype validation_verdict =
    Validated polar_license_state
  | Unavailable broker_status string
  | Invalidated string

definition judge_validation ::
  "'w broker_os \<Rightarrow> broker \<Rightarrow> polar_license_state \<Rightarrow> polar_api_result \<Rightarrow> 'w \<Rightarrow> validation_verdict" where
  "judge_validation os b st r w =
     (if \<not> pa_transport_ok r then Unavailable St_network_unavailable (pa_error r)
      else if pa_http_status r \<noteq> 200 then
        let text = (if pa_error r = [] then ''License validation failed.'' else pa_error r)
        in if pa_http_status r = 404 then Invalidated text else Unavailable St_backend_failure text
      else case bo_parse_json os (pa_body r) of
        None \<Rightarrow> Unavailable St_backend_failure ''The license validation response was not valid JSON.''
      | Some parsed \<Rightarrow>
          let new_state = license_state_from_json parsed (ls_license_key st) [] in
          if ls_activation_id new_state \<noteq> ls_activation_id st
          then Invalidated ''The license service did not validate this machine activation.''
          else if ls_license_status new_state \<noteq> ''granted''
          then Invalidated (if ls_license_status new_state = ''disabled'' then ''License disabled.'' else ''License revoked.'')
          else if \<not> license_allowed new_state
          then Invalidated ''License organization or benefit is not allowed for this driver.''
          else case accept_trusted_license_time os b (pa_server_time r) w new_state of
              (Time_success, text, new_state) \<Rightarrow> Validated new_state
            | (Time_license_invalid, text, new_state) \<Rightarrow> Invalidated text
            | (Time_backend_failure, text, new_state) \<Rightarrow> Unavailable St_backend_failure text)"

definition validate_saved_license :: "'w broker_os \<Rightarrow> broker \<times> 'w \<Rightarrow> (broker_status \<times> string) \<times> broker \<times> 'w" where
  "validate_saved_license os = (\<lambda>(b, w).
     case br_license b of
       None \<Rightarrow> ((St_license_invalid, ''No license is activated on this machine.''), b, w)
     | Some st \<Rightarrow>
         let (r, w) = post_polar_license_request os ''/v1/customer-portal/license-keys/validate''
               (polar_validation_body st) w
         in case judge_validation os b st r w of
              Unavailable status text \<Rightarrow> ((status, text), mark_license_validation_unavailable os (b, w))
            | Invalidated text \<Rightarrow> ((St_license_invalid, text), invalidate_license os (b, w))
            | Validated new_state \<Rightarrow>
                let (err, w) = bo_save_license os (serialize_license_state new_state) w in
                case err of
                  Some text \<Rightarrow> ((St_backend_failure, text), mark_license_validation_unavailable os (b, w))
                | None \<Rightarrow> ((St_success, ''License validated.''),
                    b\<lparr>br_license := Some new_state, br_online_confirmed := True, br_unavailable_since := None\<rparr>, w))"

definition handle_validate_license ::
  "'w broker_os \<Rightarrow> broker_license_request \<Rightarrow> broker \<times> 'w \<Rightarrow> broker_response \<times> broker \<times> 'w" where
  "handle_validate_license os request = (\<lambda>(b, w).
     if \<not> valid_license_request request Broker_validate_license
     then (respond St_invalid_argument (fill_license_status os b w) ''Invalid broker validate request.'', b, w)
     else let ((status, text), s) = validate_saved_license os (b, w);
              (b, w) = schedule_after_license_validation os status s
       in (respond status (fill_license_status os b w) text, b, w))"

text \<open>A turn of the validation thread after its wait.\<close>

definition license_validation_turn :: "'w broker_os \<Rightarrow> broker \<times> 'w \<Rightarrow> broker \<times> 'w" where
  "license_validation_turn os = (\<lambda>(b, w).
     let now = bo_license_now os w in
     if br_license b = None \<or> (case br_next_attempt b of None \<Rightarrow> True | Some t \<Rightarrow> now < t) then (b, w)
     else let ((status, text), s) =
                validate_saved_license os (b\<lparr>br_next_attempt := Some (now + validation_retry_interval)\<rparr>, w)
       in schedule_after_license_validation os status s)"

text \<open>The new state of an activation, or the status and message of its refusal.\<close>

definition judge_activation ::
  "'w broker_os \<Rightarrow> broker \<Rightarrow> string \<Rightarrow> polar_api_result \<Rightarrow> 'w \<Rightarrow> broker_status \<times> string + polar_license_state" where
  "judge_activation os b license_key r w =
     (if \<not> pa_transport_ok r then Inl (St_network_unavailable, pa_error r)
      else if pa_http_status r \<noteq> 200
      then Inl (activation_failure_status (pa_http_status r),
        if pa_error r = [] then ''License activation failed.'' else pa_error r)
      else case bo_parse_json os (pa_body r) of
        None \<Rightarrow> Inl (St_backend_failure, ''The license activation response was not valid JSON.'')
      | Some parsed \<Rightarrow>
          let activation_id = json_string_or_empty parsed ''id'' in
          case json_find parsed ''license_key'' of
            Some (Json_object members) \<Rightarrow>
              if activation_id = []
              then Inl (St_backend_failure, ''The license activation response was missing license state.'')
              else
                let new_state = license_state_from_json (Json_object members) license_key activation_id in
                if ls_license_status new_state \<noteq> ''granted''
                then Inl (St_license_invalid, ''The license service did not grant this license key.'')
                else if \<not> license_allowed new_state
                then Inl (St_license_invalid, ''License organization or benefit is not allowed for this driver.'')
                else
                  let new_state = (case br_license b of
                        Some st \<Rightarrow>
                          if ls_license_key_id st = ls_license_key_id new_state
                          then new_state\<lparr>ls_pending_usage := ls_pending_usage st\<rparr> else new_state
                      | None \<Rightarrow> new_state)
                  in (case accept_trusted_license_time os b (pa_server_time r) w new_state of
                      (Time_success, text, new_state) \<Rightarrow> Inr new_state
                    | (Time_license_invalid, text, new_state) \<Rightarrow> Inl (St_license_invalid, text)
                    | (Time_backend_failure, text, new_state) \<Rightarrow> Inl (St_backend_failure, text))
          | _ \<Rightarrow> Inl (St_backend_failure, ''The license activation response was missing license state.''))"

definition handle_activate_license ::
  "'w broker_os \<Rightarrow> broker_license_request \<Rightarrow> broker \<times> 'w \<Rightarrow> broker_response \<times> broker \<times> 'w" where
  "handle_activate_license os request = (\<lambda>(b, w).
     let answer = (\<lambda>status text b w. (respond status (fill_license_status os b w) text, b, w));
         license_key = c_str (bl_license_key request);
         instance_name = (if take 1 (bl_instance_name request) = [NUL] then bo_computer_name os w
           else c_str (bl_instance_name request))
     in if \<not> valid_license_request request Broker_activate_license
        then answer St_invalid_argument ''Invalid broker activate request.'' b w
        else if license_key = [] then answer St_invalid_argument ''License key is required.'' b w
        else let (r, w) = post_polar_license_request os ''/v1/customer-portal/license-keys/activate''
                   (polar_activation_body license_key instance_name) w
          in case judge_activation os b license_key r w of
               Inl (status, text) \<Rightarrow> answer status text b w
             | Inr new_state \<Rightarrow>
                 let (err, w) = bo_save_license os (serialize_license_state new_state) w in
                 case err of
                   Some text \<Rightarrow> answer St_backend_failure text b w
                 | None \<Rightarrow>
                     let b = schedule_license_validation (bo_license_now os w) False
                       (b\<lparr>br_license := Some new_state, br_online_confirmed := True, br_unavailable_since := None\<rparr>)
                     in answer St_success ''License activated on this machine.'' b w)"

definition handle_deactivate_license ::
  "'w broker_os \<Rightarrow> broker_license_request \<Rightarrow> broker \<times> 'w \<Rightarrow> broker_response \<times> broker \<times> 'w" where
  "handle_deactivate_license os request = (\<lambda>(b, w).
     let answer = (\<lambda>status text b w. (respond status (fill_license_status os b w) text, b, w)) in
     if \<not> valid_license_request request Broker_deactivate_license
     then answer St_invalid_argument ''Invalid broker deactivate request.'' b w
     else case br_license b of
       None \<Rightarrow> answer St_success ''No machine license is active.'' b w
     | Some st \<Rightarrow>
         let (r, w) = post_polar_license_request os ''/v1/customer-portal/license-keys/deactivate''
               (polar_deactivation_body st) w
         in if \<not> pa_transport_ok r then answer St_network_unavailable (pa_error r) b w
            else if pa_http_status r = 404
            then let (b, w) = invalidate_license os (b, w)
              in answer St_success ''The machine activation was already absent; local license state was removed.'' b w
            else if pa_http_status r \<noteq> 204
            then answer St_backend_failure
              (if pa_error r = [] then ''License deactivation failed.'' else pa_error r) b w
            else answer St_success ''License deactivated on this machine.'' (forget_license b) (bo_delete_license os w))"

definition handle_status :: "'w broker_os \<Rightarrow> broker \<Rightarrow> 'w \<Rightarrow> broker_response" where
  "handle_status os b w = respond St_success (fill_license_status os b w) ''Broker is running.''"

section \<open>Start and clients\<close>

text \<open>\<open>file\<close> and \<open>evaluation\<close> are the decrypted state files, where there are any.\<close>

definition broker_start ::
  "'w broker_os \<Rightarrow> bool \<Rightarrow> string \<Rightarrow> string option \<Rightarrow> string option \<Rightarrow> 'w \<Rightarrow> broker \<times> 'w" where
  "broker_start os github_actions boot_marker file evaluation w =
     (let b = \<lparr>br_devices = [], br_driver = None, br_next_xbox360_id = 0x8000000000000000,
            br_license = load_license_state file, br_next_attempt = None, br_unavailable_since = None,
            br_evaluation = (if github_actions then evaluation \<bind> deserialize_evaluation_state else None),
            br_online_confirmed = False, br_revoke_licensed = False, br_reconciled = False,
            br_github_actions = github_actions, br_boot_marker = boot_marker\<rparr>;
          (ignored, b, w) = reconcile_driver_state os (b, w)
      in (if br_license b = None then b else schedule_license_validation (bo_license_now os w) True b, w))"

text \<open>A message from the pipe: whether it was read, the number of its bytes, and the buffer read as
  each of the requests.\<close>

record pipe_message =
  pm_read :: bool
  pm_bytes_read :: u32
  pm_header :: broker_request_header
  pm_create :: broker_create_device_request
  pm_destroy :: broker_destroy_device_request
  pm_license :: broker_license_request

definition broker_request_header_size :: u32 where "broker_request_header_size = 16"

datatype pipe_response = Plain_response broker_response | Create_response broker_create_response

definition handle_pipe_client ::
  "'w broker_os \<Rightarrow> pipe_message \<Rightarrow> u32 \<Rightarrow> broker \<times> 'w \<Rightarrow> pipe_response \<times> broker \<times> 'w" where
  "handle_pipe_client os msg client_process_id s =
     (let (b, w) = cleanup_devices os s;
          header = pm_header msg;
          refuse = (\<lambda>text. (Plain_response ((handle_status os b w)\<lparr>re_status := St_invalid_argument,
            re_message := message_text text\<rparr>), b, w));
          plain = (\<lambda>(response, s). (Plain_response response, s))
      in if \<not> pm_read msg \<or> pm_bytes_read msg < broker_request_header_size
         then refuse ''Broker request was empty or truncated.''
         else if bh_version header \<noteq> LVH_WINDOWS_BROKER_PROTOCOL_VERSION \<or> bh_size header \<noteq> pm_bytes_read msg
         then refuse ''Broker request header is invalid.''
         else if bh_type header = 1 \<and> bh_size header = broker_status_request_size \<and> valid_status_request header
         then (Plain_response (handle_status os b w), b, w)
         else if bh_type header = 2 \<and> bh_size header = broker_create_device_request_size
         then (case handle_create os (pm_create msg) client_process_id (b, w) of
             (response, s) \<Rightarrow> (Create_response response, s))
         else if bh_type header = 3 \<and> bh_size header = broker_destroy_device_request_size
         then plain (handle_destroy os (pm_destroy msg) (b, w))
         else if bh_type header = 4 \<and> bh_size header = broker_license_request_size
         then plain (handle_activate_license os (pm_license msg) (b, w))
         else if bh_type header = 5 \<and> bh_size header = broker_license_request_size
         then plain (handle_validate_license os (pm_license msg) (b, w))
         else if bh_type header = 6 \<and> bh_size header = broker_license_request_size
         then plain (handle_deactivate_license os (pm_license msg) (b, w))
         else refuse ''Broker request type or size is unsupported.'')"

end
