(* ===== verification/BrokerFacts.thy ===== *)
theory BrokerFacts
  imports BrokerService
begin

text \<open>
  What holds of the Windows broker of \<open>BrokerService\<close>: an invariant of everything its two threads
  do, the limit on devices while the licence is not confirmed, what a clean-up removes, what a
  licence is good for and for how long, and that it survives a restart.
\<close>

section \<open>The device table\<close>

abbreviation keys_of :: "('k \<times> 'v) list \<Rightarrow> 'k list" where "keys_of m \<equiv> map fst m"

lemma set_try_emplace:
  "set (keys_of (try_emplace k v m)) = insert k (set (keys_of m))"
  by (induction k v m rule: try_emplace.induct) auto

lemma sorted_try_emplace: "sorted_wrt (<) (keys_of m) \<Longrightarrow> sorted_wrt (<) (keys_of (try_emplace k v m))"
  by (induction k v m rule: try_emplace.induct) (auto simp: set_try_emplace simp del: set_map)

lemma try_emplace_members: "set (try_emplace k v m) \<subseteq> insert (k, v) (set m)"
  by (induction k v m rule: try_emplace.induct) auto

lemma sorted_erase_key: "sorted_wrt (<) (keys_of m) \<Longrightarrow> sorted_wrt (<) (keys_of (erase_key k m))"
  by (induction m) (auto simp: erase_key_def)

lemma erase_key_members: "set (erase_key k m) \<subseteq> set m"
  by (auto simp: erase_key_def)

lemma distinct_keys: "sorted_wrt (<) (keys_of m) \<Longrightarrow> distinct (keys_of (m :: ('k::linorder \<times> 'v) list))"
  by (simp add: strict_sorted_iff)

lemma licensed_try_emplace:
  "length (licensed_devices (try_emplace k v m)) \<le> length (licensed_devices m) + (if dv_evaluation v then 0 else 1)"
  by (induction k v m rule: try_emplace.induct) (auto simp: licensed_devices_def)

lemma licensed_erase_key: "length (licensed_devices (erase_key k m)) \<le> length (licensed_devices m)"
  unfolding licensed_devices_def erase_key_def by (induction m) auto

section \<open>What the operations change\<close>

text \<open>The parts of the state the licence operations leave alone.\<close>

definition same_devices :: "broker \<Rightarrow> broker \<Rightarrow> bool" where
  "same_devices b b' \<longleftrightarrow> br_devices b' = br_devices b \<and> br_evaluation b' = br_evaluation b \<and>
     br_github_actions b' = br_github_actions b \<and> br_reconciled b' = br_reconciled b"

text \<open>The parts the device operations leave alone.\<close>

definition same_license :: "broker \<Rightarrow> broker \<Rightarrow> bool" where
  "same_license b b' \<longleftrightarrow> br_license b' = br_license b \<and> br_next_attempt b' = br_next_attempt b \<and>
     br_online_confirmed b' = br_online_confirmed b \<and> br_unavailable_since b' = br_unavailable_since b \<and>
     br_github_actions b' = br_github_actions b \<and> br_boot_marker b' = br_boot_marker b"

definition licence_consistent :: "broker \<Rightarrow> bool" where
  "licence_consistent b \<longleftrightarrow>
     (br_online_confirmed b \<longrightarrow>
        (case br_license b of None \<Rightarrow> False | Some st \<Rightarrow> license_allowed st \<and> ls_license_status st = ''granted'')) \<and>
     (br_license b = None \<longrightarrow> br_unavailable_since b = None) \<and>
     (br_next_attempt b = None \<longleftrightarrow> br_license b = None)"

text \<open>The contract of a licence operation: a licence that goes leaves its devices to be revoked.\<close>

definition licence_contract :: "broker \<Rightarrow> broker \<Rightarrow> bool" where
  "licence_contract b b' \<longleftrightarrow> same_devices b b' \<and> (licence_consistent b \<longrightarrow> licence_consistent b') \<and>
     (br_revoke_licensed b \<longrightarrow> br_revoke_licensed b') \<and>
     (br_license b \<noteq> None \<longrightarrow> br_license b' = None \<longrightarrow> br_revoke_licensed b')"

locale licence_operation =
  fixes oper :: "broker \<times> 'w \<Rightarrow> broker \<times> 'w"
  assumes contract: "licence_contract b (fst (oper (b, w)))"

lemma accepted_time_license:
  "accept_trusted_license_time os b server_time w st = (Time_success, text, st') \<Longrightarrow>
   license_allowed st' = license_allowed st \<and> ls_license_status st' = ls_license_status st"
  by (auto simp: accept_trusted_license_time_def license_allowed_def Let_def split: option.splits if_splits)

lemma judge_validation_granted:
  assumes "judge_validation os b st r w = Validated st'"
  shows "license_allowed st' \<and> ls_license_status st' = ''granted''"
  using assms accepted_time_license
  by (fastforce simp: judge_validation_def Let_def
      split: if_splits option.splits prod.splits trusted_license_time_result.splits)

lemma judge_activation_granted:
  assumes "judge_activation os b key r w = Inr st'"
  shows "license_allowed st' \<and> ls_license_status st' = ''granted''"
  using assms
  by (auto simp: judge_activation_def Let_def license_allowed_def dest!: accepted_time_license
      split: if_splits option.splits prod.splits trusted_license_time_result.splits json.splits)

lemmas licence_operation_defs =
  licence_contract_def   same_devices_def licence_consistent_def mark_license_validation_unavailable_def invalidate_license_def
  forget_license_def schedule_license_validation_def schedule_after_license_validation_def

lemma validate_saved_license_contract:
  assumes "validate_saved_license os (b, w) = (result, b', w')"
  shows "licence_contract b b'"
  using assms
  by (auto simp: validate_saved_license_def Let_def licence_operation_defs dest: judge_validation_granted
      split: option.splits prod.splits validation_verdict.splits)

interpretation validate: licence_operation "\<lambda>s. snd (handle_validate_license os request s)" for os request
  by unfold_locales
    (auto simp: handle_validate_license_def Let_def licence_operation_defs split: prod.splits
      dest!: validate_saved_license_contract)

interpretation turn: licence_operation "license_validation_turn os" for os
  by unfold_locales
    (auto simp: license_validation_turn_def Let_def licence_operation_defs split: prod.splits option.splits
      dest!: validate_saved_license_contract)

interpretation activate: licence_operation "\<lambda>s. snd (handle_activate_license os request s)" for os request
  by unfold_locales
    (auto simp: handle_activate_license_def Let_def licence_operation_defs dest: judge_activation_granted
      split: prod.splits sum.splits option.splits)

interpretation deactivate: licence_operation "\<lambda>s. snd (handle_deactivate_license os request s)" for os request
  by unfold_locales
    (auto simp: handle_deactivate_license_def Let_def licence_operation_defs split: prod.splits option.splits)

section \<open>Devices come and go\<close>

lemma driver_reset_cases [consumes 1]:
  assumes "reconcile_driver_state os (b, w) = (err, b', w')"
  shows "same_license b b' \<and> br_revoke_licensed b' = br_revoke_licensed b \<and> br_evaluation b' = br_evaluation b \<and>
    (br_devices b' = br_devices b \<or> br_devices b' = []) \<and> (err = None \<longrightarrow> br_reconciled b')"
  using assms by (auto simp: reconcile_driver_state_def Let_def same_license_def split: if_splits prod.splits)

lemma destroy_transport_keeps:
  assumes "destroy_device_transport os request (b, w) = (err, b', w')"
  shows "same_license b b' \<and> same_devices b b' \<and> br_revoke_licensed b' = br_revoke_licensed b"
  using assms
  by (auto simp: destroy_device_transport_def same_license_def same_devices_def split: if_splits prod.splits)

lemma authorize_keeps:
  assumes "authorize_device_create os (b, w) = (au, b', w')"
  shows "same_license b b' \<and> br_devices b' = br_devices b \<and> br_revoke_licensed b' = br_revoke_licensed b \<and>
    br_reconciled b' = br_reconciled b \<and> (br_evaluation b \<noteq> None \<longrightarrow> br_evaluation b' \<noteq> None) \<and>
    (au_status au = St_success \<and> au_evaluation au \<longrightarrow> br_github_actions b \<and> br_evaluation b' \<noteq> None) \<and>
    (au_status au = St_success \<and> \<not> au_evaluation au \<longrightarrow> br_license b \<noteq> None \<and>
      (br_online_confirmed b \<or> active_licensed_device_count b = 0))"
  using assms
  by (auto simp: authorize_device_create_def Let_def same_license_def unvalidated_device_creation_allowed_def
      unvalidated_active_device_limit_def split: option.splits if_splits prod.splits)

lemma create_transport_keeps:
  assumes "create_transport os pc (b, w) = (result, b', w')"
  shows "same_license b b' \<and> same_devices b b' \<and> br_revoke_licensed b' = br_revoke_licensed b"
  using assms
  by (auto simp: create_transport_def Let_def same_license_def same_devices_def
      split: option.splits if_splits prod.splits)

lemma record_creation_keeps:
  assumes "record_gamepad_creation os i (b, w) = (b', w')"
  shows "same_devices b b' \<and> br_revoke_licensed b' = br_revoke_licensed b \<and>
    (licence_consistent b \<longrightarrow> licence_consistent b') \<and> br_online_confirmed b' = br_online_confirmed b \<and>
    (br_license b' = None \<longleftrightarrow> br_license b = None)"
  using assms
  by (auto simp: record_gamepad_creation_def Let_def licence_operation_defs license_allowed_def
      split: option.splits if_splits prod.splits)

text \<open>Removing devices.\<close>

definition shrinks :: "broker \<Rightarrow> broker \<Rightarrow> bool" where
  "shrinks b b' \<longleftrightarrow> same_license b b' \<and> br_evaluation b' = br_evaluation b \<and>
     br_revoke_licensed b' = br_revoke_licensed b \<and> set (br_devices b') \<subseteq> set (br_devices b) \<and>
     (sorted_wrt (<) (keys_of (br_devices b)) \<longrightarrow> sorted_wrt (<) (keys_of (br_devices b'))) \<and>
     active_licensed_device_count b' \<le> active_licensed_device_count b"

lemma shrinks_refl [simp]: "shrinks b b"
  by (simp add: shrinks_def same_license_def)

lemma shrinks_trans: "shrinks b b' \<Longrightarrow> shrinks b' b'' \<Longrightarrow> shrinks b b''"
  by (auto simp: shrinks_def same_license_def)

lemma destroy_transport_shrinks:
  "destroy_device_transport os request (b, w) = (err, b', w') \<Longrightarrow> shrinks b b'"
  by (auto simp: shrinks_def same_devices_def active_licensed_device_count_def dest: destroy_transport_keeps)

lemma erase_shrinks: "shrinks b (b\<lparr>br_devices := erase_key i (br_devices b)\<rparr>)"
  using erase_key_members sorted_erase_key licensed_erase_key
  by (fastforce simp: shrinks_def same_license_def active_licensed_device_count_def)

lemma reconcile_shrinks:
  "reconcile_driver_state os (b, w) = (err, b', w') \<Longrightarrow> shrinks b b'"
  by (drule driver_reset_cases) (auto simp: shrinks_def active_licensed_device_count_def licensed_devices_def)

lemma destroy_candidate_shrinks: "shrinks b (fst (destroy_cleanup_candidate os c (b, w)))"
proof -
  obtain i dv where c: "c = (i, dv)"
    by (cases c)
  obtain err b' w' where d: "destroy_device_transport os (make_destroy_device_request i (dv_session_token dv)) (b, w) =
      (err, b', w')"
    by (cases "destroy_device_transport os (make_destroy_device_request i (dv_session_token dv)) (b, w)") auto
  show ?thesis
    using destroy_transport_shrinks [OF d] erase_shrinks [of b' i]
    by (auto simp: destroy_cleanup_candidate_def c d split: option.splits intro: shrinks_trans)
qed

lemma destroy_candidates_shrink: "shrinks b (fst (foldl (\<lambda>s c. destroy_cleanup_candidate os c s) (b, w) cs))"
proof (induction cs arbitrary: b w)
  case (Cons c cs)
  obtain b' w' where "destroy_cleanup_candidate os c (b, w) = (b', w')"
    by fastforce
  with destroy_candidate_shrinks [of b os c w] Cons.IH [of b' w'] show ?case
    by (auto intro: shrinks_trans)
qed simp

lemma destroy_shrinks: "shrinks b (fst (snd (handle_destroy os request (b, w))))"
proof -
  obtain err b' w' where d: "destroy_device_transport os (bd_device request) (b, w) = (err, b', w')"
    by (cases "destroy_device_transport os (bd_device request) (b, w)") auto
  show ?thesis
    using destroy_transport_shrinks [OF d] erase_shrinks [of b' "dr_driver_device_id (bd_device request)"]
    by (auto simp: handle_destroy_def Let_def d split: option.splits intro: shrinks_trans)
qed

section \<open>Everything the threads do\<close>

datatype create_phase =
    Idle | Authorized pending_create | Created pending_create create_device_response

text \<open>The pipe thread works on one client at a time, of which a creation has three stages; the
  validation thread and the system can act in between.\<close>

inductive broker_step ::
  "'w broker_os \<Rightarrow> create_phase \<times> broker \<times> 'w \<Rightarrow> create_phase \<times> broker \<times> 'w \<Rightarrow> bool" for os where
  step_world: "broker_step os (ph, b, w) (ph, b, w')"
| step_turn: "broker_step os (ph, s) (ph, license_validation_turn os s)"
| step_cleanup: "broker_step os (Idle, s) (Idle, cleanup_devices os s)"
| step_destroy: "broker_step os (Idle, s) (Idle, snd (handle_destroy os destroy s))"
| step_activate: "broker_step os (Idle, s) (Idle, snd (handle_activate_license os request s))"
| step_validate: "broker_step os (Idle, s) (Idle, snd (handle_validate_license os request s))"
| step_deactivate: "broker_step os (Idle, s) (Idle, snd (handle_deactivate_license os request s))"
| step_refused: "create_begin os create pid s = (Inl response, s') \<Longrightarrow> broker_step os (Idle, s) (Idle, s')"
| step_authorized: "create_begin os create pid s = (Inr pc, s') \<Longrightarrow> broker_step os (Idle, s) (Authorized pc, s')"
| step_not_created: "create_transport os pc s = (Inl response, s') \<Longrightarrow> broker_step os (Authorized pc, s) (Idle, s')"
| step_created: "create_transport os pc s = (Inr device, s') \<Longrightarrow> broker_step os (Authorized pc, s) (Created pc device, s')"
| step_finished: "broker_step os (Created pc device, s) (Idle, snd (create_finish os pc device s))"

text \<open>The broker's answer to a client is a sequence of such steps.\<close>

lemma handle_create_steps: "(broker_step os)\<^sup>*\<^sup>* (Idle, s) (Idle, snd (handle_create os request pid s))"
proof (cases "create_begin os request pid s" rule: prod.exhaust [case_names Pair])
  case started: (Pair result s1)
  show ?thesis
  proof (cases result)
    case (Inl response)
    with started have "broker_step os (Idle, s) (Idle, s1)"
      by (auto intro: step_refused)
    with started Inl show ?thesis
      by (simp add: handle_create_def r_into_rtranclp)
  next
    case (Inr pc)
    with started have first: "broker_step os (Idle, s) (Authorized pc, s1)"
      by (auto intro: step_authorized)
    show ?thesis
    proof (cases "create_transport os pc s1" rule: prod.exhaust [case_names Pair])
      case transport: (Pair result' s2)
      show ?thesis
      proof (cases result')
        case Inl
        with transport have "broker_step os (Authorized pc, s1) (Idle, s2)"
          by (auto intro: step_not_created)
        with first started transport Inr Inl show ?thesis
          by (simp add: handle_create_def)
      next
        case device: (Inr device)
        with transport have "broker_step os (Authorized pc, s1) (Created pc device, s2)"
          by (auto intro: step_created)
        from first this step_finished [of os pc device s2] show ?thesis
          using started transport Inr device
          by (simp add: handle_create_def)
      qed
    qed
  qed
qed

lemma handle_pipe_client_steps:
  "(broker_step os)\<^sup>*\<^sup>* (Idle, s) (Idle, snd (handle_pipe_client os msg pid s))"
proof -
  let ?s = "cleanup_devices os s"
  have "snd (handle_pipe_client os msg pid s) \<in>
      {?s, snd (handle_create os (pm_create msg) pid ?s), snd (handle_destroy os (pm_destroy msg) ?s),
       snd (handle_activate_license os (pm_license msg) ?s), snd (handle_validate_license os (pm_license msg) ?s),
       snd (handle_deactivate_license os (pm_license msg) ?s)}"
    by (simp add: handle_pipe_client_def split_beta Let_def)
  moreover have "(broker_step os)\<^sup>*\<^sup>* (Idle, ?s) (Idle, snd (handle_create os (pm_create msg) pid ?s))"
    by (rule handle_create_steps)
  ultimately have "(broker_step os)\<^sup>*\<^sup>* (Idle, ?s) (Idle, snd (handle_pipe_client os msg pid s))"
    using step_destroy [of os ?s] step_activate [of os ?s] step_validate [of os ?s] step_deactivate [of os ?s]
    by (metis insert_iff r_into_rtranclp rtranclp.rtrancl_refl singletonD)
  with step_cleanup [of os s] show ?thesis
    by (rule converse_rtranclp_into_rtranclp)
qed

section \<open>The invariant\<close>

fun pending_flags :: "create_phase \<Rightarrow> bool set" where
  "pending_flags Idle = {}"
| "pending_flags (Authorized pc) = {au_evaluation (pc_authorization pc)}"
| "pending_flags (Created pc device) = {au_evaluation (pc_authorization pc)}"

text \<open>Whether there are licensed devices and devices of the evaluation, the one being created included.\<close>

definition device_flags :: "create_phase \<Rightarrow> broker \<Rightarrow> bool set" where
  "device_flags ph b = (\<lambda>(i, dv). dv_evaluation dv) ` set (br_devices b) \<union> pending_flags ph"

definition broker_inv :: "create_phase \<Rightarrow> broker \<Rightarrow> bool" where
  "broker_inv ph b \<longleftrightarrow> licence_consistent b \<and> sorted_wrt (<) (keys_of (br_devices b)) \<and>
     (False \<in> device_flags ph b \<longrightarrow> br_license b = None \<longrightarrow> br_revoke_licensed b) \<and>
     (True \<in> device_flags ph b \<longrightarrow> br_github_actions b \<and> br_evaluation b \<noteq> None)"

context licence_operation
begin

lemma keeps_inv: "broker_inv ph b \<Longrightarrow> broker_inv ph (fst (oper (b, w)))"
  using contract [of b w]
  by (auto simp: broker_inv_def device_flags_def licence_contract_def same_devices_def)

end

lemma shrinks_inv:
  assumes "broker_inv ph b" "shrinks b b'"
  shows "broker_inv ph b'"
proof -
  have "device_flags ph b' \<subseteq> device_flags ph b"
    using assms(2) by (auto simp: device_flags_def shrinks_def)
  with assms show ?thesis
    by (auto simp: broker_inv_def shrinks_def same_license_def licence_consistent_def)
qed

lemma no_licensed_flag: "False \<in> device_flags Idle b \<longleftrightarrow> active_licensed_device_count b \<noteq> 0"
  by (auto simp: device_flags_def active_licensed_device_count_def licensed_devices_def filter_empty_conv)

lemma cleanup_inv:
  assumes "broker_inv Idle b"
  shows "broker_inv Idle (fst (cleanup_devices os (b, w)))"
proof (cases "reconcile_driver_state os (b, w)" rule: prod_cases3)
  case (fields err b1 w1)
  from reconcile_shrinks [OF this] assms have inv1: "broker_inv Idle b1"
    by (blast intro: shrinks_inv)
  define b2 where "b2 = b1\<lparr>br_revoke_licensed := (br_revoke_licensed b1 \<or> subscription_validation_has_elapsed os b1 w1)\<rparr>"
  have inv2: "broker_inv Idle b2"
    using inv1 by (auto simp: b2_def broker_inv_def device_flags_def licence_consistent_def)
  define cs where "cs = cleanup_candidates (\<lambda>owner. bo_process_gone os owner w1) (evaluation_has_expired os b1 w1)
      (br_revoke_licensed b2) (outage_limits_devices os b2 w1) 0 (br_devices b2)"
  obtain b3 w3 where fold: "foldl (\<lambda>s c. destroy_cleanup_candidate os c s) (b2, w1) cs = (b3, w3)"
    by fastforce
  then have inv3: "broker_inv Idle b3"
    using destroy_candidates_shrink [of b2 os w1 cs] inv2 by (auto intro: shrinks_inv)
  have "fst (cleanup_devices os (b, w)) =
      (if err \<noteq> None then b1
       else b3\<lparr>br_revoke_licensed := (br_revoke_licensed b3 \<and> active_licensed_device_count b3 \<noteq> 0)\<rparr>)"
    using fold by (simp add: cleanup_devices_def fields Let_def b2_def cs_def)
  moreover have "broker_inv Idle (b3\<lparr>br_revoke_licensed := (br_revoke_licensed b3 \<and> active_licensed_device_count b3 \<noteq> 0)\<rparr>)"
    using inv3 by (auto simp: broker_inv_def no_licensed_flag licence_consistent_def active_licensed_device_count_def
        device_flags_def licensed_devices_def filter_empty_conv)
  ultimately show ?thesis
    using inv1 by simp
qed

lemma create_begin_inv:
  assumes "broker_inv Idle b" "create_begin os request pid (b, w) = (result, b', w')"
  shows "broker_inv (case result of Inl response \<Rightarrow> Idle | Inr pc \<Rightarrow> Authorized pc) b'"
proof (cases "reconcile_driver_state os (b, w)" rule: prod_cases3)
  case (fields err b1 w1)
  from reconcile_shrinks [OF this] assms(1) have inv1: "broker_inv Idle b1"
    by (blast intro: shrinks_inv)
  have kept: "broker_inv Idle b2 \<and> (au_status au = St_success \<longrightarrow> pc_authorization pc = au \<longrightarrow> broker_inv (Authorized pc) b2)"
    if "authorize_device_create os (b1, w2) = (au, b2, w3)" for w2 au b2 w3 pc
    using authorize_keeps [OF that] inv1
    by (cases "au_evaluation au") (auto simp: broker_inv_def device_flags_def same_license_def licence_consistent_def)
  from assms(2) inv1 assms(1) kept show ?thesis
    by (auto simp: create_begin_def fields Let_def split: if_splits option.splits prod.splits sum.splits)
qed

lemma create_transport_inv:
  assumes "broker_inv (Authorized pc) b" "create_transport os pc (b, w) = (result, b', w')"
  shows "broker_inv Idle b' \<and> broker_inv (Created pc device) b'"
  using create_transport_keeps [OF assms(2)] assms(1)
  by (auto simp: broker_inv_def device_flags_def same_license_def same_devices_def licence_consistent_def)

lemma create_finish_cases:
  obtains dv b1 where "dv_evaluation dv = au_evaluation (pc_authorization pc)"
    "dv_session_token dv = cd_session_token device"
    "b1 = b\<lparr>br_devices := try_emplace (cd_driver_device_id device) dv (br_devices b)\<rparr>"
    "snd (create_finish os pc device (b, w)) =
       (if \<not> dv_evaluation dv \<and> cr_device_type (bc_device (pc_request pc)) = LVH_WINDOWS_DEVICE_GAMEPAD
        then record_gamepad_creation os (au_license_id (pc_authorization pc)) (b1, w) else (b1, w))"
  by (rule that [of
        "\<lparr>dv_session_token = cd_session_token device, dv_owner_process_id = pc_process_id pc,
          dv_owner_process = pc_owner pc, dv_xbox360 = is_xbox360_request (pc_request pc),
          dv_evaluation = au_evaluation (pc_authorization pc)\<rparr>"])
    (simp_all add: create_finish_def Let_def split_beta)

lemma create_finish_inv:
  assumes "broker_inv (Created pc device) b"
  shows "broker_inv Idle (fst (snd (create_finish os pc device (b, w))))"
proof -
  obtain dv b1 where dv: "dv_evaluation dv = au_evaluation (pc_authorization pc)"
    and b1: "b1 = b\<lparr>br_devices := try_emplace (cd_driver_device_id device) dv (br_devices b)\<rparr>"
    and result: "snd (create_finish os pc device (b, w)) =
       (if \<not> dv_evaluation dv \<and> cr_device_type (bc_device (pc_request pc)) = LVH_WINDOWS_DEVICE_GAMEPAD
        then record_gamepad_creation os (au_license_id (pc_authorization pc)) (b1, w) else (b1, w))"
    by (rule create_finish_cases)
  have "device_flags Idle b1 \<subseteq> device_flags (Created pc device) b"
    using try_emplace_members [of "cd_driver_device_id device" dv "br_devices b"] dv
    by (auto simp: device_flags_def b1)
  with assms have inv1: "broker_inv Idle b1"
    by (auto simp: broker_inv_def b1 licence_consistent_def sorted_try_emplace)
  obtain b2 w2 where recorded: "record_gamepad_creation os (au_license_id (pc_authorization pc)) (b1, w) = (b2, w2)"
    by fastforce
  then have "broker_inv Idle b2"
    using record_creation_keeps [OF recorded] inv1
    by (auto simp: broker_inv_def device_flags_def same_devices_def)
  with inv1 result recorded show ?thesis
    by (auto split: if_splits)
qed

lemma step_inv:
  "broker_step os s s' \<Longrightarrow> broker_inv (fst s) (fst (snd s)) \<Longrightarrow> broker_inv (fst s') (fst (snd s'))"
proof (induction rule: broker_step.induct)
  case (step_turn ph s)
  then show ?case
    by (cases s) (auto intro: turn.keeps_inv)
next
  case (step_cleanup s)
  then show ?case
    by (cases s) (auto intro: cleanup_inv)
next
  case (step_destroy s destroy)
  then show ?case
    by (cases s) (auto intro: shrinks_inv destroy_shrinks)
next
  case (step_activate s request)
  then show ?case
    by (cases s) (auto intro: activate.keeps_inv)
next
  case (step_validate s request)
  then show ?case
    by (cases s) (auto intro: validate.keeps_inv)
next
  case (step_deactivate s request)
  then show ?case
    by (cases s) (auto intro: deactivate.keeps_inv)
next
  case (step_refused create pid s response s')
  then show ?case
    by (cases s, cases s') (auto dest: create_begin_inv)
next
  case (step_authorized create pid s pc s')
  then show ?case
    by (cases s, cases s') (auto dest: create_begin_inv)
next
  case (step_not_created pc s response s')
  then show ?case
    by (cases s, cases s') (auto dest: create_transport_inv)
next
  case (step_created pc s device s')
  then show ?case
    by (cases s, cases s') (auto dest: create_transport_inv)
next
  case (step_finished pc device s)
  then show ?case
    by (cases s) (auto intro: create_finish_inv)
qed simp

lemma start_inv: "broker_inv Idle (fst (broker_start os github marker plain evaluation w))"
proof -
  define b where "b = \<lparr>br_devices = [], br_driver = None, br_next_xbox360_id = 0x8000000000000000,
      br_license = load_license_state plain, br_next_attempt = None, br_unavailable_since = None,
      br_evaluation = (if github then evaluation \<bind> deserialize_evaluation_state else None),
      br_online_confirmed = False, br_revoke_licensed = False, br_reconciled = False,
      br_github_actions = github, br_boot_marker = marker\<rparr>"
  obtain err b' w' where r: "reconcile_driver_state os (b, w) = (err, b', w')"
    by (cases "reconcile_driver_state os (b, w)") auto
  have "fst (broker_start os github marker plain evaluation w) =
      (if br_license b' = None then b' else schedule_license_validation (bo_license_now os w') True b')"
    using r by (simp add: broker_start_def b_def)
  with driver_reset_cases [OF r] show ?thesis
    by (auto simp: b_def broker_inv_def device_flags_def licence_consistent_def same_license_def
        schedule_license_validation_def)
qed

lemma reachable_inv:
  assumes "(broker_step os)\<^sup>*\<^sup>* (Idle, broker_start os github marker plain evaluation w) (ph, b, w')"
  shows "broker_inv ph b"
proof -
  have "broker_inv (fst s) (fst (snd s))"
    if "(broker_step os)\<^sup>*\<^sup>* (Idle, broker_start os github marker plain evaluation w) s" for s
    using that by induction (auto simp: start_inv dest: step_inv)
  from this [OF assms] show ?thesis
    by simp
qed

section \<open>Cleaning up\<close>

text \<open>What may stay, in the order of the table: devices whose owner lives and that are not revoked, in
  a long outage only the first of the licensed ones.\<close>

fun first_licensed :: "(u64 \<times> device_record) list \<Rightarrow> (u64 \<times> device_record) list" where
  "first_licensed [] = []"
| "first_licensed ((i, dv) # m) =
     (i, dv) # (if dv_evaluation dv then first_licensed m else filter (\<lambda>(i, dv). dv_evaluation dv) m)"

definition may_stay :: "(handle \<Rightarrow> bool) \<Rightarrow> bool \<Rightarrow> bool \<Rightarrow> u64 \<times> device_record \<Rightarrow> bool" where
  "may_stay owner_gone evaluation_expired revoke = (\<lambda>(i, dv).
     \<not> owner_gone (dv_owner_process dv) \<and>
     \<not> broker_device_should_be_revoked (dv_evaluation dv) evaluation_expired revoke)"

definition entitled_devices :: "'w broker_os \<Rightarrow> broker \<Rightarrow> 'w \<Rightarrow> (u64 \<times> device_record) list" where
  "entitled_devices os b w =
     (let stay = filter (may_stay (\<lambda>owner. bo_process_gone os owner w) (evaluation_has_expired os b w)
            (br_revoke_licensed b \<or> subscription_validation_has_elapsed os b w)) (br_devices b)
      in if outage_limits_devices os b w then first_licensed stay else stay)"

lemma candidates_members:
  "set (cleanup_candidates owner_gone expired revoke limit kept devices) \<subseteq> set devices"
  by (induction owner_gone expired revoke limit kept devices rule: cleanup_candidates.induct) auto

lemma distinct_candidates:
  "distinct (keys_of devices) \<Longrightarrow> distinct (keys_of (cleanup_candidates owner_gone expired revoke limit kept devices))"
proof (induction owner_gone expired revoke limit kept devices rule: cleanup_candidates.induct)
  case (2 owner_gone expired revoke limit kept i dv devices)
  then show ?case
    using candidates_members [of owner_gone expired revoke limit kept devices] by (auto simp: rev_image_eqI)
qed simp

lemma first_licensed_none: "\<forall>(i, dv)\<in>set m. dv_evaluation dv \<Longrightarrow> first_licensed m = m"
  by (induction m rule: first_licensed.induct) auto

lemma candidates_complement:
  assumes "distinct (keys_of devices)"
  shows "filter (\<lambda>(i, dv). i \<notin> set (keys_of (cleanup_candidates owner_gone expired revoke limit kept devices))) devices =
    (let stay = filter (may_stay owner_gone expired revoke) devices
     in if \<not> limit then stay else if kept = 0 then first_licensed stay
        else filter (\<lambda>(i, dv). dv_evaluation dv) stay)"
  using assms
proof (induction owner_gone expired revoke limit kept devices rule: cleanup_candidates.induct)
  case (2 owner_gone expired revoke limit kept i dv devices)
  have fresh: "i \<notin> set (keys_of (cleanup_candidates owner_gone expired revoke limit k devices))" for k
    using 2(3) candidates_members [of owner_gone expired revoke limit k devices] by auto
  have skip: "filter (\<lambda>(j, dv). j \<noteq> i \<and> j \<notin> set (keys_of cs)) devices = filter (\<lambda>(j, dv). j \<notin> set (keys_of cs)) devices"
    for cs :: "(u64 \<times> device_record) list"
    using 2(3) by (intro filter_cong) (auto simp: rev_image_eqI)
  have stays: "may_stay owner_gone expired revoke (i, dv) \<longleftrightarrow> \<not> owner_gone (dv_owner_process dv) \<and>
      \<not> broker_device_should_be_revoked (dv_evaluation dv) expired revoke"
    by (simp add: may_stay_def)
  have distinct: "distinct (keys_of devices)"
    using 2(3) by simp
  show ?case
  proof (cases "may_stay owner_gone expired revoke (i, dv) \<and>
      \<not> license_outage_device_should_be_revoked (dv_evaluation dv) limit kept")
    case True
    then have cond: "\<not> (owner_gone (dv_owner_process dv) \<or>
        broker_device_should_be_revoked (dv_evaluation dv) expired revoke \<or>
        license_outage_device_should_be_revoked (dv_evaluation dv) limit kept)"
      using stays by blast
    let ?kept = "if dv_evaluation dv then kept else kept + 1"
    let ?cs = "cleanup_candidates owner_gone expired revoke limit ?kept devices"
    let ?stay = "filter (may_stay owner_gone expired revoke) devices"
    have "filter (\<lambda>(i, dv). i \<notin> set (keys_of ?cs)) ((i, dv) # devices) =
        (i, dv) # filter (\<lambda>(i, dv). i \<notin> set (keys_of ?cs)) devices"
      using fresh [of ?kept] by (simp only: filter.simps case_prod_conv if_True not_False_eq_True)
    also have "\<dots> = (i, dv) #
        (if \<not> limit then ?stay else if ?kept = 0 then first_licensed ?stay
         else filter (\<lambda>(i, dv). dv_evaluation dv) ?stay)"
      unfolding 2(2) [OF cond distinct] Let_def ..
    also have "\<dots> = (if \<not> limit then (i, dv) # ?stay else if kept = 0 then first_licensed ((i, dv) # ?stay)
         else filter (\<lambda>(i, dv). dv_evaluation dv) ((i, dv) # ?stay))"
      using True by (auto simp: license_outage_device_should_be_revoked_def unvalidated_active_device_limit_def)
    finally show ?thesis
      using True unfolding cleanup_candidates.simps if_not_P [OF cond] by (simp only: filter.simps if_True Let_def)
  next
    case False
    then have cond: "owner_gone (dv_owner_process dv) \<or>
        broker_device_should_be_revoked (dv_evaluation dv) expired revoke \<or>
        license_outage_device_should_be_revoked (dv_evaluation dv) limit kept"
      using stays by blast
    let ?cs = "cleanup_candidates owner_gone expired revoke limit kept devices"
    let ?stay = "filter (may_stay owner_gone expired revoke) devices"
    have "filter (\<lambda>(j, other). j \<notin> set (keys_of ((i, dv) # ?cs))) ((i, dv) # devices) =
        filter (\<lambda>(j, dv). j \<notin> set (keys_of ?cs)) devices"
      using skip [of ?cs] by simp
    also have "\<dots> = (if \<not> limit then ?stay else if kept = 0 then first_licensed ?stay
         else filter (\<lambda>(i, dv). dv_evaluation dv) ?stay)"
      unfolding 2(1) [OF cond distinct] Let_def ..
    also have "\<dots> = (let stay = filter (may_stay owner_gone expired revoke) ((i, dv) # devices)
        in if \<not> limit then stay else if kept = 0 then first_licensed stay
           else filter (\<lambda>(i, dv). dv_evaluation dv) stay)"
    proof (cases "may_stay owner_gone expired revoke (i, dv)")
      case True
      with False have "limit" "kept \<noteq> 0" "\<not> dv_evaluation dv"
        by (auto simp: license_outage_device_should_be_revoked_def unvalidated_active_device_limit_def)
      with True show ?thesis
        by simp
    qed simp
    finally show ?thesis
      unfolding cleanup_candidates.simps if_P [OF cond] .
  qed
qed (simp add: Let_def)

text \<open>A driver that does what it is asked.\<close>

definition obliging :: "'w broker_os \<Rightarrow> bool" where
  "obliging os \<longleftrightarrow> (\<forall>path w. fst (bo_open_driver os path w)) \<and> (\<forall>request w. fst (bo_ioctl_destroy os request w) = None)"

lemma obliging_destroy:
  assumes "obliging os"
  obtains channel w' where "destroy_device_transport os request (b, w) = (None, b\<lparr>br_driver := channel\<rparr>, w')"
proof (cases "case map_of (br_devices b) (dr_driver_device_id request) of Some dv \<Rightarrow> dv_xbox360 dv | None \<Rightarrow> False")
  case True
  then show ?thesis
    using that [of "br_driver b" w] by (simp add: destroy_device_transport_def)
next
  case False
  obtain opened channel w1 where o: "driver_open os (br_driver b) w = (opened, channel, w1)"
    by (cases "driver_open os (br_driver b) w") auto
  moreover have "opened"
    using assms o by (auto simp: obliging_def driver_open_def Let_def split_beta split: if_splits)
  moreover obtain err w2 where "bo_ioctl_destroy os request w1 = (err, w2)"
    by fastforce
  moreover from this assms have "err = None"
    unfolding obliging_def by (metis fst_conv)
  ultimately show ?thesis
    using False that [of channel w2] by (simp add: destroy_device_transport_def driver_destroy_device_def)
qed

lemma obliging_candidate:
  assumes "obliging os" "(i, dv) \<in> set (br_devices b)" "distinct (keys_of (br_devices b))"
  obtains channel w' where "destroy_cleanup_candidate os (i, dv) (b, w) =
      (b\<lparr>br_driver := channel, br_devices := erase_key i (br_devices b)\<rparr>, w')"
proof -
  obtain channel w' where "destroy_device_transport os (make_destroy_device_request i (dv_session_token dv)) (b, w) =
      (None, b\<lparr>br_driver := channel\<rparr>, w')"
    by (rule obliging_destroy [OF assms(1)])
  moreover have "map_of (br_devices b) i = Some dv"
    using assms(2,3) by (simp add: map_of_is_SomeI)
  ultimately show thesis
    by (intro that [of channel w']) (simp add: destroy_cleanup_candidate_def)
qed

lemma obliging_candidates:
  assumes "obliging os"
  shows "set cs \<subseteq> set (br_devices b) \<Longrightarrow> distinct (keys_of (br_devices b)) \<Longrightarrow> distinct (keys_of cs) \<Longrightarrow>
    \<exists>channel w'. foldl (\<lambda>s c. destroy_cleanup_candidate os c s) (b, w) cs =
      (b\<lparr>br_driver := channel,
         br_devices := filter (\<lambda>(i, dv). i \<notin> set (keys_of cs)) (br_devices b)\<rparr>, w')"
proof (induction cs arbitrary: b w)
  case Nil
  show ?case
    by (intro exI [of _ "br_driver b"] exI [of _ w]) simp
next
  case (Cons c cs)
  obtain i dv where c: "c = (i, dv)"
    by (cases c)
  have "(i, dv) \<in> set (br_devices b)"
    using Cons.prems(1) c by simp
  then obtain channel w1 where first: "destroy_cleanup_candidate os (i, dv) (b, w) =
      (b\<lparr>br_driver := channel, br_devices := erase_key i (br_devices b)\<rparr>, w1)"
    by (rule obliging_candidate [OF assms _ Cons.prems(2)])
  let ?b = "b\<lparr>br_driver := channel, br_devices := erase_key i (br_devices b)\<rparr>"
  have "set cs \<subseteq> set (br_devices ?b)" "distinct (keys_of (br_devices ?b))" "distinct (keys_of cs)"
    using Cons.prems c by (auto simp: erase_key_def rev_image_eqI intro: distinct_map_filter)
  then obtain channel' w' where "foldl (\<lambda>s c. destroy_cleanup_candidate os c s) (?b, w1) cs =
      (?b\<lparr>br_driver := channel',
         br_devices := filter (\<lambda>(i, dv). i \<notin> set (keys_of cs)) (br_devices ?b)\<rparr>, w')"
    using Cons.IH by blast
  moreover have "filter (\<lambda>(j, dv). j \<notin> set (keys_of cs)) (erase_key i (br_devices b)) =
      filter (\<lambda>(j, dv). j \<notin> set (keys_of (c # cs))) (br_devices b)"
    by (simp add: erase_key_def c case_prod_unfold)
  ultimately show ?case
    using first by (intro exI [of _ channel'] exI [of _ w']) (simp add: c)
qed

lemma evaluation_only: "length (licensed_devices (filter (\<lambda>(i, dv). dv_evaluation dv) m)) = 0"
  by (simp add: licensed_devices_def case_prod_unfold)

lemma first_licensed_one: "length (licensed_devices (first_licensed m)) \<le> 1"
  using evaluation_only by (induction m rule: first_licensed.induct) (auto simp: licensed_devices_def)

lemma first_licensed_subset: "set (first_licensed m) \<subseteq> set m"
  by (induction m rule: first_licensed.induct) auto

lemma entitled_licensed:
  assumes "br_revoke_licensed b \<or> subscription_validation_has_elapsed os b w"
  shows "licensed_devices (entitled_devices os b w) = []"
proof -
  let ?stay = "filter (may_stay (\<lambda>owner. bo_process_gone os owner w) (evaluation_has_expired os b w)
      (br_revoke_licensed b \<or> subscription_validation_has_elapsed os b w)) (br_devices b)"
  have "set (entitled_devices os b w) \<subseteq> set ?stay"
    using first_licensed_subset [of ?stay] by (simp add: entitled_devices_def Let_def)
  also have "\<dots> \<subseteq> {(i, dv). dv_evaluation dv}"
    using assms by (auto simp: may_stay_def broker_device_should_be_revoked_def)
  finally show ?thesis
    by (auto simp: licensed_devices_def filter_empty_conv)
qed

lemma entitled_number:
  assumes "broker_inv Idle b"
  shows "length (licensed_devices (entitled_devices os b w)) \<le>
    (if br_license b = None then 0 else if outage_limits_devices os b w then 1 else length (br_devices b))"
proof -
  let ?stay = "filter (may_stay (\<lambda>owner. bo_process_gone os owner w) (evaluation_has_expired os b w)
      (br_revoke_licensed b \<or> subscription_validation_has_elapsed os b w)) (br_devices b)"
  have "licensed_devices (entitled_devices os b w) = []" if "br_license b = None"
  proof (cases "br_revoke_licensed b")
    case True
    then show ?thesis
      by (intro entitled_licensed disjI1)
  next
    case False
    then have "False \<notin> device_flags Idle b"
      using assms that by (simp add: broker_inv_def)
    moreover have "set (entitled_devices os b w) \<subseteq> set (br_devices b)"
      using first_licensed_subset [of ?stay] by (auto simp: entitled_devices_def Let_def)
    ultimately show ?thesis
      by (force simp: device_flags_def licensed_devices_def filter_empty_conv)
  qed
  moreover have "length (licensed_devices (entitled_devices os b w)) \<le> 1" if "outage_limits_devices os b w"
    using that first_licensed_one [of ?stay] by (simp add: entitled_devices_def Let_def)
  moreover have "length (licensed_devices ?stay) \<le> length (br_devices b)"
    unfolding licensed_devices_def by (meson le_trans length_filter_le)
  ultimately show ?thesis
    by (auto simp: entitled_devices_def Let_def)
qed

text \<open>C21: When a clean-up of the broker is over, whatever its two threads did before, and the driver
  did what it was asked, exactly the devices that are entitled remain, in a long outage at most one
  that is licensed, and none without a licence; nothing is left to be revoked.\<close>

lemma broker_cleanup_leaves_entitled:
  assumes "(broker_step os)\<^sup>*\<^sup>* (Idle, broker_start os github marker plain evaluation w0) (Idle, b, w)"
    and "br_reconciled b" "obliging os"
  shows "br_devices (fst (cleanup_devices os (b, w))) = entitled_devices os b w \<and>
    \<not> br_revoke_licensed (fst (cleanup_devices os (b, w))) \<and>
    length (licensed_devices (entitled_devices os b w)) \<le>
      (if br_license b = None then 0 else if outage_limits_devices os b w then 1 else length (br_devices b))"
proof -
  have inv: "broker_inv Idle b"
    by (rule reachable_inv [OF assms(1)])
  then have keys: "distinct (keys_of (br_devices b))"
    by (auto simp: broker_inv_def intro: distinct_keys)
  define revoke where "revoke \<longleftrightarrow> br_revoke_licensed b \<or> subscription_validation_has_elapsed os b w"
  define b1 where "b1 = b\<lparr>br_revoke_licensed := revoke\<rparr>"
  define cs where "cs = cleanup_candidates (\<lambda>owner. bo_process_gone os owner w) (evaluation_has_expired os b w)
      revoke (outage_limits_devices os b w) 0 (br_devices b)"
  have "set cs \<subseteq> set (br_devices b1)" "distinct (keys_of cs)"
    using candidates_members keys by (auto simp: cs_def b1_def intro: distinct_candidates)
  moreover have "distinct (keys_of (br_devices b1))"
    using keys by (simp add: b1_def)
  ultimately obtain channel w' where fold: "foldl (\<lambda>s c. destroy_cleanup_candidate os c s) (b1, w) cs =
      (b1\<lparr>br_driver := channel, br_devices := filter (\<lambda>(i, dv). i \<notin> set (keys_of cs)) (br_devices b1)\<rparr>, w')"
    using obliging_candidates [OF assms(3)] by blast
  have remaining: "filter (\<lambda>(i, dv). i \<notin> set (keys_of cs)) (br_devices b) = entitled_devices os b w"
    unfolding cs_def candidates_complement [OF keys]
    by (simp add: entitled_devices_def Let_def revoke_def)
  have "fst (cleanup_devices os (b, w)) =
      b\<lparr>br_driver := channel, br_devices := entitled_devices os b w,
        br_revoke_licensed := (revoke \<and> licensed_devices (entitled_devices os b w) \<noteq> [])\<rparr>"
    using fold remaining assms(2)
    by (simp add: cleanup_devices_def reconcile_driver_state_def Let_def b1_def cs_def revoke_def
        outage_limits_devices_def active_licensed_device_count_def)
  moreover have "revoke \<Longrightarrow> licensed_devices (entitled_devices os b w) = []"
    unfolding revoke_def by (rule entitled_licensed)
  moreover have "length (licensed_devices (entitled_devices os b w)) \<le>
      (if br_license b = None then 0 else if outage_limits_devices os b w then 1 else length (br_devices b))"
    using entitled_number [OF inv] .
  ultimately show ?thesis
    by auto
qed

section \<open>Devices without a confirmed licence\<close>

definition licensed_pending :: "create_phase \<Rightarrow> nat" where
  "licensed_pending ph = (if False \<in> pending_flags ph then 1 else 0)"

definition at_most_one :: "create_phase \<Rightarrow> broker \<Rightarrow> bool" where
  "at_most_one ph b \<longleftrightarrow> active_licensed_device_count b + licensed_pending ph \<le> 1"

lemma shrinks_one: "shrinks b b' \<Longrightarrow> at_most_one ph b \<Longrightarrow> at_most_one ph b'"
  by (auto simp: at_most_one_def shrinks_def)

context licence_operation
begin

lemma keeps_one: "at_most_one ph b \<Longrightarrow> at_most_one ph (fst (oper (b, w)))"
  using contract [of b w]
  by (simp add: licence_contract_def same_devices_def at_most_one_def active_licensed_device_count_def)

end

lemma cleanup_shrinks: "active_licensed_device_count (fst (cleanup_devices os (b, w))) \<le> active_licensed_device_count b"
proof (cases "reconcile_driver_state os (b, w)" rule: prod_cases3)
  case (fields err b1 w1)
  from reconcile_shrinks [OF this] have one: "active_licensed_device_count b1 \<le> active_licensed_device_count b"
    by (simp add: shrinks_def)
  define b2 where "b2 = b1\<lparr>br_revoke_licensed := (br_revoke_licensed b1 \<or> subscription_validation_has_elapsed os b1 w1)\<rparr>"
  define cs where "cs = cleanup_candidates (\<lambda>owner. bo_process_gone os owner w1) (evaluation_has_expired os b1 w1)
      (br_revoke_licensed b2) (outage_limits_devices os b2 w1) 0 (br_devices b2)"
  obtain b3 w3 where fold: "foldl (\<lambda>s c. destroy_cleanup_candidate os c s) (b2, w1) cs = (b3, w3)"
    by fastforce
  then have "active_licensed_device_count b3 \<le> active_licensed_device_count b2"
    using destroy_candidates_shrink [of b2 os w1 cs] by (simp add: shrinks_def)
  moreover have "fst (cleanup_devices os (b, w)) =
      (if err \<noteq> None then b1
       else b3\<lparr>br_revoke_licensed := (br_revoke_licensed b3 \<and> active_licensed_device_count b3 \<noteq> 0)\<rparr>)"
    using fold by (simp add: cleanup_devices_def fields Let_def b2_def cs_def)
  ultimately show ?thesis
    using one by (simp add: b2_def active_licensed_device_count_def)
qed

lemma create_begin_one:
  assumes "at_most_one Idle b" "\<not> br_online_confirmed b" "create_begin os request pid (b, w) = (result, b', w')"
  shows "at_most_one (case result of Inl response \<Rightarrow> Idle | Inr pc \<Rightarrow> Authorized pc) b'"
proof (cases "reconcile_driver_state os (b, w)" rule: prod_cases3)
  case (fields err b1 w1)
  from reconcile_shrinks [OF this] assms(1,2) have one: "at_most_one Idle b1" "\<not> br_online_confirmed b1"
    by (auto simp: shrinks_def same_license_def intro: shrinks_one [OF reconcile_shrinks [OF fields]])
  have kept: "at_most_one Idle b2 \<and> (au_status au = St_success \<longrightarrow> pc_authorization pc = au \<longrightarrow> at_most_one (Authorized pc) b2)"
    if "authorize_device_create os (b1, w2) = (au, b2, w3)" for w2 au b2 w3 pc
    using authorize_keeps [OF that] one
    by (auto simp: at_most_one_def licensed_pending_def active_licensed_device_count_def)
  from assms(3) one assms(1) kept show ?thesis
    by (auto simp: create_begin_def fields Let_def split: if_splits option.splits prod.splits sum.splits)
qed

lemma create_finish_one:
  assumes "at_most_one (Created pc device) b"
  shows "at_most_one Idle (fst (snd (create_finish os pc device (b, w))))"
proof -
  obtain dv b1 where dv: "dv_evaluation dv = au_evaluation (pc_authorization pc)"
    and b1: "b1 = b\<lparr>br_devices := try_emplace (cd_driver_device_id device) dv (br_devices b)\<rparr>"
    and result: "snd (create_finish os pc device (b, w)) =
       (if \<not> dv_evaluation dv \<and> cr_device_type (bc_device (pc_request pc)) = LVH_WINDOWS_DEVICE_GAMEPAD
        then record_gamepad_creation os (au_license_id (pc_authorization pc)) (b1, w) else (b1, w))"
    by (rule create_finish_cases)
  have one: "at_most_one Idle b1"
    using assms licensed_try_emplace [of "cd_driver_device_id device" dv "br_devices b"] dv
    by (auto simp: at_most_one_def licensed_pending_def active_licensed_device_count_def b1 split: if_splits)
  obtain b2 w2 where recorded: "record_gamepad_creation os (au_license_id (pc_authorization pc)) (b1, w) = (b2, w2)"
    by fastforce
  with record_creation_keeps [OF recorded] one have "at_most_one Idle b2"
    by (simp add: same_devices_def at_most_one_def active_licensed_device_count_def)
  with one result recorded show ?thesis
    by (auto split: if_splits)
qed

lemma step_one:
  "broker_step os s s' \<Longrightarrow> \<not> br_online_confirmed (fst (snd s)) \<Longrightarrow> at_most_one (fst s) (fst (snd s)) \<Longrightarrow>
   at_most_one (fst s') (fst (snd s'))"
proof (induction rule: broker_step.induct)
  case (step_turn ph s)
  then show ?case
    by (cases s) (auto intro: turn.keeps_one)
next
  case (step_cleanup s)
  then show ?case
    using cleanup_shrinks [of os "fst s" "snd s"] by (simp add: at_most_one_def)
next
  case (step_destroy s destroy)
  then show ?case
    by (cases s) (auto intro: shrinks_one destroy_shrinks)
next
  case (step_activate s request)
  then show ?case
    by (cases s) (auto intro: activate.keeps_one)
next
  case (step_validate s request)
  then show ?case
    by (cases s) (auto intro: validate.keeps_one)
next
  case (step_deactivate s request)
  then show ?case
    by (cases s) (auto intro: deactivate.keeps_one)
next
  case (step_refused create pid s response s')
  then show ?case
    by (cases s, cases s') (auto dest: create_begin_one)
next
  case (step_authorized create pid s pc s')
  then show ?case
    by (cases s, cases s') (auto dest: create_begin_one)
next
  case (step_not_created pc s response s')
  then show ?case
    by (cases s, cases s')
      (auto dest!: create_transport_keeps
        simp: at_most_one_def same_devices_def active_licensed_device_count_def licensed_pending_def)
next
  case (step_created pc s device s')
  then show ?case
    by (cases s, cases s')
      (auto dest!: create_transport_keeps
        simp: at_most_one_def same_devices_def active_licensed_device_count_def licensed_pending_def)
next
  case (step_finished pc device s)
  then show ?case
    by (cases s) (auto intro: create_finish_one)
qed simp

lemma start_state:
  "\<not> br_online_confirmed (fst (broker_start os github marker plain evaluation w)) \<and>
   br_devices (fst (broker_start os github marker plain evaluation w)) = []"
  by (auto simp: broker_start_def Let_def reconcile_driver_state_def schedule_license_validation_def
      split: prod.splits)

text \<open>C22: From its start and until the licence server confirms the licence, a broker serves at most one
  licensed device at a time, whatever its clients ask for and however the two threads interleave.\<close>

lemma broker_unconfirmed_one_device:
  assumes "(\<lambda>s s'. broker_step os s s' \<and> \<not> br_online_confirmed (fst (snd s')))\<^sup>*\<^sup>*
      (Idle, broker_start os github marker plain evaluation w0) (ph, b, w)"
  shows "length (licensed_devices (br_devices b)) \<le> 1"
proof -
  have "at_most_one (fst s) (fst (snd s)) \<and> \<not> br_online_confirmed (fst (snd s))"
    if "(\<lambda>s s'. broker_step os s s' \<and> \<not> br_online_confirmed (fst (snd s')))\<^sup>*\<^sup>*
      (Idle, broker_start os github marker plain evaluation w0) s" for s
    using that
  proof induction
    case base
    then show ?case
      using start_state [of os github marker plain evaluation w0]
      by (simp add: at_most_one_def active_licensed_device_count_def licensed_devices_def licensed_pending_def)
  next
    case (step s s')
    then show ?case
      using step_one by blast
  qed
  from this [OF assms] show ?thesis
    by (simp add: at_most_one_def active_licensed_device_count_def)
qed

section \<open>What a licence is good for\<close>

text \<open>C23: The broker does what it shows. A device is created under the licence exactly when the status
  says licensed and the licence was confirmed online or no licensed device exists, and under the
  evaluation exactly when there is no licence, the evaluation is on and its window is open or starts
  now; a refusal of a licence that is not in force carries the text of the status.\<close>

lemma authorization_as_shown:
  "case authorize_device_create os (b, w) of (au, b', w') \<Rightarrow>
     (au_status au = St_success \<and> \<not> au_evaluation au \<longleftrightarrow>
        li_state (fill_license_status os b w) = Lic_licensed \<and>
        (br_online_confirmed b \<or> licensed_devices (br_devices b) = [])) \<and>
     (au_status au = St_success \<and> au_evaluation au \<longleftrightarrow>
        li_state (fill_license_status os b w) = Lic_free \<and> br_github_actions b \<and>
        (case br_evaluation b of
           Some started_at \<Rightarrow> evaluation_active started_at (bo_now os w)
         | None \<Rightarrow> fst (bo_save_evaluation os (serialize_evaluation_state (bo_now os w)) w) = None)) \<and>
     (au_status au = St_license_invalid \<longrightarrow> au_message au = c_str (li_message (fill_license_status os b w)))"
proof -
  have licensed: "fst (license_text os b st w) = Lic_licensed \<longleftrightarrow>
      license_allowed st \<and> license_authorization_is_current os b w"
    if "br_license b = Some st" for st
    using that by (auto simp: license_text_def license_authorization_is_current_def split: if_splits option.splits)
  have shown: "li_state (fill_license_status os b w) =
      (case br_license b of None \<Rightarrow> Lic_free | Some st \<Rightarrow> fst (license_text os b st w))"
    by (simp add: fill_license_status_def Let_def split_beta split: option.split)
  have "fst (license_text os b st w) \<noteq> Lic_free" for st
    by (simp add: license_text_def)
  moreover have "evaluation_active now now" for now
    by (simp add: evaluation_active_def evaluation_duration_def nanoseconds_per_second_def)
  ultimately show ?thesis
    using licensed shown
    by (auto simp: authorize_device_create_def Let_def split_beta unvalidated_device_creation_allowed_def
        unvalidated_active_device_limit_def active_licensed_device_count_def split: option.splits)
qed

text \<open>C26: Only who holds the token of a device can destroy it: when the broker reports success the
  device is the one of the request and it alone is gone, and in every other case the table is as it
  was.\<close>

lemma broker_destroy_needs_token:
  "case handle_destroy os request (b, w) of (response, b', w') \<Rightarrow>
     (if re_status response = St_success
      then (\<exists>dv. map_of (br_devices b) (dr_driver_device_id (bd_device request)) = Some dv \<and>
          dv_session_token dv = dr_session_token (bd_device request)) \<and>
        \<not> all_zero (dr_session_token (bd_device request)) \<and>
        br_devices b' = filter (\<lambda>(i, dv). i \<noteq> dr_driver_device_id (bd_device request)) (br_devices b)
      else br_devices b' = br_devices b)"
proof -
  obtain err b1 w1 where d: "destroy_device_transport os (bd_device request) (b, w) = (err, b1, w1)"
    by (cases "destroy_device_transport os (bd_device request) (b, w)") auto
  have "br_devices b1 = br_devices b"
    using destroy_transport_keeps [OF d] by (simp add: same_devices_def)
  moreover have "fst (the err) \<noteq> St_success" if "err \<noteq> None"
    using d that by (auto simp: destroy_device_transport_def driver_destroy_device_def driver_unavailable_def Let_def
        split: if_splits prod.splits)
  ultimately show ?thesis
    by (auto simp: handle_destroy_def Let_def d respond_def valid_destroy_device_request_def
        valid_destroy_request_def erase_key_def split: option.splits)
qed

section \<open>Restarts and time\<close>

lemma accepted_time_identity:
  "accept_trusted_license_time os b server_time w st = (Time_success, text, st') \<Longrightarrow>
   ls_provider st' = ls_provider st \<and> ls_activation_id st' = ls_activation_id st \<and>
   ls_license_key st' = ls_license_key st"
  by (auto simp: accept_trusted_license_time_def Let_def split: option.splits if_splits)

lemma read_identity:
  "ls_provider (license_state_from_json body key i) = ''polar''"
  "key \<noteq> [] \<Longrightarrow> ls_license_key (license_state_from_json body key i) \<noteq> []"
  "i \<noteq> [] \<Longrightarrow> ls_activation_id (license_state_from_json body key i) \<noteq> []"
  by (simp_all add: license_state_from_json_def Let_def empty_license_state_def)

lemma validated_identity:
  assumes "judge_validation os b st r w = Validated st'" "ls_license_key st \<noteq> []"
  shows "ls_provider st' = ''polar'' \<and> ls_activation_id st' = ls_activation_id st \<and> ls_license_key st' \<noteq> []"
  using assms
  by (auto simp: judge_validation_def Let_def read_identity read_identity(2,3) [THEN not_sym] dest!: accepted_time_identity
      split: if_splits option.splits prod.splits trusted_license_time_result.splits)

lemma activated_identity:
  assumes "judge_activation os b key r w = Inr st'" "key \<noteq> []"
  shows "ls_provider st' = ''polar'' \<and> ls_activation_id st' \<noteq> [] \<and> ls_license_key st' \<noteq> []"
  using assms
  by (auto simp: judge_activation_def Let_def read_identity read_identity(2,3) [THEN not_sym] dest!: accepted_time_identity
      split: if_splits option.splits prod.splits trusted_license_time_result.splits json.splits)

text \<open>C25: A licence that was activated or validated and saved is the one a broker has after a restart, as
  long as its texts hold no line end, and the restarted broker will ask the server about it at once.\<close>

lemma broker_restart_keeps_license:
  assumes "judge_activation os b key r w = Inr st \<and> key \<noteq> [] \<or>
      judge_validation os b old r w = Validated st \<and> ls_license_key old \<noteq> [] \<and> ls_activation_id old \<noteq> []"
    and "list_all (\<lambda>t. newline \<notin> set t) (texts_of st)"
  shows "case broker_start os github marker (Some (serialize_license_state st)) evaluation w' of (b', w'') \<Rightarrow>
      br_license b' = Some st \<and> br_next_attempt b' = Some (bo_license_now os w'')"
proof -
  have "load_license_state (Some (serialize_license_state st)) = Some st"
    using assms validated_identity activated_identity
    by (fastforce simp: load_license_state_def deserialize_serialize Let_def)
  then show ?thesis
    by (auto simp: broker_start_def Let_def reconcile_driver_state_def schedule_license_validation_def
        split: prod.splits)
qed

lemma accepted_time_anchor:
  "accept_trusted_license_time os b server_time w st = (Time_success, text, st') \<Longrightarrow>
   \<exists>t. server_time = Some t \<and> ls_validated_at st' = license_calendar_timestamp t \<and>
     ls_validated_uptime_ms st' = bo_uptime_ms os w \<and> ls_boot_marker st' = br_boot_marker b \<and>
     br_boot_marker b \<noteq> []"
  by (auto simp: accept_trusted_license_time_def Let_def split: option.splits if_splits)

lemma validated_anchor:
  assumes "judge_validation os b old r w = Validated st"
  shows "\<exists>t. pa_server_time r = Some t \<and> ls_validated_at st = license_calendar_timestamp t \<and>
     ls_validated_uptime_ms st = bo_uptime_ms os w \<and> ls_boot_marker st = br_boot_marker b \<and>
     br_boot_marker b \<noteq> []"
  using assms
  by (auto simp: judge_validation_def Let_def dest!: accepted_time_anchor
      split: if_splits option.splits prod.splits trusted_license_time_result.splits)

lemma allowed_benefit:
  assumes "license_allowed st"
  obtains found where "benefit (ls_benefit_id st) = Some found"
    "pb_subscription_backed found \<longleftrightarrow> plan_name (ls_benefit_id st) \<noteq> ''Lifetime''"
  using assms
  by (auto simp: license_allowed_def plan_name_def benefit_def allowed_benefits_def split: if_splits)


section \<open>An example\<close>

definition example_answer :: json where
  "example_answer = Json_object [(''id'', Json_string ''activation-1''),
     (''license_key'', Json_object
       [(''key'', Json_string ''KEY''), (''id'', Json_string ''license-1''), (''status'', Json_string ''granted''),
        (''organization_id'', Json_string polar_organization_id),
        (''benefit_id'', Json_string ''eb316dac-bf6a-4359-95a2-86c299d48ecc''),
        (''limit_activations'', Json_unsigned 3)])]"

definition example_validation :: json where
  "example_validation = Json_object
     [(''key'', Json_string ''KEY''), (''id'', Json_string ''license-1''), (''status'', Json_string ''granted''),
      (''organization_id'', Json_string polar_organization_id),
      (''benefit_id'', Json_string ''eb316dac-bf6a-4359-95a2-86c299d48ecc''),
      (''activation'', Json_object [(''id'', Json_string ''activation-1'')])]"

definition example_result :: polar_api_result where
  "example_result = \<lparr>pa_transport_ok = True, pa_http_status = 200, pa_server_time = Some 1790000000,
     pa_body = ''activation'', pa_error = []\<rparr>"

text \<open>A machine whose state is its uptime in milliseconds.\<close>

definition example_broker_os :: "nat broker_os" where
  "example_broker_os =
     \<lparr>bo_license_now = (\<lambda>w. int w * 1000000), bo_uptime_ms = word_of_nat, bo_now = (\<lambda>w. int w * 1000000),
      bo_parse_json = (\<lambda>body. if body = ''activation'' then Some example_answer else Some example_validation),
      bo_post = (\<lambda>path body w. (example_result, w + 1)),
      bo_save_license = (\<lambda>text w. (None, w)), bo_save_evaluation = (\<lambda>text w. (None, w)),
      bo_delete_license = (\<lambda>w. w), bo_computer_name = (\<lambda>w. ''PC''),
      bo_open_process = (\<lambda>pid w. (Some (unat pid), w)), bo_process_gone = (\<lambda>owner w. False),
      bo_duplicate = (\<lambda>owner v w. (Some (unat v), w)), bo_random_token = (\<lambda>w. (Some (replicate 32 1), w)),
      bo_xbox360_create = (\<lambda>request i token owner w. (None, empty_create_device_response, w)),
      bo_open_driver = (\<lambda>path w. (True, w)), bo_driver_error = (\<lambda>w. []), bo_create_event = (\<lambda>w. (None, w)),
      bo_ioctl_create = (\<lambda>control request w. (Inr (create_device_response_size, empty_create_device_response), w)),
      bo_ioctl_destroy = (\<lambda>request w. (None, w)), bo_ioctl_reset = (\<lambda>request w. (None, w))\<rparr>"

definition example_license :: polar_license_state where
  "example_license = empty_license_state\<lparr>ls_provider := ''polar'', ls_license_key := ''KEY'',
     ls_activation_id := ''activation-1'', ls_license_key_id := ''license-1'', ls_license_status := ''granted'',
     ls_organization_id := polar_organization_id, ls_benefit_id := ''eb316dac-bf6a-4359-95a2-86c299d48ecc'',
     ls_activation_limit := 3, ls_validated_at := 1790000000, ls_boot_marker := ''boot'',
     ls_validated_uptime_ms := 5000\<rparr>"

abbreviation example_start :: "broker \<times> nat" where
  "example_start \<equiv> broker_start example_broker_os True ''boot'' None None 4000"

lemma example_start_state:
  "fst example_start = \<lparr>br_devices = [], br_driver = Some LVH_WINDOWS_CONTROL_DEVICE_PATH,
     br_next_xbox360_id = 0x8000000000000000, br_license = None, br_next_attempt = None,
     br_unavailable_since = None, br_evaluation = None, br_online_confirmed = False,
     br_revoke_licensed = False, br_reconciled = True, br_github_actions = True, br_boot_marker = ''boot''\<rparr>"
  "snd example_start = 4000"
  by (simp_all add: broker_start_def reconcile_driver_state_def driver_reset_devices_def driver_open_def
      example_broker_os_def load_license_state_def)

lemma example_activation:
  "judge_activation example_broker_os (fst example_start) ''KEY'' example_result 5000 = Inr example_license"
  unfolding example_start_state
  by (simp add: judge_activation_def example_broker_os_def example_result_def example_answer_def
      json_string_or_empty_def license_state_from_json_def empty_license_state_def example_license_def
      json_uint32_or_zero_def license_allowed_def polar_organization_id_def plan_name_def benefit_def
      allowed_benefits_def accept_trusted_license_time_def license_calendar_timestamp_def)

lemma broker_restart_keeps_license_witness:
  "case broker_start example_broker_os False ''boot'' (Some (serialize_license_state example_license)) None 9000 of
     (b', w'') \<Rightarrow> br_license b' = Some example_license \<and> br_next_attempt b' = Some (bo_license_now example_broker_os w'')"
proof -
  have "list_all (\<lambda>t. newline \<notin> set t) (texts_of example_license)"
    by (simp add: texts_of_def example_license_def polar_organization_id_def empty_license_state_def)
  then show ?thesis
    using broker_restart_keeps_license [OF disjI1 [OF conjI [OF example_activation]]] by simp
qed

lemma broker_cleanup_leaves_entitled_witness:
  "br_devices (fst (cleanup_devices example_broker_os example_start)) =
     entitled_devices example_broker_os (fst example_start) 4000 \<and>
   \<not> br_revoke_licensed (fst (cleanup_devices example_broker_os example_start))"
proof -
  have "obliging example_broker_os"
    by (simp add: obliging_def example_broker_os_def)
  moreover have "br_reconciled (fst example_start)"
    by (simp add: example_start_state)
  moreover have "example_start = (fst example_start, 4000)"
    using example_start_state(2) by (metis prod.collapse)
  ultimately show ?thesis
    using broker_cleanup_leaves_entitled [of example_broker_os True "''boot''" None None 4000 "fst example_start" 4000]
    by (metis rtranclp.rtrancl_refl)
qed

lemma broker_unconfirmed_one_device_witness:
  "length (licensed_devices (br_devices (fst (license_validation_turn example_broker_os example_start)))) \<le> 1"
proof -
  let ?s' = "license_validation_turn example_broker_os example_start"
  have "\<not> br_online_confirmed (fst ?s')"
    using example_start_state by (simp add: license_validation_turn_def split_beta Let_def)
  then have "(\<lambda>s s'. broker_step example_broker_os s s' \<and> \<not> br_online_confirmed (fst (snd s')))\<^sup>*\<^sup>*
      (Idle, example_start) (Idle, fst ?s', snd ?s')"
    by (intro r_into_rtranclp) (simp add: step_turn)
  then show ?thesis
    by (rule broker_unconfirmed_one_device)
qed

lemma example_judged:
  "judge_validation example_broker_os (fst example_start) example_license
     (example_result\<lparr>pa_body := ''validation''\<rparr>) 5000 = Validated (example_license\<lparr>ls_activation_limit := 0\<rparr>)"
  unfolding example_start_state
  by (simp add: judge_validation_def example_broker_os_def example_result_def example_validation_def
      json_string_or_empty_def license_state_from_json_def empty_license_state_def example_license_def
      json_uint32_or_zero_def license_allowed_def polar_organization_id_def plan_name_def benefit_def
      allowed_benefits_def accept_trusted_license_time_def license_calendar_timestamp_def)


lemma authorization_as_shown_witness:
  "case authorize_device_create example_broker_os example_start of (au, b', w') \<Rightarrow>
     au_status au = St_success \<and> au_evaluation au \<longleftrightarrow>
     li_state (fill_license_status example_broker_os (fst example_start) 4000) = Lic_free"
proof -
  have "example_start = (fst example_start, 4000)"
    using example_start_state(2) by (metis prod.collapse)
  moreover have "br_github_actions (fst example_start)" "br_evaluation (fst example_start) = None"
    by (simp_all add: example_start_state)
  moreover have "fst (bo_save_evaluation example_broker_os msg w) = None" for msg w
    by (simp add: example_broker_os_def)
  ultimately show ?thesis
    using authorization_as_shown [of example_broker_os "fst example_start" 4000]
    by (simp split: prod.splits)
qed

end
