(* ===== verification/Spec2Isabelle.thy ===== *)
theory Spec2Isabelle
  imports PackContent Parse VhfQueue PidFeature GamepadAdapter SwitchProReply XboxBluetooth
    ProfileFacts WindowsHidKeyboard LinuxText LinuxTouch LinuxMouse LinuxPen LinuxGamepad
    LinuxRumble LinuxUhidFacts BrokerFacts
begin

text \<open>
  libvirtualhid: virtual input devices (gamepads, keyboards, mice, touchscreens, trackpads and
  pen tablets) that a client program creates and feeds with events. A \<open>Runtime\<close> owns the
  devices of a client and talks to one backend of the platform; the core turns the state of a
  gamepad into the HID input report of the device it imitates and the output reports of the
  host back into rumble, lights and triggers. The Windows backend hands reports to a driver over
  a broker, the Linux backend writes input events to the kernel's uinput. This file imports the
  whole development and has no content of its own; all paths below are under \<open>src/src/\<close>.

  \<^bold>\<open>Shared ground.\<close>
  \<^item> \<open>Prelude\<close>: words of 8 to 64 bits, checked byte buffers. A read or write of the sources
    is an operation with \<open>option\<close>: an index out of range, which C++ leaves undefined, is
    \<open>None\<close>, so that "never None" says that no access leaves its buffer.
  \<^item> \<open>Floats\<close>: binary32 and binary64 arithmetic as rational numbers with rounding to nearest
    even, \<open>std::clamp\<close> and \<open>std::lround\<close>. What \<open>lround\<close> gives for a NaN is unspecified in C++ and
    is the parameter \<open>u\<close> of the definitions that need it.
  \<^item> \<open>Types\<close>, \<open>Events\<close>: \<open>include/libvirtualhid/types.hpp\<close> and \<open>core/types.cpp\<close>, structures as
    records with their default values, enumerations as datatypes. Every operation returns an
    \<open>operation_status\<close>: an error is a value.
  \<^item> \<open>HidDescriptor\<close>: a reader of report descriptors after HID 1.11, the reference against which
    the descriptors of the library are held. It is not code of the library.

  \<^bold>\<open>Reports\<close> (\<open>core/report.cpp\<close>).
  \<^item> \<open>ReportBytes\<close>, \<open>Normalize\<close>: little-endian fields, CRC-32, quantisation; the locale
    \<open>checksum\<close> shows that a changed byte changes the digest, \<open>quantiser\<close> that every field is
    monotone and in range.
  \<^item> \<open>Pack\<close>, \<open>PackContent\<close>: \<open>pack_input_report\<close> for the seven layouts with its counters as
    state. Packing is total and of the profile's size; buttons and touch contacts can be read
    back; a Bluetooth report carries its checksum.
  \<^item> \<open>Parse\<close>: \<open>parse_output_report(s)\<close>; parsing is total, a corrupted report has no effect.
  \<^item> \<open>XboxBluetooth\<close> (\<open>platform/shared/xbox_bluetooth_transport.hpp\<close>), \<open>SwitchProReply\<close>
    (\<open>shared/switch_pro_protocol.hpp\<close>), \<open>PlayStationFeature\<close>
    (\<open>shared/playstation_feature_reports.hpp\<close> and the Windows protocol header): the converted
    report, the answers to a Switch host and to PlayStation feature requests.
  \<^item> \<open>Profiles\<close>, \<open>ProfileFacts\<close> (\<open>core/profiles.cpp\<close>): the built-in devices. The descriptors,
    evaluated by the reader of \<open>HidDescriptor\<close>, declare exactly the reports the packers write.

  \<^bold>\<open>Runtime\<close> (\<open>core/backend.hpp\<close>, \<open>core/backend.cpp\<close>, \<open>core/runtime.cpp\<close>,
  \<open>core/gamepad_adapter.cpp\<close>, \<open>platform/unsupported_backend.cpp\<close>).
  \<^item> \<open>Devices\<close>: a backend is a record of functions on a state of its own, of any type, so that
    the theorems hold for every backend; the in-memory backend is a value of it. The locale
    \<open>device_operation\<close> is the contract of a submitting operation (closed devices reject, a
    rejection changes nothing, acceptance counts one), interpreted on each of them.
  \<^item> \<open>Runtime\<close>, \<open>RuntimeFacts\<close>: creation with its validation, handles, \<open>close_all\<close>. A list of
    optional handles is the client's variables; a client is any sequence of calls. Identifiers
    stay distinct as long as the 64-bit counter does not wrap, which takes \<open>2^64\<close> creations.
  \<^item> \<open>GamepadAdapter\<close>: the cached state, every update and what it submits.

  \<^bold>\<open>Windows\<close> (\<open>platform/windows/\<close>).
  \<^item> \<open>WindowsProtocol\<close>, \<open>WindowsProfiles\<close>, \<open>BrokerValidation\<close>: the messages to the driver, the
    request the client builds and the broker's checks of untrusted ones.
  \<^item> \<open>BrokerLicense\<close>, \<open>BrokerService\<close>, \<open>BrokerFacts\<close>
    (\<open>platform/shared/lvh_broker_license_policy.hpp\<close>, \<open>broker/libvirtualhid_broker.cpp\<close>): the
    licence with its state file, the server's answers and the time it lasts; the broker's device
    table, every handler of a client's message, the clean-up and the validation thread. The system
    is the record \<open>broker_os\<close>, the JSON parser a field of it. \<open>broker_step\<close> interleaves the two
    threads, a creation in three stages; the locale \<open>licence_operation\<close> is the contract of
    everything that changes the licence, interpreted on the four operations that do. Shown are the
    invariant of all reachable states, what a clean-up leaves, that one device at most is served
    on an unconfirmed licence, that the status shown is the one the broker acts on, and that a
    licence survives a restart and ends on time.
  \<^item> \<open>VhfQueue\<close>: the queue of 32 pending reports; the locale \<open>coalescer\<close> is the law of a queue
    that merges neighbours, \<open>conserved_queue\<close> the one that keeps a total, both interpreted on the
    gamepad and the mouse queue.
  \<^item> \<open>PidRumble\<close>, \<open>PidFeature\<close>, \<open>PidDescriptor\<close>: DirectInput force feedback of the generic
    controller, forty effects with their schedule, the allocation handshake, and the rewritten
    descriptor. Times are integers in nanoseconds, and the clock is an argument of each step.
  \<^item> \<open>WindowsInput\<close>, \<open>WindowsHidMouse\<close>, \<open>WindowsHidKeyboard\<close>: input injection and the two
    devices of the driver. The system is the record \<open>win32\<close> of functions; the locale
    \<open>report_channel\<close> is the law of a channel that keeps what it took.

  \<^bold>\<open>Linux\<close> (\<open>platform/linux/uhid_backend.cpp\<close>).
  \<^item> \<open>LinuxEvdev\<close>: writing one event, closing a device. An operation of a device is a list of
    actions that stops at the first failure (\<open>perform\<close>). The locale \<open>evdev_channel\<close> says that a
    channel delivers exactly what it accepts; inside it \<open>sends\<close> is the rule for what a device
    may send whichever writes fail, and in \<open>accepting_channel\<close>, where no write fails, \<open>runs\<close> gives
    the events an action sends. Both are interpreted on the model of \<open>emit_event_locked\<close>.
  \<^item> \<open>LinuxConfig\<close>: what each device type declares through libevdev. \<open>declared\<close> is the reference
    of the type theorems: the kernel drops an event that was not declared.
  \<^item> \<open>LinuxText\<close>: key codes, UTF-8 and typing by Unicode entry; \<open>entry_event\<close> is the desktop's
    side of the entry. The decoding loop is a \<open>partial_function\<close> over its index, so that
    ending is a theorem, and a recursion on the bytes, which the other lemmas use.
  \<^item> \<open>LinuxTouch\<close>: slots for 16 contacts against a reader of the kernel's multitouch protocol.
  \<^item> \<open>LinuxMouse\<close>, \<open>LinuxPen\<close>, \<open>LinuxGamepad\<close>: what the kernel's copy of keys and axes is after
    any sequence of calls.
  \<^item> \<open>LinuxRumble\<close>: effects of the kernel's force-feedback interface and the reports they cause.
    Times wrap at 64 bits as the machine's.
  \<^item> \<open>LinuxUhidCreate\<close>, \<open>LinuxUhid\<close>, \<open>LinuxUhidFacts\<close>: the gamepad behind \<open>/dev/uhid\<close>. The
    request that creates it with its identity and address, the input and battery reports, the
    answer to every request of the kernel, a turn of the periodic report, and the outcomes of a
    read by the reader thread. Every operation of the two threads and of the client takes the
    device as it is, so that a sequence of operations is one interleaving. The lemmas show that
    the reports have the declared lengths, that every request is answered once, and that the
    answers are those of the Windows driver.
  \<^bold>\<open>Parameters.\<close> The system calls, Win32, libevdev, the clocks, \<open>std::pow\<close>, the value of
  \<open>std::lround\<close> on a NaN and the answers of a backend are arguments; no theorem assumes more of
  them than a named hypothesis or locale says. Constants of the SDK and of the kernel headers
  (virtual keys, usages, key and axis codes, \<open>sizeof\<close> of an event) have their documented values.

  \<^bold>\<open>Not modelled.\<close>
  \<^item> Code that only calls the system: the open, poll and read loops of the threads, device
    discovery in \<open>/sys\<close> and the XTest fallback of \<open>uhid_backend.cpp\<close>, the creation of a device
    node through libevdev, the sockets and IOKit calls of \<open>platform/macos\<close>, and in the Windows
    broker the service control, the pipe, HTTP, the registry and the protection of files.
  \<^item> The UMDF and VHF callbacks in \<open>platform/windows/driver\<close>; the headers of
    \<open>platform/windows/shared\<close> that hold their logic are modelled.
  \<^item> The control tool in \<open>tools/\<close>, which is a graphical client of the broker.
  \<^item> Locks: an operation that holds its lock is one step. Move constructors, getters and the
    build variants for FreeBSD are left out.
\<close>

end
